(* ===== verification/Prelude.thy ===== *)
theory Prelude
  imports Main "HOL-Library.Word"
begin

text \<open>
  Generic material shared by every component: C strings and the few functions of the C
  library the sources call on them, conversions between C integer widths, the
  \<^theory_text>\<open>named_theorems\<close> collections of the development, and lemmas on maps and lists.

  A \<open>const char *\<close> that may be NULL is a \<^typ>\<open>string option\<close>; an \<open>int\<close> is a HOL
  \<^typ>\<open>int\<close> whose narrowing conversions are written out with \<open>s32\<close>.
\<close>

named_theorems zctx_defs "the calling-convention macros, unfolded"
named_theorems zsql_defs "query builders of the database layer"
named_theorems zcb_defs "callbacks, unfolded"
named_theorems zfun_defs "servlet functions, unfolded"

type_synonym cstr = "string option"

text \<open>A single quote at the end of a string literal.\<close>

abbreviation squote :: string where
  "squote \<equiv> [CHR 0x27]"

subsection \<open>Integer conversions\<close>

text \<open>Conversion of a wide value to a 32-bit \<open>int\<close> (two's complement, as gcc defines it).\<close>

definition s32 :: "int \<Rightarrow> int" where
  "s32 i = (i + 2 ^ 31) mod 2 ^ 32 - 2 ^ 31"

lemma s32_id [simp]: "- (2 ^ 31) \<le> i \<Longrightarrow> i < 2 ^ 31 \<Longrightarrow> s32 i = i"
  by (simp add: s32_def)

lemma s32_range: "- (2 ^ 31) \<le> s32 i \<and> s32 i < 2 ^ 31"
  by (simp add: s32_def)

text \<open>
  Conversion of an \<open>int\<close> argument to the \<open>unsigned char\<close> behind \<open>Eina_Bool\<close>,
  read as a truth value: only the low byte counts.
\<close>

definition uchar_true :: "int \<Rightarrow> bool" where
  "uchar_true i \<longleftrightarrow> i mod 256 \<noteq> 0"

lemma uchar_true_0 [simp]: "\<not> uchar_true 0"
  and uchar_true_1 [simp]: "uchar_true 1"
  and uchar_true_m1 [simp]: "uchar_true (-1)"
  by (simp_all add: uchar_true_def)

subsection \<open>Functions of the C library on strings\<close>

text \<open>\<open>strrchr\<close>: the offset of the last occurrence.\<close>

fun strrchr :: "char \<Rightarrow> string \<Rightarrow> nat option" where
  "strrchr c [] = None"
| "strrchr c (x # xs) =
     (case strrchr c xs of
        Some n \<Rightarrow> Some (Suc n)
      | None \<Rightarrow> if x = c then Some 0 else None)"

lemma strrchr_None_iff: "strrchr c s = None \<longleftrightarrow> c \<notin> set s"
  by (induction s) (auto split: option.splits)

lemma strrchr_SomeD: "strrchr c s = Some n \<Longrightarrow> n < length s \<and> s ! n = c \<and> c \<notin> set (drop (Suc n) s)"
  by (induction s arbitrary: n) (auto simp: strrchr_None_iff split: option.splits if_splits)

lemma strrchr_append_notin: "c \<notin> set t \<Longrightarrow> strrchr c (s @ c # t) = Some (length s)"
  by (induction s) (auto simp: strrchr_None_iff split: option.splits)

text \<open>\<open>strstr (h, n) != NULL\<close>: the second string occurs in the first.\<close>

fun is_prefix :: "string \<Rightarrow> string \<Rightarrow> bool" where
  "is_prefix [] ys = True"
| "is_prefix (x # xs) [] = False"
| "is_prefix (x # xs) (y # ys) = (x = y \<and> is_prefix xs ys)"

fun strstr :: "string \<Rightarrow> string \<Rightarrow> bool" where
  "strstr [] n = (n = [])"
| "strstr (x # xs) n = (is_prefix n (x # xs) \<or> strstr xs n)"

lemma is_prefix_iff: "is_prefix xs ys \<longleftrightarrow> (\<exists>zs. ys = xs @ zs)"
  by (induction xs ys rule: is_prefix.induct) auto

lemma strstr_iff: "strstr h n \<longleftrightarrow> (\<exists>us vs. h = us @ n @ vs)"
proof (induction h)
  case Nil
  then show ?case by auto
next
  case (Cons x xs)
  show ?case
  proof
    assume "strstr (x # xs) n"
    then consider zs where "x # xs = n @ zs" | us vs where "xs = us @ n @ vs"
      using Cons by (auto simp: is_prefix_iff)
    then show "\<exists>us vs. x # xs = us @ n @ vs"
    proof cases
      case 1
      then have "x # xs = [] @ n @ zs" by simp
      then show ?thesis by blast
    next
      case 2
      then have "x # xs = (x # us) @ n @ vs" by simp
      then show ?thesis by blast
    qed
  next
    assume "\<exists>us vs. x # xs = us @ n @ vs"
    then obtain us vs where eq: "x # xs = us @ n @ vs" by blast
    show "strstr (x # xs) n"
    proof (cases us)
      case Nil
      with eq have "is_prefix n (x # xs)" by (simp add: is_prefix_iff)
      then show ?thesis by simp
    next
      case (Cons u us')
      with eq have "xs = us' @ n @ vs" by simp
      then show ?thesis using \<open>strstr xs n = (\<exists>us vs. xs = us @ n @ vs)\<close> by auto
    qed
  qed
qed

text \<open>
  Decimal scanning, as \<open>strtol (s, NULL, 10)\<close> does it: leading white space, an optional
  sign, then digits; no digits gives 0, and a value outside the 64-bit \<open>long\<close> is
  clamped and sets \<open>errno\<close> (the second component).
\<close>

definition is_space :: "char \<Rightarrow> bool" where
  "is_space c \<longleftrightarrow> c \<in> {CHR '' '', CHR 0x09, CHR 0x0A, CHR 0x0B, CHR 0x0C, CHR 0x0D}"

definition digit_val :: "char \<Rightarrow> int option" where
  "digit_val c =
     (let n = (of_char c :: nat) in if 48 \<le> n \<and> n \<le> 57 then Some (int n - 48) else None)"

fun scan_digits :: "int \<Rightarrow> string \<Rightarrow> int" where
  "scan_digits acc [] = acc"
| "scan_digits acc (c # cs) =
     (case digit_val c of None \<Rightarrow> acc | Some d \<Rightarrow> scan_digits (10 * acc + d) cs)"

fun scan_sign :: "string \<Rightarrow> bool \<times> string" where
  "scan_sign [] = (False, [])"
| "scan_sign (c # cs) =
     (if c = CHR ''-'' then (True, cs) else if c = CHR ''+'' then (False, cs) else (False, c # cs))"

definition scan_long :: "string \<Rightarrow> int" where
  "scan_long s =
     (let (neg, ds) = scan_sign (dropWhile is_space s); v = scan_digits 0 ds
      in if neg then - v else v)"

definition strtol10 :: "string \<Rightarrow> int \<times> bool" where
  "strtol10 s =
     (let v = scan_long s
      in if v < - (2 ^ 63) then (- (2 ^ 63), True)
         else if 2 ^ 63 \<le> v then (2 ^ 63 - 1, True)
         else (v, False))"

text \<open>\<open>sscanf (s, "%d", &i)\<close>: no conversion without a digit.\<close>

definition scan_d :: "string \<Rightarrow> int option" where
  "scan_d s =
     (case snd (scan_sign (dropWhile is_space s)) of
        [] \<Rightarrow> None
      | c # _ \<Rightarrow> if digit_val c = None then None else Some (s32 (fst (strtol10 s))))"

lemma strtol10_no_errno: "snd (strtol10 s) = False \<Longrightarrow> fst (strtol10 s) = scan_long s"
  by (simp add: strtol10_def Let_def split: if_splits)

lemma digit_val_range: "digit_val c = Some d \<Longrightarrow> 0 \<le> d \<and> d \<le> 9"
  by (auto simp: digit_val_def Let_def split: if_splits)

text \<open>\<open>asprintf\<close> prints a NULL string as \<open>(null)\<close>.\<close>

definition printf_s :: "cstr \<Rightarrow> string" where
  "printf_s s = (case s of None \<Rightarrow> ''(null)'' | Some t \<Rightarrow> t)"

text \<open>Decimal printing, as \<open>%d\<close> does it.\<close>

fun nat_dec :: "nat \<Rightarrow> string" where
  "nat_dec n = (if n < 10 then [char_of (48 + n)] else nat_dec (n div 10) @ [char_of (48 + n mod 10)])"

declare nat_dec.simps [simp del]

definition int_dec :: "int \<Rightarrow> string" where
  "int_dec i = (if i < 0 then CHR ''-'' # nat_dec (nat (- i)) else nat_dec (nat i))"

lemma digit_val_char_of: "n < 10 \<Longrightarrow> digit_val (char_of (48 + n)) = Some (int n)"
  by (simp add: digit_val_def Let_def)

end
