(* ===== verification/Env.thy ===== *)
theory Env
  imports Prelude
begin

text \<open>
  The code the sources only call: the Zshare helpers, Eina, the Azy RPC library, the
  Esskyuehl database client, PAM, the clock and the random sources. Each is a field of
  the record \<open>env\<close>, which every definition that calls it takes as an argument; what the
  properties rely on is a named hypothesis below. A step of the program reads one
  environment, so two readings of the clock in one step agree.
\<close>

record env =
  zs_strcmp :: "cstr \<Rightarrow> cstr \<Rightarrow> int"        \<comment> \<open>zshare_strcmp\<close>
  zs_strcasecmp :: "cstr \<Rightarrow> cstr \<Rightarrow> int"    \<comment> \<open>zshare_strcasecmp\<close>
  zs_uuid :: "cstr \<Rightarrow> bool"                  \<comment> \<open>zshare_validate_uuid\<close>
  zs_ip :: "cstr \<Rightarrow> bool"                    \<comment> \<open>zshare_validate_ip\<close>
  strlen_bounded :: "string \<Rightarrow> nat \<Rightarrow> nat"   \<comment> \<open>eina_strlen_bounded, a size_t\<close>
  esql_accepts :: "nat \<Rightarrow> bool"              \<comment> \<open>esql_query returned an id for the n-th query\<close>
  e_now :: int                                \<comment> \<open>time (NULL)\<close>
  e_uuid :: string                            \<comment> \<open>azy_uuid_new ()\<close>
  e_hdr :: "string \<Rightarrow> cstr"                  \<comment> \<open>azy_net_header_get\<close>
  e_ip :: cstr                                \<comment> \<open>azy_net_ip_get\<close>
  e_method :: cstr                            \<comment> \<open>azy_content_method_full_get\<close>
  e_get :: bool                               \<comment> \<open>azy_net_type_get is AZY_NET_TYPE_GET\<close>
  e_random :: "nat \<Rightarrow> int"                   \<comment> \<open>the n-th random () after srandom\<close>
  e_devrandom :: "int list option"            \<comment> \<open>bytes read from /dev/random, None when it cannot be opened\<close>
  e_exe :: "string \<Rightarrow> bool"                 \<comment> \<open>ecore_exe_run of a command gives a handle\<close>
  e_stack :: int                              \<comment> \<open>the address of a parameter of a callback\<close>
  e_pam_start :: "cstr \<Rightarrow> int"
  e_pam_auth :: "cstr \<Rightarrow> cstr \<Rightarrow> int"
  e_pam_acct :: "cstr \<Rightarrow> int"

abbreviation streq :: "env \<Rightarrow> cstr \<Rightarrow> string \<Rightarrow> bool" where
  "streq e a b \<equiv> zs_strcmp e a (Some b) = 0"

subsection \<open>Documented behaviour the properties rely on\<close>

text \<open>The string comparisons are 0 on equal strings only, and tell NULL from a string.\<close>

definition strcmp_spec :: "env \<Rightarrow> bool" where
  "strcmp_spec e \<longleftrightarrow>
     (\<forall>a b. zs_strcmp e (Some a) (Some b) = 0 \<longleftrightarrow> a = b) \<and> (\<forall>b. zs_strcmp e None (Some b) \<noteq> 0)"

lemma strcmp_specD [dest]:
  "strcmp_spec e \<Longrightarrow> zs_strcmp e (Some a) (Some b) = 0 \<longleftrightarrow> a = b"
  "strcmp_spec e \<Longrightarrow> zs_strcmp e None (Some b) \<noteq> 0"
  by (auto simp: strcmp_spec_def)

lemma streq_iff: "strcmp_spec e \<Longrightarrow> streq e x b \<longleftrightarrow> x = Some b"
  by (cases x) (auto simp: strcmp_spec_def)

text \<open>
  \<open>eina_strlen_bounded (s, n)\<close> is the length of \<open>s\<close> up to \<open>n\<close>, and the all-ones
  \<open>size_t\<close> for a longer string.
\<close>

definition strlen_spec :: "env \<Rightarrow> bool" where
  "strlen_spec e \<longleftrightarrow>
     (\<forall>s n. strlen_bounded e s n = (if length s \<le> n then length s else 2 ^ 64 - 1))"

lemma strlen_longer:
  "strlen_spec e \<Longrightarrow> k < 2 ^ 64 - 1 \<Longrightarrow> k < strlen_bounded e s (Suc k) \<longleftrightarrow> k < length s"
  by (simp add: strlen_spec_def)

lemma strlen_shorter:
  "strlen_spec e \<Longrightarrow> k < 2 ^ 64 - 1 \<Longrightarrow> strlen_bounded e s k < k \<longleftrightarrow> length s < k"
  by (auto simp: strlen_spec_def)

subsection \<open>A concrete environment for the witnesses\<close>

definition sample_env :: env where
  "sample_env =
    \<lparr> zs_strcmp = (\<lambda>a b. if a = b then 0 else 1),
      zs_strcasecmp = (\<lambda>a b. if a = b then 0 else 1),
      zs_uuid = (\<lambda>s. case s of None \<Rightarrow> False | Some t \<Rightarrow> length t = 4),
      zs_ip = (\<lambda>s. case s of None \<Rightarrow> False | Some t \<Rightarrow> 7 \<le> length t),
      strlen_bounded = (\<lambda>s n. if length s \<le> n then length s else 2 ^ 64 - 1),
      esql_accepts = (\<lambda>_. True), e_now = 1000, e_uuid = ''uuid'',
      e_hdr = (\<lambda>_. None), e_ip = Some ''10.0.0.1'', e_method = Some ''Vm.get'',
      e_get = False, e_random = (\<lambda>n. int n), e_devrandom = None, e_exe = (\<lambda>_. True),
      e_stack = 4096, e_pam_start = (\<lambda>_. 0), e_pam_auth = (\<lambda>_ _. 0), e_pam_acct = (\<lambda>_. 0) \<rparr>"

lemma sample_env_specs [simp]: "strcmp_spec sample_env" "strlen_spec sample_env"
  by (simp_all add: strcmp_spec_def strlen_spec_def sample_env_def)

lemma sample_env_simps:
  "zs_uuid sample_env (Some ''uuid'')" "esql_accepts sample_env n"
  by (simp_all add: sample_env_def)

end
