(* ===== verification/Zconf.thy ===== *)
theory Zconf
  imports Env
begin

text \<open>
  The configuration of the server: \<open>struct _zentific_config\<close> of include/ztypes.h with the
  operations of src/bin/zconf.c (new, one option of the file, the defaults, the reload on
  SIGHUP), and the database module's own file, db_sources/mysql/zrpcdb_common.c.
  Strings are stringshares, so a replaced or freed string is a replaced value. The
  installation prefix is a parameter, as it is of the build.
\<close>

datatype log_verbosity = LOG_NONE | LOG_PRODUCTION | LOG_QUIETTEST | LOG_TEST | LOG_DEVEL | LOG_DEBUG

datatype log_kind = LOG_FILE_KIND | LOG_LSYSLOG_KIND | LOG_LOCAL_KIND

record zentific_config =
  DB_MODULES_PATH :: cstr
  PORT :: int
  LOG_LEVEL :: log_verbosity
  SESSION_TIMEOUT :: int
  RETRY_TIMEOUT :: int
  MAX_LOGIN_FAILURES :: int
  SELF_HOST :: bool
  DAEMONIZE :: bool
  IS_VM :: bool
  USE_SSL :: bool
  XML_DEBUG :: bool
  GDB_BT :: bool
  UTILS_PATH :: cstr
  VAR_PATH :: cstr
  SSH_PATH :: cstr
  MODULES_PATH :: cstr
  DB_MODULE :: cstr
  CREDSTORE_PUBKEY_PATH :: cstr
  LISTEN :: cstr
  MY_UUID :: cstr
  SSL_PATH :: cstr
  SSL_CERT :: cstr
  KEY_PATH :: cstr
  WEB_ROOT :: cstr
  PID_FILE :: cstr
  LOG_FILE :: cstr
  CONF_FILE :: cstr
  LOG_TYPE :: "log_kind set"
  LOG_PREFIX :: cstr
  VM_CONF_PATH :: cstr

subsection \<open>Creation and defaults\<close>

definition DEFAULT_PORT :: int where "DEFAULT_PORT = 4444"
definition DEFAULT_SESSION_TIMEOUT :: int where "DEFAULT_SESSION_TIMEOUT = 15"
definition DEFAULT_RETRY_TIMEOUT :: int where "DEFAULT_RETRY_TIMEOUT = 5"
definition DEFAULT_MAX_LOGIN_FAILURES :: int where "DEFAULT_MAX_LOGIN_FAILURES = 5"
definition DEFAULT_CONNS :: int where "DEFAULT_CONNS = 5"

text \<open>\<open>calloc\<close> leaves every field not set here NULL or zero.\<close>

definition config_new :: zentific_config where
  "config_new =
    \<lparr> DB_MODULES_PATH = None, PORT = DEFAULT_PORT, LOG_LEVEL = LOG_PRODUCTION,
      SESSION_TIMEOUT = DEFAULT_SESSION_TIMEOUT, RETRY_TIMEOUT = DEFAULT_RETRY_TIMEOUT,
      MAX_LOGIN_FAILURES = DEFAULT_MAX_LOGIN_FAILURES,
      SELF_HOST = False, DAEMONIZE = True, IS_VM = False, USE_SSL = False,
      XML_DEBUG = False, GDB_BT = False,
      UTILS_PATH = None, VAR_PATH = None, SSH_PATH = None, MODULES_PATH = None,
      DB_MODULE = None, CREDSTORE_PUBKEY_PATH = None, LISTEN = None, MY_UUID = None,
      SSL_PATH = None, SSL_CERT = None, KEY_PATH = None, WEB_ROOT = None, PID_FILE = None,
      LOG_FILE = None, CONF_FILE = None, LOG_TYPE = {LOG_FILE_KIND}, LOG_PREFIX = None,
      VM_CONF_PATH = None \<rparr>"

text \<open>\<open>FILL (X, Y)\<close>: set \<open>X\<close> only when it is NULL.\<close>

definition fill :: "cstr \<Rightarrow> string \<Rightarrow> cstr" where
  "fill x y = (if x = None then Some y else x)"

definition config_defaults_fill :: "string \<Rightarrow> zentific_config \<Rightarrow> zentific_config" where
  "config_defaults_fill prefix z = z
    \<lparr> PID_FILE := fill (PID_FILE z) (''/var'' @ ''/run/zentific/'' @ ''zrpc.pid''),
      WEB_ROOT := fill (WEB_ROOT z) ''/opt/www/zentific.com'',
      LISTEN := fill (LISTEN z) ''127.0.0.1'',
      CONF_FILE := fill (CONF_FILE z) (prefix @ ''/zrpc.conf''),
      LOG_FILE := fill (LOG_FILE z) (prefix @ ''/logs/zrpc.log''),
      LOG_PREFIX := fill (LOG_PREFIX z) (prefix @ ''/logs/zrpc.log''),
      UTILS_PATH := fill (UTILS_PATH z) (prefix @ ''/bin''),
      VAR_PATH := fill (VAR_PATH z) ''/var'',
      SSH_PATH := fill (SSH_PATH z) ''/usr/bin/ssh'',
      DB_MODULES_PATH := fill (DB_MODULES_PATH z) (prefix @ ''/db''),
      DB_MODULE := fill (DB_MODULE z) ''zrpcdb'',
      MODULES_PATH := fill (MODULES_PATH z) (prefix @ ''/modules''),
      SSL_PATH := fill (SSL_PATH z) (prefix @ ''/ssl''),
      SSL_CERT := fill (SSL_CERT z) ''server.pem'',
      KEY_PATH := fill (KEY_PATH z) (prefix @ ''/ssh''),
      VM_CONF_PATH := fill (VM_CONF_PATH z) (prefix @ ''/vms''),
      CREDSTORE_PUBKEY_PATH := fill (CREDSTORE_PUBKEY_PATH z) (prefix @ ''/credstore-pubkey.pem'') \<rparr>"

lemma fill_not_None [simp]: "fill x y \<noteq> None" "\<exists>s. fill x y = Some s"
  and fill_Some [simp]: "fill (Some s) y = Some s"
  and fill_fill [simp]: "fill (fill x y) y = fill x y"
  by (auto simp: fill_def)

subsection \<open>One option of the configuration file\<close>

text \<open>The booleans of \<open>SET_BOOLVAL\<close>.\<close>

definition boolval :: "env \<Rightarrow> string \<Rightarrow> bool" where
  "boolval e v \<longleftrightarrow> zs_strcasecmp e (Some v) (Some ''yes'') = 0 \<or> streq e (Some v) ''1''"

text \<open>The log level, from its name or the first character of a number.\<close>

definition first_is :: "char \<Rightarrow> string \<Rightarrow> bool" where
  "first_is c v = (case v of [] \<Rightarrow> False | x # _ \<Rightarrow> x = c)"

definition parse_log_level :: "env \<Rightarrow> string \<Rightarrow> log_verbosity" where
  "parse_log_level e v =
     (if streq e (Some v) ''DEVEL'' \<or> first_is CHR ''4'' v then LOG_DEVEL
      else if streq e (Some v) ''DEBUG'' \<or> first_is CHR ''5'' v then LOG_DEBUG
      else if streq e (Some v) ''QUIETTEST'' \<or> first_is CHR ''2'' v then LOG_QUIETTEST
      else if streq e (Some v) ''TEST'' \<or> first_is CHR ''3'' v then LOG_TEST
      else if streq e (Some v) ''NONE'' \<or> first_is CHR ''0'' v then LOG_NONE
      else LOG_PRODUCTION)"

definition parse_log_type :: "string \<Rightarrow> log_kind set" where
  "parse_log_type v =
     (if strstr v ''file'' then {LOG_FILE_KIND} else {})
     \<union> (if strstr v ''lsyslog'' then {LOG_LSYSLOG_KIND} else {})
     \<union> (if strstr v ''local'' then {LOG_LOCAL_KIND} else {})"

text \<open>
  \<open>config_parse\<close>: \<open>None\<close> is the \<open>exit (1)\<close> of an invalid UUID or log type; otherwise
  the configuration and the value returned, 1 for an option that was taken and 0 for one
  that was not. The macros return as soon as the name matches, and \<open>SET_INTVAL\<close> goes on
  to the next name when the value is not a number.
\<close>

definition config_parse :: "env \<Rightarrow> int \<Rightarrow> string \<Rightarrow> string \<Rightarrow> zentific_config \<Rightarrow> (zentific_config \<times> int) option" where
  "config_parse e line n v z =
   (let is = (\<lambda>k. streq e (Some n) k); num = scan_d v in
    if is ''SELF_HOST'' then Some (z\<lparr>SELF_HOST := boolval e v\<rparr>, 1)
    else if is ''DAEMONIZE'' then Some (z\<lparr>DAEMONIZE := boolval e v\<rparr>, 1)
    else if is ''USE_SSL'' then Some (z\<lparr>USE_SSL := boolval e v\<rparr>, 1)
    else if is ''XML_DEBUG'' then Some (z\<lparr>XML_DEBUG := boolval e v\<rparr>, 1)
    else if is ''GDB_BT'' then Some (z\<lparr>GDB_BT := boolval e v\<rparr>, 1)
    else if is ''PORT'' \<and> num \<noteq> None then Some (z\<lparr>PORT := the num\<rparr>, 1)
    else if is ''SESSION_TIMEOUT'' \<and> num \<noteq> None then Some (z\<lparr>SESSION_TIMEOUT := the num\<rparr>, 1)
    else if is ''RETRY_TIMEOUT'' \<and> num \<noteq> None then Some (z\<lparr>RETRY_TIMEOUT := the num\<rparr>, 1)
    else if is ''MAX_LOGIN_FAILURES'' \<and> num \<noteq> None then Some (z\<lparr>MAX_LOGIN_FAILURES := the num\<rparr>, 1)
    else if is ''UTILS_PATH'' then Some (z\<lparr>UTILS_PATH := Some v\<rparr>, 1)
    else if is ''VM_CONF_PATH'' then Some (z\<lparr>VM_CONF_PATH := Some v\<rparr>, 1)
    else if is ''VAR_PATH'' then Some (z\<lparr>VAR_PATH := Some v\<rparr>, 1)
    else if is ''SSH_PATH'' then Some (z\<lparr>SSH_PATH := Some v\<rparr>, 1)
    else if is ''MODULES_PATH'' then Some (z\<lparr>MODULES_PATH := Some v\<rparr>, 1)
    else if is ''DB_MODULES_PATH'' then Some (z\<lparr>DB_MODULES_PATH := Some v\<rparr>, 1)
    else if is ''DB_MODULE'' then Some (z\<lparr>DB_MODULE := Some v\<rparr>, 1)
    else if is ''LISTEN'' then Some (z\<lparr>LISTEN := Some v\<rparr>, 1)
    else if is ''KEY_PATH'' then Some (z\<lparr>KEY_PATH := Some v\<rparr>, 1)
    else if is ''SSL_PATH'' then Some (z\<lparr>SSL_PATH := Some v\<rparr>, 1)
    else if is ''WEB_ROOT'' then Some (z\<lparr>WEB_ROOT := Some v\<rparr>, 1)
    else if is ''PID_FILE'' then Some (z\<lparr>PID_FILE := Some v\<rparr>, 1)
    else if is ''LOG_FILE'' then Some (z\<lparr>LOG_FILE := Some v\<rparr>, 1)
    else if is ''LOG_PREFIX'' then Some (z\<lparr>LOG_PREFIX := Some v\<rparr>, 1)
    else if is ''MY_UUID'' then (if zs_uuid e (Some v) then Some (z\<lparr>MY_UUID := Some v\<rparr>, 1) else None)
    else if is ''LOG_LEVEL'' then Some (z\<lparr>LOG_LEVEL := parse_log_level e v\<rparr>, 1)
    else if is ''LOG_TYPE'' then
      (if parse_log_type v = {} then None else Some (z\<lparr>LOG_TYPE := parse_log_type v\<rparr>, 1))
    else Some (z, 0))"

subsection \<open>The whole file, and the reload on SIGHUP\<close>

text \<open>
  \<open>zshare_config_parse\<close> is not part of the sources. The parameter \<open>opts\<close> gives, for a
  path, the calls (line, name, value) it makes to the callback, or \<open>None\<close> when it fails.
\<close>

type_synonym cfg_file = "cstr \<Rightarrow> (int \<times> string \<times> string) list option"

fun config_parse_all :: "env \<Rightarrow> (int \<times> string \<times> string) list \<Rightarrow> zentific_config \<Rightarrow> zentific_config option" where
  "config_parse_all e [] z = Some z"
| "config_parse_all e ((l, n, v) # os) z =
     (case config_parse e l n v z of None \<Rightarrow> None | Some (z', r) \<Rightarrow> config_parse_all e os z')"

text \<open>\<open>None\<close> is the exit of an invalid option; a file that cannot be read keeps the old one.\<close>

definition config_reparse :: "env \<Rightarrow> cfg_file \<Rightarrow> string \<Rightarrow> zentific_config \<Rightarrow> zentific_config option" where
  "config_reparse e opts prefix z =
     (case opts (CONF_FILE z) of
        None \<Rightarrow> Some z
      | Some os \<Rightarrow> map_option (config_defaults_fill prefix) (config_parse_all e os config_new))"

definition paths_set :: "zentific_config \<Rightarrow> bool" where
  "paths_set z \<longleftrightarrow>
     (\<forall>x \<in> set [PID_FILE z, WEB_ROOT z, LISTEN z, CONF_FILE z, LOG_FILE z, LOG_PREFIX z, UTILS_PATH z,
        VAR_PATH z, SSH_PATH z, DB_MODULES_PATH z, DB_MODULE z, MODULES_PATH z, SSL_PATH z, SSL_CERT z,
        KEY_PATH z, VM_CONF_PATH z, CREDSTORE_PUBKEY_PATH z]. x \<noteq> None)"

lemma config_defaults_fill_paths: "paths_set (config_defaults_fill prefix z)"
  by (simp add: paths_set_def config_defaults_fill_def)

lemma config_defaults_fill_idem:
  "config_defaults_fill prefix (config_defaults_fill prefix z) = config_defaults_fill prefix z"
  by (simp add: config_defaults_fill_def)

lemma fill_id: "x \<noteq> None \<Longrightarrow> fill x y = x"
  by (auto simp: fill_def)

lemma config_defaults_fill_id: "paths_set z \<Longrightarrow> config_defaults_fill prefix z = z"
  by (simp add: config_defaults_fill_def paths_set_def fill_id)

text \<open>The fields no option of the file can set, and the settings an option never resets.\<close>

definition fixed_fields :: "zentific_config \<Rightarrow> bool \<times> cstr \<times> cstr \<times> cstr" where
  "fixed_fields z = (IS_VM z, SSL_CERT z, CONF_FILE z, CREDSTORE_PUBKEY_PATH z)"

definition option_effect :: "zentific_config \<Rightarrow> (zentific_config \<times> int) option \<Rightarrow> bool" where
  "option_effect z res =
     (case res of
        None \<Rightarrow> True
      | Some (z', r) \<Rightarrow> fixed_fields z' = fixed_fields z \<and> (r = 1 \<or> r = 0 \<and> z' = z))"

lemma option_effect_config_parse: "option_effect z (config_parse e l n v z)"
proof -
  have leaf: "option_effect z None" "option_effect z (Some (z, 0))"
    "\<And>z'. option_effect z (Some (z', 1)) = (fixed_fields z' = fixed_fields z)"
    by (simp_all add: option_effect_def)
  show ?thesis
    unfolding config_parse_def Let_def
    by (simp only: if_distrib [of "option_effect z"] leaf) (simp add: fixed_fields_def)
qed

lemma config_parse_fixed:
  "config_parse e l n v z = Some (z', r) \<Longrightarrow> fixed_fields z' = fixed_fields z"
  using option_effect_config_parse [of z e l n v] by (simp add: option_effect_def)

lemma config_parse_all_fixed:
  "config_parse_all e os z = Some z' \<Longrightarrow> fixed_fields z' = fixed_fields z"
proof (induction os arbitrary: z)
  case Nil
  then show ?case by simp
next
  case (Cons o1 os)
  obtain l n v where o1: "o1 = (l, n, v)" by (cases o1)
  with Cons.prems obtain z1 r where "config_parse e l n v z = Some (z1, r)" "config_parse_all e os z1 = Some z'"
    by (auto split: option.splits)
  then show ?case using Cons.IH config_parse_fixed by metis
qed

subsection \<open>The database module's configuration\<close>

text \<open>\<open>struct _DB_config\<close> of include/zrpcdb.h.\<close>

record DB_config =
  username :: cstr
  password :: cstr
  database :: cstr
  backend :: cstr
  loglevel :: log_verbosity
  conns :: int

definition db_config_calloc :: DB_config where
  "db_config_calloc = \<lparr> username = None, password = None, database = None, backend = None,
     loglevel = LOG_NONE, conns = 0 \<rparr>"

text \<open>The default port is a string constant of the database client: a parameter.\<close>

definition db_config_parse_cb :: "env \<Rightarrow> string \<Rightarrow> int \<Rightarrow> string \<Rightarrow> string \<Rightarrow> DB_config \<Rightarrow> DB_config \<times> int" where
  "db_config_parse_cb e dport line n v c =
   (let is = (\<lambda>k. streq e (Some n) k) in
    if is ''HOSTNAME'' then
      (c\<lparr>backend := Some (if CHR '':'' \<in> set v then v else v @ '':'' @ dport)\<rparr>, 1)
    else if is ''USERNAME'' then (c\<lparr>username := Some v\<rparr>, 1)
    else if is ''PASSWORD'' then (c\<lparr>password := Some v\<rparr>, 1)
    else if is ''DATABASE'' then (c\<lparr>database := Some v\<rparr>, 1)
    else if is ''CONNECTIONS'' then
      (case scan_d v of None \<Rightarrow> (c, 1) | Some i \<Rightarrow> (c\<lparr>conns := i\<rparr>, 1))
    else if is ''LOG_LEVEL'' then (c\<lparr>loglevel := parse_log_level e v\<rparr>, 1)
    else (c, 0))"

fun db_config_all :: "env \<Rightarrow> string \<Rightarrow> (int \<times> string \<times> string) list \<Rightarrow> DB_config \<Rightarrow> DB_config" where
  "db_config_all e dport [] c = c"
| "db_config_all e dport ((l, n, v) # os) c = db_config_all e dport os (fst (db_config_parse_cb e dport l n v c))"

text \<open>\<open>None\<close> when the file cannot be parsed: the configuration is freed and the field reset.\<close>

definition db_config_parse :: "env \<Rightarrow> string \<Rightarrow> cfg_file \<Rightarrow> cstr \<Rightarrow> DB_config option" where
  "db_config_parse e dport opts modules_path =
     (case opts (map_option (\<lambda>p. take 4095 (p @ ''/zrpcdb.conf'')) modules_path) of
        None \<Rightarrow> None
      | Some os \<Rightarrow>
          (let c = db_config_all e dport os db_config_calloc
           in Some (if conns c = 0 \<or> conns c < 3 then c\<lparr>conns := DEFAULT_CONNS\<rparr> else c)))"

lemma db_config_parse_conns: "db_config_parse e dport opts p = Some c \<Longrightarrow> 3 \<le> conns c"
  by (auto simp: db_config_parse_def Let_def DEFAULT_CONNS_def split: option.splits)

text \<open>\<open>init\<close> then makes the pool at least five connections wide, and needs all four strings.\<close>

definition db_init_config :: "DB_config option \<Rightarrow> DB_config option" where
  "db_init_config oc =
     (case oc of
        None \<Rightarrow> None
      | Some c \<Rightarrow>
          if backend c = None \<or> username c = None \<or> password c = None \<or> database c = None then None
          else Some (if conns c < 5 then c\<lparr>conns := 5\<rparr> else c))"

definition has_port :: "cstr \<Rightarrow> bool" where
  "has_port b \<longleftrightarrow> (\<forall>s. b = Some s \<longrightarrow> CHR '':'' \<in> set s)"

lemma db_config_all_port: "has_port (backend c) \<Longrightarrow> has_port (backend (db_config_all e dport os c))"
proof (induction e dport os c rule: db_config_all.induct)
  case (1 e dport c)
  then show ?case by simp
next
  case (2 e dport l n v os c)
  have "has_port (backend (fst (db_config_parse_cb e dport l n v c)))"
    using "2.prems" by (auto simp: db_config_parse_cb_def has_port_def Let_def split: option.splits)
  then show ?case using "2.IH" by simp
qed

end
