(* ===== verification/Ctx.thy ===== *)
theory Ctx
  imports Zconf Complex_Main
begin

text \<open>
  The calling convention of the server: the context of one RPC call (\<open>Zentific_Ctx\<close> of
  include/ztypes.h) inside the module state a client owns (\<open>Server_Module\<close> of
  include/functions.h), and the macros of include/functions.h by which servlet functions
  chain callbacks, pass values to them, suspend, rewind and resume the call.

  A call into Azy, Ecore or the database is an effect, appended to \<open>m_out\<close> in the order
  it is made; the fields of the response (fault code, return value) are the record's own.
  The two hash tables and the callback list hold names of functions; as in the C, a value
  travels to a function under its name.
\<close>

subsection \<open>Error codes\<close>

text \<open>The \<open>Azy_Error\<close> declarations of zentific-server.azy the modelled code raises.\<close>

datatype rpc_error =
    NOT_AUTHORIZED | INVALID_SESSION | EXPIRED_SESSION | VALID_SESSION | MAX_LOGIN_FAILURES_ERR
  | INVALID_PARAMETER | CONSOLE_LOCKED | PLATFORM_NOT_PRESENT | UNKNOWN_RESOURCE | ENTITY_ALREADY_EXISTS
  | NODE_DISABLED | NODE_UNCONFIGURED | NOT_AUTHENTICATED | RESOURCE_IN_USE | NO_CHANGE_PERFORMED
  | JOB_CREATION_FAILED | CONSOLE_DISCONNECT_FAILED | CONSOLE_DAEMON_NOT_FOUND
  | CONSOLE_CONNECT_FAILED | INSUFFICIENT_RESOURCES | NOT_IMPLEMENTED | SERVER_FAILURE | SCHEDULER_NOT_FOUND
  | SCHEDULER_CONNECT_ERROR | USER_PASSWORD | DB_MULTI | DB_QUERY | DB_FAIL

text \<open>The numeric codes stored in \<open>session->status\<close>.\<close>

definition errcode :: "rpc_error \<Rightarrow> int" where
  "errcode x = (case x of NOT_AUTHORIZED \<Rightarrow> 1 | INVALID_SESSION \<Rightarrow> 2 | EXPIRED_SESSION \<Rightarrow> 3 | VALID_SESSION \<Rightarrow> 4
     | MAX_LOGIN_FAILURES_ERR \<Rightarrow> 5 | INVALID_PARAMETER \<Rightarrow> 6 | CONSOLE_LOCKED \<Rightarrow> 9 | PLATFORM_NOT_PRESENT \<Rightarrow> 12
     | NODE_DISABLED \<Rightarrow> 14 | UNKNOWN_RESOURCE \<Rightarrow> 15 | ENTITY_ALREADY_EXISTS \<Rightarrow> 16
     | NODE_UNCONFIGURED \<Rightarrow> 17 | NOT_AUTHENTICATED \<Rightarrow> 18 | RESOURCE_IN_USE \<Rightarrow> 19
     | NO_CHANGE_PERFORMED \<Rightarrow> 20 | INSUFFICIENT_RESOURCES \<Rightarrow> 30 | JOB_CREATION_FAILED \<Rightarrow> 25
     | CONSOLE_DISCONNECT_FAILED \<Rightarrow> 27 | CONSOLE_DAEMON_NOT_FOUND \<Rightarrow> 28 | CONSOLE_CONNECT_FAILED \<Rightarrow> 29
     | NOT_IMPLEMENTED \<Rightarrow> 97 | SERVER_FAILURE \<Rightarrow> 99 | SCHEDULER_NOT_FOUND \<Rightarrow> 1018
     | SCHEDULER_CONNECT_ERROR \<Rightarrow> 1020 | USER_PASSWORD \<Rightarrow> 700 | DB_MULTI \<Rightarrow> 1030 | DB_QUERY \<Rightarrow> 1031 | DB_FAIL \<Rightarrow> 1032)"

lemma errcode_inj: "errcode x = errcode y \<longleftrightarrow> x = y"
  by (cases x; cases y) (simp_all add: errcode_def)

text \<open>Errors are ordered by their codes, so that the library's ordered structures apply to them.\<close>

instantiation rpc_error :: linorder
begin

definition less_eq_rpc_error :: "rpc_error \<Rightarrow> rpc_error \<Rightarrow> bool" where
  "less_eq_rpc_error x y \<longleftrightarrow> errcode x \<le> errcode y"

definition less_rpc_error :: "rpc_error \<Rightarrow> rpc_error \<Rightarrow> bool" where
  "less_rpc_error x y \<longleftrightarrow> errcode x < errcode y"

instance
  by standard (auto simp: less_eq_rpc_error_def less_rpc_error_def errcode_inj)

end

text \<open>\<open>Z_User_Type\<close>: the context holds whatever integer the database returned.\<close>

definition USER_TYPE_SUPER_USER :: int where "USER_TYPE_SUPER_USER = 0"
definition USER_TYPE_NODE :: int where "USER_TYPE_NODE = 5"

subsection \<open>Names of the functions used as callbacks, jobs and parameter keys\<close>

datatype core_fn =
    Cb_bool_job | Cb_int_job | Cb_pointer_job | Cb_int_rewind | Cb_bool_rewind | Cb_auth_rewind
  | Cb_pointer_return | Cb_int_return | Cb_job_target_node_addr | Cb_job_target_host | Cb_job_module_name

datatype session_fn =
    Session_cb_error_clear | Session_getClientIP_cb | Session_checkuuid_cb | Session_checkuuid_get_cb
  | Session_check_cb | Session_get_cb | Session_pre_call_cb_super | Session_pre_call_cb_getSession
  | Session_pre_call_cb_ip | Session_pre_call_sso | Session_pre_call_sso_check

datatype account_fn =
    F_auth | F_auth_db | Login_cb_uid | User_cb_name | User_cb_lang | User_cb_logout_deauth
  | User_cb_logoutsessions | User_cb_superuser | User_cb_generatepw | Group_cb_modify | Group_cb_add
  | Zentific_generatemac_cb

datatype job_fn =
    Jobs_cb_address | Jobs_cb_connect | Jobs_cb_disconnect | Ptr_job_cb | Ptr_int_cb | Jobs_cb_resource
  | Jobs_fill | Jobs_cb_add | Jobs_cb_get | F_jobs_cancel

datatype console_fn =
    F_getConsoleLockUser | F_acquireConsoleLock | F_connectTextConsole | F_connectGraphicalConsole
  | F_getSupportedConsoles | F_disconnectConsolesBySession | Loop_cb_dead | Loop_cb_bool_rewind
  | Console_disconnect_text | Console_disconnect_vnc | Console_disconnect_vnc_thread

datatype vm_fn =
    Vm_cb_update | Vm_cb_getvm | Vm_cb_getallvmsfull | Vifs_updateconfig | Vif_cb_updateconfig
  | Disks_updateconfig | Disk_cb_updateconfig | F_updateVMs | F_addVmToNode | F_saveVM

datatype node_fn =
    F_registerNode | F_nodeconfig_update | F_setNodeControlModule | F_setNodeControlModuleByName

datatype plat_fn =
    F_getPlatform | F_getPlatformByName | F_getPlatformsFull | Platform_get

datatype net_fn =
    Network_job_string | Network_job_create_node | Network_job_create_vm | F_modifyNetIf
  | Network_cb_jid_collect | Network_cb_target_host | Network_cb_target_node_addr
  | F_detachAllNodesByNetwork | F_detachAllNetIfsByNetwork | F_modifyNetwork

datatype stor_fn =
    Storage_cb_nodejob | Storage_cb_setup_storage | Storage_cb_jid_collect | Storage_cb_vmjob | F_modifyStorage
  | Storage_cb_setup_disk | F_attachDiskToStorage | F_detachDiskFromStorage | F_addDiskToStorage
  | F_removeDiskFromStorage | F_modifyDiskByStorage | Storage_cb_detachdisks | F_detachAllNodesByStorage
  | Storage_cb_detachdisksvm | F_detachAllDisksByStorage | F_enableDiskByStorage | F_disableDiskByStorage

text \<open>\<open>F_NULL\<close> is the NULL that \<open>CTX_CB_ADD (NULL)\<close> appends.\<close>

datatype fname =
    F_NULL | Core core_fn | Sess session_fn | Acct account_fn | Jobf job_fn | Cons console_fn
  | Vmf vm_fn | Nodef node_fn | Platf plat_fn | Netf net_fn | Storf stor_fn

subsection \<open>Structures passed between the layers\<close>

text \<open>\<open>struct SESSION\<close>, \<open>USER\<close>, \<open>USER_GROUP\<close> and \<open>JOB\<close> of zentific-server.azy.\<close>

record session =
  authenticated :: bool
  s_uid :: int
  s_username :: cstr
  session_id :: cstr
  client_host :: cstr
  referrer :: cstr
  failures :: int
  timestamp :: int
  s_status :: int

record user =
  u_uid :: int
  u_username :: string
  u_givenname :: cstr
  u_email :: string
  u_active :: int
  u_type :: int
  u_language :: cstr

record user_group =
  g_gid :: int
  g_privilege :: int
  g_name :: cstr
  g_desc :: cstr

record job =
  j_id :: int
  j_uid :: int
  j_resource :: cstr
  j_module_name :: cstr
  j_module_function :: cstr
  j_input_string :: cstr
  j_target_vm :: cstr
  j_target_node :: cstr
  j_target_host :: cstr
  j_extra :: cstr
  j_dependencies :: "int list"

text \<open>
  \<open>struct NETIF\<close>, \<open>DISK\<close>, \<open>VM\<close>, \<open>NODE\<close>, \<open>NODE_STATS\<close>, \<open>NETWORK\<close> and \<open>TEMPLATE\<close>.
  The members of type \<open>double\<close> are read as the real numbers they stand for: the code only
  copies and compares them. A string of these structures is a string share, so comparing
  two of them by address compares their contents.
\<close>

record netif =
  ni_id :: int
  ni_label :: cstr
  ni_name :: cstr
  ni_uuid :: cstr
  ni_mac :: cstr
  ni_bridge :: cstr
  ni_script :: cstr
  ni_type :: cstr
  ni_loopback :: bool
  ni_connected :: bool
  ni_promisc :: bool
  ni_ip :: cstr
  ni_netmask :: cstr
  ni_gateway :: cstr
  ni_broadcast :: cstr
  ni_mtu :: int
  ni_txpackets :: real
  ni_txbytes :: real
  ni_txdrop :: real
  ni_txerr :: real
  ni_rxpackets :: real
  ni_rxbytes :: real
  ni_rxdrop :: real
  ni_rxerr :: real
  ni_collisions :: real

record disk =
  d_label :: cstr
  d_int_dev :: cstr
  d_ext_dev :: cstr
  d_mode :: cstr
  d_type :: cstr
  d_partition_type :: cstr
  d_mapped_dev :: cstr
  d_ooreq :: real
  d_rdreq :: real
  d_wrreq :: real
  d_num_sectors :: real
  d_start_sector :: real
  d_free :: real
  d_capacity :: real
  d_size_sector :: int
  d_block_size :: int

record vm =
  v_name :: string
  v_uuid :: cstr
  v_puuid :: cstr
  v_type :: cstr
  v_os :: cstr
  v_id :: int
  v_kernel :: cstr
  v_ramdisk :: cstr
  v_cmdline :: cstr
  v_on_reboot :: cstr
  v_on_poweroff :: cstr
  v_on_crash :: cstr
  v_mem :: int
  v_maxmem :: int
  v_vcpus :: int
  v_cpupct :: real
  v_cputime :: real
  v_uptime :: real
  v_state :: cstr
  v_vncport :: int
  v_vncpasswd :: cstr
  v_disks :: "disk list"
  v_vifs :: "netif list"

record node =
  n_enabled :: bool
  n_uuid :: cstr
  n_kernel :: cstr
  n_address :: cstr
  n_os :: cstr
  n_architecture :: cstr
  n_hostname :: cstr
  n_domainname :: cstr
  n_platformver :: cstr
  n_platformbuild :: cstr
  n_platformvendor :: cstr
  n_platformfull :: cstr
  n_platform :: cstr
  n_default_vnc_pass :: cstr
  n_num_cpus :: int
  n_cores_per_socket :: int
  n_threads_per_core :: int
  n_num_cpu_nodes :: int
  n_sockets_per_node :: int
  n_cpu_mhz :: real
  n_total_phys_mem :: real
  n_hvm :: bool
  n_capabilities :: cstr
  n_controlmodule :: cstr

record node_stats =
  ns_iowait :: real
  ns_loadavg :: cstr
  ns_uptime :: real
  ns_cpupct :: real
  ns_intr :: int
  ns_ctxts :: int
  ns_num_procs :: int
  ns_mem_free :: int
  ns_mem_total :: int
  ns_mem_shared :: int
  ns_mem_buffered :: int
  ns_swap_total :: int
  ns_swap_free :: int
  ns_total_phys_mem :: real
  ns_free_phys_mem :: real

record network =
  nw_id :: int
  nw_mid :: int
  nw_name :: cstr
  nw_host :: cstr
  nw_type :: cstr
  nw_vlans :: "int list"
  nw_network :: cstr
  nw_netmask :: cstr
  nw_gateway :: cstr
  nw_mac :: cstr
  nw_interface :: cstr

record storage =
  st_id :: int
  st_mid :: int
  st_host :: cstr
  st_name :: cstr
  st_type :: cstr
  st_path :: cstr
  st_mode :: cstr
  st_capacity :: int
  st_freespace :: int

record template =
  tp_name :: cstr
  tp_description :: cstr
  tp_type :: cstr
  tp_platform :: int
  tp_architecture :: cstr
  tp_uuid :: cstr

record keyvalue =
  kv_key :: cstr
  kv_value :: cstr
  kv_type :: cstr

record platform =
  pf_id :: int
  pf_name :: cstr
  pf_version :: cstr
  pf_vendor :: cstr
  pf_build :: cstr
  pf_description :: cstr
  pf_mechanism :: cstr
  pf_features :: int
  pf_enabled :: bool
  pf_config :: "keyvalue list"

text \<open>\<open>SESSION_new ()\<close> and \<open>JOB_new ()\<close> zero the structure.\<close>

definition SESSION_new :: session where
  "SESSION_new = \<lparr> authenticated = False, s_uid = 0, s_username = None, session_id = None,
     client_host = None, referrer = None, failures = 0, timestamp = 0, s_status = 0 \<rparr>"

definition JOB_new :: job where
  "JOB_new = \<lparr> j_id = 0, j_uid = 0, j_resource = None, j_module_name = None, j_module_function = None,
     j_input_string = None, j_target_vm = None, j_target_node = None, j_target_host = None,
     j_extra = None, j_dependencies = [] \<rparr>"

text \<open>
  What a \<open>void *\<close> of the context can hold. \<open>VPtr\<close> is a job on the heap, \<open>VFn\<close> the name of a
  function and \<open>VCode\<close> the address of one, \<open>VDangling\<close> the
  address of a local variable of a function that has returned, \<open>VUndef\<close> an argument the
  caller did not pass.
\<close>

datatype val =
    VNull | VUndef | VDangling | VInt int | VBool bool | VStr string | VStrs "string list"
  | VInts "int list" | VFn fname | VPtr nat | VSession session | VUser user | VGroup user_group | VRows
  | VVm vm | VDisks "disk list" | VNetifs "netif list" | VNode node | VStats node_stats | VNetwork network | VNetif netif
  | VVms "vm list" | VTemplate template | VCode fname
  | VDisk disk | VStorage storage | VPlatform platform | VPlatforms "platform list" | VKeyvalues "keyvalue list"
  | VJobs "nat list"

fun is_null :: "val \<Rightarrow> bool" where
  "is_null VNull = True"
| "is_null (VInt i) = (i = 0)"
| "is_null (VBool b) = (\<not> b)"
| "is_null _ = False"

fun as_str :: "val \<Rightarrow> cstr" where
  "as_str (VStr s) = Some s"
| "as_str _ = None"

text \<open>An argument read as \<open>Eina_Bool\<close>, the low byte of what was passed; a pointer counts as true.\<close>

fun as_bool :: "val \<Rightarrow> bool" where
  "as_bool VNull = False"
| "as_bool (VInt i) = uchar_true i"
| "as_bool (VBool b) = b"
| "as_bool _ = True"

fun as_int :: "val \<Rightarrow> int" where
  "as_int (VInt i) = i"
| "as_int (VBool b) = of_bool b"
| "as_int _ = 0"

subsection \<open>Queries\<close>

text \<open>
  What a database function asks for, as the macros of include/zrpcdb.h set it up: whether
  \<open>ctx->state\<close> is raised (at most one row, or the insert id wanted), the function that frees
  the result, set before or after the query is made, the conversion of the rows (none for
  an executed statement), the format and its arguments, and the database-level callback.
  \<open>Row_esql\<close> and \<open>Rows_esql\<close> are the generated conversions of one row and of all rows of a
  table (\<open>VM_esql\<close>, \<open>Array_VM_esql\<close>), with their free functions.
\<close>

datatype table_type = T_NETIF | T_DISK | T_PLATFORM | T_PLUGIN | T_VM | T_NODE | T_NETWORK | T_STORAGE
  | T_TEMPLATE | T_LOG | T_NODE_STATS | T_VM_STATS | T_VM_GROUP | T_NODE_GROUP

datatype conv = Esql_res_to_string | Esql_res_to_lli | Array_string_esql | Array_int_esql | DUMMY_esql
  | SESSION_esql | USER_esql | Array_USER_esql | USER_GROUP_esql | Array_USER_GROUP_esql | JOB_esql
  | Array_JOB_esql | KEYVALUE_esql | Array_KEYVALUE_esql | Array_PLUGIN_esql
  | Zrpcdb_vm_keyvalue
  | Row_esql table_type | Rows_esql table_type

datatype end_cb = Zrpcdb_cb_ptr | Zrpcdb_cb_int | Zrpcdb_cb_bool | Zrpcdb_cb_exec | Zrpcdb_cb_exec_exists
  | Zrpcdb_node_cb_enc | Zrpcdb_node_cb_conf | Zrpcdb_vm_stats int

datatype free_fn = Eina_stringshare_del | Array_string_free | Eina_list_free | SESSION_free | USER_free
  | Array_USER_free | USER_GROUP_free | Array_USER_GROUP_free | JOB_free | KEYVALUE_free
  | Array_KEYVALUE_free | Array_PLUGIN_free | Row_free table_type | Rows_free table_type

datatype sarg = AS cstr | AI int | AC bool | AD real

record query =
  q_state :: bool
  q_free_before :: "free_fn option option"
  q_conv :: "conv option"
  q_fmt :: string
  q_args :: "sarg list"
  q_free_after :: "free_fn option option"
  q_end :: "end_cb option"

subsection \<open>The context and the module\<close>

datatype eff =
    OQuery nat query        \<comment> \<open>esql_query(_args), with the id it got\<close>
  | OResume bool            \<comment> \<open>azy_server_module_events_resume\<close>
  | ORewind                 \<comment> \<open>azy_server_module_events_rewind\<close>
  | OJob fname              \<comment> \<open>ecore_job_add\<close>
  | OCall fname val         \<comment> \<open>a callback taken from the chain and called\<close>
  | ODbCall end_cb val      \<comment> \<open>a later step of a chained query in the database layer\<close>
  | OSpawn fname            \<comment> \<open>ecore_job_add on a new context\<close>
  | OEvResult | OEvError    \<comment> \<open>ecore_event_add of the two database events\<close>
  | OCookie cstr            \<comment> \<open>azy_server_module_session_set\<close>
  | OConnect string         \<comment> \<open>ecore_con_server_connect\<close>
  | OSend string            \<comment> \<open>ecore_con_server_send\<close>
  | OExe string             \<comment> \<open>ecore_exe_run, ecore_exe_pipe_run\<close>
  | OThread string          \<comment> \<open>ecore_thread_run\<close>
  | OKill int               \<comment> \<open>kill (pid, SIGTERM)\<close>
  | OUnlink string          \<comment> \<open>unlink\<close>
  | OCrash                  \<comment> \<open>a NULL or invalid pointer is dereferenced\<close>

record ctx =
  c_cbs :: "fname list"
  c_params :: "fname \<Rightarrow> val"
  c_retval :: val
  c_data :: val
  c_data2 :: val
  c_free_func :: "free_fn option"
  c_job :: "fname option"
  c_error :: "rpc_error option"
  c_count :: "32 word"
  c_user_type :: int
  c_state :: bool
  c_ret :: bool
  c_ret_set :: bool
  c_dead :: bool
  c_checked :: bool
  c_auth :: bool
  c_sso :: bool

text \<open>
  The module: the context is embedded in \<open>Server_Module\<close>. \<open>m_has_content\<close>, \<open>m_fault\<close>,
  \<open>m_retval\<close> and \<open>m_method\<close> are the \<open>Azy_Content\<close> of the call: whether there is one, its
  fault code, its return value, and whether it has a return callback (it has none before
  the method runs). \<open>m_type_cbs\<close> and \<open>m_db_cbs\<close> are the tables of src db_sources/mysql/zrpcdb.c
  for the queries of this module, and \<open>m_jobs\<close> the jobs on the heap.
\<close>

record smod = ctx +
  m_session :: session
  m_zconf :: zentific_config
  m_has_content :: bool
  m_fault :: "rpc_error option"
  m_retval :: "val option"
  m_method :: bool
  m_cookie :: cstr
  m_qid :: nat
  m_type_cbs :: "nat \<Rightarrow> conv option"
  m_db_cbs :: "nat \<Rightarrow> end_cb option"
  m_jobs :: "nat \<Rightarrow> job option"
  m_jobs_next :: nat
  m_out :: "eff list"

definition emit :: "eff \<Rightarrow> smod \<Rightarrow> smod" where
  "emit x m = m\<lparr>m_out := m_out m @ [x]\<rparr>"

definition set_error :: "rpc_error \<Rightarrow> smod \<Rightarrow> smod" where
  "set_error x m = m\<lparr>c_error := Some x\<rparr>"

text \<open>\<open>azy_err_faultcode_set\<close> on the content of the call.\<close>

definition fault_set :: "rpc_error \<Rightarrow> smod \<Rightarrow> smod" where
  "fault_set x m = m\<lparr>m_fault := Some x\<rparr>"

definition upd_session :: "(session \<Rightarrow> session) \<Rightarrow> smod \<Rightarrow> smod" where
  "upd_session f m = m\<lparr>m_session := f (m_session m)\<rparr>"

text \<open>A module at the start of a method of its first call, for the concrete examples.\<close>

definition sample_mod :: smod where
  "sample_mod =
    \<lparr> c_cbs = [], c_params = (\<lambda>_. VNull), c_retval = VNull, c_data = VNull, c_data2 = VNull, c_free_func = None,
      c_job = None, c_error = None, c_count = 0, c_user_type = 0, c_state = False, c_ret = False,
      c_ret_set = False, c_dead = False, c_checked = False, c_auth = False, c_sso = False,
      m_session = SESSION_new, m_zconf = config_new, m_has_content = True, m_fault = None, m_retval = None,
      m_method = True, m_cookie = None, m_qid = 0, m_type_cbs = (\<lambda>_. None), m_db_cbs = (\<lambda>_. None),
      m_jobs = (\<lambda>_. None), m_jobs_next = 0, m_out = [] \<rparr>"

subsection \<open>The macros of include/functions.h\<close>

text \<open>A callback is appended to the chain unless the client is dead or an error is set.\<close>

definition CTX_CB_ADD :: "fname \<Rightarrow> smod \<Rightarrow> smod" where
  "CTX_CB_ADD f m = (if \<not> c_dead m \<and> c_error m = None then m\<lparr>c_cbs := c_cbs m @ [f]\<rparr> else m)"

definition CTX_PARAM_ADD :: "fname \<Rightarrow> val \<Rightarrow> smod \<Rightarrow> smod" where
  "CTX_PARAM_ADD f v m = m\<lparr>c_params := (c_params m)(f := v)\<rparr>"

text \<open>\<open>CTX_PARAM_GET\<close> in the function \<open>f\<close>: the value found, and the entry removed.\<close>

definition CTX_PARAM_PEEK :: "fname \<Rightarrow> smod \<Rightarrow> val" where
  "CTX_PARAM_PEEK f m = c_params m f"

definition CTX_PARAM_DEL :: "fname \<Rightarrow> smod \<Rightarrow> smod" where
  "CTX_PARAM_DEL f m = m\<lparr>c_params := (c_params m)(f := VNull)\<rparr>"

definition CTX_PARAM_GET :: "fname \<Rightarrow> smod \<Rightarrow> val \<times> smod" where
  "CTX_PARAM_GET f m = (CTX_PARAM_PEEK f m, CTX_PARAM_DEL f m)"

text \<open>\<open>CTX_PARAM_ADD_FROM_VARIABLE\<close>: the key is itself a value read from the table.\<close>

definition CTX_PARAM_ADD_FROM_VARIABLE :: "val \<Rightarrow> val \<Rightarrow> smod \<Rightarrow> smod" where
  "CTX_PARAM_ADD_FROM_VARIABLE k v m = (case k of VFn f \<Rightarrow> CTX_PARAM_ADD f v m | _ \<Rightarrow> m)"

definition CTX_VALUE_RETURN :: "fname \<Rightarrow> smod \<Rightarrow> smod" where
  "CTX_VALUE_RETURN func m = CTX_PARAM_ADD (Core Cb_pointer_return) (VFn func) (CTX_CB_ADD (Core Cb_pointer_return) m)"

definition CTX_INT_RETURN :: "fname \<Rightarrow> smod \<Rightarrow> smod" where
  "CTX_INT_RETURN func m = CTX_PARAM_ADD (Core Cb_int_return) (VFn func) (CTX_CB_ADD (Core Cb_int_return) m)"

definition CTX_VALUE_SEND :: "fname \<Rightarrow> smod \<Rightarrow> smod" where
  "CTX_VALUE_SEND cb m = CTX_PARAM_ADD (Core Cb_pointer_return) (VFn cb) (CTX_CB_ADD (Core Cb_pointer_return) m)"

definition CTX_JOB_SEND :: "fname \<Rightarrow> smod \<Rightarrow> smod" where
  "CTX_JOB_SEND cb m = CTX_PARAM_ADD (Core Cb_pointer_job) (VFn cb) (CTX_CB_ADD (Core Cb_pointer_job) m)"

definition CTX_BOOL_JOB :: "fname \<Rightarrow> smod \<Rightarrow> smod" where
  "CTX_BOOL_JOB func m = (CTX_CB_ADD (Core Cb_bool_job) m)\<lparr>c_job := Some func\<rparr>"

definition CTX_INT_JOB :: "fname \<Rightarrow> smod \<Rightarrow> smod" where
  "CTX_INT_JOB func m =
     CTX_PARAM_ADD (Core Cb_int_job) (VFn func) ((CTX_CB_ADD (Core Cb_int_job) m)\<lparr>c_job := Some func\<rparr>)"

definition CTX_VALUE_JOB :: "fname \<Rightarrow> smod \<Rightarrow> smod" where
  "CTX_VALUE_JOB func m =
     CTX_PARAM_ADD (Core Cb_pointer_job) (VFn func) ((CTX_CB_ADD (Core Cb_pointer_job) m)\<lparr>c_job := Some func\<rparr>)"

text \<open>How a servlet function ends: with the value it returns.\<close>

definition CTX_RETURN :: "smod \<Rightarrow> bool \<times> smod" where
  "CTX_RETURN m =
     (case c_error m of
        Some x \<Rightarrow> (False, emit (OResume False) (fault_set x m))
      | None \<Rightarrow> if c_ret_set m then (True, emit (OResume True) m) else (True, m))"

definition MARK_CB :: "smod \<Rightarrow> smod" where
  "MARK_CB m = m\<lparr>c_cbs := tl (c_cbs m)\<rparr>"

definition REWIND :: "smod \<Rightarrow> smod" where
  "REWIND m = emit ORewind m"

text \<open>
  \<open>RESUME\<close>: a pending context error becomes the fault code unless one is set already, and
  the call goes on exactly when there is no fault.
\<close>

definition RESUME :: "smod \<Rightarrow> smod" where
  "RESUME m =
     (if c_dead m then m
      else if \<not> m_has_content m then emit (OResume True) m
      else
        (let m1 = (case c_error m of Some x \<Rightarrow> if m_fault m = None then fault_set x m else m | None \<Rightarrow> m)
         in emit (OResume (m_fault m1 = None)) m1))"

text \<open>
  \<open>NEXT_CB (v)\<close>: the head of the chain is called with \<open>v\<close>, a call in tail position;
  with an empty chain the call is resumed.
\<close>

definition NEXT_CB :: "val \<Rightarrow> smod \<Rightarrow> smod" where
  "NEXT_CB v m =
     (if c_dead m then m
      else case c_cbs m of
          f # _ \<Rightarrow> emit (OCall f v) m
        | [] \<Rightarrow>
            if c_error m \<noteq> None \<or> m_fault m \<noteq> None then RESUME m
            else if c_ret_set m \<and> m_retval m \<noteq> None then emit (OResume (c_ret m)) m
            else RESUME m)"

text \<open>\<open>AZY_RETVAL\<close> calls the content's return callback, NULL before the method runs.\<close>

definition AZY_RETVAL :: "val \<Rightarrow> smod \<Rightarrow> smod" where
  "AZY_RETVAL v m =
     (if \<not> c_ret_set m \<and> c_error m = None \<and> m_fault m = None then
        if m_method m then m\<lparr>m_retval := Some v, c_ret := True, c_ret_set := True\<rparr>
        else emit OCrash m
      else m)"

text \<open>\<open>ctx->ret\<close> is a bit field of one bit: an \<open>int\<close> stored there keeps its lowest bit.\<close>

definition AZY_RET :: "int \<Rightarrow> smod \<Rightarrow> smod" where
  "AZY_RET i m = m\<lparr>c_ret := odd i, c_ret_set := True\<rparr>"

lemmas ctx_macros = CTX_CB_ADD_def CTX_PARAM_ADD_def CTX_PARAM_PEEK_def CTX_PARAM_DEL_def CTX_PARAM_GET_def
  CTX_PARAM_ADD_FROM_VARIABLE_def CTX_VALUE_RETURN_def CTX_INT_RETURN_def CTX_VALUE_SEND_def
  CTX_JOB_SEND_def CTX_BOOL_JOB_def CTX_INT_JOB_def CTX_VALUE_JOB_def CTX_RETURN_def MARK_CB_def
  REWIND_def RESUME_def NEXT_CB_def AZY_RETVAL_def AZY_RET_def emit_def set_error_def fault_set_def
  upd_session_def

declare ctx_macros [zctx_defs]

subsection \<open>Jobs on the heap\<close>

text \<open>Reading or writing through a pointer that is no live job is a crash.\<close>

definition with_job :: "val \<Rightarrow> (job \<Rightarrow> job) \<Rightarrow> smod \<Rightarrow> smod" where
  "with_job v f m =
     (case v of
        VPtr p \<Rightarrow> (case m_jobs m p of
            Some j \<Rightarrow> m\<lparr>m_jobs := (m_jobs m)(p \<mapsto> f j)\<rparr>
          | None \<Rightarrow> emit OCrash m)
      | _ \<Rightarrow> emit OCrash m)"

definition job_at :: "val \<Rightarrow> smod \<Rightarrow> job option" where
  "job_at v m = (case v of VPtr p \<Rightarrow> m_jobs m p | _ \<Rightarrow> None)"

definition JOB_alloc :: "job \<Rightarrow> smod \<Rightarrow> val \<times> smod" where
  "JOB_alloc j m =
     (VPtr (m_jobs_next m), m\<lparr>m_jobs := (m_jobs m)(m_jobs_next m \<mapsto> j), m_jobs_next := Suc (m_jobs_next m)\<rparr>)"

definition job_free :: "val \<Rightarrow> smod \<Rightarrow> smod" where
  "job_free v m = (case v of VPtr p \<Rightarrow> m\<lparr>m_jobs := (m_jobs m)(p := None)\<rparr> | _ \<Rightarrow> m)"

lemmas job_heap_defs = with_job_def job_at_def JOB_alloc_def job_free_def

subsection \<open>Facts about the macros\<close>

lemma out_emit [simp]: "m_out (emit x m) = m_out m @ [x]"
  by (simp add: emit_def)

lemma CTX_RETURN_error [simp]: "c_error m = Some x \<Longrightarrow> CTX_RETURN m = (False, emit (OResume False) (fault_set x m))"
  by (simp add: CTX_RETURN_def)

lemma CTX_RETURN_fst: "fst (CTX_RETURN m) \<longleftrightarrow> c_error m = None"
  by (simp add: CTX_RETURN_def split: option.splits)

lemma CTX_RETURN_error_kept [simp]: "c_error (snd (CTX_RETURN m)) = c_error m"
  by (simp add: CTX_RETURN_def emit_def fault_set_def split: option.splits)

text \<open>A call is never resumed successfully with a fault code set, and never twice by one macro.\<close>

lemma RESUME_out:
  "m_out (RESUME m) =
     m_out m @ (if c_dead m then []
                else [OResume (m_has_content m \<longrightarrow> c_error m = None \<and> m_fault m = None)])"
  by (auto simp: RESUME_def fault_set_def Let_def split: option.splits)

lemma RESUME_faults:
  "\<not> c_dead m \<Longrightarrow> m_has_content m \<Longrightarrow> c_error m = Some x \<Longrightarrow>
     m_out (RESUME m) = m_out m @ [OResume False] \<and> m_fault (RESUME m) \<noteq> None"
  by (auto simp: RESUME_def fault_set_def emit_def Let_def)

lemma AZY_RETVAL_first: "c_ret_set m \<Longrightarrow> AZY_RETVAL v m = m"
  by (simp add: AZY_RETVAL_def)

end
