(* ===== verification/Callbacks.thy ===== *)
theory Callbacks
  imports Ctx
begin

text \<open>
  The generic callbacks of src/servlets/functions/functions_cb.c: each is called with the
  result of the operation that was awaited, takes itself off the chain, and either starts
  the job of the context, or rewinds and resumes the call so that the servlet function
  runs again with a higher \<open>count\<close>.
\<close>

definition ecore_job_add :: "smod \<Rightarrow> smod" where
  "ecore_job_add m = (case c_job m of Some f \<Rightarrow> emit (OJob f) m | None \<Rightarrow> m)"

definition count_inc :: "smod \<Rightarrow> smod" where
  "count_inc m = m\<lparr>c_count := c_count m + 1\<rparr>"

definition cb_bool_job :: "val \<Rightarrow> smod \<Rightarrow> smod" where
  "cb_bool_job ret m =
     (let m = MARK_CB m in if c_dead m then m else ecore_job_add (count_inc m))"

definition cb_int_job :: "val \<Rightarrow> smod \<Rightarrow> smod" where
  "cb_int_job ret m =
     (let m = MARK_CB m in
      if c_dead m then m
      else
        (let (cb, m) = CTX_PARAM_GET (Core Cb_int_job) m;
             m = count_inc m;
             m = (if as_int ret \<noteq> 0 then CTX_PARAM_ADD_FROM_VARIABLE cb (VInt (as_int ret)) m else m)
         in ecore_job_add m))"

definition cb_pointer_job :: "val \<Rightarrow> smod \<Rightarrow> smod" where
  "cb_pointer_job ret m =
     (if c_dead m then m
      else
        (let m = MARK_CB m;
             (cb, m) = CTX_PARAM_GET (Core Cb_pointer_job) m;
             m = count_inc m;
             m = (if \<not> is_null ret then CTX_PARAM_ADD_FROM_VARIABLE cb ret m else m)
         in ecore_job_add m))"

definition cb_int_rewind :: "val \<Rightarrow> smod \<Rightarrow> smod" where
  "cb_int_rewind ret m = RESUME (REWIND (count_inc (MARK_CB m)))"

definition cb_bool_rewind :: "val \<Rightarrow> smod \<Rightarrow> smod" where
  "cb_bool_rewind ret m =
     (let m = MARK_CB m in
      if c_dead m then m else emit (OResume True) (REWIND (count_inc m)))"

definition cb_auth_rewind :: "val \<Rightarrow> smod \<Rightarrow> smod" where
  "cb_auth_rewind ret m =
     (let m = MARK_CB m in
      if c_dead m then m
      else
        (let m = m\<lparr>c_count := 0\<rparr>;
             m = m\<lparr>c_auth := (as_bool ret \<and> c_error m = None)\<rparr>
         in emit (OResume True) (REWIND m)))"

definition cb_pointer_return :: "val \<Rightarrow> smod \<Rightarrow> smod" where
  "cb_pointer_return ret m =
     (if c_dead m then m
      else
        (let m = MARK_CB m;
             cb = CTX_PARAM_PEEK (Core Cb_pointer_return) m;
             m = count_inc m;
             m = (if \<not> is_null cb \<and> \<not> is_null ret then CTX_PARAM_ADD_FROM_VARIABLE cb ret m else m)
         in emit (OResume True) (REWIND m)))"

definition cb_int_return :: "val \<Rightarrow> smod \<Rightarrow> smod" where
  "cb_int_return ret m =
     (if c_dead m then m
      else
        (let m = MARK_CB m;
             cb = CTX_PARAM_PEEK (Core Cb_int_return) m;
             m = count_inc m;
             m = (if \<not> is_null cb then CTX_PARAM_ADD_FROM_VARIABLE cb (VInt (as_int ret)) m else m)
         in emit (OResume True) (REWIND m)))"

text \<open>
  The three callbacks that complete a job free it when the call has failed. The first takes
  a list; a string in its place is read as one.
\<close>

definition cb_job_target_node_addr :: "val \<Rightarrow> smod \<Rightarrow> smod" where
  "cb_job_target_node_addr ret m =
     (let m = MARK_CB m;
          (job, m) = CTX_PARAM_GET (Core Cb_job_target_node_addr) m
      in case (c_error m, ret) of
          (None, VStrs [node, host]) \<Rightarrow>
            (let m = count_inc m;
                 m = with_job job (\<lambda>j. j\<lparr>j_target_node := Some node\<rparr>) m;
                 m = with_job job (\<lambda>j. j\<lparr>j_target_host := Some host\<rparr>) m
             in RESUME (REWIND m))
        | (None, VStr s) \<Rightarrow> emit OCrash m
        | _ \<Rightarrow> RESUME (job_free job m))"

definition cb_job_target_host :: "val \<Rightarrow> smod \<Rightarrow> smod" where
  "cb_job_target_host ret m =
     (let m = MARK_CB m;
          (job, m) = CTX_PARAM_GET (Core Cb_job_target_host) m
      in if c_error m = None then
           RESUME (REWIND (with_job job (\<lambda>j. j\<lparr>j_target_host := as_str ret\<rparr>) (count_inc m)))
         else RESUME (job_free job m))"

definition cb_job_module_name :: "val \<Rightarrow> smod \<Rightarrow> smod" where
  "cb_job_module_name ret m =
     (let m = MARK_CB m;
          (job, m) = CTX_PARAM_GET (Core Cb_job_module_name) m
      in if c_error m = None then
           (let name = (case as_str ret of None \<Rightarrow> ''parentJob'' | Some s \<Rightarrow> if s = [] then ''parentJob'' else s)
            in RESUME (REWIND (with_job job (\<lambda>j. j\<lparr>j_module_name := Some name\<rparr>) (count_inc m))))
         else RESUME (job_free job m))"

lemmas cb_defs = ecore_job_add_def count_inc_def cb_bool_job_def cb_int_job_def cb_pointer_job_def
  cb_int_rewind_def cb_bool_rewind_def cb_auth_rewind_def cb_pointer_return_def cb_int_return_def
  cb_job_target_node_addr_def cb_job_target_host_def cb_job_module_name_def

declare cb_defs [zcb_defs]

subsection \<open>A dead client is never resumed\<close>

lemma dead_generic:
  assumes "c_dead m"
  shows "m_out (cb_bool_job v m) = m_out m" "m_out (cb_int_job v m) = m_out m"
    "m_out (cb_pointer_job v m) = m_out m" "m_out (cb_bool_rewind v m) = m_out m"
    "m_out (cb_auth_rewind v m) = m_out m" "m_out (cb_pointer_return v m) = m_out m"
    "m_out (cb_int_return v m) = m_out m"
  using assms by (simp_all add: cb_defs MARK_CB_def Let_def)

subsection \<open>The contract of a callback that runs the call again\<close>

text \<open>
  What a servlet function relies on when it registers a callback that rewinds: a dead client
  hears nothing; a live one is rewound and resumed once; the callback takes itself off the
  chain; and the function finds its step counter one higher and the session untouched.
\<close>

locale live_callback =
  fixes cb :: "val \<Rightarrow> smod \<Rightarrow> smod"
  assumes dead: "c_dead m \<Longrightarrow> m_out (cb v m) = m_out m"

locale rewinding = live_callback +
  assumes rerun: "\<not> c_dead m \<Longrightarrow> m_out (cb v m) = m_out m @ [ORewind, OResume True]"
    and taken: "\<not> c_dead m \<Longrightarrow> c_cbs (cb v m) = tl (c_cbs m)"
    and counted: "\<not> c_dead m \<Longrightarrow> c_count (cb v m) = c_count m + 1"
    and kept: "m_session (cb v m) = m_session m \<and> c_error (cb v m) = c_error m \<and> c_dead (cb v m) = c_dead m"
begin

lemma resumed_at_most_once: "length (m_out (cb v m)) \<le> length (m_out m) + 2"
  by (cases "c_dead m") (simp_all add: dead rerun)

text \<open>A second answer to the same chain link reaches the next callback, one step further.\<close>

lemma twice:
  assumes "\<not> c_dead m"
  shows "c_count (cb w (cb v m)) = c_count m + 2 \<and> c_cbs (cb w (cb v m)) = tl (tl (c_cbs m))"
  using assms kept [of v m] counted [of m v] counted [of "cb v m" w] taken [of m v] taken [of "cb v m" w]
  by simp

end

interpretation bool_rewind: rewinding cb_bool_rewind
  by unfold_locales (simp_all add: cb_defs MARK_CB_def REWIND_def emit_def Let_def)

interpretation pointer_return: rewinding cb_pointer_return
  by unfold_locales
     (auto simp: cb_defs MARK_CB_def REWIND_def emit_def CTX_PARAM_ADD_FROM_VARIABLE_def CTX_PARAM_ADD_def Let_def
       split: val.splits)

interpretation int_return: rewinding cb_int_return
  by unfold_locales
     (auto simp: cb_defs MARK_CB_def REWIND_def emit_def CTX_PARAM_ADD_FROM_VARIABLE_def CTX_PARAM_ADD_def Let_def
       split: val.splits)

interpretation bool_job: live_callback cb_bool_job by unfold_locales (rule dead_generic)
interpretation int_job: live_callback cb_int_job by unfold_locales (rule dead_generic)
interpretation pointer_job: live_callback cb_pointer_job by unfold_locales (rule dead_generic)
interpretation auth_rewind: live_callback cb_auth_rewind by unfold_locales (rule dead_generic)

subsection \<open>Properties\<close>



end
