(* ===== verification/Db.thy ===== *)
theory Db
  imports Callbacks
begin

text \<open>
  The asynchronous database layer: the query macros of include/zrpcdb.h, the result
  dispatch \<open>event_cb\<close> of db_sources/mysql/zrpcdb.c with the database-level callbacks of
  include/zrpcdb.x, and the two event handlers of src/bin/loop.c that finish a call.

  Esskyuehl itself is a parameter: whether it accepts a query (\<open>esql_accepts\<close>), and what
  a result holds (the record \<open>esql_res\<close>, with the value each conversion makes of its rows).
\<close>

subsection \<open>Query macros\<close>

definition mk_query :: "bool \<Rightarrow> free_fn option option \<Rightarrow> conv option \<Rightarrow> string \<Rightarrow> sarg list
    \<Rightarrow> free_fn option option \<Rightarrow> end_cb option \<Rightarrow> query" where
  "mk_query st fb cv fmt args fa en =
     \<lparr> q_state = st, q_free_before = fb, q_conv = cv, q_fmt = fmt, q_args = args, q_free_after = fa, q_end = en \<rparr>"

definition QS :: "string \<Rightarrow> query" where
  "QS fmt = mk_query True (Some (Some Eina_stringshare_del)) (Some Esql_res_to_string) fmt [] None (Some Zrpcdb_cb_ptr)"

definition QSA :: "string \<Rightarrow> sarg list \<Rightarrow> query" where
  "QSA fmt args = mk_query True (Some (Some Eina_stringshare_del)) (Some Esql_res_to_string) fmt args None (Some Zrpcdb_cb_ptr)"

definition QSS :: "string \<Rightarrow> query" where
  "QSS fmt = mk_query False (Some (Some Array_string_free)) (Some Array_string_esql) fmt [] None (Some Zrpcdb_cb_ptr)"

definition QSSA :: "string \<Rightarrow> sarg list \<Rightarrow> query" where
  "QSSA fmt args = mk_query False (Some (Some Array_string_free)) (Some Array_string_esql) fmt args None (Some Zrpcdb_cb_ptr)"

definition QB :: "string \<Rightarrow> query" where
  "QB fmt = mk_query True (Some None) (Some Esql_res_to_lli) fmt [] None (Some Zrpcdb_cb_int)"

definition QBA :: "string \<Rightarrow> sarg list \<Rightarrow> query" where
  "QBA fmt args = mk_query True (Some None) (Some Esql_res_to_lli) fmt args None (Some Zrpcdb_cb_int)"

definition QI :: "string \<Rightarrow> query" where
  "QI fmt = mk_query True (Some None) (Some Esql_res_to_lli) fmt [] None (Some Zrpcdb_cb_int)"

definition QIA :: "string \<Rightarrow> sarg list \<Rightarrow> query" where
  "QIA fmt args = mk_query True (Some None) (Some Esql_res_to_lli) fmt args None (Some Zrpcdb_cb_int)"

definition QIAB :: "string \<Rightarrow> sarg list \<Rightarrow> query" where
  "QIAB fmt args = mk_query True (Some None) (Some Esql_res_to_lli) fmt args None (Some Zrpcdb_cb_bool)"

definition QIS :: "string \<Rightarrow> query" where
  "QIS fmt = mk_query False (Some (Some Eina_list_free)) (Some Array_int_esql) fmt [] None (Some Zrpcdb_cb_ptr)"

definition QISA :: "string \<Rightarrow> sarg list \<Rightarrow> query" where
  "QISA fmt args = mk_query False (Some (Some Eina_list_free)) (Some Array_int_esql) fmt args None (Some Zrpcdb_cb_ptr)"

definition QE :: "string \<Rightarrow> sarg list \<Rightarrow> query" where
  "QE fmt args = mk_query False (Some None) None fmt args None (Some Zrpcdb_cb_exec)"

definition QEE :: "string \<Rightarrow> sarg list \<Rightarrow> query" where
  "QEE fmt args = mk_query False (Some None) None fmt args None (Some Zrpcdb_cb_exec_exists)"

definition QEJ :: "string \<Rightarrow> sarg list \<Rightarrow> query" where
  "QEJ fmt args = mk_query True (Some None) None fmt args None (Some Zrpcdb_cb_exec)"

text \<open>A plain \<open>QUERY (CB, ...)\<close>, with what the function sets before and after it.\<close>

definition QUERY :: "bool \<Rightarrow> conv \<Rightarrow> string \<Rightarrow> sarg list \<Rightarrow> free_fn option option \<Rightarrow> end_cb option \<Rightarrow> query" where
  "QUERY st cv fmt args fa en = mk_query st None (Some cv) fmt args fa en"

lemmas query_macros = mk_query_def QS_def QSA_def QSS_def QSSA_def QB_def QBA_def QI_def QIA_def
  QIAB_def QIS_def QISA_def QE_def QEE_def QEJ_def QUERY_def

declare query_macros [zsql_defs]

text \<open>
  A query is made: \<open>state\<close> and the free function are set first, a refusal sets \<open>DB_FAIL\<close> and
  returns, and an accepted query registers its conversion and its callback under its id.
\<close>

definition set_free :: "free_fn option option \<Rightarrow> smod \<Rightarrow> smod" where
  "set_free ff m = (case ff of None \<Rightarrow> m | Some f \<Rightarrow> m\<lparr>c_free_func := f\<rparr>)"

definition run_query :: "env \<Rightarrow> query \<Rightarrow> smod \<Rightarrow> smod" where
  "run_query e q m =
     (let m = (if q_state q then m\<lparr>c_state := True\<rparr> else m);
          m = set_free (q_free_before q) m;
          n = m_qid m;
          m = m\<lparr>m_qid := Suc n\<rparr>
      in if esql_accepts e n then
           (let m = emit (OQuery n q) m;
                m = m\<lparr>m_type_cbs := (m_type_cbs m)(n := q_conv q)\<rparr>;
                m = set_free (q_free_after q) m
            in m\<lparr>m_db_cbs := (m_db_cbs m)(n := q_end q)\<rparr>)
         else set_error DB_FAIL m)"

text \<open>
  What a function of the database module does with its arguments: refuse them, with or
  without an error, or make a query.
\<close>

datatype dbreq = DbReject "rpc_error option" | DbQuery query

definition db_call :: "env \<Rightarrow> dbreq \<Rightarrow> smod \<Rightarrow> smod" where
  "db_call e r m =
     (case r of
        DbReject None \<Rightarrow> m
      | DbReject (Some x) \<Rightarrow> set_error x m
      | DbQuery q \<Rightarrow> run_query e q m)"

lemmas run_query_defs = run_query_def set_free_def db_call_def

subsection \<open>Results\<close>

record esql_res =
  r_qid :: nat
  r_error :: bool
  r_rows :: nat
  r_affected :: nat
  r_id :: int
  r_conv :: "conv \<Rightarrow> val"

text \<open>
  \<open>ZRPCDB_HANDLE_RET\<close>: no row is the error given, unless one is set; then the head of the
  chain is called, with the error value when an error is set. A NULL at the head is only
  removed. The boolean says whether the function has returned.
\<close>

definition ZRPCDB_HANDLE_RET :: "rpc_error \<Rightarrow> val \<Rightarrow> val \<Rightarrow> esql_res \<Rightarrow> smod \<Rightarrow> smod \<times> bool" where
  "ZRPCDB_HANDLE_RET err ret reterr res m =
     (let m = (if r_rows res = 0 \<and> c_error m = None then set_error err m else m)
      in case c_cbs m of
           [] \<Rightarrow> (m, False)
         | cb # cbs \<Rightarrow>
             if cb = F_NULL then (m\<lparr>c_cbs := cbs\<rparr>, True)
             else if c_error m \<noteq> None then (emit (OCall cb reterr) m, True)
             else (emit (OCall cb ret) m, True))"

definition finish_with :: "val \<Rightarrow> smod \<Rightarrow> smod" where
  "finish_with v m = emit OEvResult (m\<lparr>c_retval := v\<rparr>)"

definition zrpcdb_cb_exec :: "esql_res \<Rightarrow> smod \<Rightarrow> smod" where
  "zrpcdb_cb_exec res m =
     (let m = (if r_affected res = 0 \<and> c_error m = None then set_error UNKNOWN_RESOURCE m else m)
      in case c_cbs m of
           [] \<Rightarrow> finish_with (VBool (c_error m = None)) m
         | cb # cbs \<Rightarrow>
             if cb = F_NULL then m\<lparr>c_cbs := cbs\<rparr>
             else if c_error m \<noteq> None then emit (OCall cb (VBool False)) m
             else emit (OCall cb (VBool True)) m)"

definition zrpcdb_cb_ptr :: "esql_res \<Rightarrow> val \<Rightarrow> smod \<Rightarrow> smod" where
  "zrpcdb_cb_ptr res data m =
     (case ZRPCDB_HANDLE_RET UNKNOWN_RESOURCE data VNull res m of
        (m, True) \<Rightarrow> m
      | (m, False) \<Rightarrow> finish_with data m)"

text \<open>\<open>zrpcdb_cb_int\<close> leaves the address of its parameter in the context.\<close>

definition zrpcdb_cb_int :: "esql_res \<Rightarrow> int \<Rightarrow> smod \<Rightarrow> smod" where
  "zrpcdb_cb_int res ret m =
     (case ZRPCDB_HANDLE_RET UNKNOWN_RESOURCE (VInt ret) (VInt (-1)) res m of
        (m, True) \<Rightarrow> m
      | (m, False) \<Rightarrow> finish_with VDangling m)"

definition zrpcdb_cb_exec_exists :: "esql_res \<Rightarrow> smod \<Rightarrow> smod" where
  "zrpcdb_cb_exec_exists res m =
     (case ZRPCDB_HANDLE_RET ENTITY_ALREADY_EXISTS (VBool True) (VBool False) res m of
        (m, True) \<Rightarrow> m
      | (m, False) \<Rightarrow> finish_with (VBool (c_error m = None)) m)"

definition zrpcdb_cb_bool :: "esql_res \<Rightarrow> smod \<Rightarrow> smod" where
  "zrpcdb_cb_bool res m =
     (case ZRPCDB_HANDLE_RET UNKNOWN_RESOURCE (VBool True) (VBool False) res m of
        (m, True) \<Rightarrow> m
      | (m, False) \<Rightarrow> finish_with (VBool (c_error m = None)) m)"

definition zrpcdb_node_cb_conf :: "esql_res \<Rightarrow> smod \<Rightarrow> smod" where
  "zrpcdb_node_cb_conf res m =
     (if r_rows res = 0 then emit OEvError (set_error NODE_UNCONFIGURED m)
      else case c_cbs m of
          cb # _ \<Rightarrow> emit (OCall cb (VBool True)) (m\<lparr>c_state := True\<rparr>)
        | [] \<Rightarrow> finish_with (VBool True) m)"

text \<open>
  The call \<open>end_cb (res, ctx, x)\<close> through the table: surplus arguments are ignored. The
  callbacks that make further queries are effects here; they are steps of their own.
\<close>

definition end_call :: "end_cb \<Rightarrow> esql_res \<Rightarrow> val \<Rightarrow> smod \<Rightarrow> smod" where
  "end_call f res x m =
     (case f of
        Zrpcdb_cb_ptr \<Rightarrow> zrpcdb_cb_ptr res x m
      | Zrpcdb_cb_int \<Rightarrow> zrpcdb_cb_int res (s32 (as_int x)) m
      | Zrpcdb_cb_bool \<Rightarrow> zrpcdb_cb_bool res m
      | Zrpcdb_cb_exec \<Rightarrow> zrpcdb_cb_exec res m
      | Zrpcdb_cb_exec_exists \<Rightarrow> zrpcdb_cb_exec_exists res m
      | Zrpcdb_node_cb_conf \<Rightarrow> zrpcdb_node_cb_conf res m
      | _ \<Rightarrow> emit (ODbCall f x) m)"

definition event_cb :: "esql_res \<Rightarrow> smod \<Rightarrow> smod" where
  "event_cb res m =
     (let qid = r_qid res;
          state = c_state m;
          m = m\<lparr>c_state := False\<rparr>;
          del = (\<lambda>m. m\<lparr>m_db_cbs := (m_db_cbs m)(qid := None)\<rparr>)
      in
      if r_error res then emit OEvError (set_error DB_QUERY (del m))
      else case m_type_cbs m qid of
        Some cb \<Rightarrow>
          if state \<and> 1 < r_rows res then
            emit OEvError ((del (set_error DB_MULTI m))\<lparr>c_state := state\<rparr>)
          else
            (case m_db_cbs m qid of
               Some en \<Rightarrow> end_call en res (r_conv res cb) (del m)
             | None \<Rightarrow>
                (case c_cbs m of
                   f # _ \<Rightarrow> emit (OCall f (r_conv res cb)) m
                 | [] \<Rightarrow> emit OEvResult (m\<lparr>c_state := state, c_retval := r_conv res cb\<rparr>)))
      | None \<Rightarrow>
          (case m_db_cbs m qid of
             Some en \<Rightarrow> end_call en res (if state then VInt (r_id res) else VUndef) (del m)
           | None \<Rightarrow>
              (case c_cbs m of
                 f # _ \<Rightarrow> emit (OCall f (if state then VInt (r_id res) else VUndef)) m
               | [] \<Rightarrow> emit OEvResult (m\<lparr>c_state := state, c_retval := VInt (s32 (r_id res))\<rparr>))))"

lemmas end_cb_defs = ZRPCDB_HANDLE_RET_def finish_with_def zrpcdb_cb_exec_def zrpcdb_cb_ptr_def
  zrpcdb_cb_int_def zrpcdb_cb_exec_exists_def zrpcdb_cb_bool_def zrpcdb_node_cb_conf_def end_call_def

subsection \<open>The end of a call: src/bin/loop.c\<close>

definition error_handler :: "smod \<Rightarrow> smod" where
  "error_handler m =
     (if c_dead m then m
      else
        (let m = (case c_error m of Some x \<Rightarrow> fault_set x m | None \<Rightarrow> m);
             m = m\<lparr>c_cbs := []\<rparr>;
             m = m\<lparr>c_params := (\<lambda>_. VNull)\<rparr>;
             m = emit (OResume False) m
         in m\<lparr>c_dead := True\<rparr>))"

definition result_handler :: "smod \<Rightarrow> smod" where
  "result_handler m =
     (if c_dead m then m
      else if m_has_content m \<and> \<not> c_ret_set m then
        (let m = (case c_error m of Some x \<Rightarrow> fault_set x m | None \<Rightarrow> m)
         in if \<not> m_method m then emit (OResume (c_error m = None)) m
            else
              (let m = (if c_error m = None then m\<lparr>m_retval := Some (c_retval m)\<rparr> else m);
                   m = emit (OResume True) m
               in m\<lparr>c_dead := True\<rparr>))
      else (emit (OResume True) m)\<lparr>c_dead := True\<rparr>)"

subsection \<open>The contract of the handlers that end a call\<close>

text \<open>
  The events of the database layer end a call through one of two handlers. What the server
  relies on: a dead client is left alone; a call whose method has started is resumed exactly
  once and is dead afterwards.
\<close>

locale finishers =
  fixes handle :: "'e \<Rightarrow> smod \<Rightarrow> smod"
  assumes ignores_dead: "c_dead m \<Longrightarrow> handle x m = m"
    and answers: "\<not> c_dead m \<Longrightarrow> m_method m \<Longrightarrow> \<exists>b. m_out (handle x m) = m_out m @ [OResume b]"
    and ends: "\<not> c_dead m \<Longrightarrow> m_method m \<Longrightarrow> c_dead (handle x m)"
begin

lemma dead_fold: "c_dead m \<Longrightarrow> foldl (\<lambda>m x. handle x m) m xs = m"
  by (induction xs arbitrary: m) (simp_all add: ignores_dead)

lemma answered_once:
  assumes "\<not> c_dead m" "m_method m" "xs \<noteq> []"
  shows "\<exists>b. m_out (foldl (\<lambda>m x. handle x m) m xs) = m_out m @ [OResume b]"
proof -
  obtain x xs' where xs: "xs = x # xs'" using assms(3) by (cases xs) auto
  have "foldl (\<lambda>m x. handle x m) m xs = handle x m"
    using dead_fold ends assms by (simp add: xs)
  then show ?thesis using answers assms by simp
qed

end

definition end_event :: "bool \<Rightarrow> smod \<Rightarrow> smod" where
  "end_event failed = (if failed then error_handler else result_handler)"

interpretation events: finishers end_event
proof unfold_locales
  fix x and m :: smod
  show "c_dead m \<Longrightarrow> end_event x m = m"
    by (simp add: end_event_def error_handler_def result_handler_def)
  assume m: "\<not> c_dead m" "m_method m"
  show "\<exists>b. m_out (end_event x m) = m_out m @ [OResume b]"
    using m by (auto simp: end_event_def error_handler_def result_handler_def fault_set_def emit_def Let_def
        split: option.splits)
  show "c_dead (end_event x m)"
    using m by (auto simp: end_event_def error_handler_def result_handler_def fault_set_def emit_def Let_def
        split: option.splits)
qed

subsection \<open>Properties\<close>

text \<open>
  C4: A call is answered exactly once: however many result and error events of the database
  arrive for a method that is running, in whatever order, only the first of them resumes
  the client, and all the later ones change nothing.
\<close>

theorem call_answered_once:
  assumes "\<not> c_dead m" "m_method m" "evs \<noteq> []"
  shows "\<exists>b. m_out (foldl (\<lambda>m failed. end_event failed m) m evs) = m_out m @ [OResume b]"
  using events.answered_once [OF assms] .

theorem call_answered_once_witness:
  "\<exists>b. m_out (foldl (\<lambda>m failed. end_event failed m) sample_mod [False, True, False]) = m_out sample_mod @ [OResume b]"
  by (rule call_answered_once) (simp_all add: sample_mod_def)

lemma end_call_delivers:
  "(\<exists>x. m_out (end_call en res v m) = m_out m @ [x]) \<or> (m_out (end_call en res v m) = m_out m \<and> (\<exists>cbs. c_cbs m = F_NULL # cbs))"
  by (cases "c_cbs m"; cases en) (auto simp: end_cb_defs set_error_def emit_def Let_def)

lemma end_call_db_cbs [simp]: "m_db_cbs (end_call en res v m) = m_db_cbs m"
  by (cases "c_cbs m"; cases en) (auto simp: end_cb_defs set_error_def emit_def Let_def)



definition sample_failed :: esql_res where
  "sample_failed = \<lparr> r_qid = 0, r_error = True, r_rows = 0, r_affected = 0, r_id = 0, r_conv = (\<lambda>_. VNull) \<rparr>"

definition sample_refusing :: env where
  "sample_refusing = sample_env\<lparr>esql_accepts := (\<lambda>_. False)\<rparr>"


end
