(* ===== verification/SqlFmt.thy ===== *)
theory SqlFmt
  imports Db
begin

text \<open>
  Well-formed requests of the database layer. A query is a \<open>printf\<close>-like format with its
  arguments; the compiler checks neither their number nor their types, since the macros
  pass them through variadic calls of the database client. \<open>fmt_specs\<close> reads the
  conversions of a format and \<open>query_ok\<close> asks for one argument of the right kind each, and
  that the callback registered for the result fits its conversion.
\<close>

fun fmt_specs :: "bool \<Rightarrow> string \<Rightarrow> char list" where
  "fmt_specs False [] = []"
| "fmt_specs True [] = [CHR ''?'']"
| "fmt_specs False (c # cs) = (if c = CHR ''%'' then fmt_specs True cs else fmt_specs False cs)"
| "fmt_specs True (c # cs) =
     (if c = CHR ''%'' then fmt_specs False cs
      else if c = CHR ''l'' \<or> c = CHR ''h'' then fmt_specs True cs
      else c # fmt_specs False cs)"

fun fits :: "char \<Rightarrow> sarg \<Rightarrow> bool" where
  "fits c (AS s) \<longleftrightarrow> c = CHR ''s''"
| "fits c (AI i) \<longleftrightarrow> c = CHR ''d'' \<or> c = CHR ''i''"
| "fits c (AD x) \<longleftrightarrow> c = CHR ''f''"
| "fits c (AC b) \<longleftrightarrow> c = CHR ''c'' \<or> c = CHR ''d'' \<or> c = CHR ''i''"

definition args_ok :: "query \<Rightarrow> bool" where
  "args_ok q \<longleftrightarrow> list_all2 fits (fmt_specs False (q_fmt q)) (q_args q)"

text \<open>
  Scalars go to the callbacks that take one, pointers to the one that takes a pointer, and
  a statement with no rows to the callbacks that look at the affected rows.
\<close>

definition dispatch_fits :: "conv option \<Rightarrow> end_cb option \<Rightarrow> bool" where
  "dispatch_fits cv en \<longleftrightarrow>
     (case cv of
        None \<Rightarrow> en = Some Zrpcdb_cb_exec \<or> en = Some Zrpcdb_cb_exec_exists
      | Some Esql_res_to_lli \<Rightarrow> en = Some Zrpcdb_cb_int \<or> en = Some Zrpcdb_cb_bool \<or> en = Some Zrpcdb_node_cb_conf
          \<or> en = Some Zrpcdb_node_cb_enc
      | Some DUMMY_esql \<Rightarrow> en = Some Zrpcdb_cb_bool
      | Some (Row_esql T_VM) \<Rightarrow> en = None \<or> en = Some Zrpcdb_cb_ptr \<or> (\<exists>r. en = Some (Zrpcdb_vm_stats r))
      | Some _ \<Rightarrow> en = None \<or> en = Some Zrpcdb_cb_ptr)"

definition query_ok :: "query \<Rightarrow> bool" where
  "query_ok q \<longleftrightarrow> args_ok q \<and> dispatch_fits (q_conv q) (q_end q)"

fun req_ok :: "dbreq \<Rightarrow> bool" where
  "req_ok (DbReject x) = True"
| "req_ok (DbQuery q) = query_ok q"

text \<open>The query of a request; a refusal has none, and stands for one that asks nothing.\<close>

fun query_of :: "dbreq \<Rightarrow> query" where
  "query_of (DbQuery q) = q"
| "query_of (DbReject x) = mk_query False None None [] [] None None"

text \<open>
  The client escapes the text arguments of a query, which protects a statement only inside
  a quoted literal. \<open>quoted\<close> scans a format (inside a literal or not, after a percent sign
  or not): every \<open>%s\<close> must stand inside single quotes, and every literal must be closed.
\<close>

fun quoted :: "bool \<Rightarrow> bool \<Rightarrow> string \<Rightarrow> bool" where
  "quoted lit pct [] = (\<not> lit)"
| "quoted lit False (c # cs) =
     (if c = CHR 0x27 then quoted (\<not> lit) False cs else quoted lit (c = CHR ''%'') cs)"
| "quoted lit True (c # cs) =
     (if c = CHR ''s'' \<and> \<not> lit then False
      else quoted lit (c = CHR ''l'' \<or> c = CHR ''h'') cs)"

fun req_quoted :: "dbreq \<Rightarrow> bool" where
  "req_quoted (DbReject x) = True"
| "req_quoted (DbQuery q) = quoted False False (q_fmt q)"

lemmas req_ok_simps = query_ok_def args_ok_def dispatch_fits_def query_macros

subsection \<open>Evaluating the two checks\<close>

text \<open>
  A format is a concatenation of literals. The rules read it piece by piece, and the
  congruence rules keep the simplifier from walking over the rest of it at every step.
\<close>

lemma fmt_specs_app:
  "fmt_specs p ((x @ y) @ z) = fmt_specs p (x @ y @ z)"
  "fmt_specs p ([] @ b) = fmt_specs p b"
  "fmt_specs False ((c # cs) @ b) = (if c = CHR ''%'' then fmt_specs True (cs @ b) else fmt_specs False (cs @ b))"
  "fmt_specs True ((c # cs) @ b) =
     (if c = CHR ''%'' then fmt_specs False (cs @ b)
      else if c = CHR ''l'' \<or> c = CHR ''h'' then fmt_specs True (cs @ b)
      else c # fmt_specs False (cs @ b))"
  by simp_all

lemma quoted_app:
  "quoted l p ((x @ y) @ z) = quoted l p (x @ y @ z)"
  "quoted l p ([] @ b) = quoted l p b"
  "quoted l False ((c # cs) @ b) =
     (if c = CHR 0x27 then quoted (\<not> l) False (cs @ b) else quoted l (c = CHR ''%'') (cs @ b))"
  "quoted l True ((c # cs) @ b) =
     (if c = CHR ''s'' \<and> \<not> l then False else quoted l (c = CHR ''l'' \<or> c = CHR ''h'') (cs @ b))"
  by simp_all

lemma fmt_weak_cong: "p = q \<Longrightarrow> fmt_specs p s = fmt_specs q s"
  and quoted_weak_cong: "l = l' \<Longrightarrow> p = q \<Longrightarrow> quoted l p s = quoted l' q s"
  and DbQuery_weak_cong: "DbQuery r = DbQuery r"
  by simp_all

lemmas req_weak_congs = fmt_weak_cong quoted_weak_cong DbQuery_weak_cong

lemma req_ok_mk:
  "req_ok (DbQuery (mk_query st fb cv fmt args fa en)) \<longleftrightarrow>
     list_all2 fits (fmt_specs False fmt) args \<and> dispatch_fits cv en"
  by (simp add: query_ok_def args_ok_def mk_query_def)

lemma req_quoted_mk: "req_quoted (DbQuery (mk_query st fb cv fmt args fa en)) \<longleftrightarrow> quoted False False fmt"
  by (simp add: mk_query_def)

lemmas query_forms = QS_def QSA_def QSS_def QSSA_def QB_def QBA_def QI_def QIA_def QIAB_def QIS_def QISA_def
  QE_def QEE_def QEJ_def QUERY_def

lemmas req_evals = fmt_specs_app quoted_app req_ok_mk req_quoted_mk dispatch_fits_def

subsection \<open>Clauses built at run time\<close>

text \<open>The \<open>LIMIT\<close> clause of the sorted queries: 64 bytes hold it for any two \<open>int\<close>s.\<close>

definition limit_clause :: "int \<Rightarrow> int \<Rightarrow> string" where
  "limit_clause offset recordcount =
     (if 0 \<le> offset \<and> 0 \<le> recordcount
      then '' LIMIT '' @ int_dec offset @ '', '' @ int_dec recordcount else [])"

definition desc_word :: "bool \<Rightarrow> string" where
  "desc_word desc = (if desc then ''DESC'' else [])"

text \<open>The list of job ids of two queries.\<close>

fun job_id_clause :: "int list \<Rightarrow> string" where
  "job_id_clause [] = []"
| "job_id_clause [j] = ''jobs.id='' @ squote @ int_dec j @ squote"
| "job_id_clause (j # js) = ''jobs.id='' @ squote @ int_dec j @ ''' OR '' @ job_id_clause js"

definition ZENSCHED_JOB_STATUS_INSERTED :: int where "ZENSCHED_JOB_STATUS_INSERTED = 0"
definition ZENSCHED_JOB_STATUS_COMPLETED :: int where "ZENSCHED_JOB_STATUS_COMPLETED = 4"

end
