(* ===== verification/Sql_Config.thy ===== *)
theory Sql_Config
  imports SqlFmt
begin

text \<open>
  The queries on the configuration and plugin tables: zrpcdb_zentific.c.
\<close>

subsection \<open>db_sources/mysql/zrpcdb_zentific.c\<close>

definition db_getOperatingSystems :: "dbreq" where
  "db_getOperatingSystems = DbQuery (QSS
    ''SELECT name from `operatingsystems`'')"

definition db_getConfigsFull :: "dbreq" where
  "db_getConfigsFull = DbQuery (mk_query False None (Some Array_KEYVALUE_esql)
    ''SELECT * from `config`''
    []
    (Some (Some Array_KEYVALUE_free)) None)"

definition db_isFrontendPluginEnabled :: "cstr \<Rightarrow> dbreq" where
  "db_isFrontendPluginEnabled nm = DbQuery (QBA
    (''SELECT enabled FROM `plugins` WHERE frontend='1' and name='%s''
     @ squote)
    [AS nm])"

definition db_modifyPlugin :: "cstr \<Rightarrow> bool \<Rightarrow> bool \<Rightarrow> bool \<Rightarrow> bool \<Rightarrow> bool \<Rightarrow> dbreq" where
  "db_modifyPlugin nm enabled xmlrpc frontend scheduler poller = DbQuery (QE
    (''UPDATE `plugins`''
     @ '' SET enabled='%c', xmlrpc='%c', frontend='%c', scheduler='%c', poller='%c''
     @ squote
     @ '' WHERE name='%s''
     @ squote)
    [AC enabled, AC xmlrpc, AC frontend, AC scheduler, AC poller, AS nm])"

text \<open>The configuration table is keyed by a name, a subsystem and nine scopes.\<close>

definition no_str :: "cstr \<Rightarrow> bool" where
  "no_str s \<longleftrightarrow> s = None \<or> s = Some []"

definition db_getConfigValue :: "cstr \<Rightarrow> cstr \<Rightarrow> int \<Rightarrow> int \<Rightarrow> int \<Rightarrow> int \<Rightarrow> int \<Rightarrow> int \<Rightarrow> int \<Rightarrow> int \<Rightarrow> int \<Rightarrow> dbreq" where
  "db_getConfigValue key subsystem mid uid gid vgid ngid vm node platform role =
     (if no_str key \<or> no_str subsystem then DbReject None
      else if role < 0 then DbQuery (QSA
        (''SELECT value FROM `config` WHERE `key`='%s'' @ squote
         @ '' AND `subsystem`='%s' AND `mid`='%d'' @ squote
         @ '' AND `uid`='%d' AND `gid`='%d' AND `vgid`='%d'' @ squote
         @ '' AND `ngid`='%d' AND `vm`='%d' AND `node`='%d'' @ squote
         @ '' AND `platform`='%d'' @ squote)
        [AS key, AS subsystem, AI mid, AI uid, AI gid, AI vgid, AI ngid, AI vm, AI node, AI platform])
      else DbQuery (QSA
        (''SELECT value FROM `config` WHERE `key`='%s'' @ squote
         @ '' AND `subsystem`='%s' AND `mid`='%d'' @ squote
         @ '' AND `uid`='%d' AND `gid`='%d' AND `vgid`='%d'' @ squote
         @ '' AND `ngid`='%d' AND `vm`='%d' AND `node`='%d'' @ squote
         @ '' AND `platform`='%d' AND `role`='%d'' @ squote)
        [AS key, AS subsystem, AI mid, AI uid, AI gid, AI vgid, AI ngid, AI vm, AI node, AI platform, AI role]))"

definition db_getLatestRevision :: "cstr \<Rightarrow> nat \<Rightarrow> dbreq" where
  "db_getLatestRevision uuid ty =
     (let q = (\<lambda>t. DbQuery (QIA
        (''SELECT revision FROM `%sconfig` ''
         @ ''RIGHT JOIN `%ss` ON %sconfig.%s=%ss.id ''
         @ ''WHERE %ss.uuid='%s' ''
         @ ''ORDER BY %sconfig.timestamp DESC LIMIT 1'')
        [AS (Some t), AS (Some t), AS (Some t), AS (Some t), AS (Some t), AS (Some t), AS uuid, AS (Some t)]))
      in if ty = 0 then q ''node'' else if ty = 1 then q ''vm'' else if ty = 2 then q ''disk''
         else if ty = 3 then q ''vif'' else DbReject (Some INVALID_PARAMETER))"

definition db_getConfigs :: "cstr \<Rightarrow> int \<Rightarrow> int \<Rightarrow> int \<Rightarrow> int \<Rightarrow> int \<Rightarrow> int \<Rightarrow> int \<Rightarrow> int \<Rightarrow> int \<Rightarrow> dbreq" where
  "db_getConfigs subsystem mid uid gid vgid ngid vm node platform role =
     (if no_str subsystem then DbReject (Some INVALID_PARAMETER)
      else DbQuery (QUERY False Array_KEYVALUE_esql
        (''SELECT * FROM `config` WHERE ''
         @ '' AND `subsystem`='%s' AND `mid`='%d'' @ squote
         @ '' AND `uid`='%d' AND `gid`='%d' AND `vgid`='%d'' @ squote
         @ '' AND `ngid`='%d' AND `vm`='%d' AND `node`='%d'' @ squote
         @ '' AND `platform`='%d' AND `role`='%d'' @ squote)
        [AS subsystem, AI mid, AI uid, AI gid, AI vgid, AI ngid, AI vm, AI node, AI platform, AI role]
        (Some (Some Array_KEYVALUE_free)) None))"

definition db_getConfig :: "cstr \<Rightarrow> cstr \<Rightarrow> int \<Rightarrow> int \<Rightarrow> int \<Rightarrow> int \<Rightarrow> int \<Rightarrow> int \<Rightarrow> int \<Rightarrow> int \<Rightarrow> int \<Rightarrow> dbreq" where
  "db_getConfig key subsystem mid uid gid vgid ngid vm node platform role =
     (if no_str key \<or> no_str subsystem then DbReject (Some INVALID_PARAMETER)
      else DbQuery (QUERY False KEYVALUE_esql
        (''SELECT * FROM `config` WHERE `key`='%s'' @ squote
         @ '' AND `subsystem`='%s' AND `mid`='%d'' @ squote
         @ '' AND `uid`='%d' AND `gid`='%d' AND `vgid`='%d'' @ squote
         @ '' AND `ngid`='%d' AND `vm`='%d' AND `node`='%d'' @ squote
         @ '' AND `platform`='%d' AND `role`='%d'' @ squote)
        [AS key, AS subsystem, AI mid, AI uid, AI gid, AI vgid, AI ngid, AI vm, AI node, AI platform, AI role]
        (Some (Some KEYVALUE_free)) None))"

text \<open>Setting a value deletes the row of its key and scopes, then inserts it.\<close>

definition set_config_query :: "string \<Rightarrow> cstr \<Rightarrow> cstr \<Rightarrow> cstr \<Rightarrow> sarg list \<Rightarrow> query" where
  "set_config_query column key value subsystem scopes = QE
     (''DELETE FROM `config` WHERE `key`='%s'' @ squote
      @ '' AND `subsystem`='%s' AND `mid`='%d'' @ squote
      @ '' AND `uid`='%d' AND `gid`='%d' AND `vgid`='%d'' @ squote
      @ '' AND `ngid`='%d' AND `vm`='%d' AND `node`='%d'' @ squote
      @ '' AND `platform`='%d' AND `role`='%d';''
      @ '' INSERT INTO `config`''
      @ '' (`key`, `'' @ column @ ''`, `subsystem`, `mid`,''
      @ ''   `uid`, `gid`, `vgid`, `ngid`,''
      @ ''   `vm`, `node`, `platform`, `role`)''
      @ '' VALUES''
      @ '' ('%s', '%s', '%s', '%d',''
      @ ''  '%d', '%d', '%d', '%d',''
      @ ''  '%d', '%d', '%d', '%d')'')
     ([AS key, AS subsystem] @ scopes @ [AS key, AS value, AS subsystem] @ scopes)"

definition db_setBlobConfig :: "cstr \<Rightarrow> cstr \<Rightarrow> cstr \<Rightarrow> int \<Rightarrow> int \<Rightarrow> int \<Rightarrow> int \<Rightarrow> int \<Rightarrow> int \<Rightarrow> int \<Rightarrow> int \<Rightarrow> int \<Rightarrow> dbreq" where
  "db_setBlobConfig key value subsystem mid uid gid vgid ngid vm node platform role =
     (if no_str key \<or> no_str subsystem \<or> value = None then DbReject (Some INVALID_PARAMETER)
      else DbQuery (set_config_query ''valueBlob'' key value subsystem
        [AI mid, AI uid, AI gid, AI vgid, AI ngid, AI vm, AI node, AI platform, AI role]))"

definition db_setConfig :: "cstr \<Rightarrow> cstr \<Rightarrow> cstr \<Rightarrow> int \<Rightarrow> int \<Rightarrow> int \<Rightarrow> int \<Rightarrow> int \<Rightarrow> int \<Rightarrow> int \<Rightarrow> int \<Rightarrow> int \<Rightarrow> dbreq" where
  "db_setConfig key value subsystem mid uid gid vgid ngid vm node platform role =
     (if no_str key \<or> no_str subsystem \<or> value = None then DbReject (Some INVALID_PARAMETER)
      else DbQuery (set_config_query ''value'' key value subsystem
        [AI mid, AI uid, AI gid, AI vgid, AI ngid, AI vm, AI node, AI platform, AI role]))"

definition db_getAllPlugins :: "int \<Rightarrow> dbreq" where
  "db_getAllPlugins which =
     (let sel = ''SELECT name, description, xmlrpc, frontend, scheduler, poller, enabled, minpriv'' in
      DbQuery (QUERY False Array_PLUGIN_esql
        (if which = -1 then sel @ '' FROM `plugins`''
         else if which = 0 then sel @ '' FROM `plugins` WHERE enabled=0''
         else sel @ '' FROM `plugins` WHERE enabled=1'')
        [] (Some (Some Array_PLUGIN_free)) None))"

definition db_getFrontendPlugins :: "int \<Rightarrow> dbreq" where
  "db_getFrontendPlugins which = DbQuery
     (if which = -1 then QSS ''SELECT name FROM `plugins` WHERE frontend=1''
      else if which = 0 then QSS (''SELECT name FROM `plugins` WHERE frontend=1'' @ '' AND enabled=0'')
      else QSS (''SELECT name FROM `plugins` WHERE frontend=1'' @ '' AND enabled=1''))"

subsection \<open>All requests of the module\<close>

lemmas config_request_defs = db_getOperatingSystems_def db_getConfigsFull_def db_isFrontendPluginEnabled_def db_modifyPlugin_def
  db_getConfigValue_def db_getConfigs_def db_getConfig_def db_setBlobConfig_def db_setConfig_def
  db_getAllPlugins_def db_getFrontendPlugins_def db_getLatestRevision_def set_config_query_def

text \<open>The requests whose text arguments are all quoted.\<close>

definition config_requests :: "dbreq set" where
  "config_requests =
     {db_getOperatingSystems} \<union> {db_getConfigsFull} \<union> range db_isFrontendPluginEnabled
     \<union> range (\<lambda>(nm, enabled, xmlrpc, frontend, scheduler, poller). db_modifyPlugin nm enabled xmlrpc frontend scheduler poller)
     \<union> range (\<lambda>(key, subsystem, mid, uid, gid, vgid, ngid, vm, node, platform, role). db_getConfigValue key subsystem mid uid gid vgid ngid vm node platform role)
     \<union> range (\<lambda>(subsystem, mid, uid, gid, vgid, ngid, vm, node, platform, role). db_getConfigs subsystem mid uid gid vgid ngid vm node platform role)
     \<union> range (\<lambda>(key, subsystem, mid, uid, gid, vgid, ngid, vm, node, platform, role). db_getConfig key subsystem mid uid gid vgid ngid vm node platform role)
     \<union> range (\<lambda>(key, value, subsystem, mid, uid, gid, vgid, ngid, vm, node, platform, role). db_setBlobConfig key value subsystem mid uid gid vgid ngid vm node platform role)
     \<union> range (\<lambda>(key, value, subsystem, mid, uid, gid, vgid, ngid, vm, node, platform, role). db_setConfig key value subsystem mid uid gid vgid ngid vm node platform role)
     \<union> range db_getAllPlugins \<union> range db_getFrontendPlugins"

text \<open>The other well-formed requests: a name of a column or a clause is spliced in.\<close>

definition config_unquoted :: "dbreq set" where
  "config_unquoted =
     range (\<lambda>(uuid, ty). db_getLatestRevision uuid ty)"

lemma config_requests_ok_1:
  "{db_getOperatingSystems} \<union> {db_getConfigsFull} \<union> range db_isFrontendPluginEnabled
     \<union> range (\<lambda>(nm, enabled, xmlrpc, frontend, scheduler, poller). db_modifyPlugin nm enabled xmlrpc frontend scheduler poller)
     \<union> range (\<lambda>(key, subsystem, mid, uid, gid, vgid, ngid, vm, node, platform, role). db_getConfigValue key subsystem mid uid gid vgid ngid vm node platform role)
     \<union> range (\<lambda>(subsystem, mid, uid, gid, vgid, ngid, vm, node, platform, role). db_getConfigs subsystem mid uid gid vgid ngid vm node platform role)
     \<union> range (\<lambda>(key, subsystem, mid, uid, gid, vgid, ngid, vm, node, platform, role). db_getConfig key subsystem mid uid gid vgid ngid vm node platform role)
     \<union> range (\<lambda>(key, value, subsystem, mid, uid, gid, vgid, ngid, vm, node, platform, role). db_setBlobConfig key value subsystem mid uid gid vgid ngid vm node platform role)
     \<union> range (\<lambda>(key, value, subsystem, mid, uid, gid, vgid, ngid, vm, node, platform, role). db_setConfig key value subsystem mid uid gid vgid ngid vm node platform role)
     \<union> range db_getAllPlugins \<union> range db_getFrontendPlugins
     \<subseteq> {r. req_ok r \<and> req_quoted r}"
  unfolding config_request_defs query_forms Let_def
  by (intro Un_least; clarsimp simp: req_evals simp del: req_ok.simps(2) req_quoted.simps(2) split: option.splits cong: req_weak_congs)

lemma config_requests_ok: "config_requests \<subseteq> {r. req_ok r \<and> req_quoted r}"
  unfolding config_requests_def
  using config_requests_ok_1
  by (simp only: Un_subset_iff simp_thms)

lemma config_unquoted_ok: "config_unquoted \<subseteq> {r. req_ok r}"
  unfolding config_unquoted_def config_request_defs query_forms Let_def
  by (clarsimp simp: req_evals simp del: req_ok.simps(2) req_quoted.simps(2) split: option.splits cong: req_weak_congs)

end
