(* ===== verification/Sql_User.thy ===== *)
theory Sql_User
  imports SqlFmt
begin

text \<open>
  The queries on users, their privileges and languages: zrpcdb_user.c.
\<close>

subsection \<open>db_sources/mysql/zrpcdb_user.c\<close>

definition db_getUser :: "int \<Rightarrow> dbreq" where
  "db_getUser uid = DbQuery (mk_query False None (Some USER_esql)
    (''SELECT * FROM `users` LEFT JOIN languages ON users.lang=languages.id WHERE uid='%d''
     @ squote)
    [AI uid]
    (Some (Some USER_free)) (Some Zrpcdb_cb_ptr))"

definition db_isUserUID :: "int \<Rightarrow> dbreq" where
  "db_isUserUID uid = DbQuery (mk_query True None (Some Esql_res_to_lli)
    (''SELECT uid FROM `users` WHERE uid='%d''
     @ squote)
    [AI uid]
    None (Some Zrpcdb_cb_int))"

definition db_setUserType :: "int \<Rightarrow> int \<Rightarrow> dbreq" where
  "db_setUserType uid ty = DbQuery (mk_query False None None
    (''UPDATE `users` SET type='%d' WHERE uid='%d''
     @ squote)
    [AI ty, AI uid]
    None (Some Zrpcdb_cb_exec))"

definition db_getUserType :: "int \<Rightarrow> dbreq" where
  "db_getUserType uid = DbQuery (QIA
    (''SELECT type FROM `users` WHERE uid = '%d''
     @ squote)
    [AI uid])"

definition db_getUsername :: "int \<Rightarrow> dbreq" where
  "db_getUsername uid = DbQuery (QSA
    (''SELECT username FROM `users` WHERE uid='%d''
     @ squote)
    [AI uid])"

definition db_getSessionsByUID :: "int \<Rightarrow> dbreq" where
  "db_getSessionsByUID uid = DbQuery (QISA
    (''SELECT session_id FROM `sessions` WHERE uid='%d''
     @ squote)
    [AI uid])"

definition db_isVMowner :: "cstr \<Rightarrow> int \<Rightarrow> dbreq" where
  "db_isVMowner uuid uid = DbQuery (mk_query True (Some None) (Some DUMMY_esql)
    (''SELECT vms.uuid, ownershipvm.privileges FROM ownershipvm, vms''
     @ '' WHERE vms.id=ownershipvm.vm''
     @ '' AND ownershipvm.privileges != 4''
     @ '' AND ownershipvm.uid='%d' AND vms.uuid='%s''
     @ squote)
    [AI uid, AS uuid]
    None (Some Zrpcdb_cb_bool))"

definition db_isNODEowner :: "cstr \<Rightarrow> int \<Rightarrow> dbreq" where
  "db_isNODEowner uuid uid = DbQuery (mk_query True (Some None) (Some DUMMY_esql)
    (''SELECT nodes.uuid, ownershipnode.privileges FROM ownershipnode, nodes''
     @ '' WHERE nodes.id=ownershipnode.node''
     @ '' AND ownershipnode.privileges != 4''
     @ '' AND ownershipnode.uid='%d' AND nodes.uuid='%s''
     @ squote)
    [AI uid, AS uuid]
    None (Some Zrpcdb_cb_bool))"

definition db_setUserAttribute :: "int \<Rightarrow> cstr \<Rightarrow> cstr \<Rightarrow> dbreq" where
  "db_setUserAttribute uid attribute value = DbQuery (QE
    (''UPDATE `users` SET `%s` = '%s' WHERE uid='%d''
     @ squote)
    [AS attribute, AS value, AI uid])"

definition db_isActive :: "int \<Rightarrow> dbreq" where
  "db_isActive uid = DbQuery (QBA
    (''SELECT active FROM `users` WHERE uid='%d''
     @ squote)
    [AI uid])"

definition db_removeUser :: "int \<Rightarrow> dbreq" where
  "db_removeUser uid = DbQuery (QE
    (''DELETE FROM `users` WHERE uid='%d''
     @ squote)
    [AI uid])"

definition db_setPassword :: "int \<Rightarrow> cstr \<Rightarrow> cstr \<Rightarrow> dbreq" where
  "db_setPassword uid hash salt = DbQuery (QE
    (''UPDATE `users` SET `salt` = '%s', `hash` = '%s''
     @ squote
     @ '' WHERE `uid` = '%d''
     @ squote)
    [AS salt, AS hash, AI uid])"

definition db_modifyUser :: "int \<Rightarrow> user \<Rightarrow> dbreq" where
  "db_modifyUser uid u = DbQuery (QE
    (''UPDATE `users` ''
     @ ''SET `username`='%s', `givenname`='%s', `active`='%d', `type`='%d', `lang`=''
     @ ''(SELECT id FROM languages WHERE language='%s'), ''
     @ ''`email`='%s' ''
     @ ''WHERE `uid`='%d' ''
     @ ''AND languages.language='%s''
     @ squote)
    [AS (Some (u_username u)), AS (u_givenname u), AI (u_active u), AI (u_type u),
         AS (u_language u), AS (Some (u_email u)), AI uid])"

definition db_isUserName :: "cstr \<Rightarrow> dbreq" where
  "db_isUserName nm = DbQuery (QBA
    (''SELECT uid FROM `users` WHERE username = '%s''
     @ squote)
    [AS nm])"

definition db_getUserUID :: "cstr \<Rightarrow> dbreq" where
  "db_getUserUID nm = DbQuery (mk_query True None (Some Esql_res_to_lli)
    (''SELECT uid FROM `users` WHERE username='%s''
     @ squote)
    [AS nm]
    None (Some Zrpcdb_cb_int))"

definition db_getActiveUserUID :: "cstr \<Rightarrow> dbreq" where
  "db_getActiveUserUID nm = DbQuery (mk_query True None (Some Esql_res_to_lli)
    (''SELECT uid FROM `users` WHERE active='1' AND username='%s''
     @ squote)
    [AS nm]
    None (Some Zrpcdb_cb_int))"

definition db_getUserTypeByName :: "cstr \<Rightarrow> dbreq" where
  "db_getUserTypeByName nm = DbQuery (QIA
    (''SELECT type FROM `users` WHERE username = '%s''
     @ squote)
    [AS nm])"

definition db_getUserByName :: "cstr \<Rightarrow> dbreq" where
  "db_getUserByName nm = DbQuery (mk_query False None (Some USER_esql)
    (''SELECT * FROM `users` WHERE username = '%s''
     @ squote)
    [AS nm]
    (Some (Some USER_free)) (Some Zrpcdb_cb_ptr))"

definition db_getSessionsByName :: "cstr \<Rightarrow> dbreq" where
  "db_getSessionsByName nm = DbQuery (QSSA
    (''SELECT session_id FROM `sessions` ''
     @ ''LEFT JOIN users ON sessions.uid=users.uid ''
     @ ''WHERE users.username='%s''
     @ squote)
    [AS nm])"

definition db_isVMownerByName :: "cstr \<Rightarrow> cstr \<Rightarrow> dbreq" where
  "db_isVMownerByName uuid nm = DbQuery (QBA
    (''SELECT uuid, ownershipvm.privileges FROM vms ''
     @ ''LEFT JOIN ownershipvm ON vms.id=ownershipvm.vm ''
     @ ''LEFT JOIN users ON ownershipvm.uid=users.uid ''
     @ ''WHERE users.username='%s' ''
     @ ''AND ownershipvm.privileges != 4 ''
     @ ''AND vms.uuid='%s''
     @ squote)
    [AS nm, AS uuid])"

definition db_isNODEownerByName :: "cstr \<Rightarrow> cstr \<Rightarrow> dbreq" where
  "db_isNODEownerByName uuid nm = DbQuery (QBA
    (''SELECT uuid, ownershipnode.privileges FROM nodes ''
     @ ''LEFT JOIN ownershipnode ON nodes.id=ownershipnode.node ''
     @ ''LEFT JOIN users ON ownershipnode.uid=users.uid ''
     @ ''WHERE users.username='%s' ''
     @ ''AND ownershipnode.privileges != 4 ''
     @ ''AND nodes.uuid='%s''
     @ squote)
    [AS nm, AS uuid])"

definition db_setUserAttributeByName :: "cstr \<Rightarrow> cstr \<Rightarrow> cstr \<Rightarrow> dbreq" where
  "db_setUserAttributeByName nm attribute value = DbQuery (QE
    (''UPDATE `users` SET `%s` = '%s' WHERE username='%s''
     @ squote)
    [AS attribute, AS value, AS nm])"

definition db_isActiveByName :: "cstr \<Rightarrow> dbreq" where
  "db_isActiveByName nm = DbQuery (QIA
    (''SELECT uid FROM `users` WHERE username='%s''
     @ squote)
    [AS nm])"

definition db_removeUserByName :: "cstr \<Rightarrow> dbreq" where
  "db_removeUserByName nm = DbQuery (QE
    (''DELETE FROM `users` WHERE username='%s''
     @ squote)
    [AS nm])"

definition db_setPasswordByName :: "cstr \<Rightarrow> cstr \<Rightarrow> cstr \<Rightarrow> dbreq" where
  "db_setPasswordByName nm hash salt = DbQuery (QE
    (''UPDATE `users` SET `salt` = '%s', `hash` = '%s''
     @ squote
     @ '' WHERE username='%s''
     @ squote)
    [AS salt, AS hash, AS nm])"

definition db_modifyUserByName :: "cstr \<Rightarrow> user \<Rightarrow> dbreq" where
  "db_modifyUserByName nm u = DbQuery (QE
    (''UPDATE `users` ''
     @ ''JOIN languages ON users.lang=languages.id ''
     @ ''SET `username`='%s', `givenname`='%s', `active`='%d', `type`='%d', `lang`=languages.id, ''
     @ ''`email`='%s''
     @ squote
     @ ''WHERE `name`='%s' ''
     @ ''AND languages.name='%s''
     @ squote)
    [AS (Some (u_username u)), AS (u_givenname u), AI (u_active u), AI (u_type u),
         AS (Some (u_email u)), AS nm, AS (u_language u)])"

definition db_getLanguages :: "dbreq" where
  "db_getLanguages = DbQuery (mk_query False None (Some Array_string_esql)
    ''SELECT `language` FROM `languages`''
    []
    (Some (Some Array_string_free)) (Some Zrpcdb_cb_ptr))"

definition db_getLanguageIds :: "dbreq" where
  "db_getLanguageIds = DbQuery (mk_query False None (Some Array_int_esql)
    ''SELECT `id` FROM `languages`''
    []
    (Some (Some Eina_list_free)) (Some Zrpcdb_cb_ptr))"

definition db_getLanguageCode :: "int \<Rightarrow> dbreq" where
  "db_getLanguageCode ident = DbQuery (mk_query True None (Some Esql_res_to_string)
    (''SELECT language FROM `languages` WHERE id='%d''
     @ squote)
    [AI ident]
    (Some (Some Eina_stringshare_del)) (Some Zrpcdb_cb_ptr))"

definition db_getLanguageId :: "cstr \<Rightarrow> dbreq" where
  "db_getLanguageId lang = DbQuery (mk_query True None (Some Esql_res_to_lli)
    (''SELECT id FROM `languages` WHERE language='%s''
     @ squote)
    [AS lang]
    None (Some Zrpcdb_cb_int))"

definition db_addUser :: "user \<Rightarrow> dbreq" where
  "db_addUser user = DbQuery (QE
    (''INSERT INTO `users` ( username, givenname, email, active, type)''
     @ '' VALUES ('%s', '%s', '%s', '%d', '%d')'')
    [AS (Some (u_username user)), AS (u_givenname user), AS (Some (u_email user)),
         AI (u_active user), AI (u_type user)])"

definition db_getUserCount :: "dbreq" where
  "db_getUserCount = DbQuery (QIS
    ''SELECT COUNT(uid) FROM `users`'')"

text \<open>The privilege tables: the resource kind is 0 for a node and 1 for a virtual machine.\<close>

definition priv_type :: "int \<Rightarrow> string option" where
  "priv_type node_vm = (if node_vm = 0 then Some ''node'' else if node_vm = 1 then Some ''vm'' else None)"

definition db_getPrivilege :: "cstr \<Rightarrow> int \<Rightarrow> int \<Rightarrow> int \<Rightarrow> dbreq" where
  "db_getPrivilege uuid uid gid node_vm =
     (case priv_type node_vm of
        None \<Rightarrow> DbReject (Some INVALID_PARAMETER)
      | Some t \<Rightarrow> (let t = AS (Some t) in DbQuery (QIA
          (''SELECT `privileges` FROM `ownership%s` ''
           @ ''LEFT JOIN %ss ON ownership%s.%s=%ss.id ''
           @ ''WHERE %ss.uuid='%s' ''
           @ ''AND `uid`='%d' ''
           @ ''AND `gid`='%d'' @ squote)
          [t, t, t, t, t, t, AS uuid, AI uid, AI gid])))"

definition db_grantPrivilege :: "cstr \<Rightarrow> int \<Rightarrow> int \<Rightarrow> int \<Rightarrow> int \<Rightarrow> dbreq" where
  "db_grantPrivilege uuid uid gid level node_vm =
     (case priv_type node_vm of
        None \<Rightarrow> DbReject (Some INVALID_PARAMETER)
      | Some t \<Rightarrow> (let t = AS (Some t) in DbQuery (QE
          (''INSERT INTO `ownership%s` ( %s, uid, gid, privileges)''
           @ '' VALUES (''
           @ [CHR 0x09] @ ''(SELECT `id` FROM `%ss` WHERE uuid='%s'), '%d', '%d', '%d')'')
          [t, t, t, AS uuid, AI uid, AI gid, AI level])))"

definition db_revokePrivilege :: "cstr \<Rightarrow> int \<Rightarrow> int \<Rightarrow> int \<Rightarrow> dbreq" where
  "db_revokePrivilege uuid uid gid node_vm =
     (case priv_type node_vm of
        None \<Rightarrow> DbReject (Some INVALID_PARAMETER)
      | Some t \<Rightarrow> (let t = AS (Some t) in DbQuery (QE
          (''USING ownership%s ''
           @ ''LEFT JOIN %ss ON ownership%s.%s=%ss.id ''
           @ ''WHERE %ss.uuid='%s' ''
           @ ''AND uid='%d' ''
           @ ''AND gid='%d'' @ squote)
          [t, t, t, t, t, t, AS uuid, AI uid, AI gid])))"

definition db_getPrivilegeByName :: "cstr \<Rightarrow> cstr \<Rightarrow> int \<Rightarrow> dbreq" where
  "db_getPrivilegeByName uuid name node_vm =
     (case priv_type node_vm of
        None \<Rightarrow> DbReject (Some INVALID_PARAMETER)
      | Some t \<Rightarrow> (let t = AS (Some t) in DbQuery (QIA
          (''SELECT `privileges` FROM `ownership%s` ''
           @ ''JOIN users ON ownership%s.uid=users.uid ''
           @ ''JOIN %ss ON ownership%s.%s=%ss.uuid ''
           @ ''WHERE %ss.uuid='%s' ''
           @ ''AND users.username='%s'' @ squote)
          [t, t, t, t, t, t, t, AS uuid, AS name])))"

definition db_grantPrivilegeByName :: "cstr \<Rightarrow> cstr \<Rightarrow> int \<Rightarrow> int \<Rightarrow> dbreq" where
  "db_grantPrivilegeByName uuid name level node_vm =
     (case priv_type node_vm of
        None \<Rightarrow> DbReject (Some INVALID_PARAMETER)
      | Some t \<Rightarrow> (let t = AS (Some t) in DbQuery (QE
          (''INSERT INTO `ownership%s` ( %s, uid, privileges)''
           @ '' VALUES (''
           @ [CHR 0x09] @ ''(SELECT `id` FROM `%ss` WHERE uuid='%s'), ''
           @ ''(SELECT uid FROM `users` WHERE username='%s') ''
           @ '', '%d')'')
          [t, t, t, AS uuid, AS name, AI level])))"

definition db_revokePrivilegeByName :: "cstr \<Rightarrow> cstr \<Rightarrow> int \<Rightarrow> dbreq" where
  "db_revokePrivilegeByName uuid name node_vm =
     (case priv_type node_vm of
        None \<Rightarrow> DbReject (Some INVALID_PARAMETER)
      | Some t \<Rightarrow> (let t = AS (Some t) in DbQuery (QE
          (''DELETE FROM `ownership%s` ''
           @ ''JOIN users ON ownership%s.uid=users.uid ''
           @ ''JOIN %ss ON ownership%s.%s=%ss.id ''
           @ ''WHERE %ss.uuid='%s' ''
           @ ''AND users.username='%s'' @ squote)
          [t, t, t, t, t, t, t, AS uuid, AS name])))"

text \<open>Lists, paged when both bounds are non-negative.\<close>

definition db_getAllUsers :: "int \<Rightarrow> int \<Rightarrow> dbreq" where
  "db_getAllUsers offset recordcount = DbQuery
     (if offset < 0 \<or> recordcount < 0
      then QUERY False Array_int_esql ''SELECT uid FROM `users`'' []
        (Some (Some Eina_list_free)) (Some Zrpcdb_cb_ptr)
      else QUERY False Array_int_esql ''SELECT uid FROM `users` LIMIT %d, %d''
        [AI offset, AI recordcount] (Some (Some Eina_list_free)) (Some Zrpcdb_cb_ptr))"

definition db_getAllUsersFull :: "int \<Rightarrow> int \<Rightarrow> dbreq" where
  "db_getAllUsersFull offset recordcount = DbQuery
     (if offset < 0 \<or> recordcount < 0
      then QUERY False Array_USER_esql ''SELECT * FROM `users`'' []
        (Some (Some Array_USER_free)) (Some Zrpcdb_cb_ptr)
      else QUERY False Array_USER_esql ''SELECT * FROM `users` LIMIT %d, %d''
        [AI offset, AI recordcount] (Some (Some Array_USER_free)) (Some Zrpcdb_cb_ptr))"

definition db_getAllUsersSorted :: "cstr \<Rightarrow> bool \<Rightarrow> int \<Rightarrow> int \<Rightarrow> dbreq" where
  "db_getAllUsersSorted sortfield desc offset recordcount = DbQuery (QISA
     (''SELECT id FROM `users` '' @ ''ORDER BY `%s` %s %s'')
     [AS sortfield, AS (Some (desc_word desc)), AS (Some (limit_clause offset recordcount))])"

definition db_getAllUsersFullSorted :: "cstr \<Rightarrow> bool \<Rightarrow> int \<Rightarrow> int \<Rightarrow> dbreq" where
  "db_getAllUsersFullSorted sortfield desc offset recordcount = DbQuery (QUERY False Array_USER_esql
     (''SELECT * FROM `users` '' @ ''ORDER BY `%s` %s %s'')
     [AS sortfield, AS (Some (desc_word desc)), AS (Some (limit_clause offset recordcount))]
     (Some (Some Array_USER_free)) None)"

subsection \<open>All requests of the module\<close>

lemmas user_request_defs = db_getUser_def db_isUserUID_def db_setUserType_def db_getUserType_def db_getUsername_def
  db_getSessionsByUID_def db_isVMowner_def db_isNODEowner_def db_isActive_def db_removeUser_def
  db_setPassword_def db_isUserName_def db_getUserUID_def db_getActiveUserUID_def
  db_getUserTypeByName_def db_getUserByName_def db_getSessionsByName_def db_isVMownerByName_def
  db_isNODEownerByName_def db_isActiveByName_def db_removeUserByName_def db_setPasswordByName_def
  db_modifyUserByName_def db_getLanguages_def db_getLanguageIds_def db_getLanguageCode_def
  db_getLanguageId_def db_addUser_def db_getUserCount_def db_getAllUsers_def db_getAllUsersFull_def
  db_setUserAttribute_def db_setUserAttributeByName_def db_getPrivilege_def db_grantPrivilege_def
  db_revokePrivilege_def db_getPrivilegeByName_def db_grantPrivilegeByName_def
  db_revokePrivilegeByName_def db_getAllUsersSorted_def db_getAllUsersFullSorted_def

text \<open>The requests whose text arguments are all quoted.\<close>

definition user_requests :: "dbreq set" where
  "user_requests =
     range db_getUser \<union> range db_isUserUID
     \<union> range (\<lambda>(uid, ty). db_setUserType uid ty) \<union> range db_getUserType
     \<union> range db_getUsername \<union> range db_getSessionsByUID
     \<union> range (\<lambda>(uuid, uid). db_isVMowner uuid uid)
     \<union> range (\<lambda>(uuid, uid). db_isNODEowner uuid uid) \<union> range db_isActive
     \<union> range db_removeUser
     \<union> range (\<lambda>(uid, hash, salt). db_setPassword uid hash salt)
     \<union> range db_isUserName \<union> range db_getUserUID \<union> range db_getActiveUserUID
     \<union> range db_getUserTypeByName \<union> range db_getUserByName
     \<union> range db_getSessionsByName \<union> range (\<lambda>(uuid, nm). db_isVMownerByName uuid nm)
     \<union> range (\<lambda>(uuid, nm). db_isNODEownerByName uuid nm) \<union> range db_isActiveByName
     \<union> range db_removeUserByName
     \<union> range (\<lambda>(nm, hash, salt). db_setPasswordByName nm hash salt)
     \<union> range (\<lambda>(nm, u). db_modifyUserByName nm u) \<union> {db_getLanguages}
     \<union> {db_getLanguageIds} \<union> range db_getLanguageCode \<union> range db_getLanguageId
     \<union> range db_addUser \<union> {db_getUserCount}
     \<union> range (\<lambda>(offset, recordcount). db_getAllUsers offset recordcount)
     \<union> range (\<lambda>(offset, recordcount). db_getAllUsersFull offset recordcount)"

text \<open>The other well-formed requests: a name of a column or a clause is spliced in.\<close>

definition user_unquoted :: "dbreq set" where
  "user_unquoted =
     range (\<lambda>(uid, attribute, value). db_setUserAttribute uid attribute value)
     \<union> range (\<lambda>(nm, attribute, value). db_setUserAttributeByName nm attribute value)
     \<union> range (\<lambda>(uuid, uid, gid, node_vm). db_getPrivilege uuid uid gid node_vm)
     \<union> range (\<lambda>(uuid, uid, gid, level, node_vm). db_grantPrivilege uuid uid gid level node_vm)
     \<union> range (\<lambda>(uuid, uid, gid, node_vm). db_revokePrivilege uuid uid gid node_vm)
     \<union> range (\<lambda>(uuid, name, node_vm). db_getPrivilegeByName uuid name node_vm)
     \<union> range (\<lambda>(uuid, name, level, node_vm). db_grantPrivilegeByName uuid name level node_vm)
     \<union> range (\<lambda>(uuid, name, node_vm). db_revokePrivilegeByName uuid name node_vm)
     \<union> range (\<lambda>(sortfield, desc, offset, recordcount). db_getAllUsersSorted sortfield desc offset recordcount)
     \<union> range (\<lambda>(sortfield, desc, offset, recordcount). db_getAllUsersFullSorted sortfield desc offset recordcount)"

lemma user_requests_ok_1:
  "range db_getUser \<union> range db_isUserUID
     \<union> range (\<lambda>(uid, ty). db_setUserType uid ty) \<union> range db_getUserType
     \<union> range db_getUsername \<union> range db_getSessionsByUID
     \<union> range (\<lambda>(uuid, uid). db_isVMowner uuid uid)
     \<union> range (\<lambda>(uuid, uid). db_isNODEowner uuid uid) \<union> range db_isActive
     \<union> range db_removeUser
     \<union> range (\<lambda>(uid, hash, salt). db_setPassword uid hash salt)
     \<union> range db_isUserName
     \<subseteq> {r. req_ok r \<and> req_quoted r}"
  unfolding user_request_defs query_forms Let_def
  by (intro Un_least; clarsimp simp: req_evals simp del: req_ok.simps(2) req_quoted.simps(2) split: option.splits cong: req_weak_congs)

lemma user_requests_ok_2:
  "range db_getUserUID \<union> range db_getActiveUserUID \<union> range db_getUserTypeByName
     \<union> range db_getUserByName \<union> range db_getSessionsByName
     \<union> range (\<lambda>(uuid, nm). db_isVMownerByName uuid nm)
     \<union> range (\<lambda>(uuid, nm). db_isNODEownerByName uuid nm) \<union> range db_isActiveByName
     \<union> range db_removeUserByName
     \<union> range (\<lambda>(nm, hash, salt). db_setPasswordByName nm hash salt)
     \<union> range (\<lambda>(nm, u). db_modifyUserByName nm u) \<union> {db_getLanguages}
     \<subseteq> {r. req_ok r \<and> req_quoted r}"
  unfolding user_request_defs query_forms Let_def
  by (intro Un_least; clarsimp simp: req_evals simp del: req_ok.simps(2) req_quoted.simps(2) split: option.splits cong: req_weak_congs)

lemma user_requests_ok_3:
  "{db_getLanguageIds} \<union> range db_getLanguageCode \<union> range db_getLanguageId
     \<union> range db_addUser \<union> {db_getUserCount}
     \<union> range (\<lambda>(offset, recordcount). db_getAllUsers offset recordcount)
     \<union> range (\<lambda>(offset, recordcount). db_getAllUsersFull offset recordcount)
     \<subseteq> {r. req_ok r \<and> req_quoted r}"
  unfolding user_request_defs query_forms Let_def
  by (intro Un_least; clarsimp simp: req_evals simp del: req_ok.simps(2) req_quoted.simps(2) split: option.splits cong: req_weak_congs)

lemma user_requests_ok: "user_requests \<subseteq> {r. req_ok r \<and> req_quoted r}"
  unfolding user_requests_def
  using user_requests_ok_1 user_requests_ok_2 user_requests_ok_3
  by (simp only: Un_subset_iff simp_thms)

lemma user_unquoted_ok: "user_unquoted \<subseteq> {r. req_ok r}"
  unfolding user_unquoted_def user_request_defs query_forms Let_def
  by (intro Un_least; clarsimp simp: req_evals simp del: req_ok.simps(2) req_quoted.simps(2) split: option.splits cong: req_weak_congs)

end
