(* ===== verification/Sql_Device.thy ===== *)
theory Sql_Device
  imports SqlFmt
begin

text \<open>
  The queries on network interfaces and disks of virtual machines: zrpcdb_vif.c and
  zrpcdb_disk.c.
\<close>

subsection \<open>db_sources/mysql/zrpcdb_vif.c\<close>

definition db_isNetIfByMAC :: "cstr \<Rightarrow> dbreq" where
  "db_isNetIfByMAC mac = DbQuery (QIAB
    (''SELECT id FROM `vifs` WHERE mac='%s''
     @ squote)
    [AS mac])"

definition db_isNetIf :: "cstr \<Rightarrow> cstr \<Rightarrow> dbreq" where
  "db_isNetIf uuid mac = DbQuery (QIAB
    (''SELECT id FROM `vifs` ''
     @ ''JOIN vifconfig ON vifs.id=vifconfig.vif ''
     @ ''WHERE vifconfig.mac='%s' ''
     @ ''AND uuid='%s''
     @ squote)
    [AS mac, AS uuid])"

definition db_createNetIf :: "cstr \<Rightarrow> cstr \<Rightarrow> dbreq" where
  "db_createNetIf uuid mac = DbQuery (QEE
    ''INSERT INTO `vifs` (uuid, mac) VALUES ('%s','%s')''
    [AS uuid, AS mac])"

definition db_getNumVMvifs :: "cstr \<Rightarrow> dbreq" where
  "db_getNumVMvifs uuid = DbQuery (QIA
    (''SELECT COUNT(id) FROM `vifs` WHERE vifs.uuid='%s''
     @ squote)
    [AS uuid])"

definition db_updateNetIfStats :: "cstr \<Rightarrow> netif \<Rightarrow> dbreq" where
  "db_updateNetIfStats uuid vif = DbQuery (QE
    (''INSERT INTO `vifstats` (vif, rxpackets, rxbytes, rxdrop, rxerr,''
     @ [CHR 0x09]
     @ ''txpackets, txbytes, txdrop, txerr)''
     @ '' VALUES (''
     @ ''(SELECT id FROM `vifs`, `vifconfig` WHERE''
     @ '' vifs.uuid='%s' AND''
     @ '' vifs.id=vifconfig.vif AND''
     @ '' vifconfig.mac='%s''
     @ squote
     @ '' ORDER BY vifconfig.revision DESC LIMIT 1),''
     @ ''       '%lf', '%lf', '%lf', '%lf', '%lf', '%lf', '%lf', '%lf''
     @ squote
     @ '')'')
    [AS uuid, AS (ni_mac vif), AD (ni_rxpackets vif), AD (ni_rxbytes vif), AD (ni_rxdrop vif),
         AD (ni_rxerr vif), AD (ni_txpackets vif), AD (ni_txbytes vif), AD (ni_txdrop vif),
         AD (ni_txerr vif)])"

definition db_getVMvifByMac :: "cstr \<Rightarrow> cstr \<Rightarrow> dbreq" where
  "db_getVMvifByMac uuid mac = DbQuery (mk_query False None (Some (Row_esql T_NETIF))
    (''SELECT * FROM vifconfig''
     @ '' RIGHT JOIN vifs ON vifs.id=vifconfig.vif''
     @ '' WHERE vifs.uuid='%s' AND vifconfig.mac`='%s''
     @ squote
     @ '' ORDER BY vifconfig.revision DESC LIMIT 1'')
    [AS uuid, AS mac]
    (Some (Some (Row_free T_NETIF))) None)"

definition db_getVMvifsByNetwork :: "int \<Rightarrow> dbreq" where
  "db_getVMvifsByNetwork nwid = DbQuery (mk_query False None (Some (Rows_esql T_NETIF))
    (''SELECT * FROM vifconfig ''
     @ ''RIGHT JOIN vifs ON vifs.id=vifconfig.vif ''
     @ ''WHERE vifconfig.revision=''
     @ ''(SELECT revision FROM `vifconfig` ''
     @ ''RIGHT JOIN `vifs` ON vifconfig.vif=vifs.id ''
     @ ''ORDER BY vifconfig.timestamp DESC LIMIT 1) ''
     @ ''ORDER BY vifs.uuid ASC'')
    [AI nwid]
    (Some (Some (Rows_free T_NETIF))) None)"

definition db_updateNetIfConfig :: "cstr \<Rightarrow> int \<Rightarrow> netif \<Rightarrow> dbreq" where
  "db_updateNetIfConfig uuid nextrevision vif = DbQuery (QE
    (''INSERT INTO `vifconfig`''
     @ '' (vif, revision, type, mac, bridge, name, script, ip, netmask, gateway, broadcast, mtu)''
     @ '' VALUES (''
     @ ''       (SELECT id FROM `vifs` WHERE uuid='%s' AND mac='%s'),''
     @ ''       '%d',''
     @ [CHR 0x09]
     @ '''%s', '%s', '%s', '%s', '%s',''
     @ [CHR 0x09]
     @ '''%s', '%s', '%s', '%s', '%d''
     @ squote
     @ '')'')
    [AS uuid, AS (ni_mac vif), AI nextrevision, AS (ni_type vif), AS (ni_mac vif),
         AS (ni_bridge vif), AS (ni_name vif), AS (ni_script vif), AS (ni_ip vif), AS (ni_netmask vif),
         AS (ni_gateway vif), AS (ni_broadcast vif), AI (ni_mtu vif)])"

definition db_pruneNetIfStats :: "cstr \<Rightarrow> cstr \<Rightarrow> dbreq" where
  "db_pruneNetIfStats uuid mac = DbQuery (QE
    (''DELETE FROM `vifstats` ''
     @ ''JOIN vifs ON vifstats.vif=vifs.id ''
     @ ''WHERE timestamp < DATE_SUB(CURDATE(), ''
     @ ''INTERVAL IFNULL(''
     @ ''(SELECT value FROM `config` WHERE `key`='stat_retention''
     @ squote
     @ '' AND `subsystem`='zrpc' AND `mid`='-1''
     @ squote
     @ '' AND `uid`='-1' AND `gid`='-1' AND `vgid`='-1''
     @ squote
     @ '' AND `ngid`='-1' AND `vm`='-1' AND `node`='-1''
     @ squote
     @ '' AND `platform`='-1'), 31) HOUR) ''
     @ ''AND vifs.uuid='%s' AND vifconfig.mac='%s''
     @ squote)
    [AS uuid, AS mac, AS uuid, AS mac])"

definition db_isNetIfInUse :: "cstr \<Rightarrow> cstr \<Rightarrow> dbreq" where
  "db_isNetIfInUse uuid mac = DbQuery (QIAB
    (''SELECT nwid from vifs WHERE AND mac='%s' and uuid='%s''
     @ squote)
    [AS mac, AS uuid])"

subsection \<open>db_sources/mysql/zrpcdb_disk.c\<close>

definition db_isDisk :: "cstr \<Rightarrow> cstr \<Rightarrow> dbreq" where
  "db_isDisk uuid ext_dev = DbQuery (QIAB
    (''SELECT id FROM `disks` WHERE path='%s' AND uuid='%s''
     @ squote)
    [AS ext_dev, AS uuid])"

definition db_createDisk :: "cstr \<Rightarrow> cstr \<Rightarrow> int \<Rightarrow> dbreq" where
  "db_createDisk uuid path storid = DbQuery (QEE
    ''INSERT INTO `disks` (uuid, path, storid) VALUES ('%s', '%s', '%d')''
    [AS uuid, AS path, AI storid])"

definition db_getNumVMdisks :: "cstr \<Rightarrow> dbreq" where
  "db_getNumVMdisks uuid = DbQuery (QIA
    (''SELECT COUNT(id) FROM `disks` WHERE disks.uuid='%s''
     @ squote)
    [AS uuid])"

definition db_getDisksByStorage :: "int \<Rightarrow> dbreq" where
  "db_getDisksByStorage storid = DbQuery (mk_query False None (Some (Rows_esql T_DISK))
    (''SELECT * FROM disks ''
     @ ''LEFT JOIN diskconfig ON disks.id=diskconfig.disk ''
     @ ''WHERE storid='%d' ''
     @ ''AND diskconfig.revision=(SELECT revision FROM diskconfig ORDER BY timestamp DESC LIMIT 1) ''
     @ ''GROUP BY diskconfig.disk'')
    [AI storid]
    (Some (Some (Rows_free T_DISK))) None)"

definition db_getVMdisksByStorage :: "cstr \<Rightarrow> int \<Rightarrow> dbreq" where
  "db_getVMdisksByStorage uuid storid = DbQuery (mk_query False None (Some (Rows_esql T_DISK))
    (''SELECT * FROM diskconfig ''
     @ ''RIGHT JOIN disks ON disks.id=diskconfig.disk ''
     @ ''WHERE disks.uuid='%s' AND diskconfig.revision= ''
     @ ''(SELECT revision FROM diskconfig ''
     @ ''RIGHT JOIN disks ON diskconfig.disk=disks.id ''
     @ ''WHERE disks.uuid='%s' ''
     @ ''ORDER BY diskconfig.timestamp DESC LIMIT 1) ''
     @ ''AND disks.storid='%i' ''
     @ ''ORDER BY diskconfig.timestamp DESC'')
    [AI storid, AS uuid, AS uuid]
    (Some (Some (Rows_free T_DISK))) None)"

definition db_getVmDisk :: "cstr \<Rightarrow> cstr \<Rightarrow> dbreq" where
  "db_getVmDisk uuid path = DbQuery (mk_query False None (Some (Rows_esql T_DISK))
    (''SELECT * FROM diskconfig''
     @ '' RIGHT JOIN disks ON disks.id=diskconfig.disk''
     @ '' WHERE disks.uuid='%s' AND diskconfig.ext_dev='%s''
     @ squote
     @ '' ORDER BY diskconfig.revision DESC'')
    [AS uuid, AS path]
    (Some (Some (Rows_free T_DISK))) None)"

definition db_updateDiskConfig :: "cstr \<Rightarrow> int \<Rightarrow> disk \<Rightarrow> dbreq" where
  "db_updateDiskConfig uuid revn disk = DbQuery (QE
    (''INSERT INTO `diskconfig`''
     @ ''  (disk, revision, type, mode, int_dev, ext_dev, mapped_dev, partition_type, num_sectors, start_sector, size_sector, block_size, capacity)''
     @ '' VALUES (''
     @ ''  (SELECT id FROM `disks` WHERE uuid='%s' and path='%s'),''
     @ ''  '%d',''
     @ ''  '%s', '%s', '%s', '%s', '%s', '%s',''
     @ ''  '%lf', '%lf', '%d', '%d', '%f''
     @ squote
     @ '' )'')
    [AS uuid, AS (d_ext_dev disk), AI revn, AS (d_type disk), AS (d_mode disk), AS (d_int_dev disk),
         AS (d_ext_dev disk), AS (d_mapped_dev disk), AS (d_partition_type disk),
         AD (d_num_sectors disk), AD (d_start_sector disk), AI (d_size_sector disk),
         AI (d_block_size disk), AD (d_capacity disk)])"

definition db_updateDiskStats :: "cstr \<Rightarrow> disk \<Rightarrow> dbreq" where
  "db_updateDiskStats uuid disk = DbQuery (QE
    (''INSERT INTO `diskstats`''
     @ '' (disk, ooreq, rdreq, wrreq)''
     @ '' VALUES (''
     @ ''( SELECT disks.id FROM `disks`, `diskconfig` WHERE''
     @ '' disks.uuid='%s' AND''
     @ '' disks.id=diskconfig.disk AND''
     @ '' diskconfig.ext_dev = '%s''
     @ squote
     @ '' ORDER BY diskconfig.timestamp DESC LIMIT 1),''
     @ ''       '%lf', '%lf', '%lf''
     @ squote
     @ '')'')
    [AS uuid, AS (d_ext_dev disk), AD (d_ooreq disk), AD (d_rdreq disk), AD (d_wrreq disk)])"

definition db_pruneDiskStats :: "cstr \<Rightarrow> cstr \<Rightarrow> dbreq" where
  "db_pruneDiskStats uuid extdev = DbQuery (QE
    (''DELETE FROM diskstats ''
     @ ''JOIN disks ON diskstats.disk=disks.id ''
     @ ''JOIN diskconfig ON diskstats.disk=diskconfig.disk ''
     @ ''WHERE timestamp < DATE_SUB(CURDATE(), ''
     @ ''INTERVAL IFNULL(''
     @ ''(SELECT value FROM `config` WHERE `key`='stat_retention''
     @ squote
     @ '' AND `subsystem`='zrpc' AND `mid`='-1''
     @ squote
     @ '' AND `uid`='-1' AND `gid`='-1' AND `vgid`='-1''
     @ squote
     @ '' AND `ngid`='-1' AND `vm`='-1' AND `node`='-1''
     @ squote
     @ '' AND `platform`='-1'), 31) HOUR) ''
     @ ''AND disks.uuid='%s' ''
     @ ''AND diskconfig.ext_dev='%s' ''
     @ ''ORDER BY diskconfig.timestamp DESC LIMIT 1'')
    [AS uuid, AS extdev])"

definition db_isDiskInUse :: "int \<Rightarrow> cstr \<Rightarrow> dbreq" where
  "db_isDiskInUse storid path = DbQuery (QIA
    (''SELECT storid FROM disks WHERE path='%s' AND storid='%d''
     @ squote)
    [AS path, AI storid])"

definition db_getDiskByStorage :: "int \<Rightarrow> cstr \<Rightarrow> dbreq" where
  "db_getDiskByStorage storid path = DbQuery (mk_query False None (Some (Row_esql T_DISK))
    (''SELECT * FROM diskconfig''
     @ ''RIGHT JOIN disks ON disks.id=diskconfig.disk ''
     @ ''WHERE disks.storid='%d' AND diskconfig.ext_dev='%s' ''
     @ ''AND diskconfig.revision=(SELECT revision FROM diskconfig ORDER BY timestamp DESC LIMIT 1) ''
     @ ''GROUP BY diskconfig.disk'')
    [AI storid, AS path]
    (Some (Some (Row_free T_DISK))) None)"

definition db_getVmByDisk :: "int \<Rightarrow> cstr \<Rightarrow> dbreq" where
  "db_getVmByDisk storid path = DbQuery (QSA
    (''SELECT disks.uuid FROM disks ''
     @ ''RIGHT JOIN diskconfig ON disks.id=diskconfig.disk ''
     @ ''WHERE disks.storid='%d' AND diskconfig.ext_dev='%s' ''
     @ ''AND diskconfig.revision=(SELECT revision FROM diskconfig ORDER BY timestamp DESC LIMIT 1) ''
     @ ''GROUP BY diskconfig.disk'')
    [AI storid, AS path])"

text \<open>The interfaces and disks of a machine, of the latest revision or of a given one.\<close>

definition db_getvmvifs :: "cstr \<Rightarrow> int \<Rightarrow> dbreq" where
  "db_getvmvifs uuid revn = DbQuery
     (if revn < 0
      then mk_query False None (Some (Rows_esql T_NETIF))
        (''SELECT * FROM vifconfig ''
         @ ''RIGHT JOIN vifs ON vifs.id=vifconfig.vif ''
         @ ''WHERE vifs.uuid='%s' AND vifconfig.revision=''
         @ ''(SELECT revision FROM `vifconfig` ''
         @ ''RIGHT JOIN `vifs` ON vifconfig.vif=vifs.id ''
         @ ''WHERE vifs.uuid='%s' ''
         @ ''ORDER BY vifconfig.timestamp DESC LIMIT 1) ''
         @ ''ORDER BY vifconfig.revision DESC'')
        [AS uuid, AS uuid] (Some (Some (Rows_free T_NETIF))) None
      else mk_query False None (Some (Rows_esql T_NETIF))
        (''SELECT * FROM vifconfig ''
         @ ''RIGHT JOIN vifs ON vifs.id=vifconfig.vif ''
         @ ''WHERE vifs.uuid='%s' AND vifconfig.revision='%i'' @ squote)
        [AS uuid, AI revn] (Some (Some (Rows_free T_NETIF))) None)"

definition db_getVMvifs :: "cstr \<Rightarrow> dbreq" where
  "db_getVMvifs uuid = db_getvmvifs uuid (-1)"

definition db_getvmdisks :: "cstr \<Rightarrow> int \<Rightarrow> dbreq" where
  "db_getvmdisks uuid revn = DbQuery
     (if revn < 0
      then mk_query False None (Some (Rows_esql T_DISK))
        (''SELECT * FROM diskconfig ''
         @ ''RIGHT JOIN disks ON disks.id=diskconfig.disk ''
         @ ''WHERE disks.uuid='%s' AND diskconfig.revision= ''
         @ ''(SELECT revision FROM diskconfig ''
         @ ''RIGHT JOIN disks ON diskconfig.disk=disks.id ''
         @ ''WHERE disks.uuid='%s' ''
         @ ''ORDER BY diskconfig.timestamp DESC LIMIT 1) ''
         @ ''ORDER BY diskconfig.timestamp DESC'')
        [AS uuid, AS uuid] (Some (Some (Rows_free T_DISK))) None
      else mk_query False None (Some (Rows_esql T_DISK))
        (''SELECT * FROM diskconfig ''
         @ ''RIGHT JOIN disks ON disks.id=diskconfig.disk ''
         @ ''WHERE disks.uuid='%s' AND diskconfig.revision='%i'' @ squote)
        [AS uuid, AI revn] (Some (Some (Rows_free T_DISK))) None)"

definition db_getVMdisks :: "cstr \<Rightarrow> dbreq" where
  "db_getVMdisks uuid = db_getvmdisks uuid (-1)"

subsection \<open>All requests of the module\<close>

lemmas device_request_defs = db_isNetIfByMAC_def db_isNetIf_def db_createNetIf_def db_getNumVMvifs_def db_updateNetIfStats_def
  db_getVMvifByMac_def db_updateNetIfConfig_def db_isNetIfInUse_def db_isDisk_def db_createDisk_def
  db_getNumVMdisks_def db_getDisksByStorage_def db_getVmDisk_def db_updateDiskConfig_def
  db_updateDiskStats_def db_pruneDiskStats_def db_isDiskInUse_def db_getDiskByStorage_def
  db_getVmByDisk_def db_getvmvifs_def db_getVMvifs_def db_getvmdisks_def db_getVMdisks_def

text \<open>The requests whose text arguments are all quoted.\<close>

definition device_requests :: "dbreq set" where
  "device_requests =
     range db_isNetIfByMAC \<union> range (\<lambda>(uuid, mac). db_isNetIf uuid mac)
     \<union> range (\<lambda>(uuid, mac). db_createNetIf uuid mac) \<union> range db_getNumVMvifs
     \<union> range (\<lambda>(uuid, vif). db_updateNetIfStats uuid vif)
     \<union> range (\<lambda>(uuid, mac). db_getVMvifByMac uuid mac)
     \<union> range (\<lambda>(uuid, nextrevision, vif). db_updateNetIfConfig uuid nextrevision vif)
     \<union> range (\<lambda>(uuid, mac). db_isNetIfInUse uuid mac)
     \<union> range (\<lambda>(uuid, ext_dev). db_isDisk uuid ext_dev)
     \<union> range (\<lambda>(uuid, path, storid). db_createDisk uuid path storid)
     \<union> range db_getNumVMdisks \<union> range db_getDisksByStorage
     \<union> range (\<lambda>(uuid, path). db_getVmDisk uuid path)
     \<union> range (\<lambda>(uuid, revn, disk). db_updateDiskConfig uuid revn disk)
     \<union> range (\<lambda>(uuid, disk). db_updateDiskStats uuid disk)
     \<union> range (\<lambda>(uuid, extdev). db_pruneDiskStats uuid extdev)
     \<union> range (\<lambda>(storid, path). db_isDiskInUse storid path)
     \<union> range (\<lambda>(storid, path). db_getDiskByStorage storid path)
     \<union> range (\<lambda>(storid, path). db_getVmByDisk storid path)
     \<union> range (\<lambda>(uuid, revn). db_getvmvifs uuid revn) \<union> range db_getVMvifs
     \<union> range (\<lambda>(uuid, revn). db_getvmdisks uuid revn) \<union> range db_getVMdisks"

lemma device_requests_ok_1:
  "range db_isNetIfByMAC \<union> range (\<lambda>(uuid, mac). db_isNetIf uuid mac)
     \<union> range (\<lambda>(uuid, mac). db_createNetIf uuid mac) \<union> range db_getNumVMvifs
     \<union> range (\<lambda>(uuid, vif). db_updateNetIfStats uuid vif)
     \<union> range (\<lambda>(uuid, mac). db_getVMvifByMac uuid mac)
     \<union> range (\<lambda>(uuid, nextrevision, vif). db_updateNetIfConfig uuid nextrevision vif)
     \<union> range (\<lambda>(uuid, mac). db_isNetIfInUse uuid mac)
     \<union> range (\<lambda>(uuid, ext_dev). db_isDisk uuid ext_dev)
     \<union> range (\<lambda>(uuid, path, storid). db_createDisk uuid path storid)
     \<union> range db_getNumVMdisks \<union> range db_getDisksByStorage
     \<subseteq> {r. req_ok r \<and> req_quoted r}"
  unfolding device_request_defs query_forms Let_def
  by (intro Un_least; clarsimp simp: req_evals simp del: req_ok.simps(2) req_quoted.simps(2) split: option.splits cong: req_weak_congs)

lemma device_requests_ok_2:
  "range (\<lambda>(uuid, path). db_getVmDisk uuid path)
     \<union> range (\<lambda>(uuid, revn, disk). db_updateDiskConfig uuid revn disk)
     \<union> range (\<lambda>(uuid, disk). db_updateDiskStats uuid disk)
     \<union> range (\<lambda>(uuid, extdev). db_pruneDiskStats uuid extdev)
     \<union> range (\<lambda>(storid, path). db_isDiskInUse storid path)
     \<union> range (\<lambda>(storid, path). db_getDiskByStorage storid path)
     \<union> range (\<lambda>(storid, path). db_getVmByDisk storid path)
     \<union> range (\<lambda>(uuid, revn). db_getvmvifs uuid revn) \<union> range db_getVMvifs
     \<union> range (\<lambda>(uuid, revn). db_getvmdisks uuid revn) \<union> range db_getVMdisks
     \<subseteq> {r. req_ok r \<and> req_quoted r}"
  unfolding device_request_defs query_forms Let_def
  by (intro Un_least; clarsimp simp: req_evals simp del: req_ok.simps(2) req_quoted.simps(2) split: option.splits cong: req_weak_congs)

lemma device_requests_ok: "device_requests \<subseteq> {r. req_ok r \<and> req_quoted r}"
  unfolding device_requests_def
  using device_requests_ok_1 device_requests_ok_2
  by (simp only: Un_subset_iff simp_thms)

end
