(* ===== verification/Zentific.thy ===== *)
theory Zentific
  imports Sql_Config Sql_User Sql_Device
begin

text \<open>
  src/servlets/functions/functions-zentific.c: the servlet functions on the
  configuration table, the plugins and the languages, and the generator of MAC addresses.
  A servlet function takes the module and returns the C function's result with the new
  state; where the C ignores the result, \<open>snd\<close> does.
\<close>

definition z_getOperatingSystems :: "env \<Rightarrow> smod \<Rightarrow> bool \<times> smod" where
  "z_getOperatingSystems e m = CTX_RETURN (db_call e db_getOperatingSystems m)"

definition z_getLanguages :: "env \<Rightarrow> smod \<Rightarrow> bool \<times> smod" where
  "z_getLanguages e m = CTX_RETURN (db_call e db_getLanguages m)"

definition z_getConfigsFull :: "env \<Rightarrow> smod \<Rightarrow> bool \<times> smod" where
  "z_getConfigsFull e m = CTX_RETURN (db_call e db_getConfigsFull m)"

definition z_getAllPlugins :: "env \<Rightarrow> int \<Rightarrow> smod \<Rightarrow> bool \<times> smod" where
  "z_getAllPlugins e which m = CTX_RETURN (db_call e (db_getAllPlugins which) m)"

definition z_getFrontendPlugins :: "env \<Rightarrow> int \<Rightarrow> smod \<Rightarrow> bool \<times> smod" where
  "z_getFrontendPlugins e which m =
     CTX_RETURN (db_call e (db_getFrontendPlugins which) m)"

definition z_modifyPlugin :: "env \<Rightarrow> cstr \<Rightarrow> bool \<Rightarrow> bool \<Rightarrow> bool \<Rightarrow> bool \<Rightarrow> bool \<Rightarrow> smod \<Rightarrow> bool \<times> smod" where
  "z_modifyPlugin e nm enabled xmlrpc frontend scheduler poller m =
     CTX_RETURN (db_call e (db_modifyPlugin nm enabled xmlrpc frontend scheduler poller) m)"

definition z_isFrontendPluginEnabled :: "env \<Rightarrow> cstr \<Rightarrow> smod \<Rightarrow> bool \<times> smod" where
  "z_isFrontendPluginEnabled e nm m =
     CTX_RETURN (db_call e (db_isFrontendPluginEnabled nm) m)"

definition z_getLatestRevision :: "env \<Rightarrow> cstr \<Rightarrow> nat \<Rightarrow> smod \<Rightarrow> bool \<times> smod" where
  "z_getLatestRevision e uuid ty m =
     CTX_RETURN (db_call e (db_getLatestRevision uuid ty) m)"

definition z_getConfig :: "env \<Rightarrow> cstr \<Rightarrow> smod \<Rightarrow> bool \<times> smod" where
  "z_getConfig e key m =
     CTX_RETURN (db_call e (db_getConfigValue key (Some ''zrpc'') (-1) (-1) (-1) (-1) (-1) (-1) (-1) (-1) (-1)) m)"

definition z_setConfig :: "env \<Rightarrow> cstr \<Rightarrow> cstr \<Rightarrow> smod \<Rightarrow> bool \<times> smod" where
  "z_setConfig e key value m =
     CTX_RETURN (db_call e (db_setConfig key value (Some ''zrpc'') (-1) (-1) (-1) (-1) (-1) (-1) (-1) (-1) (-1)) m)"

text \<open>A list of \<open>KEYVALUE\<close>: the loop skips entries without key or value and forgets errors.\<close>

fun setConfigs_loop :: "env \<Rightarrow> (cstr \<times> cstr) list \<Rightarrow> smod \<Rightarrow> smod" where
  "setConfigs_loop e [] m = m"
| "setConfigs_loop e ((key, value) # configs) m =
     (if key = None \<or> value = None then setConfigs_loop e configs m
      else
        (let m = snd (z_setConfig e key value m);
             m = CTX_CB_ADD F_NULL m;
             m = (if c_error m \<noteq> None then m\<lparr>c_error := None\<rparr> else m)
         in setConfigs_loop e configs m))"

definition z_setConfigs :: "env \<Rightarrow> (cstr \<times> cstr) list \<Rightarrow> smod \<Rightarrow> bool \<times> smod" where
  "z_setConfigs e configs m = CTX_RETURN (setConfigs_loop e configs m)"

subsection \<open>MAC addresses\<close>

text \<open>
  \<open>"%2.2x"\<close> of a byte. Six random numbers are drawn and three are printed. The model
  takes the numbers a call of \<open>random\<close> returns from the environment of the step.
\<close>

definition hex_digit :: "nat \<Rightarrow> char" where
  "hex_digit n = ''0123456789abcdef'' ! n"

definition hex2 :: "int \<Rightarrow> string" where
  "hex2 b = [hex_digit (nat b div 16), hex_digit (nat b mod 16)]"

definition mac_string :: "env \<Rightarrow> string" where
  "mac_string e =
     (let mac = map (\<lambda>n. e_random e n mod 256) [0, 1, 2, 3, 4, 5]
      in ''00:16:3e:'' @ hex2 (mac ! 0) @ '':'' @ hex2 (mac ! 1) @ '':'' @ hex2 (mac ! 2))"

definition z_generateMAC :: "env \<Rightarrow> smod \<Rightarrow> bool \<times> smod" where
  "z_generateMAC e m =
     (let ret = mac_string e;
          m = db_call e (db_isNetIfByMAC (Some ret)) m;
          m = CTX_CB_ADD (Acct Zentific_generatemac_cb) m;
          m = CTX_PARAM_ADD (Acct Zentific_generatemac_cb) (VStr ret) m
      in CTX_RETURN m)"

definition zentific_generatemac_cb :: "env \<Rightarrow> val \<Rightarrow> smod \<Rightarrow> smod" where
  "zentific_generatemac_cb e ret m =
     (let m = MARK_CB m;
          (mac, m) = CTX_PARAM_GET (Acct Zentific_generatemac_cb) m
      in if \<not> as_bool ret then
           (let m = (if c_cbs m = [] then AZY_RETVAL mac m else m) in NEXT_CB mac m)
         else
           (case z_generateMAC e m of
              (False, m) \<Rightarrow> NEXT_CB VNull m
            | (True, m) \<Rightarrow> m\<lparr>c_cbs := rotate1 (c_cbs m)\<rparr>))"

text \<open>
  \<open>cleanDB\<close> sends its statements without a callback: nothing is registered under their ids,
  and a refusal goes unnoticed.
\<close>

definition raw_query :: "env \<Rightarrow> string \<Rightarrow> smod \<Rightarrow> smod" where
  "raw_query e s m =
     (let n = m_qid m; m = m\<lparr>m_qid := Suc n\<rparr>
      in if esql_accepts e n then emit (OQuery n (mk_query False None None s [] None None)) m else m)"

definition cleanDB :: "env \<Rightarrow> smod \<Rightarrow> smod" where
  "cleanDB e m =
     fold (raw_query e)
       [''TRUNCATE TABLE vmstats'', ''TRUNCATE TABLE vms'', ''TRUNCATE TABLE vmnotes'', ''TRUNCATE TABLE vmconsolelocks'',
        ''TRUNCATE TABLE vmconfig'', ''TRUNCATE TABLE vmstats'', ''TRUNCATE TABLE vifstats'', ''TRUNCATE TABLE vifs'',
        ''TRUNCATE TABLE vifconfig'', ''TRUNCATE TABLE sessions'', ''TRUNCATE TABLE revisions'', ''TRUNCATE TABLE nodestats'',
        ''TRUNCATE TABLE nodes'', ''TRUNCATE TABLE nodechildren'', ''TRUNCATE TABLE nodeconfig'', ''TRUNCATE TABLE nodestats'',
        ''TRUNCATE TABLE diskstats'', ''TRUNCATE TABLE disks'', ''TRUNCATE TABLE diskconfig;''] m"

definition z_cleanDB :: "env \<Rightarrow> smod \<Rightarrow> bool \<times> smod" where
  "z_cleanDB e m = CTX_RETURN (cleanDB e m)"

end
