(* ===== verification/Sql_Session.thy ===== *)
theory Sql_Session
  imports SqlFmt
begin

text \<open>
  The queries of the session, authentication and console tables: each function of
  zrpcdb_session.c, zrpcdb_auth.c and zrpcdb_console.c as the request it makes.
\<close>

subsection \<open>db_sources/mysql/zrpcdb_session.c\<close>

definition db_getLoggedInUsers :: "dbreq" where
  "db_getLoggedInUsers = DbQuery (QIS
    (''SELECT `uid` FROM `sessions` WHERE''
     @ '' (UNIX_TIMESTAMP(NOW())-timestamp) <= IFNULL(''
     @ ''  (SELECT `value` FROM `config` WHERE `key`='session_timeout')''
     @ '' ,5)*60 AND `authenticated`='1''
     @ squote))"

definition db_getLoggedInUsernames :: "dbreq" where
  "db_getLoggedInUsernames = DbQuery (QSS
    (''SELECT username FROM `sessions` ''
     @ ''JOIN users ON sessions.uid=users.uid ''
     @ ''WHERE (UNIX_TIMESTAMP(NOW())-timestamp) <= IFNULL(''
     @ ''  (SELECT `value` FROM `config` WHERE `key`='session_timeout')''
     @ '' ,5)*60 AND `authenticated`='1''
     @ squote))"

definition db_getSessions :: "dbreq" where
  "db_getSessions = DbQuery (QSS
    ''SELECT session_id FROM `sessions`'')"

definition db_getSession :: "cstr \<Rightarrow> dbreq" where
  "db_getSession sessionid = DbQuery (mk_query False None (Some SESSION_esql)
    (''SELECT session_id, authenticated, uid, host, timestamp, referrer, failures FROM `sessions` WHERE session_id='%s''
     @ squote)
    [AS sessionid]
    (Some (Some SESSION_free)) None)"

definition db_setSession :: "session \<Rightarrow> dbreq" where
  "db_setSession session = DbQuery (QE
    (''INSERT INTO `sessions`''
     @ ''  (session_id, authenticated, uid, host, timestamp, referrer, failures)''
     @ '' VALUES''
     @ ''  ('%s', '%d', '%d', '%s', '%d', '%s', '%d')''
     @ '' ON DUPLICATE KEY UPDATE''
     @ ''  session_id='%s', authenticated='%d', uid='%d', host='%s', timestamp='%d',''
     @ ''  referrer='%s', failures='%d''
     @ squote)
    [AS (session_id session), AI (of_bool (authenticated session)), AI (s_uid session),
         AS (client_host session), AI (timestamp session), AS (referrer session),
         AI (failures session), AS (session_id session), AI (of_bool (authenticated session)),
         AI (s_uid session), AS (client_host session), AI (timestamp session), AS (referrer session),
         AI (failures session)])"

definition db_setLastLogin :: "int \<Rightarrow> dbreq" where
  "db_setLastLogin uid = DbQuery (QE
    (''UPDATE `users` SET `lastlogin`=NOW() WHERE `uid`='%d''
     @ squote)
    [AI uid])"

definition db_deauthSession :: "cstr \<Rightarrow> dbreq" where
  "db_deauthSession sid = DbQuery (QE
    (''UPDATE `sessions` SET authenticated = '0' WHERE session_id = '%s''
     @ squote)
    [AS sid])"

definition db_removeSession :: "cstr \<Rightarrow> dbreq" where
  "db_removeSession sid = DbQuery (QE
    (''DELETE FROM `sessions` where session_id = '%s''
     @ squote)
    [AS sid])"

definition db_getUserBySession :: "cstr \<Rightarrow> dbreq" where
  "db_getUserBySession sid = DbQuery (QIA
    (''SELECT `uid` FROM `sessions` WHERE `session_id`='%s''
     @ squote)
    [AS sid])"

definition db_getUserNameBySession :: "cstr \<Rightarrow> dbreq" where
  "db_getUserNameBySession sid = DbQuery (QSA
    (''SELECT username FROM sessions ''
     @ ''JOIN users ON sessions.uid=users.uid ''
     @ ''WHERE session_id='%s''
     @ squote)
    [AS sid])"

subsection \<open>db_sources/mysql/zrpcdb_auth.c\<close>

definition db_getAuthByName :: "cstr \<Rightarrow> dbreq" where
  "db_getAuthByName nm = DbQuery (QSSA
    (''select salt, hash from users where username='%s''
     @ squote)
    [AS nm])"

definition db_getAuth :: "int \<Rightarrow> dbreq" where
  "db_getAuth uid = DbQuery (mk_query False None (Some Array_string_esql)
    (''select salt, hash from users where uid='%d''
     @ squote)
    [AI uid]
    (Some (Some Array_string_free)) None)"

subsection \<open>db_sources/mysql/zrpcdb_console.c\<close>

definition db_getConsoleLockVmsBySession :: "cstr \<Rightarrow> dbreq" where
  "db_getConsoleLockVmsBySession sid = DbQuery (QSSA
    (''SELECT vms.uuid FROM vms, sessions, vmconsolelocks ''
     @ ''WHERE vmconsolelocks.session=sessions.id ''
     @ ''AND vms.id=vmconsolelocks.vm ''
     @ ''AND sessions.session_id = '%s''
     @ squote)
    [AS sid])"

definition db_getConsoleType :: "cstr \<Rightarrow> cstr \<Rightarrow> dbreq" where
  "db_getConsoleType uuid sid = DbQuery (QSA
    (''SELECT type FROM vmconsolelocks ''
     @ ''JOIN sessions ON vmconsolelocks.session=sessions.id ''
     @ ''JOIN vms ON vmconsolelocks.vm=vms.id ''
     @ ''WHERE sessions.session_id='%s' AND vms.uuid='%s''
     @ squote)
    [AS sid, AS uuid])"

definition db_getConsoleLockSession :: "cstr \<Rightarrow> cstr \<Rightarrow> dbreq" where
  "db_getConsoleLockSession uuid ty = DbQuery (QSA
    (''SELECT session_id FROM vmconsolelocks ''
     @ ''JOIN sessions ON vmconsolelocks.session=sessions.id ''
     @ ''JOIN vms ON vmconsolelocks.vm=vms.id ''
     @ ''WHERE vms.uuid='%s' AND vmconsolelocks.type='%s''
     @ squote)
    [AS uuid, AS ty])"

definition db_hasConsoleLock :: "cstr \<Rightarrow> cstr \<Rightarrow> dbreq" where
  "db_hasConsoleLock uuid ty = DbQuery (QBA
    (''SELECT vm FROM vmconsolelocks ''
     @ ''JOIN vms ON vmconsolelocks.vm=vms.id ''
     @ ''WHERE vms.uuid='%s' AND vmconsolelocks.type='%s''
     @ squote)
    [AS uuid, AS ty])"

definition db_acquireConsoleLock :: "cstr \<Rightarrow> session \<Rightarrow> cstr \<Rightarrow> cstr \<Rightarrow> dbreq" where
  "db_acquireConsoleLock uuid session ty nodehost = DbQuery (QE
    (''INSERT INTO `vmconsolelocks` (vm, session, client, type, nodehost)''
     @ '' VALUES (''
     @ [CHR 0x09]
     @ ''(SELECT `id` FROM `vms` WHERE uuid='%s'),''
     @ [CHR 0x09]
     @ ''(SELECT `id` FROM `sessions` WHERE session_id='%s'),''
     @ [CHR 0x09]
     @ '''%s',''
     @ [CHR 0x09]
     @ '''%s',''
     @ [CHR 0x09]
     @ '''%s''
     @ squote
     @ '' )'')
    [AS uuid, AS (session_id session), AS (client_host session), AS ty, AS nodehost])"

definition db_releaseConsoleLock :: "cstr \<Rightarrow> cstr \<Rightarrow> cstr \<Rightarrow> dbreq" where
  "db_releaseConsoleLock uuid sessionid ty = DbQuery (QE
    (''USING vmconsolelocks ''
     @ ''JOIN vms ON vmconsolelocks.vm=vms.id ''
     @ ''JOIN sessions ON vmconsolelocks.session=sessions.session_id ''
     @ ''WHERE vms.uuid='%s' ''
     @ ''AND sessions.session_id='%s' AND ''
     @ ''vmconsolelocks.type='%s''
     @ squote)
    [AS uuid, AS sessionid, AS ty])"

definition db_saveGraphicalConsolePort :: "cstr \<Rightarrow> int \<Rightarrow> int \<Rightarrow> dbreq" where
  "db_saveGraphicalConsolePort uuid tunnelport externalport = DbQuery (QE
    (''UPDATE vmconsolelocks ''
     @ ''JOIN vms ON vmconsolelocks.vm=vms.id ''
     @ ''SET externalport='%d', tunnelport='%d' ''
     @ ''WHERE vms.uuid='%s' ''
     @ ''AND type='vnc''
     @ squote)
    [AI externalport, AI tunnelport, AS uuid])"

definition db_getGraphicalConsolePort :: "cstr \<Rightarrow> dbreq" where
  "db_getGraphicalConsolePort uuid = DbQuery (QIA
    (''SELECT externalport FROM vmconsolelocks ''
     @ ''JOIN vms ON vmconsolelocks.vm=vms.id ''
     @ ''WHERE vms.uuid='%s' ''
     @ ''AND type='vnc''
     @ squote)
    [AS uuid])"

definition db_getConsoleNodeHost :: "cstr \<Rightarrow> cstr \<Rightarrow> dbreq" where
  "db_getConsoleNodeHost uuid ty = DbQuery (QSA
    (''SELECT nodehost FROM vmconsolelocks ''
     @ ''JOIN vms ON vmconsolelocks.vm=vms.id ''
     @ ''WHERE vms.uuid='%s' ''
     @ ''AND type='%s''
     @ squote)
    [AS uuid, AS ty])"

definition db_getConsoleClientHost :: "cstr \<Rightarrow> cstr \<Rightarrow> dbreq" where
  "db_getConsoleClientHost uuid ty = DbQuery (QSA
    (''SELECT host FROM vmconsolelocks ''
     @ ''JOIN sessions ON vmconsolelocks.session=sessions.id ''
     @ ''JOIN vms ON vmconsolelocks.vm=vms.id ''
     @ ''WHERE vms.uuid='%s' AND vmconsolelocks.type='%s''
     @ squote)
    [AS uuid, AS ty])"

definition db_getGraphicalConsoleTunnelPort :: "cstr \<Rightarrow> dbreq" where
  "db_getGraphicalConsoleTunnelPort uuid = DbQuery (QISA
    (''SELECT tunnelport FROM vmconsolelocks ''
     @ ''JOIN vms ON vmconsolelocks.vm=vms.id ''
     @ ''WHERE vms.uuid='%s' ''
     @ ''AND type='vnc''
     @ squote)
    [AS uuid])"

definition db_saveTextConsolePort :: "cstr \<Rightarrow> int \<Rightarrow> dbreq" where
  "db_saveTextConsolePort uuid externalport = DbQuery (QE
    (''UPDATE vmconsolelocks ''
     @ ''JOIN vms ON vmconsolelocks.vm=vms.id ''
     @ ''SET externalport='%d' ''
     @ ''WHERE vms.uuid='%s' ''
     @ ''AND type='text''
     @ squote)
    [AI externalport, AS uuid])"

definition db_getTextConsolePort :: "cstr \<Rightarrow> dbreq" where
  "db_getTextConsolePort uuid = DbQuery (QISA
    (''SELECT externalport FROM vmconsolelocks ''
     @ ''JOIN vms ON vmconsolelocks.vm=vms.id ''
     @ ''WHERE vms.uuid='%s' ''
     @ ''AND type='text''
     @ squote)
    [AS uuid])"

subsection \<open>All requests of the module\<close>

lemmas session_request_defs = db_getLoggedInUsers_def db_getLoggedInUsernames_def db_getSessions_def db_getSession_def
  db_setSession_def db_setLastLogin_def db_deauthSession_def db_removeSession_def
  db_getUserBySession_def db_getUserNameBySession_def db_getAuthByName_def db_getAuth_def
  db_getConsoleLockVmsBySession_def db_getConsoleType_def db_getConsoleLockSession_def
  db_hasConsoleLock_def db_acquireConsoleLock_def db_releaseConsoleLock_def
  db_saveGraphicalConsolePort_def db_getGraphicalConsolePort_def db_getConsoleNodeHost_def
  db_getConsoleClientHost_def db_getGraphicalConsoleTunnelPort_def db_saveTextConsolePort_def
  db_getTextConsolePort_def

text \<open>The requests whose text arguments are all quoted.\<close>

definition session_requests :: "dbreq set" where
  "session_requests =
     {db_getLoggedInUsers} \<union> {db_getLoggedInUsernames} \<union> {db_getSessions}
     \<union> range db_getSession \<union> range db_setSession \<union> range db_setLastLogin
     \<union> range db_deauthSession \<union> range db_removeSession \<union> range db_getUserBySession
     \<union> range db_getUserNameBySession \<union> range db_getAuthByName \<union> range db_getAuth
     \<union> range db_getConsoleLockVmsBySession
     \<union> range (\<lambda>(uuid, sid). db_getConsoleType uuid sid)
     \<union> range (\<lambda>(uuid, ty). db_getConsoleLockSession uuid ty)
     \<union> range (\<lambda>(uuid, ty). db_hasConsoleLock uuid ty)
     \<union> range (\<lambda>(uuid, session, ty, nodehost). db_acquireConsoleLock uuid session ty nodehost)
     \<union> range (\<lambda>(uuid, sessionid, ty). db_releaseConsoleLock uuid sessionid ty)
     \<union> range (\<lambda>(uuid, tunnelport, externalport). db_saveGraphicalConsolePort uuid tunnelport externalport)
     \<union> range db_getGraphicalConsolePort
     \<union> range (\<lambda>(uuid, ty). db_getConsoleNodeHost uuid ty)
     \<union> range (\<lambda>(uuid, ty). db_getConsoleClientHost uuid ty)
     \<union> range db_getGraphicalConsoleTunnelPort
     \<union> range (\<lambda>(uuid, externalport). db_saveTextConsolePort uuid externalport)
     \<union> range db_getTextConsolePort"

lemma session_requests_ok_1:
  "{db_getLoggedInUsers} \<union> {db_getLoggedInUsernames} \<union> {db_getSessions}
     \<union> range db_getSession \<union> range db_setSession \<union> range db_setLastLogin
     \<union> range db_deauthSession \<union> range db_removeSession \<union> range db_getUserBySession
     \<union> range db_getUserNameBySession \<union> range db_getAuthByName \<union> range db_getAuth
     \<subseteq> {r. req_ok r \<and> req_quoted r}"
  unfolding session_request_defs query_forms Let_def
  by (intro Un_least; clarsimp simp: req_evals simp del: req_ok.simps(2) req_quoted.simps(2) split: option.splits cong: req_weak_congs)

lemma session_requests_ok_2:
  "range db_getConsoleLockVmsBySession
     \<union> range (\<lambda>(uuid, sid). db_getConsoleType uuid sid)
     \<union> range (\<lambda>(uuid, ty). db_getConsoleLockSession uuid ty)
     \<union> range (\<lambda>(uuid, ty). db_hasConsoleLock uuid ty)
     \<union> range (\<lambda>(uuid, session, ty, nodehost). db_acquireConsoleLock uuid session ty nodehost)
     \<union> range (\<lambda>(uuid, sessionid, ty). db_releaseConsoleLock uuid sessionid ty)
     \<union> range (\<lambda>(uuid, tunnelport, externalport). db_saveGraphicalConsolePort uuid tunnelport externalport)
     \<union> range db_getGraphicalConsolePort
     \<union> range (\<lambda>(uuid, ty). db_getConsoleNodeHost uuid ty)
     \<union> range (\<lambda>(uuid, ty). db_getConsoleClientHost uuid ty)
     \<union> range db_getGraphicalConsoleTunnelPort
     \<union> range (\<lambda>(uuid, externalport). db_saveTextConsolePort uuid externalport)
     \<subseteq> {r. req_ok r \<and> req_quoted r}"
  unfolding session_request_defs query_forms Let_def
  by (intro Un_least; clarsimp simp: req_evals simp del: req_ok.simps(2) req_quoted.simps(2) split: option.splits cong: req_weak_congs)

lemma session_requests_ok_3:
  "range db_getTextConsolePort
     \<subseteq> {r. req_ok r \<and> req_quoted r}"
  unfolding session_request_defs query_forms Let_def
  by (clarsimp simp: req_evals simp del: req_ok.simps(2) req_quoted.simps(2) split: option.splits cong: req_weak_congs)

lemma session_requests_ok: "session_requests \<subseteq> {r. req_ok r \<and> req_quoted r}"
  unfolding session_requests_def
  using session_requests_ok_1 session_requests_ok_2 session_requests_ok_3
  by (simp only: Un_subset_iff simp_thms)

end
