(* ===== verification/Session.thy ===== *)
theory Session
  imports Zentific Sql_Session
begin

text \<open>
  src/servlets/functions/functions-session.c: sessions, their expiry, and \<open>session_pre_call\<close>,
  the gate every request passes before its method runs, with the single-sign-on hook.
  The cookie the client sent is \<open>m_cookie\<close>; the headers, the method name and the clock are
  fields of the environment.
\<close>

definition session_cb_error_clear :: "val \<Rightarrow> smod \<Rightarrow> smod" where
  "session_cb_error_clear ret m =
     (if c_dead m then m
      else (let m = MARK_CB m; m = m\<lparr>c_error := None\<rparr> in emit (OResume True) m))"

text \<open>
  The address a trusted proxy reports: the last item of a chained header, or the whole
  header. \<open>true\<close> is the shared string \<open>"true"\<close>, so the pointer comparison is one of values.
\<close>

definition proxied_ip :: "env \<Rightarrow> cstr \<Rightarrow> cstr" where
  "proxied_ip e proxied =
     (if proxied \<noteq> Some ''true'' then None
      else case e_hdr e ''X-Forwarded-For'' of
          None \<Rightarrow> None
        | Some forwarded \<Rightarrow>
            (case strrchr CHR '','' forwarded of
               Some n \<Rightarrow>
                 (let lastcomma = drop n forwarded in
                  if 9 \<le> strlen_bounded e lastcomma 10 then
                    (let lastcomma = drop 2 lastcomma in
                     if zs_ip e (Some lastcomma) then Some lastcomma else None)
                  else None)
             | None \<Rightarrow>
                 if 7 \<le> strlen_bounded e forwarded 8 then
                   (if zs_ip e (Some forwarded) then Some forwarded else None)
                 else None))"

definition val_str :: "cstr \<Rightarrow> val" where
  "val_str s = (case s of None \<Rightarrow> VNull | Some t \<Rightarrow> VStr t)"

text \<open>Reading through a string argument that is NULL is a crash.\<close>

definition with_str :: "cstr \<Rightarrow> smod \<Rightarrow> (string \<Rightarrow> bool \<times> smod) \<Rightarrow> bool \<times> smod" where
  "with_str s m f = (case s of None \<Rightarrow> (False, emit OCrash m) | Some t \<Rightarrow> f t)"

lemma with_str_Some [simp]: "with_str (Some t) m f = f t"
  by (simp add: with_str_def)

definition session_getClientIP_cb :: "env \<Rightarrow> val \<Rightarrow> smod \<Rightarrow> smod" where
  "session_getClientIP_cb e proxied m =
     (let m = MARK_CB m in
      case proxied_ip e (as_str proxied) of
        Some ip \<Rightarrow> NEXT_CB (VStr ip) m
      | None \<Rightarrow> NEXT_CB (val_str (e_ip e)) m)"

definition session_getClientIP :: "env \<Rightarrow> smod \<Rightarrow> smod" where
  "session_getClientIP e m =
     CTX_CB_ADD (Sess Session_getClientIP_cb) (snd (z_getConfig e (Some ''proxied'') m))"

subsection \<open>Expiry\<close>

text \<open>
  The timeout in seconds: the configured minutes, or the default when there are none, when
  an error is pending, or when the number does not fit.
\<close>

definition session_timeout_secs :: "cstr \<Rightarrow> smod \<Rightarrow> int" where
  "session_timeout_secs configured_timeout m =
     (if configured_timeout = None \<or> c_error m \<noteq> None then DEFAULT_SESSION_TIMEOUT * 60
      else (let (t, errno) = strtol10 (the configured_timeout);
                t = (if errno then DEFAULT_SESSION_TIMEOUT else s32 t)
            in s32 (t * 60)))"

text \<open>The checker sets the status of the session it is given and marks the call as checked.\<close>

definition session_checker :: "env \<Rightarrow> cstr \<Rightarrow> session \<Rightarrow> smod \<Rightarrow> session \<times> smod" where
  "session_checker e configured_timeout s m =
     (let timeout = session_timeout_secs configured_timeout m;
          m = (if configured_timeout = None \<or> c_error m \<noteq> None then m\<lparr>c_error := None\<rparr> else m);
          now = e_now e;
          m = m\<lparr>c_checked := True\<rparr>
      in (if \<not> authenticated s then s\<lparr>s_status := errcode NOT_AUTHORIZED\<rparr>
          else if now - timestamp s \<le> timeout then s\<lparr>s_status := errcode VALID_SESSION\<rparr>
          else s\<lparr>s_status := errcode EXPIRED_SESSION\<rparr>, m))"

definition session_checkuuid_cb :: "env \<Rightarrow> val \<Rightarrow> smod \<Rightarrow> smod" where
  "session_checkuuid_cb e configured_timeout m =
     (let m = MARK_CB m;
          (sv, m) = CTX_PARAM_GET (Sess Session_checkuuid_cb) m
      in case sv of
          VSession s \<Rightarrow>
            (let (s, m) = session_checker e (as_str configured_timeout) s m;
                 status = s_status s;
                 m = (if c_cbs m = [] then AZY_RETVAL (VInt status) m else m)
             in NEXT_CB (VInt status) m)
        | _ \<Rightarrow> emit OCrash m)"

definition session_checkuuid_get_cb :: "env \<Rightarrow> val \<Rightarrow> smod \<Rightarrow> smod" where
  "session_checkuuid_get_cb e ret m =
     (let m = MARK_CB m;
          m = snd (z_getConfig e (Some ''session_timeout'') m);
          m = CTX_CB_ADD (Sess Session_checkuuid_cb) m
      in CTX_PARAM_ADD (Sess Session_checkuuid_cb) ret m)"

definition session_get_cb :: "val \<Rightarrow> smod \<Rightarrow> smod" where
  "session_get_cb ret m =
     (let m = MARK_CB m;
          m = (if is_null ret \<and> m_fault m \<noteq> None then set_error INVALID_SESSION m else m);
          m = (if c_cbs m = [] then AZY_RETVAL ret m else m)
      in NEXT_CB ret m)"

definition z_getSession :: "env \<Rightarrow> cstr \<Rightarrow> smod \<Rightarrow> bool \<times> smod" where
  "z_getSession e sid m =
     (if \<not> zs_uuid e sid then (False, set_error INVALID_PARAMETER m)
      else CTX_RETURN (CTX_CB_ADD (Sess Session_get_cb) (db_call e (db_getSession sid) m)))"

definition z_checkSessionUUID :: "env \<Rightarrow> cstr \<Rightarrow> smod \<Rightarrow> bool \<times> smod" where
  "z_checkSessionUUID e uuid m =
     (if \<not> zs_uuid e uuid then CTX_RETURN (set_error INVALID_SESSION m)
      else CTX_RETURN (CTX_CB_ADD (Sess Session_checkuuid_get_cb) (snd (z_getSession e uuid m))))"

definition session_check_cb :: "env \<Rightarrow> val \<Rightarrow> smod \<Rightarrow> smod" where
  "session_check_cb e configured_timeout m =
     (let m = MARK_CB m;
          (s, m) = session_checker e (as_str configured_timeout) (m_session m) m
      in RESUME (m\<lparr>m_session := s\<rparr>))"

definition z_checkSession :: "env \<Rightarrow> smod \<Rightarrow> bool \<times> smod" where
  "z_checkSession e m =
     (if \<not> zs_uuid e (session_id (m_session m)) then CTX_RETURN (set_error INVALID_SESSION m)
      else CTX_RETURN (CTX_CB_ADD (Sess Session_check_cb) (snd (z_getConfig e (Some ''session_timeout'') m))))"

definition z_removeSession :: "env \<Rightarrow> cstr \<Rightarrow> smod \<Rightarrow> bool \<times> smod" where
  "z_removeSession e sid m =
     (if \<not> zs_uuid e sid then (False, set_error INVALID_SESSION m)
      else CTX_RETURN (db_call e (db_removeSession sid) m))"

definition z_setLastLogin :: "env \<Rightarrow> int \<Rightarrow> smod \<Rightarrow> bool \<times> smod" where
  "z_setLastLogin e uid m =
     (if uid < 0 then (False, set_error INVALID_PARAMETER m)
      else CTX_RETURN (db_call e (db_setLastLogin uid) m))"

definition z_deauthSession :: "env \<Rightarrow> cstr \<Rightarrow> smod \<Rightarrow> bool \<times> smod" where
  "z_deauthSession e sid m =
     CTX_RETURN (if \<not> zs_uuid e sid then set_error INVALID_SESSION m
                 else db_call e (db_deauthSession sid) m)"

definition z_setSession :: "env \<Rightarrow> smod \<Rightarrow> bool \<times> smod" where
  "z_setSession e m =
     (let m = upd_session (\<lambda>s. s\<lparr>timestamp := s32 (e_now e)\<rparr>) m
      in CTX_RETURN (db_call e (db_setSession (m_session m)) m))"

subsection \<open>Properties\<close>

lemma errcode_valid [simp]: "errcode x = errcode VALID_SESSION \<longleftrightarrow> x = VALID_SESSION"
  "errcode x = errcode EXPIRED_SESSION \<longleftrightarrow> x = EXPIRED_SESSION"
  "errcode x = errcode NOT_AUTHORIZED \<longleftrightarrow> x = NOT_AUTHORIZED"
  by (rule errcode_inj)+

lemma session_checker_fst:
  "fst (session_checker e cfg s m) = s\<lparr>s_status := errcode
     (if \<not> authenticated s then NOT_AUTHORIZED
      else if e_now e - timestamp s \<le> session_timeout_secs cfg m then VALID_SESSION else EXPIRED_SESSION)\<rparr>"
  by (simp add: session_checker_def Let_def)

lemma session_checker_snd:
  "snd (session_checker e cfg s m) =
     m\<lparr>c_error := None, c_checked := True\<rparr>"
  by (simp add: session_checker_def Let_def)

text \<open>
  C9: A session is judged by its authentication and its age alone: it is valid exactly when it
  is authenticated and its age is at most the timeout, expired exactly when it is
  authenticated and older, not authorized exactly when it is not authenticated; nothing
  but the status of the session changes, and the call is marked as checked with no error
  left over from the configuration lookup.
\<close>

theorem session_validity:
  "(s_status (fst (session_checker e cfg s m)) = errcode VALID_SESSION
      \<longleftrightarrow> authenticated s \<and> e_now e - timestamp s \<le> session_timeout_secs cfg m)
   \<and> (s_status (fst (session_checker e cfg s m)) = errcode EXPIRED_SESSION
      \<longleftrightarrow> authenticated s \<and> session_timeout_secs cfg m < e_now e - timestamp s)
   \<and> (s_status (fst (session_checker e cfg s m)) = errcode NOT_AUTHORIZED \<longleftrightarrow> \<not> authenticated s)
   \<and> fst (session_checker e cfg s m) = s\<lparr>s_status := s_status (fst (session_checker e cfg s m))\<rparr>
   \<and> snd (session_checker e cfg s m) = m\<lparr>c_error := None, c_checked := True\<rparr>"
  by (auto simp: session_checker_fst session_checker_snd)



end
