(* ===== verification/Sha1.thy ===== *)
theory Sha1
  imports Prelude
begin

unbundle bit_operations_syntax

text \<open>
  The password hash: src/bin/sha1.c and src/bin/sha1wrap.c. \<open>SHA_CTX2\<close> is a record with its
  two arrays as lists, every \<open>unsigned int\<close> a 32-bit word and every byte an 8-bit word. The
  second half of the theory is the reference: SHA-1 as FIPS 180-1 states it, on the whole
  padded message, and the proof that the streaming routine computes it.
\<close>

type_synonym byte = "8 word"
type_synonym u32 = "32 word"

subsection \<open>src/bin/sha1.c\<close>

record SHA_CTX2 =
  sha_H :: "u32 list"
  sha_W :: "u32 list"
  lenW :: nat
  sizeHi :: u32
  sizeLo :: u32

definition SHA1_Init2 :: SHA_CTX2 where
  "SHA1_Init2 = \<lparr> sha_H = [0x67452301, 0xefcdab89, 0x98badcfe, 0x10325476, 0xc3d2e1f0],
     sha_W = replicate 80 0, lenW = 0, sizeHi = 0, sizeLo = 0 \<rparr>"

definition SHA_ROT :: "u32 \<Rightarrow> nat \<Rightarrow> u32" where
  "SHA_ROT x n = (push_bit n x) OR (drop_bit (32 - n) x)"

type_synonym regs = "u32 \<times> u32 \<times> u32 \<times> u32 \<times> u32"

text \<open>The body shared by the four round loops, with the function and the constant of each.\<close>

fun sha_round :: "u32 list \<Rightarrow> nat \<Rightarrow> regs \<Rightarrow> regs" where
  "sha_round w t (A, B, C, D, E) =
     (let TEMP = (if t \<le> 19 then SHA_ROT A 5 + (((C XOR D) AND B) XOR D) + E + w ! t + 0x5a827999
                  else if t \<le> 39 then SHA_ROT A 5 + (B XOR C XOR D) + E + w ! t + 0x6ed9eba1
                  else if t \<le> 59 then SHA_ROT A 5 + ((B AND C) OR (D AND (B OR C))) + E + w ! t + 0x8f1bbcdc
                  else SHA_ROT A 5 + (B XOR C XOR D) + E + w ! t + 0xca62c1d6)
      in (TEMP, A, SHA_ROT B 30, C, D))"

definition sha_schedule :: "u32 list \<Rightarrow> u32 list" where
  "sha_schedule w =
     foldl (\<lambda>w t. w[t := SHA_ROT (w ! (t - 3) XOR w ! (t - 8) XOR w ! (t - 14) XOR w ! (t - 16)) 1]) w [16..<80]"

definition sha_regs :: "u32 list \<Rightarrow> u32 list \<Rightarrow> regs" where
  "sha_regs h w = foldl (\<lambda>r t. sha_round w t r) (h ! 0, h ! 1, h ! 2, h ! 3, h ! 4) [0..<80]"

definition shaHashBlock :: "SHA_CTX2 \<Rightarrow> SHA_CTX2" where
  "shaHashBlock c =
     (let w = sha_schedule (sha_W c); h = sha_H c
      in case sha_regs h w of (A, B, C, D, E) \<Rightarrow>
           c\<lparr>sha_W := w, sha_H := [h ! 0 + A, h ! 1 + B, h ! 2 + C, h ! 3 + D, h ! 4 + E]\<rparr>)"

definition sha_byte :: "SHA_CTX2 \<Rightarrow> byte \<Rightarrow> SHA_CTX2" where
  "sha_byte c b =
     (let i = lenW c div 4;
          c = c\<lparr>sha_W := (sha_W c)[i := push_bit 8 (sha_W c ! i) OR ucast b]\<rparr>;
          c = c\<lparr>lenW := lenW c + 1\<rparr>;
          c = (if lenW c mod 64 = 0 then (shaHashBlock c)\<lparr>lenW := 0\<rparr> else c);
          c = c\<lparr>sizeLo := sizeLo c + 8\<rparr>
      in c\<lparr>sizeHi := sizeHi c + (if sizeLo c < 8 then 1 else 0)\<rparr>)"

definition SHA1_Update2 :: "SHA_CTX2 \<Rightarrow> byte list \<Rightarrow> SHA_CTX2" where
  "SHA1_Update2 c bs = foldl sha_byte c bs"

lemma lenW_sha_byte: "lenW (sha_byte c b) = (if (lenW c + 1) mod 64 = 0 then 0 else lenW c + 1)"
  by (simp add: sha_byte_def shaHashBlock_def Let_def split: prod.splits)

text \<open>The loop that pads with zeroes up to the length field ends for any starting point.\<close>

function sha_pad :: "SHA_CTX2 \<Rightarrow> SHA_CTX2" where
  "sha_pad c = (if lenW c \<noteq> 56 then sha_pad (SHA1_Update2 c [0x00]) else c)"
  by pat_completeness auto

definition pad_measure :: "nat \<Rightarrow> nat" where
  "pad_measure n = (if n \<le> 56 then 56 - n else 56 + (64 - n mod 64))"

lemma pad_measure_decreases:
  "n \<noteq> 56 \<Longrightarrow> pad_measure (if (n + 1) mod 64 = 0 then 0 else n + 1) < pad_measure n"
  by (cases "(n + 1) mod 64 = 0") (auto simp: pad_measure_def mod_Suc)

termination sha_pad
proof (relation "measure (\<lambda>c. pad_measure (lenW c))")
  fix c :: SHA_CTX2
  assume "lenW c \<noteq> 56"
  from pad_measure_decreases [OF this]
  show "(SHA1_Update2 c [0x00], c) \<in> measure (\<lambda>c. pad_measure (lenW c))"
    by (simp only: SHA1_Update2_def foldl.simps in_measure lenW_sha_byte)
qed simp

declare sha_pad.simps [simp del]

definition u32_bytes :: "u32 \<Rightarrow> byte list" where
  "u32_bytes w = map (\<lambda>n. ucast (drop_bit n w)) [24, 16, 8, 0]"

text \<open>The digest is read from the top byte of each word of \<open>H\<close>, which is then shifted up.\<close>

definition sha_out :: "u32 list \<Rightarrow> byte list" where
  "sha_out h = fst (foldl (\<lambda>(out, h) i. (out @ [ucast (drop_bit 24 (h ! (i div 4)))],
     h[i div 4 := push_bit 8 (h ! (i div 4))])) ([], h) [0..<20])"

definition SHA1_Final2 :: "SHA_CTX2 \<Rightarrow> byte list \<times> SHA_CTX2" where
  "SHA1_Final2 c =
     (let padlen = u32_bytes (sizeHi c) @ u32_bytes (sizeLo c);
          c = SHA1_Update2 c [0x80];
          c = sha_pad c;
          c = SHA1_Update2 c padlen
      in (sha_out (sha_H c), SHA1_Init2))"

subsection \<open>src/bin/sha1wrap.c\<close>

definition hextab :: string where
  "hextab = ''0123456789abcdef''"

definition sha1_to_string :: "byte list \<Rightarrow> string" where
  "sha1_to_string h =
     concat (map (\<lambda>i. [hextab ! unat (drop_bit 4 (h ! i) AND 0x0f), hextab ! unat ((h ! i) AND 0x0f)]) [0..<20])"

text \<open>
  \<open>None\<close> is a file that cannot be opened; otherwise the chunks \<open>read\<close> returns, the first
  empty one (end of file or an error) ending the loop.
\<close>

fun sha1_reads :: "SHA_CTX2 \<Rightarrow> byte list list \<Rightarrow> SHA_CTX2" where
  "sha1_reads c [] = c"
| "sha1_reads c (d # ds) = (if d = [] then c else sha1_reads (SHA1_Update2 c d) ds)"

definition sha1_file :: "byte list list option \<Rightarrow> cstr" where
  "sha1_file fd = map_option (\<lambda>ds. sha1_to_string (fst (SHA1_Final2 (sha1_reads SHA1_Init2 ds)))) fd"

definition bytes_of :: "string \<Rightarrow> byte list" where
  "bytes_of s = map (\<lambda>c. of_nat (of_char c)) s"

definition sha1_buffer :: "cstr \<Rightarrow> cstr \<Rightarrow> cstr" where
  "sha1_buffer buf1 buf2 =
     (let buf = printf_s buf1 @ printf_s buf2
      in if length buf < 1 then None
         else Some (sha1_to_string (fst (SHA1_Final2 (SHA1_Update2 SHA1_Init2 (bytes_of buf))))))"

subsection \<open>Reference: SHA-1 as FIPS 180-1 states it\<close>

text \<open>The logical functions and constants of section 5 and 6, and one word of a block.\<close>

definition fips_f :: "nat \<Rightarrow> u32 \<Rightarrow> u32 \<Rightarrow> u32 \<Rightarrow> u32" where
  "fips_f t B C D =
     (if t \<le> 19 then (B AND C) OR ((NOT B) AND D)
      else if t \<le> 39 then B XOR C XOR D
      else if t \<le> 59 then (B AND C) OR (B AND D) OR (C AND D)
      else B XOR C XOR D)"

definition fips_K :: "nat \<Rightarrow> u32" where
  "fips_K t = (if t \<le> 19 then 0x5A827999 else if t \<le> 39 then 0x6ED9EBA1
     else if t \<le> 59 then 0x8F1BBCDC else 0xCA62C1D6)"

definition fips_word :: "byte list \<Rightarrow> nat \<Rightarrow> u32" where
  "fips_word blk j = push_bit 24 (ucast (blk ! (4 * j))) OR push_bit 16 (ucast (blk ! (4 * j + 1)))
     OR push_bit 8 (ucast (blk ! (4 * j + 2))) OR ucast (blk ! (4 * j + 3))"

fun fips_W :: "byte list \<Rightarrow> nat \<Rightarrow> u32" where
  "fips_W blk t = (if t < 16 then fips_word blk t
     else word_rotl 1 (fips_W blk (t - 3) XOR fips_W blk (t - 8) XOR fips_W blk (t - 14) XOR fips_W blk (t - 16)))"

declare fips_W.simps [simp del]

fun fips_step :: "byte list \<Rightarrow> nat \<Rightarrow> regs \<Rightarrow> regs" where
  "fips_step blk t (A, B, C, D, E) =
     (word_rotl 5 A + fips_f t B C D + E + fips_W blk t + fips_K t, A, word_rotl 30 B, C, D)"

definition fips_block :: "regs \<Rightarrow> byte list \<Rightarrow> regs" where
  "fips_block h blk =
     (case (h, foldl (\<lambda>r t. fips_step blk t r) h [0..<80]) of
        ((h0, h1, h2, h3, h4), (A, B, C, D, E)) \<Rightarrow> (h0 + A, h1 + B, h2 + C, h3 + D, h4 + E))"

definition fips_H0 :: regs where
  "fips_H0 = (0x67452301, 0xEFCDAB89, 0x98BADCFE, 0x10325476, 0xC3D2E1F0)"

text \<open>Padding: a one bit, zeroes up to 56 modulo 64 bytes, and the length in bits as 64 bits.\<close>

definition fips_pad :: "byte list \<Rightarrow> byte list" where
  "fips_pad msg = msg @ [0x80] @ replicate ((119 - length msg mod 64) mod 64) 0
     @ map (\<lambda>n. ucast (drop_bit n (of_nat (8 * length msg) :: 64 word))) [56, 48, 40, 32, 24, 16, 8, 0]"

fun blocks64 :: "byte list \<Rightarrow> byte list list" where
  "blocks64 bs = (if length bs < 64 then [] else take 64 bs # blocks64 (drop 64 bs))"

declare blocks64.simps [simp del]

definition fips_sha1 :: "byte list \<Rightarrow> byte list" where
  "fips_sha1 msg =
     (case foldl fips_block fips_H0 (blocks64 (fips_pad msg)) of
        (a, b, c, d, e) \<Rightarrow> concat (map u32_bytes [a, b, c, d, e]))"

subsection \<open>The block function computes the reference's\<close>

lemma ch_eq: "((C XOR D) AND B) XOR D = (B AND C) OR ((NOT B) AND (D :: u32))"
  by (rule bit_eqI) (auto simp: bit_simps)

lemma maj_eq: "(B AND C) OR (D AND (B OR C)) = (B AND C) OR (B AND D) OR (C AND (D :: u32))"
  by (rule bit_eqI) (auto simp: bit_simps)

lemma SHA_ROT_rotl: "0 < n \<Longrightarrow> n < 32 \<Longrightarrow> SHA_ROT x n = word_rotl n x"
proof (rule bit_word_eqI)
  fix i assume n: "0 < n" "n < 32" and i: "i < LENGTH(32)"
  have "(i + (32 - n)) mod 32 = (if n \<le> i then i - n else i + (32 - n))"
    using n i by (auto simp: mod_if)
  moreover have "n \<le> i \<Longrightarrow> \<not> bit x (i + (32 - n))"
    using bit_imp_le_length [of x "i + (32 - n)"] n by auto
  moreover have "bit (SHA_ROT x n) i = ((n \<le> i \<and> bit x (i - n)) \<or> bit x (i + (32 - n)))"
    using i by (simp add: SHA_ROT_def bit_simps add.commute)
  moreover have "bit (word_rotl n x) i = bit x ((i + (32 - n)) mod 32)"
    using n i by (simp add: bit_word_rotl_iff)
  ultimately show "bit (SHA_ROT x n) i = bit (word_rotl n x) i" by simp
qed

lemma sha_round_fips:
  "w ! t = fips_W blk t \<Longrightarrow> sha_round w t r = fips_step blk t r"
  by (cases r) (simp add: SHA_ROT_rotl fips_f_def fips_K_def ch_eq maj_eq Let_def)

lemma fips_W_16: "t < 16 \<Longrightarrow> fips_W blk t = fips_word blk t"
  by (subst fips_W.simps) simp

lemma fips_W_rec: "16 \<le> t \<Longrightarrow> fips_W blk t =
    word_rotl 1 (fips_W blk (t - 3) XOR fips_W blk (t - 8) XOR fips_W blk (t - 14) XOR fips_W blk (t - 16))"
  by (subst fips_W.simps) simp

lemma sha_schedule_upto:
  assumes "length w = 80" "\<forall>j < 16. w ! j = fips_word blk j" "16 \<le> n" "n \<le> 80"
  defines "s \<equiv> \<lambda>n. foldl (\<lambda>w t. w[t := SHA_ROT (w ! (t - 3) XOR w ! (t - 8) XOR w ! (t - 14) XOR w ! (t - 16)) 1]) w [16..<n]"
  shows "length (s n) = 80 \<and> (\<forall>t < n. s n ! t = fips_W blk t)"
  using assms(3,4)
proof (induction n rule: dec_induct)
  case base
  then show ?case using assms(1,2) by (simp add: s_def fips_W_16)
next
  case (step n)
  then have len: "length (s n) = 80" and ih: "\<forall>t < n. s n ! t = fips_W blk t" and n: "16 \<le> n" "n < 80" by auto
  have "s (Suc n) = (s n)[n := fips_W blk n]"
    using ih n by (simp add: s_def SHA_ROT_rotl fips_W_rec [of n])
  then show ?case using len ih n by (auto simp: less_Suc_eq nth_list_update)
qed

lemma sha_schedule_fips:
  assumes "length w = 80" "\<forall>j < 16. w ! j = fips_word blk j"
  shows "length (sha_schedule w) = 80" "t < 80 \<Longrightarrow> sha_schedule w ! t = fips_W blk t"
  using sha_schedule_upto [OF assms, of 80] by (simp_all add: sha_schedule_def del: upt_rec_numeral)

fun regs_list :: "regs \<Rightarrow> u32 list" where
  "regs_list (a, b, c, d, e) = [a, b, c, d, e]"

lemma shaHashBlock_fips:
  assumes "length (sha_W c) = 80" "\<forall>j < 16. sha_W c ! j = fips_word blk j" "sha_H c = regs_list h"
  shows "sha_H (shaHashBlock c) = regs_list (fips_block h blk)"
    and "length (sha_W (shaHashBlock c)) = 80"
    and "lenW (shaHashBlock c) = lenW c" "sizeHi (shaHashBlock c) = sizeHi c" "sizeLo (shaHashBlock c) = sizeLo c"
proof -
  obtain a b c' d e where h: "h = (a, b, c', d, e)" by (cases h)
  have "sha_regs (sha_H c) (sha_schedule (sha_W c)) = foldl (\<lambda>r t. sha_round (sha_schedule (sha_W c)) t r) h [0..<80]"
    by (simp add: sha_regs_def assms(3) h del: upt_rec_numeral)
  also have "\<dots> = foldl (\<lambda>r t. fips_step blk t r) h [0..<80]"
    by (rule foldl_cong) (auto simp: sha_round_fips sha_schedule_fips [OF assms(1,2)])
  finally have r: "sha_regs (sha_H c) (sha_schedule (sha_W c)) = foldl (\<lambda>r t. fips_step blk t r) h [0..<80]" .
  obtain A B C D E where f: "foldl (\<lambda>r t. fips_step blk t r) h [0..<80] = (A, B, C, D, E)"
    by (metis prod_cases5)
  show "sha_H (shaHashBlock c) = regs_list (fips_block h blk)"
    using assms(3) h r f by (simp add: shaHashBlock_def fips_block_def Let_def)
  show "length (sha_W (shaHashBlock c)) = 80" "lenW (shaHashBlock c) = lenW c"
    "sizeHi (shaHashBlock c) = sizeHi c" "sizeLo (shaHashBlock c) = sizeLo c"
    using sha_schedule_fips(1) [OF assms(1,2)]
    by (simp_all add: shaHashBlock_def Let_def split: prod.splits)
qed

subsection \<open>Bytes into words\<close>

text \<open>A word after shifting in some bytes: four of them leave nothing of its old value.\<close>

definition shift_in :: "u32 \<Rightarrow> byte \<Rightarrow> u32" where
  "shift_in w b = push_bit 8 w OR ucast b"

lemma shift_in_four:
  "foldl shift_in w [b0, b1, b2, b3] =
     push_bit 24 (ucast b0) OR push_bit 16 (ucast b1) OR push_bit 8 (ucast b2) OR ucast b3"
proof -
  have "push_bit 32 w = 0"
    by (rule bit_word_eqI) (simp add: bit_simps)
  then show ?thesis by (simp add: shift_in_def push_bit_or or.assoc)
qed

definition partial :: "u32 list \<Rightarrow> u32 list \<Rightarrow> byte list \<Rightarrow> bool" where
  "partial w0 w bs \<longleftrightarrow> length w = 80 \<and> (\<forall>j < 16. w ! j = foldl shift_in (w0 ! j) (take 4 (drop (4 * j) bs)))"

lemma partial_Nil: "length w = 80 \<Longrightarrow> partial w w []"
  by (simp add: partial_def)

lemma partial_snoc:
  assumes "partial w0 w bs" "length bs < 64"
  shows "partial w0 (w[length bs div 4 := shift_in (w ! (length bs div 4)) b]) (bs @ [b])"
proof -
  let ?i = "length bs div 4"
  have "w[?i := shift_in (w ! ?i) b] ! j = foldl shift_in (w0 ! j) (take 4 (drop (4 * j) (bs @ [b])))"
    if "j < 16" for j
  proof (cases "j = ?i")
    case True
    then have "take 4 (drop (4 * j) (bs @ [b])) = take 4 (drop (4 * j) bs) @ [b]"
      by (simp add: take_Suc_conv_app_nth)
    then show ?thesis using assms True that by (simp add: partial_def)
  next
    case False
    then have "4 * j + 4 \<le> length bs \<or> length bs < 4 * j" by linarith
    then have e: "take 4 (drop (4 * j) (bs @ [b])) = take 4 (drop (4 * j) bs)" by auto
    show ?thesis unfolding e using assms False that by (simp add: partial_def)
  qed
  then show ?thesis using assms by (simp add: partial_def)
qed

lemma partial_full:
  assumes "partial w0 w bs" "length bs = 64" "j < 16"
  shows "w ! j = fips_word bs j"
proof -
  have "4 * j + 3 < length bs" using assms by simp
  then have "take 4 (drop (4 * j) bs) = [bs ! (4 * j), bs ! (4 * j + 1), bs ! (4 * j + 2), bs ! (4 * j + 3)]"
    by (intro nth_equalityI) (auto simp: less_Suc_eq numeral_eq_Suc)
  then have "w ! j = foldl shift_in (w0 ! j) [bs ! (4 * j), bs ! (4 * j + 1), bs ! (4 * j + 2), bs ! (4 * j + 3)]"
    using assms by (simp add: partial_def)
  then show ?thesis by (simp only: shift_in_four fips_word_def)
qed

subsection \<open>The streaming invariant\<close>

definition sha_count :: "SHA_CTX2 \<Rightarrow> int" where
  "sha_count c = 2 ^ 32 * uint (sizeHi c) + uint (sizeLo c)"

text \<open>
  After the message \<open>msg\<close>: complete blocks are hashed, the rest is packed into \<open>W\<close>, and
  the two size words count bits modulo 2 to the 64.
\<close>

definition sha_inv :: "byte list list \<Rightarrow> byte list \<Rightarrow> SHA_CTX2 \<Rightarrow> bool" where
  "sha_inv blks rest c \<longleftrightarrow>
     (\<forall>b \<in> set blks. length b = 64) \<and> length rest < 64 \<and> lenW c = length rest
     \<and> sha_H c = regs_list (foldl fips_block fips_H0 blks)
     \<and> (\<exists>w0. partial w0 (sha_W c) rest)
     \<and> sha_count c = 8 * int (length (concat blks @ rest)) mod 2 ^ 64"

lemma mod_once: "0 \<le> x \<Longrightarrow> x < 2 * m \<Longrightarrow> x mod m = (if x < m then x else x - (m :: int))"
  by (metis diff_ge_0_iff_ge diff_less_eq linorder_not_less minus_mod_self2 mod_pos_pos_trivial mult_2)

lemma sha_count_step:
  "sha_count (c\<lparr>sizeLo := sizeLo c + 8, sizeHi := sizeHi c + (if sizeLo c + 8 < 8 then 1 else 0)\<rparr>)
     = (sha_count c + 8) mod 2 ^ 64"
proof -
  have lo: "uint (sizeLo c + 8) = (if uint (sizeLo c) + 8 < 2 ^ 32 then uint (sizeLo c) + 8 else uint (sizeLo c) + 8 - 2 ^ 32)"
    using uint_lt2p [of "sizeLo c"] by (simp add: uint_word_ariths mod_once)
  have carry: "sizeLo c + 8 < 8 \<longleftrightarrow> \<not> uint (sizeLo c) + 8 < 2 ^ 32"
    using lo uint_lt2p [of "sizeLo c"] uint_ge_0 [of "sizeLo c"] by (simp add: word_less_def)
  have hi: "uint (sizeHi c + 1) = (if uint (sizeHi c) + 1 < 2 ^ 32 then uint (sizeHi c) + 1 else 0)"
    using uint_lt2p [of "sizeHi c"] by (simp add: uint_word_ariths mod_once)
  show ?thesis
    using lo carry hi uint_lt2p [of "sizeLo c"] uint_ge_0 [of "sizeLo c"] uint_lt2p [of "sizeHi c"]
      uint_ge_0 [of "sizeHi c"]
    by (auto simp: sha_count_def mod_once)
qed

lemma sha_inv_init: "sha_inv [] [] SHA1_Init2"
  by (simp add: sha_inv_def SHA1_Init2_def fips_H0_def sha_count_def partial_def exI [of _ "replicate 80 0"])

lemma sha_count_W [simp]: "sha_count (c\<lparr>sha_W := w\<rparr>) = sha_count c" "sha_count (c\<lparr>lenW := n\<rparr>) = sha_count c"
  by (simp_all add: sha_count_def)

definition sha_next :: "byte list list \<Rightarrow> byte list \<Rightarrow> byte \<Rightarrow> byte list list \<times> byte list" where
  "sha_next blks rest b = (if length rest = 63 then (blks @ [rest @ [b]], []) else (blks, rest @ [b]))"

lemma sha_byte_inv:
  assumes "sha_inv blks rest c"
  shows "case sha_next blks rest b of (blks', rest') \<Rightarrow> sha_inv blks' rest' (sha_byte c b)"
proof -
  let ?i = "lenW c div 4"
  let ?c1 = "c\<lparr>sha_W := (sha_W c)[?i := shift_in (sha_W c ! ?i) b], lenW := lenW c + 1\<rparr>"
  let ?c2 = "if lenW ?c1 mod 64 = 0 then (shaHashBlock ?c1)\<lparr>lenW := 0\<rparr> else ?c1"
  obtain w0 where w0: "partial w0 (sha_W c) rest" and len: "length rest < 64" "lenW c = length rest"
    and cnt: "sha_count c = 8 * int (length (concat blks @ rest)) mod 2 ^ 64"
    and h: "sha_H c = regs_list (foldl fips_block fips_H0 blks)" and blks: "\<forall>b \<in> set blks. length b = 64"
    using assms by (auto simp: sha_inv_def)
  have p: "partial w0 (sha_W ?c1) (rest @ [b])"
    using partial_snoc [OF w0 len(1)] len by simp
  have step: "sha_byte c b = ?c2\<lparr>sizeLo := sizeLo ?c2 + 8, sizeHi := sizeHi ?c2 + (if sizeLo ?c2 + 8 < 8 then 1 else 0)\<rparr>"
    by (simp add: sha_byte_def shift_in_def Let_def)
  show ?thesis
  proof (cases "length rest = 63")
    case True
    have W: "length (sha_W ?c1) = 80" "\<forall>j < 16. sha_W ?c1 ! j = fips_word (rest @ [b]) j"
      using p partial_full [OF p] True by (auto simp: partial_def)
    note hb = shaHashBlock_fips [OF W, of "foldl fips_block fips_H0 blks"]
    have c2: "?c2 = (shaHashBlock ?c1)\<lparr>lenW := 0\<rparr>" using True len by simp
    have "sha_count ?c2 = sha_count c" using c2 hb(4,5) h by (simp add: sha_count_def)
    then have "sha_count (sha_byte c b) = (sha_count c + 8) mod 2 ^ 64"
      unfolding step sha_count_step by simp
    then show ?thesis
      using True hb h blks cnt len partial_Nil [of "sha_W (shaHashBlock ?c1)"]
      by (auto simp: sha_next_def sha_inv_def step c2 mod_simps algebra_simps)
  next
    case False
    then have c2: "?c2 = ?c1" using len by simp
    have "sha_count (sha_byte c b) = (sha_count c + 8) mod 2 ^ 64"
      unfolding step sha_count_step c2 by (simp add: sha_count_def)
    then show ?thesis
      using False p h blks cnt len by (auto simp: sha_next_def sha_inv_def step c2 mod_simps algebra_simps)
  qed
qed

lemma SHA1_Update2_inv:
  "sha_inv blks rest c \<Longrightarrow>
     \<exists>blks' rest'. sha_inv blks' rest' (SHA1_Update2 c bs) \<and> concat blks' @ rest' = concat blks @ rest @ bs"
proof (induction bs arbitrary: blks rest c)
  case Nil
  then show ?case by (auto simp: SHA1_Update2_def)
next
  case (Cons b bs)
  obtain blks1 rest1 where n: "sha_next blks rest b = (blks1, rest1)" by fastforce
  then have "sha_inv blks1 rest1 (sha_byte c b)" using sha_byte_inv [OF Cons.prems, of b] by simp
  from Cons.IH [OF this] obtain blks' rest' where "sha_inv blks' rest' (SHA1_Update2 c (b # bs))"
    "concat blks' @ rest' = concat blks1 @ rest1 @ bs"
    by (auto simp: SHA1_Update2_def)
  moreover have "concat blks1 @ rest1 = concat blks @ rest @ [b]"
    using n by (auto simp: sha_next_def split: if_splits)
  ultimately show ?case by (metis append.assoc append_Cons append_Nil)
qed

lemma SHA1_Update2_append: "SHA1_Update2 (SHA1_Update2 c a) b = SHA1_Update2 c (a @ b)"
  and SHA1_Update2_Nil: "SHA1_Update2 c [] = c"
  by (simp_all add: SHA1_Update2_def)

text \<open>The write index stays inside the sixteen words the block function reads.\<close>

lemma lenW_Update: "lenW c < 64 \<Longrightarrow> lenW (SHA1_Update2 c bs) = (lenW c + length bs) mod 64"
proof (induction bs arbitrary: c)
  case Nil
  then show ?case by (simp add: SHA1_Update2_def)
next
  case (Cons b bs)
  have "lenW (sha_byte c b) = (lenW c + 1) mod 64"
    using Cons.prems by (auto simp: lenW_sha_byte mod_if)
  then show ?case
    using Cons.IH [of "sha_byte c b"] by (simp add: SHA1_Update2_def mod_simps)
qed

lemma sha_pad_zeros: "lenW c < 64 \<Longrightarrow> sha_pad c = SHA1_Update2 c (replicate ((120 - lenW c) mod 64) 0)"
proof (induction c rule: sha_pad.induct)
  case (1 c)
  show ?case
  proof (cases "lenW c = 56")
    case True
    then show ?thesis by (simp add: sha_pad.simps SHA1_Update2_Nil)
  next
    case False
    have l: "lenW (SHA1_Update2 c [0]) = (lenW c + 1) mod 64"
      using lenW_Update [OF "1.prems", of "[0]"] by simp
    have "(120 - lenW c) mod 64 = Suc ((120 - (lenW c + 1) mod 64) mod 64)"
      using False "1.prems" by (auto simp: mod_if)
    then have "replicate ((120 - lenW c) mod 64) 0 = [0] @ replicate ((120 - (lenW c + 1) mod 64) mod 64) (0 :: byte)"
      by simp
    then show ?thesis
      using "1.IH" False l by (subst sha_pad.simps) (simp add: SHA1_Update2_append)
  qed
qed

lemma blocks64_concat: "\<forall>b \<in> set blks. length b = 64 \<Longrightarrow> blocks64 (concat blks) = blks"
proof (induction blks)
  case Nil
  then show ?case by (simp add: blocks64.simps)
next
  case (Cons b blks)
  then show ?case by (subst blocks64.simps) simp
qed

lemma sha_out_bytes: "sha_out (regs_list h) = (case h of (a, b, c, d, e) \<Rightarrow> concat (map u32_bytes [a, b, c, d, e]))"
proof -
  have byte: "ucast (drop_bit 24 (push_bit 8 x)) = (ucast (drop_bit 16 x) :: byte)"
    "ucast (drop_bit 24 (push_bit 16 x)) = (ucast (drop_bit 8 x) :: byte)"
    "ucast (drop_bit 24 (push_bit 24 x)) = (ucast x :: byte)" for x :: u32
    by (rule bit_word_eqI; simp add: bit_simps)+
  have upt: "[0..<20] = [0, 1, 2, 3, 4, 5, 6, 7, 8, 9, 10, 11, 12, 13, 14, 15, 16, 17, 18, 19 :: nat]"
    by (simp add: upt_conv_Cons)
  show ?thesis
    by (cases h) (simp add: sha_out_def u32_bytes_def byte upt)
qed

subsection \<open>The length field\<close>

lemma byte_of_uint: "uint (ucast (drop_bit n w :: 'a::len word) :: byte) = (uint w div 2 ^ n) mod 256"
proof -
  have "uint (drop_bit n w) = uint w div 2 ^ n"
    by (simp only: unsigned_drop_bit_eq) (simp add: drop_bit_eq_div take_bit_int_eq_self)
  then show ?thesis by (simp only: unsigned_ucast_eq take_bit_eq_mod) simp
qed

lemma length_field:
  assumes "sha_count c = 8 * int n mod 2 ^ 64"
  shows "u32_bytes (sizeHi c) @ u32_bytes (sizeLo c)
    = map (\<lambda>k. ucast (drop_bit k (of_nat (8 * n) :: 64 word))) [56, 48, 40, 32, 24, 16, 8, 0]"
proof -
  define H L N where "H = uint (sizeHi c)" and "L = uint (sizeLo c)" and "N = uint (of_nat (8 * n) :: 64 word)"
  have "N = 8 * int n mod 2 ^ 64"
    unfolding N_def by (simp only: unsigned_of_nat take_bit_eq_mod zmod_int) simp
  then have N: "N = 4294967296 * H + L"
    using assms by (simp add: H_def L_def sha_count_def)
  have L: "0 \<le> L" "L < 4294967296"
    using uint_lt2p [of "sizeLo c"] by (simp_all add: L_def)
  have hi: "(N div 2 ^ (32 + k)) mod 256 = (H div 2 ^ k) mod 256" for k
  proof -
    have "N div 4294967296 = H" using N L by simp
    then show ?thesis by (simp add: power_add zdiv_zmult2_eq)
  qed
  have lo: "(N div 2 ^ k) mod 256 = (L div 2 ^ k) mod 256" if "k \<le> 24" for k
  proof -
    have "(4294967296 :: int) = 2 ^ k * (2 ^ (24 - k) * 256)"
      using that by (simp flip: power_add mult.assoc)
    then have "N = L + 2 ^ k * (2 ^ (24 - k) * 256 * H)" using N by (simp add: mult.assoc)
    then have "N div 2 ^ k = L div 2 ^ k + 256 * (2 ^ (24 - k) * H)" by simp
    then show ?thesis by simp
  qed
  have bytes: "ucast (drop_bit (32 + k) (of_nat (8 * n) :: 64 word)) = (ucast (drop_bit k (sizeHi c)) :: byte)" for k
    by (rule word_uint_eqI, unfold byte_of_uint) (use hi [of k] in \<open>simp only: N_def H_def\<close>)
  have bytel: "ucast (drop_bit k (of_nat (8 * n) :: 64 word)) = (ucast (drop_bit k (sizeLo c)) :: byte)" if "k \<le> 24" for k
    by (rule word_uint_eqI, unfold byte_of_uint) (use lo [OF that] in \<open>simp only: N_def L_def\<close>)
  show ?thesis
    using bytes [of 24] bytes [of 16] bytes [of 8] bytes [of 0] bytel [of 24] bytel [of 16] bytel [of 8] bytel [of 0]
    by (simp add: u32_bytes_def)
qed

subsection \<open>Streaming hashes as an interface\<close>

text \<open>
  What \<open>sha1_file\<close> and \<open>sha1_buffer\<close> rely on: feeding is compatible with concatenation, so
  the digest does not depend on how the data was cut into chunks.
\<close>

locale streaming_hash =
  fixes start :: 's and feed :: "'s \<Rightarrow> 'b list \<Rightarrow> 's" and digest :: "'s \<Rightarrow> 'd"
  assumes feed_append: "feed (feed s a) b = feed s (a @ b)"
    and feed_Nil: "feed s [] = s"
begin

definition hash_chunks :: "'b list list \<Rightarrow> 'd" where
  "hash_chunks ds = digest (foldl feed start ds)"

lemma feed_chunks: "foldl feed s ds = feed s (concat ds)"
  by (induction ds arbitrary: s) (simp_all add: feed_append feed_Nil)

lemma chunking_irrelevant: "concat ds = concat ds' \<Longrightarrow> hash_chunks ds = hash_chunks ds'"
  by (simp add: hash_chunks_def feed_chunks)

end

interpretation sha: streaming_hash SHA1_Init2 SHA1_Update2 "\<lambda>c. fst (SHA1_Final2 c)"
  by unfold_locales (simp_all add: SHA1_Update2_append SHA1_Update2_Nil)

lemma sha1_reads_foldl: "sha1_reads c ds = foldl SHA1_Update2 c (takeWhile (\<lambda>d. d \<noteq> []) ds)"
  by (induction c ds rule: sha1_reads.induct) auto

lemma length_fips_pad: "length (fips_pad msg) mod 64 = 0"
proof -
  define q r where "q = length msg div 64" and "r = length msg mod 64"
  then have len: "length msg = 64 * q + r" and r: "r < 64" by simp_all
  have "length (fips_pad msg) = 64 * q + (r + 9 + (119 - r) mod 64)"
    by (simp add: fips_pad_def len r)
  moreover have "(119 - r) mod 64 = (if r \<le> 55 then 55 - r else 119 - r)"
    using r by (auto simp: mod_if)
  moreover have "(if r \<le> 55 then 64 else 128) mod 64 = (0 :: nat)" by simp
  ultimately show ?thesis using r by (auto split: if_splits)
qed

lemma sha1_digest_fips: "fst (SHA1_Final2 (SHA1_Update2 SHA1_Init2 msg)) = fips_sha1 msg"
proof -
  let ?c = "SHA1_Update2 SHA1_Init2 msg"
  let ?pad = "u32_bytes (sizeHi ?c) @ u32_bytes (sizeLo ?c)"
  obtain blks rest where inv: "sha_inv blks rest ?c" and msg: "concat blks @ rest = msg"
    using SHA1_Update2_inv [OF sha_inv_init, of msg] by auto
  have len: "lenW ?c = length msg mod 64"
    using lenW_Update [of SHA1_Init2 msg] by (simp add: SHA1_Init2_def)
  have len1: "lenW (SHA1_Update2 ?c [0x80]) = (length msg + 1) mod 64"
    using lenW_Update [of ?c "[0x80]"] len by (simp add: mod_simps)
  let ?z = "replicate ((119 - length msg mod 64) mod 64) (0 :: byte)"
  have "(120 - (length msg + 1) mod 64) mod 64 = (119 - length msg mod 64) mod 64"
    by (auto simp: mod_Suc)
  then have "sha_pad (SHA1_Update2 ?c [0x80]) = SHA1_Update2 SHA1_Init2 (msg @ [0x80] @ ?z)"
    using sha_pad_zeros [of "SHA1_Update2 ?c [0x80]"] len1 by (simp add: SHA1_Update2_append)
  then have pad: "sha_pad (SHA1_Update2 SHA1_Init2 (msg @ [0x80])) = SHA1_Update2 SHA1_Init2 (msg @ [0x80] @ ?z)"
    by (simp only: SHA1_Update2_append)
  have "sha_count ?c = 8 * int (length msg) mod 2 ^ 64"
    using inv unfolding sha_inv_def msg by blast
  then have full: "fips_pad msg = msg @ [0x80] @ ?z @ ?pad"
    by (simp only: fips_pad_def length_field)
  let ?d = "SHA1_Update2 SHA1_Init2 (fips_pad msg)"
  obtain blks' rest' where inv': "sha_inv blks' rest' ?d" and blocks: "concat blks' @ rest' = fips_pad msg"
    using SHA1_Update2_inv [OF sha_inv_init, of "fips_pad msg"] by auto
  have "lenW ?d = 0"
    using lenW_Update [of SHA1_Init2 "fips_pad msg"] length_fips_pad by (simp add: SHA1_Init2_def)
  then have "rest' = []" using inv' by (simp add: sha_inv_def)
  then have "blocks64 (fips_pad msg) = blks'"
    using inv' blocks blocks64_concat [of blks'] by (simp add: sha_inv_def)
  moreover have "sha_H ?d = regs_list (foldl fips_block fips_H0 blks')"
    using inv' by (simp add: sha_inv_def)
  ultimately have "sha_out (sha_H ?d) = fips_sha1 msg"
    by (simp add: sha_out_bytes fips_sha1_def)
  moreover have "fst (SHA1_Final2 ?c) = sha_out (sha_H ?d)"
    by (simp only: SHA1_Final2_def Let_def fst_conv pad full SHA1_Update2_append append_assoc)
  ultimately show ?thesis by simp
qed

lemma length_fips_sha1: "length (fips_sha1 msg) = 20"
  by (simp add: fips_sha1_def u32_bytes_def split: prod.splits)

lemma length_sha1_to_string: "length (sha1_to_string h) = 40"
  by (simp add: sha1_to_string_def length_concat comp_def sum_list_triv)

text \<open>Two digests print the same only when they are the same.\<close>

lemma hextab_inj: "i < 16 \<Longrightarrow> j < 16 \<Longrightarrow> hextab ! i = hextab ! j \<longleftrightarrow> i = j"
  by (rule nth_eq_iff_index_eq) (simp_all add: hextab_def)

lemma low_nibble: "unat (w AND 0x0f :: byte) = unat w mod 16"
proof -
  have "w AND 0x0f = take_bit 4 w" by (simp add: take_bit_eq_mask mask_eq_exp_minus_1)
  then show ?thesis by (simp only: unsigned_take_bit_eq) (simp add: take_bit_eq_mod)
qed

lemma unat_byte: "unat (w :: byte) < 256"
  using unsigned_less [of w] by simp

lemma high_nibble: "unat (drop_bit 4 w AND 0x0f :: byte) = unat w div 16"
proof -
  have "unat (drop_bit 4 w) = unat w div 16"
    using unat_byte [of w] by (simp only: unsigned_drop_bit_eq) (simp add: drop_bit_eq_div take_bit_nat_eq_self)
  then show ?thesis using unat_byte [of w] by (simp only: low_nibble) simp
qed

lemma hex_pair_inj:
  assumes "hextab ! unat (drop_bit 4 v AND 0x0f) = hextab ! unat (drop_bit 4 w AND 0x0f :: byte)"
    "hextab ! unat (v AND 0x0f) = hextab ! unat (w AND 0x0f :: byte)"
  shows "v = w"
proof -
  have "unat v div 16 < 16" "unat w div 16 < 16" using unat_byte [of v] unat_byte [of w] by simp_all
  then have "unat v div 16 = unat w div 16" "unat v mod 16 = unat w mod 16"
    using assms(1) [unfolded high_nibble] assms(2) [unfolded low_nibble] by (simp_all add: hextab_inj)
  then have "unat v = unat w" by (metis mult_div_mod_eq)
  then show ?thesis by (simp only: word_unat_eq_iff)
qed

lemma sha1_to_string_inj:
  assumes "length g = 20" "length h = 20" "sha1_to_string g = sha1_to_string h"
  shows "g = h"
proof (rule nth_equalityI)
  show "length g = length h" using assms by simp
  fix i assume "i < length g"
  then have i: "i < 20" using assms by simp
  let ?hex = "\<lambda>x i. [hextab ! unat (drop_bit 4 (x ! i) AND 0x0f :: byte), hextab ! unat ((x ! i) AND 0x0f)]"
  have "map (?hex g) [0..<20] = map (?hex h) [0..<20]"
    by (rule concat_injective) (use assms(3) in \<open>auto simp: sha1_to_string_def zip_map_map\<close>)
  then have "?hex g i = ?hex h i"
    using i by (metis (no_types, lifting) add_0 length_upt minus_nat.diff_0 nth_map nth_upt)
  then show "g ! i = h ! i" by (intro hex_pair_inj) simp_all
qed

subsection \<open>Properties\<close>

text \<open>
  C5: The password hash is SHA-1. For every pair of strings \<open>sha1_buffer\<close> gives
  the hexadecimal digits of the digest FIPS 180-1 defines on their concatenation (NULL
  printing as \<open>(null)\<close>), and NULL exactly when the concatenation is empty:
  the streaming routine with its byte-wise packing, its optimised choice and majority
  functions, its padding loop and its two 32-bit length words computes the reference.
\<close>

theorem sha1_buffer_is_sha1:
  "sha1_buffer buf1 buf2 =
     (let msg = printf_s buf1 @ printf_s buf2
      in if msg = [] then None else Some (sha1_to_string (fips_sha1 (bytes_of msg))))"
  by (cases "printf_s buf1 @ printf_s buf2") (simp_all add: sha1_buffer_def sha1_digest_fips Let_def)

text \<open>
  C26: However \<open>read\<close> cuts a file into pieces, \<open>sha1_file\<close> gives the
  digest of the bytes up to the first empty read, the same as hashing them at once; NULL
  only when the file cannot be opened.
\<close>

theorem sha1_file_chunks:
  "sha1_file fd = (case fd of None \<Rightarrow> None
     | Some ds \<Rightarrow> Some (sha1_to_string (fips_sha1 (concat (takeWhile (\<lambda>d. d \<noteq> []) ds)))))"
  by (simp add: sha1_file_def sha1_reads_foldl sha.feed_chunks sha1_digest_fips split: option.splits)

lemma hex_nibble: "hextab ! unat (w AND 0x0f :: byte) \<in> set hextab"
proof -
  have "w AND 0x0f \<le> (0x0f :: byte)" by (simp add: word_and_le1)
  then have "unat (w AND 0x0f) < 16" by (simp add: word_le_nat_alt)
  then show ?thesis by (intro nth_mem) (simp add: hextab_def)
qed

lemma set_sha1_to_string: "set (sha1_to_string h) \<subseteq> set hextab"
  using hex_nibble by (auto simp: sha1_to_string_def)

text \<open>
  C39: While a message of any length is fed, the byte counter stays below 64, so the routine
  writes only the first sixteen of the eighty words, and a digest is always forty
  hexadecimal digits.
\<close>

theorem sha1_index_bounds:
  "lenW (SHA1_Update2 SHA1_Init2 bs) div 4 < 16
   \<and> length (sha1_to_string (fst (SHA1_Final2 (SHA1_Update2 SHA1_Init2 bs)))) = 40
   \<and> set (sha1_to_string (fst (SHA1_Final2 (SHA1_Update2 SHA1_Init2 bs)))) \<subseteq> set ''0123456789abcdef''"
proof (intro conjI)
  have "lenW SHA1_Init2 < 64" by (simp add: SHA1_Init2_def)
  then have "lenW (SHA1_Update2 SHA1_Init2 bs) < 64" by (simp add: lenW_Update)
  then show "lenW (SHA1_Update2 SHA1_Init2 bs) div 4 < 16" by simp
  show "length (sha1_to_string (fst (SHA1_Final2 (SHA1_Update2 SHA1_Init2 bs)))) = 40"
    by (rule length_sha1_to_string)
  show "set (sha1_to_string (fst (SHA1_Final2 (SHA1_Update2 SHA1_Init2 bs)))) \<subseteq> set ''0123456789abcdef''"
    using set_sha1_to_string by (simp only: hextab_def)
qed

end
