(* ===== verification/Frame.thy ===== *)
theory Frame
  imports Db
begin

text \<open>
  What the primitives of the calling convention and the database layer leave alone: the
  session, the flags of the gate, the cookie. Preservation proofs about the state machines
  rest on these facts.
\<close>

lemma emit_frame [simp]:
  "m_session (emit x m) = m_session m"
  "c_checked (emit x m) = c_checked m"
  "c_sso (emit x m) = c_sso m"
  "m_has_content (emit x m) = m_has_content m"
  "m_cookie (emit x m) = m_cookie m"
  "c_dead (emit x m) = c_dead m"
  "c_auth (emit x m) = c_auth m"
  "m_zconf (emit x m) = m_zconf m"
  "c_count (emit x m) = c_count m"
  "c_cbs (emit x m) = c_cbs m"
  "c_error (emit x m) = c_error m"
  "c_params (emit x m) = c_params m"
  "m_qid (emit x m) = m_qid m"
  "c_job (emit x m) = c_job m"
  "m_fault (emit x m) = m_fault m"
  by (simp_all add: emit_def)

lemma set_error_frame [simp]:
  "m_session (set_error x m) = m_session m"
  "c_checked (set_error x m) = c_checked m"
  "c_sso (set_error x m) = c_sso m"
  "m_has_content (set_error x m) = m_has_content m"
  "m_cookie (set_error x m) = m_cookie m"
  "c_dead (set_error x m) = c_dead m"
  "c_auth (set_error x m) = c_auth m"
  "m_zconf (set_error x m) = m_zconf m"
  "c_count (set_error x m) = c_count m"
  "c_cbs (set_error x m) = c_cbs m"
  "c_params (set_error x m) = c_params m"
  "m_qid (set_error x m) = m_qid m"
  "c_job (set_error x m) = c_job m"
  "m_out (set_error x m) = m_out m"
  "m_fault (set_error x m) = m_fault m"
  by (simp_all add: set_error_def)

lemma fault_set_frame [simp]:
  "m_session (fault_set x m) = m_session m"
  "c_checked (fault_set x m) = c_checked m"
  "c_sso (fault_set x m) = c_sso m"
  "m_has_content (fault_set x m) = m_has_content m"
  "m_cookie (fault_set x m) = m_cookie m"
  "c_dead (fault_set x m) = c_dead m"
  "c_auth (fault_set x m) = c_auth m"
  "m_zconf (fault_set x m) = m_zconf m"
  "c_count (fault_set x m) = c_count m"
  "c_cbs (fault_set x m) = c_cbs m"
  "c_error (fault_set x m) = c_error m"
  "c_params (fault_set x m) = c_params m"
  "m_qid (fault_set x m) = m_qid m"
  "c_job (fault_set x m) = c_job m"
  "m_out (fault_set x m) = m_out m"
  by (simp_all add: fault_set_def)

lemma upd_session_frame [simp]:
  "c_checked (upd_session f m) = c_checked m"
  "c_sso (upd_session f m) = c_sso m"
  "m_has_content (upd_session f m) = m_has_content m"
  "m_cookie (upd_session f m) = m_cookie m"
  "c_dead (upd_session f m) = c_dead m"
  "c_auth (upd_session f m) = c_auth m"
  "m_zconf (upd_session f m) = m_zconf m"
  "c_count (upd_session f m) = c_count m"
  "c_cbs (upd_session f m) = c_cbs m"
  "c_error (upd_session f m) = c_error m"
  "c_params (upd_session f m) = c_params m"
  "m_qid (upd_session f m) = m_qid m"
  "c_job (upd_session f m) = c_job m"
  "m_out (upd_session f m) = m_out m"
  "m_fault (upd_session f m) = m_fault m"
  by (simp_all add: upd_session_def)

lemma CTX_CB_ADD_frame [simp]:
  "m_session (CTX_CB_ADD f m) = m_session m"
  "c_checked (CTX_CB_ADD f m) = c_checked m"
  "c_sso (CTX_CB_ADD f m) = c_sso m"
  "m_has_content (CTX_CB_ADD f m) = m_has_content m"
  "m_cookie (CTX_CB_ADD f m) = m_cookie m"
  "c_dead (CTX_CB_ADD f m) = c_dead m"
  "c_auth (CTX_CB_ADD f m) = c_auth m"
  "m_zconf (CTX_CB_ADD f m) = m_zconf m"
  "c_count (CTX_CB_ADD f m) = c_count m"
  "c_error (CTX_CB_ADD f m) = c_error m"
  "c_params (CTX_CB_ADD f m) = c_params m"
  "m_qid (CTX_CB_ADD f m) = m_qid m"
  "c_job (CTX_CB_ADD f m) = c_job m"
  "m_out (CTX_CB_ADD f m) = m_out m"
  "m_fault (CTX_CB_ADD f m) = m_fault m"
  by (simp_all add: CTX_CB_ADD_def)

lemma CTX_PARAM_ADD_frame [simp]:
  "m_session (CTX_PARAM_ADD f v m) = m_session m"
  "c_checked (CTX_PARAM_ADD f v m) = c_checked m"
  "c_sso (CTX_PARAM_ADD f v m) = c_sso m"
  "m_has_content (CTX_PARAM_ADD f v m) = m_has_content m"
  "m_cookie (CTX_PARAM_ADD f v m) = m_cookie m"
  "c_dead (CTX_PARAM_ADD f v m) = c_dead m"
  "c_auth (CTX_PARAM_ADD f v m) = c_auth m"
  "m_zconf (CTX_PARAM_ADD f v m) = m_zconf m"
  "c_count (CTX_PARAM_ADD f v m) = c_count m"
  "c_cbs (CTX_PARAM_ADD f v m) = c_cbs m"
  "c_error (CTX_PARAM_ADD f v m) = c_error m"
  "m_qid (CTX_PARAM_ADD f v m) = m_qid m"
  "c_job (CTX_PARAM_ADD f v m) = c_job m"
  "m_out (CTX_PARAM_ADD f v m) = m_out m"
  "m_fault (CTX_PARAM_ADD f v m) = m_fault m"
  by (simp_all add: CTX_PARAM_ADD_def)

lemma CTX_PARAM_DEL_frame [simp]:
  "m_session (CTX_PARAM_DEL f m) = m_session m"
  "c_checked (CTX_PARAM_DEL f m) = c_checked m"
  "c_sso (CTX_PARAM_DEL f m) = c_sso m"
  "m_has_content (CTX_PARAM_DEL f m) = m_has_content m"
  "m_cookie (CTX_PARAM_DEL f m) = m_cookie m"
  "c_dead (CTX_PARAM_DEL f m) = c_dead m"
  "c_auth (CTX_PARAM_DEL f m) = c_auth m"
  "m_zconf (CTX_PARAM_DEL f m) = m_zconf m"
  "c_count (CTX_PARAM_DEL f m) = c_count m"
  "c_cbs (CTX_PARAM_DEL f m) = c_cbs m"
  "c_error (CTX_PARAM_DEL f m) = c_error m"
  "m_qid (CTX_PARAM_DEL f m) = m_qid m"
  "c_job (CTX_PARAM_DEL f m) = c_job m"
  "m_out (CTX_PARAM_DEL f m) = m_out m"
  "m_fault (CTX_PARAM_DEL f m) = m_fault m"
  by (simp_all add: CTX_PARAM_DEL_def)

lemma CTX_PARAM_VAR_frame [simp]:
  "m_session (CTX_PARAM_ADD_FROM_VARIABLE k v m) = m_session m"
  "c_checked (CTX_PARAM_ADD_FROM_VARIABLE k v m) = c_checked m"
  "c_sso (CTX_PARAM_ADD_FROM_VARIABLE k v m) = c_sso m"
  "m_has_content (CTX_PARAM_ADD_FROM_VARIABLE k v m) = m_has_content m"
  "m_cookie (CTX_PARAM_ADD_FROM_VARIABLE k v m) = m_cookie m"
  "c_dead (CTX_PARAM_ADD_FROM_VARIABLE k v m) = c_dead m"
  "c_auth (CTX_PARAM_ADD_FROM_VARIABLE k v m) = c_auth m"
  "m_zconf (CTX_PARAM_ADD_FROM_VARIABLE k v m) = m_zconf m"
  "c_count (CTX_PARAM_ADD_FROM_VARIABLE k v m) = c_count m"
  "c_cbs (CTX_PARAM_ADD_FROM_VARIABLE k v m) = c_cbs m"
  "c_error (CTX_PARAM_ADD_FROM_VARIABLE k v m) = c_error m"
  "m_qid (CTX_PARAM_ADD_FROM_VARIABLE k v m) = m_qid m"
  "c_job (CTX_PARAM_ADD_FROM_VARIABLE k v m) = c_job m"
  "m_out (CTX_PARAM_ADD_FROM_VARIABLE k v m) = m_out m"
  "m_fault (CTX_PARAM_ADD_FROM_VARIABLE k v m) = m_fault m"
  by (simp_all add: CTX_PARAM_ADD_FROM_VARIABLE_def split: val.splits)

lemma MARK_CB_frame [simp]:
  "m_session (MARK_CB m) = m_session m"
  "c_checked (MARK_CB m) = c_checked m"
  "c_sso (MARK_CB m) = c_sso m"
  "m_has_content (MARK_CB m) = m_has_content m"
  "m_cookie (MARK_CB m) = m_cookie m"
  "c_dead (MARK_CB m) = c_dead m"
  "c_auth (MARK_CB m) = c_auth m"
  "m_zconf (MARK_CB m) = m_zconf m"
  "c_count (MARK_CB m) = c_count m"
  "c_error (MARK_CB m) = c_error m"
  "c_params (MARK_CB m) = c_params m"
  "m_qid (MARK_CB m) = m_qid m"
  "c_job (MARK_CB m) = c_job m"
  "m_out (MARK_CB m) = m_out m"
  "m_fault (MARK_CB m) = m_fault m"
  by (simp_all add: MARK_CB_def)

lemma REWIND_frame [simp]:
  "m_session (REWIND m) = m_session m"
  "c_checked (REWIND m) = c_checked m"
  "c_sso (REWIND m) = c_sso m"
  "m_has_content (REWIND m) = m_has_content m"
  "m_cookie (REWIND m) = m_cookie m"
  "c_dead (REWIND m) = c_dead m"
  "c_auth (REWIND m) = c_auth m"
  "m_zconf (REWIND m) = m_zconf m"
  "c_count (REWIND m) = c_count m"
  "c_cbs (REWIND m) = c_cbs m"
  "c_error (REWIND m) = c_error m"
  "c_params (REWIND m) = c_params m"
  "m_qid (REWIND m) = m_qid m"
  "c_job (REWIND m) = c_job m"
  "m_fault (REWIND m) = m_fault m"
  by (simp_all add: REWIND_def)

lemma RESUME_frame [simp]:
  "m_session (RESUME m) = m_session m"
  "c_checked (RESUME m) = c_checked m"
  "c_sso (RESUME m) = c_sso m"
  "m_has_content (RESUME m) = m_has_content m"
  "m_cookie (RESUME m) = m_cookie m"
  "c_dead (RESUME m) = c_dead m"
  "c_auth (RESUME m) = c_auth m"
  "m_zconf (RESUME m) = m_zconf m"
  "c_count (RESUME m) = c_count m"
  "c_cbs (RESUME m) = c_cbs m"
  "c_error (RESUME m) = c_error m"
  "c_params (RESUME m) = c_params m"
  "m_qid (RESUME m) = m_qid m"
  "c_job (RESUME m) = c_job m"
  by (simp_all add: RESUME_def Let_def split: option.splits)

lemma AZY_RETVAL_frame [simp]:
  "m_session (AZY_RETVAL v m) = m_session m"
  "c_checked (AZY_RETVAL v m) = c_checked m"
  "c_sso (AZY_RETVAL v m) = c_sso m"
  "m_has_content (AZY_RETVAL v m) = m_has_content m"
  "m_cookie (AZY_RETVAL v m) = m_cookie m"
  "c_dead (AZY_RETVAL v m) = c_dead m"
  "c_auth (AZY_RETVAL v m) = c_auth m"
  "m_zconf (AZY_RETVAL v m) = m_zconf m"
  "c_count (AZY_RETVAL v m) = c_count m"
  "c_cbs (AZY_RETVAL v m) = c_cbs m"
  "c_error (AZY_RETVAL v m) = c_error m"
  "c_params (AZY_RETVAL v m) = c_params m"
  "m_qid (AZY_RETVAL v m) = m_qid m"
  "c_job (AZY_RETVAL v m) = c_job m"
  by (simp_all add: AZY_RETVAL_def)

lemma NEXT_CB_frame [simp]:
  "m_session (NEXT_CB v m) = m_session m"
  "c_checked (NEXT_CB v m) = c_checked m"
  "c_sso (NEXT_CB v m) = c_sso m"
  "m_has_content (NEXT_CB v m) = m_has_content m"
  "m_cookie (NEXT_CB v m) = m_cookie m"
  "c_dead (NEXT_CB v m) = c_dead m"
  "c_auth (NEXT_CB v m) = c_auth m"
  "m_zconf (NEXT_CB v m) = m_zconf m"
  "c_count (NEXT_CB v m) = c_count m"
  "c_cbs (NEXT_CB v m) = c_cbs m"
  "c_error (NEXT_CB v m) = c_error m"
  "c_params (NEXT_CB v m) = c_params m"
  "m_qid (NEXT_CB v m) = m_qid m"
  "c_job (NEXT_CB v m) = c_job m"
  by (simp_all add: NEXT_CB_def split: list.splits)

lemma CTX_RETURN_frame [simp]:
  "m_session (snd (CTX_RETURN m)) = m_session m"
  "c_checked (snd (CTX_RETURN m)) = c_checked m"
  "c_sso (snd (CTX_RETURN m)) = c_sso m"
  "m_has_content (snd (CTX_RETURN m)) = m_has_content m"
  "m_cookie (snd (CTX_RETURN m)) = m_cookie m"
  "c_dead (snd (CTX_RETURN m)) = c_dead m"
  "c_auth (snd (CTX_RETURN m)) = c_auth m"
  "m_zconf (snd (CTX_RETURN m)) = m_zconf m"
  "c_count (snd (CTX_RETURN m)) = c_count m"
  "c_cbs (snd (CTX_RETURN m)) = c_cbs m"
  "c_params (snd (CTX_RETURN m)) = c_params m"
  "m_qid (snd (CTX_RETURN m)) = m_qid m"
  "c_job (snd (CTX_RETURN m)) = c_job m"
  by (simp_all add: CTX_RETURN_def split: option.splits)

lemma run_query_frame [simp]:
  "m_session (run_query e q m) = m_session m"
  "c_checked (run_query e q m) = c_checked m"
  "c_sso (run_query e q m) = c_sso m"
  "m_has_content (run_query e q m) = m_has_content m"
  "m_cookie (run_query e q m) = m_cookie m"
  "c_dead (run_query e q m) = c_dead m"
  "c_auth (run_query e q m) = c_auth m"
  "m_zconf (run_query e q m) = m_zconf m"
  "c_count (run_query e q m) = c_count m"
  "c_cbs (run_query e q m) = c_cbs m"
  "c_params (run_query e q m) = c_params m"
  "c_job (run_query e q m) = c_job m"
  "m_fault (run_query e q m) = m_fault m"
  by (simp_all add: run_query_def set_free_def Let_def split: option.splits)

lemma db_call_frame [simp]:
  "m_session (db_call e r m) = m_session m"
  "c_checked (db_call e r m) = c_checked m"
  "c_sso (db_call e r m) = c_sso m"
  "m_has_content (db_call e r m) = m_has_content m"
  "m_cookie (db_call e r m) = m_cookie m"
  "c_dead (db_call e r m) = c_dead m"
  "c_auth (db_call e r m) = c_auth m"
  "m_zconf (db_call e r m) = m_zconf m"
  "c_count (db_call e r m) = c_count m"
  "c_cbs (db_call e r m) = c_cbs m"
  "c_params (db_call e r m) = c_params m"
  "c_job (db_call e r m) = c_job m"
  "m_fault (db_call e r m) = m_fault m"
  by (simp_all add: db_call_def split: dbreq.splits option.splits)

lemma count_inc_frame [simp]:
  "m_session (count_inc m) = m_session m"
  "c_checked (count_inc m) = c_checked m"
  "c_sso (count_inc m) = c_sso m"
  "m_has_content (count_inc m) = m_has_content m"
  "m_cookie (count_inc m) = m_cookie m"
  "c_dead (count_inc m) = c_dead m"
  "c_auth (count_inc m) = c_auth m"
  "m_zconf (count_inc m) = m_zconf m"
  "c_cbs (count_inc m) = c_cbs m"
  "c_error (count_inc m) = c_error m"
  "c_params (count_inc m) = c_params m"
  "m_qid (count_inc m) = m_qid m"
  "c_job (count_inc m) = c_job m"
  "m_out (count_inc m) = m_out m"
  "m_fault (count_inc m) = m_fault m"
  by (simp_all add: count_inc_def)

lemma ecore_job_add_frame [simp]:
  "m_session (ecore_job_add m) = m_session m"
  "c_checked (ecore_job_add m) = c_checked m"
  "c_sso (ecore_job_add m) = c_sso m"
  "m_has_content (ecore_job_add m) = m_has_content m"
  "m_cookie (ecore_job_add m) = m_cookie m"
  "c_dead (ecore_job_add m) = c_dead m"
  "c_auth (ecore_job_add m) = c_auth m"
  "m_zconf (ecore_job_add m) = m_zconf m"
  "c_count (ecore_job_add m) = c_count m"
  "c_cbs (ecore_job_add m) = c_cbs m"
  "c_error (ecore_job_add m) = c_error m"
  "c_params (ecore_job_add m) = c_params m"
  "m_qid (ecore_job_add m) = m_qid m"
  "c_job (ecore_job_add m) = c_job m"
  "m_fault (ecore_job_add m) = m_fault m"
  by (simp_all add: ecore_job_add_def split: option.splits)

lemma CTX_CB_ADD_cbs: "c_cbs (CTX_CB_ADD f m) = (if \<not> c_dead m \<and> c_error m = None then c_cbs m @ [f] else c_cbs m)"
  by (simp add: CTX_CB_ADD_def)

lemma MARK_CB_cbs [simp]: "c_cbs (MARK_CB m) = tl (c_cbs m)"
  by (simp add: MARK_CB_def)

lemma upd_session_session [simp]: "m_session (upd_session f m) = f (m_session m)"
  by (simp add: upd_session_def)

lemma CTX_PARAM_GET_snd [simp]: "snd (CTX_PARAM_GET f m) = CTX_PARAM_DEL f m"
  and CTX_PARAM_GET_fst [simp]: "fst (CTX_PARAM_GET f m) = CTX_PARAM_PEEK f m"
  by (simp_all add: CTX_PARAM_GET_def)

text \<open>A statement that the library takes is sent once, and one it refuses is an error of the call.\<close>

lemma db_query_out [simp]:
  "m_out (db_call e (DbQuery q) m) = m_out m @ (if esql_accepts e (m_qid m) then [OQuery (m_qid m) q] else [])"
  "m_qid (db_call e (DbQuery q) m) = Suc (m_qid m)"
  "c_error (db_call e (DbQuery q) m) = (if esql_accepts e (m_qid m) then c_error m else Some DB_FAIL)"
  "c_ret_set (db_call e (DbQuery q) m) = c_ret_set m"
  by (simp_all add: db_call_def run_query_def set_free_def emit_def set_error_def Let_def split: option.splits)

lemma CTX_RETURN_out: "m_out (snd (CTX_RETURN m))
    = m_out m @ (if c_error m \<noteq> None then [OResume False] else if c_ret_set m then [OResume True] else [])"
  by (simp add: CTX_RETURN_def emit_def fault_set_def split: option.splits)

lemma CTX_RETURN_fault: "m_fault (snd (CTX_RETURN m)) = (if c_error m = None then m_fault m else c_error m)"
  by (simp add: CTX_RETURN_def emit_def fault_set_def split: option.splits)

lemma ret_set_frame [simp]:
  "c_ret_set (emit x m) = c_ret_set m" "c_ret_set (set_error x' m) = c_ret_set m"
  "c_ret_set (fault_set x' m) = c_ret_set m" "c_ret_set (upd_session g m) = c_ret_set m"
  "c_ret_set (CTX_CB_ADD f m) = c_ret_set m" "c_ret_set (CTX_PARAM_ADD f v m) = c_ret_set m"
  "c_ret_set (CTX_PARAM_DEL f m) = c_ret_set m" "c_ret_set (MARK_CB m) = c_ret_set m"
  "c_ret_set (count_inc m) = c_ret_set m"
  by (simp_all add: emit_def set_error_def fault_set_def upd_session_def CTX_CB_ADD_def CTX_PARAM_ADD_def
      CTX_PARAM_DEL_def MARK_CB_def count_inc_def)

lemma ret_set_CTX_RETURN [simp]: "c_ret_set (snd (CTX_RETURN m)) = c_ret_set m"
  by (simp add: CTX_RETURN_def split: option.splits)

lemma error_CTX_RETURN [simp]: "c_error (snd (CTX_RETURN m)) = c_error m"
  by (simp add: CTX_RETURN_def split: option.splits)

lemma retval_frame [simp]:
  "m_retval (RESUME m) = m_retval m" "m_retval (snd (CTX_RETURN m)) = m_retval m" "m_retval (emit x m) = m_retval m"
  by (auto simp: RESUME_def CTX_RETURN_def emit_def fault_set_def Let_def split: option.splits)

lemma AZY_RETVAL_retval:
  "\<not> c_ret_set m \<Longrightarrow> c_error m = None \<Longrightarrow> m_fault m = None \<Longrightarrow> m_method m \<Longrightarrow> m_retval (AZY_RETVAL v m) = Some v"
  by (simp add: AZY_RETVAL_def)

lemma CTX_PARAM_PEEK_simps [simp]:
  "CTX_PARAM_PEEK f (CTX_PARAM_ADD g v m) = (if f = g then v else CTX_PARAM_PEEK f m)"
  "CTX_PARAM_PEEK f (CTX_PARAM_DEL g m) = (if f = g then VNull else CTX_PARAM_PEEK f m)"
  "CTX_PARAM_PEEK f (CTX_CB_ADD g m) = CTX_PARAM_PEEK f m"
  "CTX_PARAM_PEEK f (snd (CTX_RETURN m)) = CTX_PARAM_PEEK f m"
  "CTX_PARAM_PEEK f (db_call e r m) = CTX_PARAM_PEEK f m"
  "CTX_PARAM_PEEK f (set_error x m) = CTX_PARAM_PEEK f m"
  "CTX_PARAM_PEEK f (upd_session h m) = CTX_PARAM_PEEK f m"
  "CTX_PARAM_PEEK f (MARK_CB m) = CTX_PARAM_PEEK f m"
  by (simp_all add: CTX_PARAM_PEEK_def CTX_PARAM_ADD_def CTX_PARAM_DEL_def)

text \<open>The value being collected, the heap of jobs and the content of the call stay as they are.\<close>

lemma kept_retval [simp]:
  "c_retval (emit x m) = c_retval m" "c_retval (set_error x' m) = c_retval m"
  "c_retval (fault_set x' m) = c_retval m" "c_retval (CTX_CB_ADD f m) = c_retval m"
  "c_retval (CTX_PARAM_ADD f v m) = c_retval m" "c_retval (CTX_PARAM_DEL f m) = c_retval m"
  "c_retval (MARK_CB m) = c_retval m" "c_retval (count_inc m) = c_retval m"
  "c_retval (REWIND m) = c_retval m" "c_retval (RESUME m) = c_retval m"
  "c_retval (snd (CTX_RETURN m)) = c_retval m" "c_retval (db_call e r m) = c_retval m"
  "c_retval (CTX_PARAM_ADD_FROM_VARIABLE k v m) = c_retval m" "c_retval (ecore_job_add m) = c_retval m"
  by (auto simp: emit_def set_error_def fault_set_def CTX_CB_ADD_def CTX_PARAM_ADD_def CTX_PARAM_DEL_def MARK_CB_def count_inc_def
      REWIND_def RESUME_def CTX_RETURN_def db_call_def run_query_def set_free_def CTX_PARAM_ADD_FROM_VARIABLE_def
      ecore_job_add_def Let_def
      split: option.splits val.splits dbreq.splits)

lemma kept_jobs [simp]:
  "m_jobs (emit x m) = m_jobs m" "m_jobs (set_error x' m) = m_jobs m"
  "m_jobs (fault_set x' m) = m_jobs m" "m_jobs (CTX_CB_ADD f m) = m_jobs m"
  "m_jobs (CTX_PARAM_ADD f v m) = m_jobs m" "m_jobs (CTX_PARAM_DEL f m) = m_jobs m"
  "m_jobs (MARK_CB m) = m_jobs m" "m_jobs (count_inc m) = m_jobs m"
  "m_jobs (REWIND m) = m_jobs m" "m_jobs (RESUME m) = m_jobs m"
  "m_jobs (snd (CTX_RETURN m)) = m_jobs m" "m_jobs (db_call e r m) = m_jobs m"
  "m_jobs (CTX_PARAM_ADD_FROM_VARIABLE k v m) = m_jobs m" "m_jobs (ecore_job_add m) = m_jobs m"
  by (auto simp: emit_def set_error_def fault_set_def CTX_CB_ADD_def CTX_PARAM_ADD_def CTX_PARAM_DEL_def MARK_CB_def count_inc_def
      REWIND_def RESUME_def CTX_RETURN_def db_call_def run_query_def set_free_def CTX_PARAM_ADD_FROM_VARIABLE_def
      ecore_job_add_def Let_def
      split: option.splits val.splits dbreq.splits)

lemma kept_method [simp]:
  "m_method (emit x m) = m_method m" "m_method (set_error x' m) = m_method m"
  "m_method (fault_set x' m) = m_method m" "m_method (CTX_CB_ADD f m) = m_method m"
  "m_method (CTX_PARAM_ADD f v m) = m_method m" "m_method (CTX_PARAM_DEL f m) = m_method m"
  "m_method (MARK_CB m) = m_method m" "m_method (count_inc m) = m_method m"
  "m_method (REWIND m) = m_method m" "m_method (RESUME m) = m_method m"
  "m_method (snd (CTX_RETURN m)) = m_method m" "m_method (db_call e r m) = m_method m"
  "m_method (CTX_PARAM_ADD_FROM_VARIABLE k v m) = m_method m" "m_method (ecore_job_add m) = m_method m"
  by (auto simp: emit_def set_error_def fault_set_def CTX_CB_ADD_def CTX_PARAM_ADD_def CTX_PARAM_DEL_def MARK_CB_def count_inc_def
      REWIND_def RESUME_def CTX_RETURN_def db_call_def run_query_def set_free_def CTX_PARAM_ADD_FROM_VARIABLE_def
      ecore_job_add_def Let_def
      split: option.splits val.splits dbreq.splits)

lemma kept_user_type [simp]:
  "c_user_type (emit x m) = c_user_type m" "c_user_type (set_error x' m) = c_user_type m"
  "c_user_type (fault_set x' m) = c_user_type m" "c_user_type (CTX_CB_ADD f m) = c_user_type m"
  "c_user_type (CTX_PARAM_ADD f v m) = c_user_type m" "c_user_type (CTX_PARAM_DEL f m) = c_user_type m"
  "c_user_type (MARK_CB m) = c_user_type m" "c_user_type (count_inc m) = c_user_type m"
  "c_user_type (REWIND m) = c_user_type m" "c_user_type (RESUME m) = c_user_type m"
  "c_user_type (snd (CTX_RETURN m)) = c_user_type m" "c_user_type (db_call e r m) = c_user_type m"
  "c_user_type (CTX_PARAM_ADD_FROM_VARIABLE k v m) = c_user_type m" "c_user_type (ecore_job_add m) = c_user_type m"
  by (auto simp: emit_def set_error_def fault_set_def CTX_CB_ADD_def CTX_PARAM_ADD_def CTX_PARAM_DEL_def MARK_CB_def count_inc_def
      REWIND_def RESUME_def CTX_RETURN_def db_call_def run_query_def set_free_def CTX_PARAM_ADD_FROM_VARIABLE_def
      ecore_job_add_def Let_def
      split: option.splits val.splits dbreq.splits)

lemma kept_answer [simp]:
  "m_retval (CTX_CB_ADD f m) = m_retval m"
  "m_retval (CTX_PARAM_ADD f v m) = m_retval m"
  "m_retval (CTX_PARAM_DEL f m) = m_retval m"
  "m_retval (MARK_CB m) = m_retval m"
  "m_retval (count_inc m) = m_retval m"
  "m_retval (REWIND m) = m_retval m"
  "m_retval (set_error x' m) = m_retval m"
  "m_retval (db_call e r m) = m_retval m"
  by (auto simp: emit_def set_error_def fault_set_def CTX_CB_ADD_def CTX_PARAM_ADD_def CTX_PARAM_DEL_def MARK_CB_def count_inc_def
      REWIND_def RESUME_def CTX_RETURN_def db_call_def run_query_def set_free_def CTX_PARAM_ADD_FROM_VARIABLE_def
      ecore_job_add_def Let_def
      split: option.splits val.splits dbreq.splits)

lemma kept_ret_set [simp]:
  "c_ret_set (REWIND m) = c_ret_set m" "c_ret_set (RESUME m) = c_ret_set m"
  by (auto simp: REWIND_def RESUME_def emit_def fault_set_def Let_def split: option.splits)

text \<open>What a servlet function that has asked for the value of its query leaves behind.\<close>

lemma CTX_VALUE_RETURN_frame [simp]:
  "m_out (CTX_VALUE_RETURN f m) = m_out m" "c_count (CTX_VALUE_RETURN f m) = c_count m"
  "c_error (CTX_VALUE_RETURN f m) = c_error m" "c_ret_set (CTX_VALUE_RETURN f m) = c_ret_set m"
  "m_qid (CTX_VALUE_RETURN f m) = m_qid m" "c_dead (CTX_VALUE_RETURN f m) = c_dead m"
  "m_fault (CTX_VALUE_RETURN f m) = m_fault m" "c_retval (CTX_VALUE_RETURN f m) = c_retval m"
  "m_retval (CTX_VALUE_RETURN f m) = m_retval m" "m_method (CTX_VALUE_RETURN f m) = m_method m"
  "m_jobs (CTX_VALUE_RETURN f m) = m_jobs m"
  by (simp_all add: CTX_VALUE_RETURN_def)

text \<open>A result of the database touches none of this, and takes at most a NULL off the chain.\<close>

lemma end_call_frame [simp]:
  "m_session (end_call en res v m) = m_session m"
  "c_checked (end_call en res v m) = c_checked m"
  "c_sso (end_call en res v m) = c_sso m"
  "m_has_content (end_call en res v m) = m_has_content m"
  "m_cookie (end_call en res v m) = m_cookie m"
  "c_dead (end_call en res v m) = c_dead m"
  "c_auth (end_call en res v m) = c_auth m"
  "m_zconf (end_call en res v m) = m_zconf m"
  by (cases "c_cbs m"; cases en; simp add: end_cb_defs set_error_def emit_def Let_def)+

lemma end_call_cbs: "c_cbs (end_call en res v m) = c_cbs m \<or> c_cbs m = F_NULL # c_cbs (end_call en res v m)"
  by (cases "c_cbs m"; cases en) (auto simp: end_cb_defs set_error_def emit_def Let_def)

lemma event_cb_frame [simp]:
  "m_session (event_cb res m) = m_session m"
  "c_checked (event_cb res m) = c_checked m"
  "c_sso (event_cb res m) = c_sso m"
  "m_has_content (event_cb res m) = m_has_content m"
  "m_cookie (event_cb res m) = m_cookie m"
  "c_dead (event_cb res m) = c_dead m"
  "c_auth (event_cb res m) = c_auth m"
  "m_zconf (event_cb res m) = m_zconf m"
  by (simp_all add: event_cb_def Let_def split: option.splits list.splits)

lemma event_cb_cbs: "c_cbs (event_cb res m) = c_cbs m \<or> c_cbs m = F_NULL # c_cbs (event_cb res m)"
  using end_call_cbs [of _ res _ "m\<lparr>c_state := False, m_db_cbs := (m_db_cbs m)(r_qid res := None)\<rparr>"]
  by (auto simp: event_cb_def Let_def split: option.splits list.splits)

end
