(* ===== verification/Auth.thy ===== *)
theory Auth
  imports Session Sha1 Frame
begin

text \<open>
  src/servlets/functions/functions-auth.c: salts and passwords, the check of a password
  against the database (\<open>_auth_db\<close>) or PAM, and \<open>_auth\<close>, the state machine over
  \<open>ctx->count\<close> that a login or a reauthentication runs through.
\<close>

subsection \<open>Salts and generated passwords\<close>

definition passwdChars :: string where
  "passwdChars = ''0123456789ABCDEFGHIJKLMNOPQRSTUVWXYZabcdefghijklmnopqrstuvwxyz,~:!@#$%&()_+-=[]{};?.''"

definition generate_poor_salt :: "env \<Rightarrow> nat \<Rightarrow> string" where
  "generate_poor_salt e n = map (\<lambda>i. passwdChars ! nat (e_random e i mod int (length passwdChars))) [0..<n]"

text \<open>
  A salt of \<open>n\<close> characters from /dev/random: the bytes read are signed, and a short read
  or a device that cannot be opened falls back to \<open>random\<close>.
\<close>

definition generate_random_salt :: "env \<Rightarrow> int \<Rightarrow> cstr" where
  "generate_random_salt e n =
     (if 256 \<le> n \<or> n < 1 then None
      else case e_devrandom e of
          None \<Rightarrow> Some (generate_poor_salt e (nat n))
        | Some buf \<Rightarrow>
            if int (length buf) \<noteq> n then Some (generate_poor_salt e (nat n))
            else Some (map (\<lambda>b. passwdChars ! nat (\<bar>b\<bar> mod int (length passwdChars))) buf))"

definition generate_passwd :: "env \<Rightarrow> int \<Rightarrow> cstr" where
  "generate_passwd e n = (if 256 \<le> n \<or> n < 8 then None else generate_random_salt e n)"

lemma length_passwdChars [simp]: "length passwdChars = 84"
  by (simp add: passwdChars_def)

lemma passwdChars_nth: "passwdChars ! nat (i mod 84) \<in> set passwdChars"
  by (rule nth_mem) (simp add: nat_less_iff)

lemma generate_random_salt_shape:
  assumes "generate_random_salt e n = Some s"
  shows "int (length s) = n \<and> 1 \<le> n \<and> n < 256 \<and> set s \<subseteq> set passwdChars"
  using assms passwdChars_nth
  by (auto simp: generate_random_salt_def generate_poor_salt_def split: if_splits option.splits)

lemma generate_random_salt_Some: "1 \<le> n \<Longrightarrow> n < 256 \<Longrightarrow> \<exists>s. generate_random_salt e n = Some s"
  by (auto simp: generate_random_salt_def split: option.splits)

subsection \<open>PAM\<close>

text \<open>
  The PAM library is a parameter: the codes its three functions return, of which 0 is
  \<open>PAM_SUCCESS\<close>. The conversation function answers every prompt with the password.
\<close>

definition auth_pam :: "env \<Rightarrow> cstr \<Rightarrow> cstr \<Rightarrow> bool" where
  "auth_pam e user pass =
     (let ret = e_pam_start e user;
          ret = (if ret = 0 then e_pam_auth e user pass else ret);
          ret = (if ret = 0 then e_pam_acct e user else ret)
      in ret = 0)"

subsection \<open>The password check\<close>

definition auth_db :: "env \<Rightarrow> cstr \<Rightarrow> smod \<Rightarrow> bool \<times> smod" where
  "auth_db e pass m =
     (let m = (if c_count m = 0 then m\<lparr>c_count := 1\<rparr> else m) in
      if c_count m = 1 then
        CTX_RETURN (CTX_VALUE_RETURN (Acct F_auth_db) (db_call e (db_getAuth (s_uid (m_session m))) m))
      else if c_count m = 2 then
        (let (auth, m) = CTX_PARAM_GET (Acct F_auth_db) m in
         case auth of
           VStrs [salt, hash] \<Rightarrow>
             (let m = m\<lparr>c_auth := (zs_strcmp e (sha1_buffer (Some salt) pass) (Some hash) = 0)\<rparr>;
                  m = (if c_auth m then
                         (if \<not> authenticated (m_session m) then upd_session (\<lambda>s. s\<lparr>authenticated := True\<rparr>) m
                          else m\<lparr>c_count := 0\<rparr>)
                       else set_error NOT_AUTHORIZED m)
              in CTX_RETURN (m\<lparr>c_count := c_count m + 1\<rparr>))
         | _ \<Rightarrow>
             (let m = m\<lparr>c_count := 10\<rparr>;
                  m = m\<lparr>c_error := None\<rparr>;
                  m = snd (z_getConfig e (Some ''authfallback'') m)
              in CTX_RETURN (CTX_VALUE_SEND (Acct F_auth) m)))
      else CTX_RETURN m)"

definition z_auth :: "env \<Rightarrow> cstr \<Rightarrow> smod \<Rightarrow> bool \<times> smod" where
  "z_auth e pass m =
     (if c_count m = 0 then
        CTX_RETURN (CTX_VALUE_RETURN (Acct F_auth) (snd (z_getConfig e (Some ''authtype'') m)))
      else if c_count m = 1 then
        (let (authtype, m) = CTX_PARAM_GET (Acct F_auth) m in
         if c_error m = Some UNKNOWN_RESOURCE \<or> streq e (as_str authtype) ''internal'' then
           (let m = m\<lparr>c_error := None\<rparr> in CTX_RETURN (snd (auth_db e pass m)))
         else if streq e (as_str authtype) ''pam'' then
           CTX_RETURN (upd_session (\<lambda>s. s\<lparr>authenticated := auth_pam e (s_username s) pass\<rparr>) m)
         else if c_error m \<noteq> None then CTX_RETURN m
         else
           (let m = snd (z_getConfig e (Some ''authfallback'') m);
                m = CTX_VALUE_RETURN (Acct F_auth) m
            in CTX_RETURN (m\<lparr>c_count := 10\<rparr>)))
      else if c_count m = 10 then
        (let (authtype, m) = CTX_PARAM_GET (Acct F_auth) m;
             m = (if as_str authtype = Some ''true''
                  then m\<lparr>c_auth := auth_pam e (s_username (m_session m)) pass\<rparr> else m);
             m = (if \<not> authenticated (m_session m)
                  then upd_session (\<lambda>s. s\<lparr>authenticated := c_auth m\<rparr>) m
                  else m\<lparr>c_count := 0\<rparr>)
         in CTX_RETURN (if \<not> c_auth m then set_error NOT_AUTHORIZED m else m))
      else CTX_RETURN (snd (auth_db e pass m)))"

subsection \<open>Properties\<close>

definition salted :: "string \<Rightarrow> string \<Rightarrow> byte list" where
  "salted salt pass = fips_sha1 (bytes_of (salt @ pass))"

lemma sha1_buffer_salted:
  "sha1_buffer (Some salt) (Some pass) = (if salt @ pass = [] then None else Some (sha1_to_string (salted salt pass)))"
  by (simp add: sha1_buffer_def printf_s_def salted_def sha1_digest_fips Let_def)

lemma salted_print: "sha1_to_string (salted s p) = sha1_to_string (salted s' p') \<longleftrightarrow> salted s p = salted s' p'"
  using sha1_to_string_inj [of "salted s p" "salted s' p'"] by (auto simp: salted_def length_fips_sha1)

text \<open>A login that waits for the stored hash, and the row that answers it.\<close>

definition awaiting_hash :: "string \<Rightarrow> string \<Rightarrow> smod \<Rightarrow> bool" where
  "awaiting_hash salt hash m \<longleftrightarrow> c_count m = 2 \<and> c_error m = None \<and> \<not> c_ret_set m
     \<and> CTX_PARAM_PEEK (Acct F_auth_db) m = VStrs [salt, hash]"

lemma auth_db_row:
  assumes "strcmp_spec e" "awaiting_hash salt hash m"
  shows "let ok = (salt @ pass \<noteq> [] \<and> hash = sha1_to_string (salted salt pass)); m' = snd (auth_db e (Some pass) m)
    in c_auth m' = ok \<and> (fst (auth_db e (Some pass) m) = ok)
      \<and> (authenticated (m_session m') \<longleftrightarrow> authenticated (m_session m) \<or> ok)
      \<and> m_fault m' = (if ok then m_fault m else Some NOT_AUTHORIZED)
      \<and> m_out m' = m_out m @ (if ok then [] else [OResume False])"
proof -
  have "zs_strcmp e (sha1_buffer (Some salt) (Some pass)) (Some hash) = 0
      \<longleftrightarrow> salt @ pass \<noteq> [] \<and> hash = sha1_to_string (salted salt pass)"
    using assms(1) by (auto simp: sha1_buffer_salted strcmp_spec_def)
  then show ?thesis
    using assms(2)
    by (auto simp: auth_db_def awaiting_hash_def CTX_PARAM_GET_def CTX_PARAM_DEL_def CTX_RETURN_def set_error_def
        upd_session_def fault_set_def emit_def Let_def)
qed

text \<open>
  C3: A password is accepted exactly when the stored hash is the printed SHA-1 digest of the
  stored salt followed by the password. Acceptance authenticates the session and says
  nothing to the client yet; anything else is refused with the fault not authorized and
  one failed resume, and never authenticates a session that was not authenticated.
\<close>

theorem password_check:
  assumes "strcmp_spec e" "awaiting_hash salt hash m"
  shows "let ok = (salt @ pass \<noteq> [] \<and> hash = sha1_to_string (fips_sha1 (bytes_of (salt @ pass))));
             m' = snd (auth_db e (Some pass) m)
    in c_auth m' = ok \<and> (fst (auth_db e (Some pass) m) = ok)
      \<and> (authenticated (m_session m') \<longleftrightarrow> authenticated (m_session m) \<or> ok)
      \<and> m_fault m' = (if ok then m_fault m else Some NOT_AUTHORIZED)
      \<and> m_out m' = m_out m @ (if ok then [] else [OResume False])"
  using auth_db_row [OF assms] by (simp only: salted_def)

definition sample_waiting :: "string \<Rightarrow> string \<Rightarrow> smod" where
  "sample_waiting salt hash =
     sample_mod\<lparr>c_count := 2, c_params := (\<lambda>_. VNull)(Acct F_auth_db := VStrs [salt, hash])\<rparr>"

lemma awaiting_sample [simp]: "awaiting_hash salt hash (sample_waiting salt hash)"
  by (simp add: awaiting_hash_def sample_waiting_def sample_mod_def CTX_PARAM_PEEK_def)

theorem password_check_witness:
  "c_auth (snd (auth_db sample_env (Some ''secret'')
     (sample_waiting ''salt'' (sha1_to_string (fips_sha1 (bytes_of (''salt'' @ ''secret'')))))))"
  using password_check [OF sample_env_specs(1) awaiting_sample, of "''salt''" "''secret''"
      "sha1_to_string (fips_sha1 (bytes_of (''salt'' @ ''secret'')))"]
  by (simp add: Let_def del: append.simps)

lemma no_step_11: "c_count m = 11 \<Longrightarrow> c_error m = None \<Longrightarrow> \<not> c_ret_set m \<Longrightarrow> z_auth e pass m = (True, m)"
  by (simp add: z_auth_def auth_db_def CTX_RETURN_def Let_def)

text \<open>
  C36: The configured PAM fallback is never used: when the first authentication type is neither
  internal nor PAM, the call waits for the fallback setting with its step counter at 10,
  the callback that delivers the setting raises it to 11, and the next run of the
  function, finding no step for 11, does nothing at all: it neither accepts nor refuses,
  whatever the setting says.
\<close>

theorem fallback_never_tried:
  assumes "c_count m = 1" "c_error m = None" "\<not> c_dead m" "\<not> c_ret_set m" "\<not> c_auth m" "c_cbs m = []"
    "esql_accepts e (m_qid m)" "\<not> is_null v"
    "\<not> streq e (as_str (CTX_PARAM_PEEK (Acct F_auth) m)) ''internal''"
    "\<not> streq e (as_str (CTX_PARAM_PEEK (Acct F_auth) m)) ''pam''"
  shows "let m1 = snd (z_auth e pass m); m2 = cb_pointer_return v m1
    in c_count m1 = 10 \<and> c_count m2 = 11 \<and> CTX_PARAM_PEEK (Acct F_auth) m2 = v
      \<and> m_out m2 = m_out m1 @ [ORewind, OResume True]
      \<and> z_auth e pass m2 = (True, m2) \<and> \<not> c_auth m2"
proof -
  let ?m = "CTX_PARAM_DEL (Acct F_auth) m"
  let ?q = "db_getConfigValue (Some ''authfallback'') (Some ''zrpc'') (-1) (-1) (-1) (-1) (-1) (-1) (-1) (-1) (-1)"
  define d where "d = db_call e ?q ?m"
  obtain q where q: "?q = DbQuery q" by (simp add: db_getConfigValue_def no_str_def)
  have d: "c_error d = None" "c_count d = 1" "\<not> c_dead d" "c_cbs d = []" "\<not> c_ret_set d" "\<not> c_auth d"
    using assms unfolding d_def q
    by (simp_all add: db_call_def run_query_def set_free_def CTX_PARAM_DEL_def emit_def Let_def split: option.splits)
  have m1: "z_auth e pass m = (True, (CTX_VALUE_RETURN (Acct F_auth) d)\<lparr>c_count := 10\<rparr>)"
    using assms d by (simp add: z_auth_def CTX_PARAM_GET_def z_getConfig_def d_def [symmetric] CTX_RETURN_def
        CTX_VALUE_RETURN_def CTX_CB_ADD_def CTX_PARAM_ADD_def Let_def)
  define m2 where "m2 = cb_pointer_return v (snd (z_auth e pass m))"
  have m2: "c_count m2 = 11" "c_error m2 = None" "\<not> c_ret_set m2" "\<not> c_auth m2" "CTX_PARAM_PEEK (Acct F_auth) m2 = v"
    "m_out m2 = m_out (snd (z_auth e pass m)) @ [ORewind, OResume True]"
    using d assms(8) by (simp_all add: m2_def m1 cb_pointer_return_def count_inc_def CTX_VALUE_RETURN_def CTX_CB_ADD_def
        CTX_PARAM_ADD_def CTX_PARAM_PEEK_def CTX_PARAM_ADD_FROM_VARIABLE_def MARK_CB_def REWIND_def emit_def Let_def)
  then have "z_auth e pass m2 = (True, m2)" by (simp add: no_step_11)
  then show ?thesis
    using m2 by (simp add: m2_def [symmetric] Let_def) (simp add: m1)
qed

theorem fallback_never_tried_witness:
  "let m1 = snd (z_auth sample_env (Some ''secret'') (sample_mod\<lparr>c_count := 1\<rparr>)); m2 = cb_pointer_return (VStr ''true'') m1
   in c_count m2 = 11 \<and> z_auth sample_env (Some ''secret'') m2 = (True, m2)"
  using fallback_never_tried [of "sample_mod\<lparr>c_count := 1\<rparr>" sample_env "VStr ''true''" "Some ''secret''"]
  by (simp add: sample_mod_def sample_env_def CTX_PARAM_PEEK_def Let_def)

end
