(* ===== verification/User.thy ===== *)
theory User
  imports Auth Sql_User
begin

text \<open>
  src/servlets/functions/functions-user.c: accounts. Adding a user and changing an
  attribute are state machines over \<open>ctx->count\<close>: a callback that finds the name or the
  language acceptable rewinds the call, and the function runs again one step further.
\<close>

subsection \<open>Callbacks\<close>

definition user_cb_name :: "val \<Rightarrow> smod \<Rightarrow> smod" where
  "user_cb_name ret m =
     (let m = MARK_CB m in
      if \<not> as_bool ret then RESUME (REWIND (count_inc (m\<lparr>c_error := None\<rparr>)))
      else RESUME (set_error ENTITY_ALREADY_EXISTS m))"

definition user_cb_lang :: "val \<Rightarrow> smod \<Rightarrow> smod" where
  "user_cb_lang ret m =
     (let m = MARK_CB m in
      if \<not> as_bool ret then RESUME (REWIND (count_inc (m\<lparr>c_error := None\<rparr>)))
      else RESUME (set_error INVALID_PARAMETER m))"

definition user_cb_logout_deauth :: "val \<Rightarrow> smod \<Rightarrow> smod" where
  "user_cb_logout_deauth ret m =
     (let m = MARK_CB m;
          m = m\<lparr>c_count := c_count m - 1\<rparr>
      in if c_count m \<noteq> 0 then m
         else
           (let m = (if c_cbs m = [] then AZY_RETVAL (VBool (m_fault m = None)) m else m)
            in NEXT_CB VUndef m))"

text \<open>
  The list the query produced. The elements are used as session ids, so a list of integers
  (what the conversion of \<open>getSessionsByUID\<close> makes) is read through as pointers.
\<close>

fun logout_loop :: "env \<Rightarrow> string list \<Rightarrow> smod \<Rightarrow> smod" where
  "logout_loop e [] m = m"
| "logout_loop e (sid # sids) m =
     logout_loop e sids (CTX_CB_ADD (Acct User_cb_logout_deauth) (snd (z_deauthSession e (Some sid) m)))"

definition user_cb_logoutsessions :: "env \<Rightarrow> val \<Rightarrow> smod \<Rightarrow> smod" where
  "user_cb_logoutsessions e ret m =
     (let m = MARK_CB m;
          m = (if is_null ret then RESUME m else m)
      in case ret of
          VStrs sids \<Rightarrow> logout_loop e sids (m\<lparr>c_count := of_nat (length sids)\<rparr>)
        | VInts (i # is) \<Rightarrow> emit OCrash (m\<lparr>c_count := of_nat (length (i # is))\<rparr>)
        | _ \<Rightarrow> m\<lparr>c_count := 0\<rparr>)"

definition user_cb_superuser :: "val \<Rightarrow> smod \<Rightarrow> smod" where
  "user_cb_superuser ret m =
     (let m = MARK_CB m;
          super = of_bool (as_int ret = USER_TYPE_SUPER_USER);
          m = (if c_cbs m = [] then AZY_RET super m else m)
      in NEXT_CB (VInt super) m)"

definition user_cb_generatepw :: "val \<Rightarrow> smod \<Rightarrow> smod" where
  "user_cb_generatepw ret m =
     (let m = MARK_CB m;
          (p, m) = CTX_PARAM_GET (Acct User_cb_generatepw) m;
          m = (if c_cbs m = [] then AZY_RETVAL p m else m)
      in NEXT_CB p m)"

subsection \<open>Validation\<close>

text \<open>\<open>MAX_USERNAME_LENGTH\<close> is 255 and the bounded length looks one character further.\<close>

definition name_too_long :: "env \<Rightarrow> string \<Rightarrow> bool" where
  "name_too_long e s \<longleftrightarrow> 255 < strlen_bounded e s 256"

text \<open>An address needs an at sign, a dot, and its last dot not before its last at sign.\<close>

definition email_ok :: "string \<Rightarrow> bool" where
  "email_ok s = (case (strrchr CHR ''@'' s, strrchr CHR ''.'' s) of
     (Some ats, Some dot) \<Rightarrow> \<not> int dot - int ats < 0 | _ \<Rightarrow> False)"

text \<open>
  The check of one attribute. For a type only the first character may be present, and of an
  empty string the byte after its end is read, which counts as a bad access here.
\<close>

definition user_setattr_check :: "env \<Rightarrow> cstr \<Rightarrow> cstr \<Rightarrow> smod \<Rightarrow> bool \<times> smod" where
  "user_setattr_check e attribute value m =
     (let invalid = CTX_RETURN (set_error INVALID_PARAMETER m) in
      if streq e attribute ''name'' then
        with_str value m (\<lambda>v.
          if name_too_long e v then invalid
          else if c_count m = 0 then
            CTX_RETURN (CTX_CB_ADD (Acct User_cb_name) (db_call e (db_isUserName value) m))
          else CTX_RETURN m)
      else if streq e attribute ''email'' then
        with_str value m (\<lambda>v. if \<not> email_ok v then invalid else CTX_RETURN m)
      else if streq e attribute ''active'' then
        (if zs_strcmp e value (Some ''0'') \<noteq> 0 \<or> zs_strcmp e value (Some ''1'') \<noteq> 0 then invalid
         else CTX_RETURN m)
      else if streq e attribute ''type'' then
        with_str value m (\<lambda>v.
          if v = [] then (False, emit OCrash m)
          else if 1 < length v then invalid
          else
            (let (t, errno) = strtol10 v in
             if errno then invalid
             else if s32 t < USER_TYPE_SUPER_USER \<or> USER_TYPE_NODE < s32 t then invalid
             else CTX_RETURN m))
      else if streq e attribute ''language'' then
        (if c_count m < 2 then
           with_str value m (\<lambda>v.
             CTX_RETURN (CTX_CB_ADD (Acct User_cb_lang)
               (db_call e (db_getLanguageCode (s32 (fst (strtol10 v)))) m)))
         else CTX_RETURN m)
      else invalid)"

subsection \<open>By user id\<close>

definition z_isUserUID :: "env \<Rightarrow> int \<Rightarrow> smod \<Rightarrow> bool \<times> smod" where
  "z_isUserUID e uid m =
     (if uid < 0 then CTX_RETURN (set_error INVALID_PARAMETER m)
      else CTX_RETURN (db_call e (db_isUserUID uid) m))"

definition z_isActive :: "env \<Rightarrow> int \<Rightarrow> smod \<Rightarrow> bool \<times> smod" where
  "z_isActive e uid m = CTX_RETURN (db_call e (db_isActive uid) m)"

definition z_getUser :: "env \<Rightarrow> int \<Rightarrow> smod \<Rightarrow> bool \<times> smod" where
  "z_getUser e uid m = CTX_RETURN (db_call e (db_getUser uid) m)"

definition z_getUserType :: "env \<Rightarrow> int \<Rightarrow> smod \<Rightarrow> bool \<times> smod" where
  "z_getUserType e uid m = CTX_RETURN (db_call e (db_getUserType uid) m)"

definition z_removeUser :: "env \<Rightarrow> int \<Rightarrow> smod \<Rightarrow> bool \<times> smod" where
  "z_removeUser e uid m = CTX_RETURN (db_call e (db_removeUser uid) m)"

definition z_getUsername :: "env \<Rightarrow> int \<Rightarrow> smod \<Rightarrow> bool \<times> smod" where
  "z_getUsername e uid m = CTX_RETURN (db_call e (db_getUsername uid) m)"

definition z_modifyUser :: "env \<Rightarrow> int \<Rightarrow> user \<Rightarrow> smod \<Rightarrow> bool \<times> smod" where
  "z_modifyUser e uid u m =
     (if u_username u = [] \<or> name_too_long e (u_username u) then CTX_RETURN (set_error INVALID_PARAMETER m)
      else CTX_RETURN (db_call e (db_modifyUser uid u) m))"

definition z_isSuperUser :: "env \<Rightarrow> int \<Rightarrow> smod \<Rightarrow> bool \<times> smod" where
  "z_isSuperUser e uid m = CTX_RETURN (CTX_CB_ADD (Acct User_cb_superuser) (snd (z_getUserType e uid m)))"

text \<open>
  A password shorter than \<open>MIN_PASSWD_LEN\<close> sets the fault code of the call, unless one is
  set; the context error stays clear. The salt has \<open>DEFAULT_SALT_LENGTH\<close> characters.
\<close>

definition DEFAULT_SALT_LENGTH :: int where "DEFAULT_SALT_LENGTH = 4"
definition MIN_PASSWD_LEN :: nat where "MIN_PASSWD_LEN = 8"

definition password_too_short :: "env \<Rightarrow> string \<Rightarrow> bool" where
  "password_too_short e pass \<longleftrightarrow> strlen_bounded e pass MIN_PASSWD_LEN < MIN_PASSWD_LEN"

definition fault_unless_set :: "rpc_error \<Rightarrow> smod \<Rightarrow> smod" where
  "fault_unless_set x m = (if m_fault m = None then fault_set x m else m)"

definition z_setPassword :: "env \<Rightarrow> int \<Rightarrow> cstr \<Rightarrow> smod \<Rightarrow> bool \<times> smod" where
  "z_setPassword e uid pass m =
     with_str pass m (\<lambda>p.
       if password_too_short e p then CTX_RETURN (fault_unless_set USER_PASSWORD m)
       else case generate_random_salt e DEFAULT_SALT_LENGTH of
           None \<Rightarrow> CTX_RETURN m
         | Some salt \<Rightarrow>
             (case sha1_buffer (Some salt) pass of
                None \<Rightarrow> CTX_RETURN m
              | Some hash \<Rightarrow> CTX_RETURN (db_call e (db_setPassword uid (Some hash) (Some salt)) m)))"

definition z_generatePassword :: "env \<Rightarrow> int \<Rightarrow> smod \<Rightarrow> bool \<times> smod" where
  "z_generatePassword e uid m =
     (case generate_passwd e (int MIN_PASSWD_LEN + 2) of
        None \<Rightarrow> CTX_RETURN (set_error SERVER_FAILURE m)
      | Some ret \<Rightarrow>
          (let m = snd (z_setPassword e uid (Some ret) m);
               m = CTX_CB_ADD (Acct User_cb_generatepw) m
           in CTX_RETURN (CTX_PARAM_ADD (Acct User_cb_generatepw) (VStr ret) m)))"

definition z_setUserAttribute :: "env \<Rightarrow> int \<Rightarrow> cstr \<Rightarrow> cstr \<Rightarrow> smod \<Rightarrow> bool \<times> smod" where
  "z_setUserAttribute e uid attribute value m =
     (case user_setattr_check e attribute value m of
        (True, m) \<Rightarrow> CTX_RETURN (db_call e (db_setUserAttribute uid attribute value) m)
      | (False, m) \<Rightarrow> CTX_RETURN m)"

definition z_logoutByUID :: "env \<Rightarrow> int \<Rightarrow> smod \<Rightarrow> bool \<times> smod" where
  "z_logoutByUID e uid m =
     CTX_RETURN (CTX_CB_ADD (Acct User_cb_logoutsessions) (db_call e (db_getSessionsByUID uid) m))"

subsection \<open>By user name\<close>

definition error_unless_fault :: "rpc_error \<Rightarrow> smod \<Rightarrow> smod" where
  "error_unless_fault x m = (if m_fault m = None then set_error x m else m)"

definition z_isUserName :: "env \<Rightarrow> cstr \<Rightarrow> smod \<Rightarrow> bool \<times> smod" where
  "z_isUserName e nm m =
     with_str nm m (\<lambda>n.
       if name_too_long e n then CTX_RETURN (error_unless_fault INVALID_PARAMETER m)
       else CTX_RETURN (db_call e (db_isUserName nm) m))"

definition z_isActiveByName :: "env \<Rightarrow> cstr \<Rightarrow> smod \<Rightarrow> bool \<times> smod" where
  "z_isActiveByName e nm m =
     CTX_RETURN (db_call e (db_isActiveByName nm) m)"

definition z_modifyUserByName :: "env \<Rightarrow> cstr \<Rightarrow> user \<Rightarrow> smod \<Rightarrow> bool \<times> smod" where
  "z_modifyUserByName e nm u m =
     (if name_too_long e (u_username u) \<or> u_username u = [] then CTX_RETURN (error_unless_fault INVALID_PARAMETER m)
      else CTX_RETURN (db_call e (db_modifyUserByName nm u) m))"

definition z_removeUserByName :: "env \<Rightarrow> cstr \<Rightarrow> smod \<Rightarrow> bool \<times> smod" where
  "z_removeUserByName e nm m =
     with_str nm m (\<lambda>n.
       if name_too_long e n \<or> n = [] then CTX_RETURN (error_unless_fault INVALID_PARAMETER m)
       else CTX_RETURN (db_call e (db_removeUserByName nm) m))"

definition z_setPasswordByName :: "env \<Rightarrow> cstr \<Rightarrow> cstr \<Rightarrow> smod \<Rightarrow> bool \<times> smod" where
  "z_setPasswordByName e nm pass m =
     with_str nm m (\<lambda>n.
       if name_too_long e n \<or> n = [] then CTX_RETURN (error_unless_fault INVALID_PARAMETER m)
       else with_str pass m (\<lambda>p.
         if password_too_short e p then CTX_RETURN (fault_unless_set USER_PASSWORD m)
         else case generate_random_salt e DEFAULT_SALT_LENGTH of
             None \<Rightarrow> CTX_RETURN m
           | Some salt \<Rightarrow>
               (case sha1_buffer (Some salt) pass of
                  None \<Rightarrow> CTX_RETURN m
                | Some hash \<Rightarrow> CTX_RETURN (db_call e (db_setPasswordByName nm (Some hash) (Some salt)) m))))"

definition z_generatePasswordByName :: "env \<Rightarrow> cstr \<Rightarrow> smod \<Rightarrow> bool \<times> smod" where
  "z_generatePasswordByName e nm m =
     (case generate_passwd e (int MIN_PASSWD_LEN + 2) of
        None \<Rightarrow> CTX_RETURN (set_error SERVER_FAILURE m)
      | Some ret \<Rightarrow>
          (let m = snd (z_setPasswordByName e nm (Some ret) m);
               m = CTX_CB_ADD (Acct User_cb_generatepw) m
           in CTX_RETURN (CTX_PARAM_ADD (Acct User_cb_generatepw) (VStr ret) m)))"

definition z_setUserAttributeByName :: "env \<Rightarrow> cstr \<Rightarrow> cstr \<Rightarrow> cstr \<Rightarrow> smod \<Rightarrow> bool \<times> smod" where
  "z_setUserAttributeByName e nm attribute value m =
     (case user_setattr_check e attribute value m of
        (True, m) \<Rightarrow> CTX_RETURN (db_call e (db_setUserAttributeByName nm attribute value) m)
      | (False, m) \<Rightarrow> CTX_RETURN m)"

definition z_logoutByName :: "env \<Rightarrow> cstr \<Rightarrow> smod \<Rightarrow> bool \<times> smod" where
  "z_logoutByName e nm m =
     CTX_RETURN (CTX_CB_ADD (Acct User_cb_logoutsessions) (db_call e (db_getSessionsByName nm) m))"

definition z_getUserByName :: "env \<Rightarrow> cstr \<Rightarrow> smod \<Rightarrow> bool \<times> smod" where
  "z_getUserByName e nm m = CTX_RETURN (db_call e (db_getUserByName nm) m)"

definition z_getUserTypeByName :: "env \<Rightarrow> cstr \<Rightarrow> smod \<Rightarrow> bool \<times> smod" where
  "z_getUserTypeByName e nm m =
     CTX_RETURN (db_call e (db_getUserTypeByName nm) m)"

definition z_getActiveUserUID :: "env \<Rightarrow> cstr \<Rightarrow> smod \<Rightarrow> bool \<times> smod" where
  "z_getActiveUserUID e nm m =
     CTX_RETURN (db_call e (db_getActiveUserUID nm) m)"

definition z_getUserUID :: "env \<Rightarrow> cstr \<Rightarrow> smod \<Rightarrow> bool \<times> smod" where
  "z_getUserUID e nm m = CTX_RETURN (db_call e (db_getUserUID nm) m)"

definition z_isSuperUserByName :: "env \<Rightarrow> cstr \<Rightarrow> smod \<Rightarrow> bool \<times> smod" where
  "z_isSuperUserByName e nm m =
     CTX_RETURN (CTX_CB_ADD (Acct User_cb_superuser) (snd (z_getUserTypeByName e nm m)))"

subsection \<open>Adding and listing\<close>

definition z_getLanguageCode :: "env \<Rightarrow> int \<Rightarrow> smod \<Rightarrow> bool \<times> smod" where
  "z_getLanguageCode e ident m =
     CTX_RETURN (db_call e (db_getLanguageCode ident) m)"

definition z_getLoggedInUsers :: "env \<Rightarrow> smod \<Rightarrow> bool \<times> smod" where
  "z_getLoggedInUsers e m = CTX_RETURN (db_call e db_getLoggedInUsers m)"

definition z_getLoggedInUsernames :: "env \<Rightarrow> smod \<Rightarrow> bool \<times> smod" where
  "z_getLoggedInUsernames e m = CTX_RETURN (db_call e db_getLoggedInUsernames m)"

definition z_getUserCount :: "env \<Rightarrow> smod \<Rightarrow> bool \<times> smod" where
  "z_getUserCount e m = CTX_RETURN (db_call e db_getUserCount m)"

definition user_fields_ok :: "env \<Rightarrow> user \<Rightarrow> bool" where
  "user_fields_ok e u \<longleftrightarrow>
     \<not> (u_username u = [] \<or> name_too_long e (u_username u)) \<and> email_ok (u_email u)
     \<and> \<not> (u_active u \<noteq> 0 \<and> u_active u \<noteq> 1)
     \<and> \<not> (u_type u < USER_TYPE_SUPER_USER \<or> USER_TYPE_NODE < u_type u)"

definition z_addUser :: "env \<Rightarrow> user \<Rightarrow> smod \<Rightarrow> bool \<times> smod" where
  "z_addUser e u m =
     (if \<not> user_fields_ok e u then CTX_RETURN (set_error INVALID_PARAMETER m)
      else if c_count m = 0 then
        CTX_RETURN (CTX_CB_ADD (Acct User_cb_name) (db_call e (db_isUserName (Some (u_username u))) m))
      else if c_count m < 2 then
        with_str (u_language u) m (\<lambda>l.
          CTX_RETURN (CTX_CB_ADD (Acct User_cb_lang)
            (db_call e (db_getLanguageCode (s32 (fst (strtol10 l)))) m)))
      else CTX_RETURN (db_call e (db_addUser u) m))"

definition nonempty :: "cstr \<Rightarrow> bool" where
  "nonempty s \<longleftrightarrow> (case s of None \<Rightarrow> False | Some t \<Rightarrow> t \<noteq> [])"

definition z_getAllUsers :: "env \<Rightarrow> cstr \<Rightarrow> bool \<Rightarrow> int \<Rightarrow> int \<Rightarrow> smod \<Rightarrow> bool \<times> smod" where
  "z_getAllUsers e sortfield desc offset recordcount m =
     CTX_RETURN (if nonempty sortfield
                 then db_call e (db_getAllUsersSorted sortfield desc offset recordcount) m
                 else db_call e (db_getAllUsers offset recordcount) m)"

definition z_getAllUsersFull :: "env \<Rightarrow> cstr \<Rightarrow> bool \<Rightarrow> int \<Rightarrow> int \<Rightarrow> smod \<Rightarrow> bool \<times> smod" where
  "z_getAllUsersFull e sortfield desc offset recordcount m =
     CTX_RETURN (if nonempty sortfield
                 then db_call e (db_getAllUsersSorted sortfield desc offset recordcount) m
                 else db_call e (db_getAllUsersFull offset recordcount) m)"

subsection \<open>Properties\<close>

lemma db_setPassword_query: "db_setPassword uid h s = DbQuery (query_of (db_setPassword uid h s))"
  by (simp add: db_setPassword_def)

text \<open>
  C19: A password that is set can be used, and nothing else: setting a password of at least
  eight characters stores, in one query, a salt of four characters of the alphabet and a
  digest of forty digits, never the password itself; and when a login finds that row, it
  accepts exactly the passwords that have the same salted SHA-1 digest, so always the one
  that was set. A shorter password makes no query.
\<close>

theorem password_round_trip:
  assumes "strcmp_spec e" "strlen_spec e" "esql_accepts e (m_qid m)" "8 \<le> length p" "length p' < 8"
  shows "\<exists>salt hash. length salt = 4 \<and> set salt \<subseteq> set passwdChars \<and> length hash = 40
    \<and> m_out (snd (z_setPassword e uid (Some p) (m\<lparr>c_error := None, c_ret_set := False\<rparr>)))
        = m_out m @ [OQuery (m_qid m) (query_of (db_setPassword uid (Some hash) (Some salt)))]
    \<and> (\<forall>m'. awaiting_hash salt hash m' \<longrightarrow> c_auth (snd (auth_db e (Some p) m'))
        \<and> (\<forall>w. c_auth (snd (auth_db e (Some w) m')) = (fips_sha1 (bytes_of (salt @ w)) = fips_sha1 (bytes_of (salt @ p)))))
    \<and> m_qid (snd (z_setPassword e uid (Some p') m)) = m_qid m"
proof -
  obtain salt where s: "generate_random_salt e 4 = Some salt"
    using generate_random_salt_Some [of 4 e] by auto
  then have salt: "length salt = 4" "set salt \<subseteq> set passwdChars"
    using generate_random_salt_shape [OF s] by auto
  then have ne: "salt @ w \<noteq> []" for w by auto
  define hash where "hash = sha1_to_string (salted salt p)"
  have long: "\<not> password_too_short e p" "password_too_short e p'"
    using assms(2,4,5) by (auto simp: password_too_short_def MIN_PASSWD_LEN_def strlen_shorter)
  let ?m = "m\<lparr>c_error := None, c_ret_set := False\<rparr>"
  have set: "z_setPassword e uid (Some p) ?m = CTX_RETURN (db_call e (db_setPassword uid (Some hash) (Some salt)) ?m)"
    using long ne by (simp add: z_setPassword_def s DEFAULT_SALT_LENGTH_def sha1_buffer_salted hash_def del: append_is_Nil_conv)
  have out: "m_out (snd (z_setPassword e uid (Some p) ?m))
      = m_out m @ [OQuery (m_qid m) (query_of (db_setPassword uid (Some hash) (Some salt)))]"
    using assms(3) unfolding set by (subst db_setPassword_query) (simp add: CTX_RETURN_out del: query_of.simps)
  have accept: "c_auth (snd (auth_db e (Some w) m')) = (salted salt w = salted salt p)" if "awaiting_hash salt hash m'" for m' w
    using auth_db_row [OF assms(1) that, of w] ne [of w] unfolding Let_def hash_def salted_print by metis
  have short: "m_qid (snd (z_setPassword e uid (Some p') m)) = m_qid m"
    using long by (simp add: z_setPassword_def fault_unless_set_def)
  have "length hash = 40" by (simp add: hash_def length_sha1_to_string)
  with salt out accept short show ?thesis unfolding salted_def by blast
qed

theorem password_round_trip_witness:
  "\<exists>salt hash. length salt = 4 \<and> m_out (snd (z_setPassword sample_env 7 (Some ''password'') sample_mod))
      = [OQuery 0 (query_of (db_setPassword 7 (Some hash) (Some salt)))]"
  using password_round_trip [OF sample_env_specs, of sample_mod "''password''" "''short''" 7]
  by (auto simp: sample_env_simps sample_mod_def)

text \<open>
  C20: Generated passwords obey the server's own rules: a new password has ten characters of
  the alphabet, so it is never too short to be set; the call stores its digest in one
  query and keeps the password under the name of the callback that returns it to the
  client.
\<close>

theorem generated_password:
  assumes "strlen_spec e" "esql_accepts e (m_qid m)" "c_error m = None" "\<not> c_ret_set m"
  shows "\<exists>p salt hash. length p = 10 \<and> set p \<subseteq> set passwdChars \<and> \<not> password_too_short e p
    \<and> CTX_PARAM_PEEK (Acct User_cb_generatepw) (snd (z_generatePassword e uid m)) = VStr p
    \<and> m_out (snd (z_generatePassword e uid m))
        = m_out m @ [OQuery (m_qid m) (query_of (db_setPassword uid (Some hash) (Some salt)))]
    \<and> sha1_buffer (Some salt) (Some p) = Some hash"
proof -
  obtain p where p: "generate_passwd e 10 = Some p" "generate_random_salt e 10 = Some p"
    using generate_random_salt_Some [of 10 e] by (auto simp: generate_passwd_def)
  have shape: "length p = 10" "set p \<subseteq> set passwdChars"
    using generate_random_salt_shape [OF p(2)] by auto
  have ok: "\<not> password_too_short e p"
    using assms(1) shape by (auto simp: password_too_short_def MIN_PASSWD_LEN_def strlen_shorter)
  obtain salt where s: "generate_random_salt e 4 = Some salt"
    using generate_random_salt_Some [of 4 e] by auto
  obtain hash where h: "sha1_buffer (Some salt) (Some p) = Some hash"
    using shape by (cases p) (auto simp: sha1_buffer_salted)
  have set: "z_setPassword e uid (Some p) m = CTX_RETURN (db_call e (db_setPassword uid (Some hash) (Some salt)) m)"
    using ok by (simp add: z_setPassword_def s DEFAULT_SALT_LENGTH_def h)
  obtain q where q: "db_setPassword uid (Some hash) (Some salt) = DbQuery q" "query_of (DbQuery q) = q"
    using db_setPassword_query by (metis query_of.simps(1))
  have "m_out (snd (z_generatePassword e uid m))
      = m_out m @ [OQuery (m_qid m) (query_of (db_setPassword uid (Some hash) (Some salt)))]"
    "CTX_PARAM_PEEK (Acct User_cb_generatepw) (snd (z_generatePassword e uid m)) = VStr p"
    using assms by (simp_all add: z_generatePassword_def MIN_PASSWD_LEN_def p set q CTX_RETURN_out
        CTX_RETURN_fst Let_def)
  with shape ok h show ?thesis by blast
qed

theorem generated_password_witness:
  "\<exists>p. length p = 10 \<and> CTX_PARAM_PEEK (Acct User_cb_generatepw) (snd (z_generatePassword sample_env 7 sample_mod)) = VStr p"
  using generated_password [OF sample_env_specs(2), of sample_mod 7] by (auto simp: sample_env_simps sample_mod_def)

lemma setattr_qid:
  assumes "strcmp_spec e" "a \<notin> {''name'', ''email'', ''active'', ''type'', ''language''}"
  shows "user_setattr_check e (Some a) value m = CTX_RETURN (set_error INVALID_PARAMETER m)"
  using assms by (simp add: user_setattr_check_def strcmp_spec_def Let_def)

lemma setattr_active: "strcmp_spec e \<Longrightarrow> user_setattr_check e (Some ''active'') v m = CTX_RETURN (set_error INVALID_PARAMETER m)"
  by (cases v) (auto simp: user_setattr_check_def strcmp_spec_def Let_def)

text \<open>
  C14: The name of the attribute, which is spliced into the statement, is checked against a
  list: the only names for which changing a user's attribute makes any query are name,
  email, type and language; every other name is refused as an invalid parameter. The list
  of the code also has active, but its check wants the value to be 0 and 1 at once, so
  activating or deactivating a user this way is refused for every value.
\<close>

theorem attribute_whitelist:
  assumes "strcmp_spec e" "a \<notin> {''name'', ''email'', ''type'', ''language''}"
  shows "fst (z_setUserAttribute e uid (Some a) value m) = False
    \<and> m_fault (snd (z_setUserAttribute e uid (Some a) value m)) = Some INVALID_PARAMETER
    \<and> m_out (snd (z_setUserAttribute e uid (Some a) value m)) = m_out m @ [OResume False, OResume False]"
proof -
  have "user_setattr_check e (Some a) value m = CTX_RETURN (set_error INVALID_PARAMETER m)"
    using setattr_qid [OF assms(1)] setattr_active [OF assms(1)] assms(2) by (cases "a = ''active''") auto
  then show ?thesis
    by (simp add: z_setUserAttribute_def CTX_RETURN_def set_error_def fault_set_def emit_def)
qed

theorem attribute_whitelist_witness:
  "m_fault (snd (z_setUserAttribute sample_env 7 (Some ''active'') (Some ''1'') sample_mod)) = Some INVALID_PARAMETER"
  using attribute_whitelist [OF sample_env_specs(1), of "''active''" 7 "Some ''1''" sample_mod] by simp

lemma char_code: "c = CHR ''6'' \<longleftrightarrow> of_char c = (54::nat)" "c = CHR ''7'' \<longleftrightarrow> of_char c = (55::nat)"
  "c = CHR ''8'' \<longleftrightarrow> of_char c = (56::nat)" "c = CHR ''9'' \<longleftrightarrow> of_char c = (57::nat)"
  using of_char_eq_iff [where 'a = nat, of c "CHR ''6''"] of_char_eq_iff [where 'a = nat, of c "CHR ''7''"]
    of_char_eq_iff [where 'a = nat, of c "CHR ''8''"] of_char_eq_iff [where 'a = nat, of c "CHR ''9''"]
  by simp_all

lemma strtol_single: "strtol10 [c] = (case digit_val c of None \<Rightarrow> 0 | Some d \<Rightarrow> d, False)"
proof -
  have digits: "digit_val x = None" if "is_space x \<or> x = CHR ''-'' \<or> x = CHR ''+''" for x
    using that by (auto simp: is_space_def digit_val_def)
  have "scan_long [c] = (case digit_val c of None \<Rightarrow> 0 | Some d \<Rightarrow> d)"
    using digits [of c] by (auto simp: scan_long_def Let_def split: option.splits)
  then show ?thesis
    using digit_val_range [of c] by (auto simp: strtol10_def Let_def split: option.splits)
qed

lemma type_check_accepts:
  assumes "strcmp_spec e" "v \<noteq> []"
  shows "fst (user_setattr_check e (Some ''type'') (Some v) (m\<lparr>c_error := None\<rparr>))
    = (length v = 1 \<and> v \<notin> {''6'', ''7'', ''8'', ''9''})"
proof -
  obtain c cs where v: "v = c # cs" using assms(2) by (cases v) auto
  have big: "(case digit_val c of None \<Rightarrow> 0 | Some d \<Rightarrow> d) \<le> 5 \<longleftrightarrow> c \<notin> {CHR ''6'', CHR ''7'', CHR ''8'', CHR ''9''}"
    by (simp add: digit_val_def char_code Let_def) arith
  have range: "0 \<le> (case digit_val c of None \<Rightarrow> 0 | Some d \<Rightarrow> d)" "(case digit_val c of None \<Rightarrow> 0 | Some d \<Rightarrow> d) \<le> 9"
    using digit_val_range [of c] by (auto split: option.splits)
  show ?thesis
    using assms(1) big range
    by (cases cs) (auto simp: v user_setattr_check_def strcmp_spec_def CTX_RETURN_fst strtol_single set_error_def
        USER_TYPE_SUPER_USER_def USER_TYPE_NODE_def Let_def)
qed

text \<open>
  C40: An e-mail address is accepted exactly when it has an at sign and a dot after the last
  one: the text after its last dot contains no at sign, and the text before contains one.
\<close>

theorem email_check:
  "email_ok s \<longleftrightarrow>
     (\<exists>us ws. s = us @ CHR ''.'' # ws \<and> CHR ''.'' \<notin> set ws \<and> CHR ''@'' \<notin> set ws \<and> CHR ''@'' \<in> set us)"
proof
  assume "email_ok s"
  then obtain a d where ad: "strrchr CHR ''@'' s = Some a" "strrchr CHR ''.'' s = Some d" "a \<le> d"
    by (auto simp: email_ok_def split: option.splits)
  note A = strrchr_SomeD [OF ad(1)] and D = strrchr_SomeD [OF ad(2)]
  have "a \<noteq> d" using A D by auto
  then have lt: "a < d" using ad(3) by simp
  have "set (drop (Suc d) s) \<subseteq> set (drop (Suc a) s)"
    using lt by (simp add: set_drop_subset_set_drop)
  moreover have "CHR ''@'' \<in> set (take d s)"
    using A lt by (metis in_set_conv_nth length_take min_less_iff_conj nth_take)
  moreover have "s = take d s @ CHR ''.'' # drop (Suc d) s"
    using D id_take_nth_drop by metis
  ultimately show "\<exists>us ws. s = us @ CHR ''.'' # ws \<and> CHR ''.'' \<notin> set ws \<and> CHR ''@'' \<notin> set ws \<and> CHR ''@'' \<in> set us"
    using A D by blast
next
  assume "\<exists>us ws. s = us @ CHR ''.'' # ws \<and> CHR ''.'' \<notin> set ws \<and> CHR ''@'' \<notin> set ws \<and> CHR ''@'' \<in> set us"
  then obtain us ws where s: "s = us @ CHR ''.'' # ws" "CHR ''.'' \<notin> set ws" "CHR ''@'' \<notin> set ws" "CHR ''@'' \<in> set us"
    by blast
  have d: "strrchr CHR ''.'' s = Some (length us)" using s strrchr_append_notin by simp
  obtain a where a: "strrchr CHR ''@'' s = Some a"
    using s strrchr_None_iff [of "CHR ''@''" s] by (cases "strrchr CHR ''@'' s") auto
  have "\<not> length us < a"
  proof
    assume "length us < a"
    then have "s ! a \<in> set ws" using strrchr_SomeD [OF a] s(1)
      by (auto simp: nth_append nth_Cons' in_set_conv_nth intro!: exI [of _ "a - Suc (length us)"])
    then show False using strrchr_SomeD [OF a] s(3) by auto
  qed
  then show "email_ok s" by (simp add: email_ok_def a d)
qed

end
