(* ===== verification/Precall.thy ===== *)
theory Precall
  imports User
begin

text \<open>
  The gate of the server: \<open>session_pre_call\<close> of functions-session.c, run before every method
  and again after every suspension it asks for, with its callbacks and the single-sign-on
  jobs; and the \<open>PRE_CALL\<close> and \<open>POST\<close> macros of include/servlets.h around it.
\<close>

subsection \<open>Callbacks of the gate\<close>

definition session_pre_call_cb_super :: "env \<Rightarrow> val \<Rightarrow> smod \<Rightarrow> smod" where
  "session_pre_call_cb_super e ret m =
     (let m = MARK_CB m in
      if c_error m \<noteq> None then RESUME m
      else
        (let m = m\<lparr>c_user_type := as_int ret\<rparr>;
             m = snd (z_setSession e m);
             m = m\<lparr>c_count := 0\<rparr>;
             m = m\<lparr>c_checked := False\<rparr>
         in CTX_CB_ADD (Sess Session_cb_error_clear) m))"

definition session_pre_call_cb_getSession :: "val \<Rightarrow> smod \<Rightarrow> smod" where
  "session_pre_call_cb_getSession ret m =
     (let m = MARK_CB m;
          m = (case ret of
                 VSession r \<Rightarrow> upd_session (\<lambda>s. s\<lparr>authenticated := authenticated r, s_uid := s_uid r,
                   referrer := referrer r, failures := failures r, timestamp := timestamp r\<rparr>) m
               | _ \<Rightarrow> if is_null ret then m else emit OCrash m)
      in RESUME m)"

definition session_pre_call_cb_ip :: "val \<Rightarrow> smod \<Rightarrow> smod" where
  "session_pre_call_cb_ip ip m =
     RESUME (upd_session (\<lambda>s. s\<lparr>client_host := as_str ip\<rparr>) (MARK_CB m))"

subsection \<open>Single sign-on\<close>

text \<open>
  The test on the forwarding headers, in the order the C evaluates it: \<open>None\<close> is a search in
  a header that is absent.
\<close>

definition sso_host_mismatch :: "cstr \<Rightarrow> cstr \<Rightarrow> string \<Rightarrow> bool option" where
  "sso_host_mismatch fwded_server fwded_host str =
     (case fwded_server of
        None \<Rightarrow> None
      | Some s \<Rightarrow>
          if strstr s str then Some False
          else (case fwded_host of None \<Rightarrow> None | Some h \<Rightarrow> Some (\<not> strstr h str)))"

definition sso_error :: "smod \<Rightarrow> smod" where
  "sso_error m = RESUME (REWIND (m\<lparr>c_sso := False\<rparr>))"

text \<open>Step 5 is also reached by falling through from step 4.\<close>

definition sso_step5 :: "env \<Rightarrow> smod \<Rightarrow> smod" where
  "sso_step5 e m =
     (if c_error m \<noteq> None then sso_error m else snd (z_setLastLogin e (s_uid (m_session m)) m))"

definition session_pre_call_sso :: "env \<Rightarrow> smod \<Rightarrow> smod" where
  "session_pre_call_sso e m =
     (if \<not> c_sso m then m
      else if c_count m = 1 then
        CTX_VALUE_JOB (Sess Session_pre_call_sso) (snd (z_getConfig e (Some ''SSOtrustedhost'') m))
      else if c_count m = 2 then
        (let (v, m) = CTX_PARAM_GET (Sess Session_pre_call_sso) m;
             m = m\<lparr>c_data := v\<rparr>;
             fwded_host = e_hdr e ''X-Forwarded-Host'';
             fwded_server = e_hdr e ''X-Forwarded-Server''
         in if \<not> zs_ip e (as_str v) then sso_error m
            else if fwded_server = None \<and> fwded_host = None then sso_error m
            else (case as_str v of
                None \<Rightarrow> emit OCrash m
              | Some str \<Rightarrow>
                  (case sso_host_mismatch fwded_server fwded_host str of
                     None \<Rightarrow> emit OCrash m
                   | Some True \<Rightarrow> sso_error (set_error NOT_AUTHORIZED m)
                   | Some False \<Rightarrow>
                       CTX_VALUE_JOB (Sess Session_pre_call_sso) (snd (z_getConfig e (Some ''SSOheader'') m)))))
      else if c_count m = 3 then
        (let (v, m) = CTX_PARAM_GET (Sess Session_pre_call_sso) m;
             m = m\<lparr>c_data := v\<rparr>
         in if is_null v then sso_error (set_error NOT_AUTHORIZED m)
            else CTX_INT_JOB (Sess Session_pre_call_sso) (snd (z_getUserUID e (as_str v) m)))
      else if c_count m = 4 then
        (let (v, m) = CTX_PARAM_GET (Sess Session_pre_call_sso) m;
             uid = as_int v;
             m = upd_session (\<lambda>s. s\<lparr>s_uid := uid\<rparr>) m
         in if uid < 0 then sso_error (set_error NOT_AUTHORIZED m)
            else
              (let m = (if \<not> zs_uuid e (session_id (m_session m)) then
                          (let m = upd_session (\<lambda>s. s\<lparr>session_id := Some (e_uuid e)\<rparr>) m
                           in emit (OCookie (Some (e_uuid e))) (m\<lparr>m_cookie := Some (e_uuid e)\<rparr>))
                        else m);
                   m = upd_session (\<lambda>s. s\<lparr>authenticated := True\<rparr>) m;
                   m = snd (z_setSession e m);
                   m = CTX_BOOL_JOB (Sess Session_pre_call_sso) m
               in sso_step5 e m))
      else if c_count m = 5 then sso_step5 e m
      else m)"

definition session_pre_call_sso_check :: "env \<Rightarrow> smod \<Rightarrow> smod" where
  "session_pre_call_sso_check e m =
     (if c_count m = 0 then
        CTX_VALUE_JOB (Sess Session_pre_call_sso_check) (snd (z_getConfig e (Some ''SSOenabled'') m))
      else if c_count m = 1 then
        (let (sso, m) = CTX_PARAM_GET (Sess Session_pre_call_sso_check) m;
             m = (if zs_strcasecmp e (as_str sso) (Some ''yes'') = 0 then m\<lparr>c_sso := True\<rparr> else m);
             m = m\<lparr>c_error := None\<rparr>;
             m = (if \<not> c_sso m then RESUME (REWIND (count_inc m)) else m)
         in session_pre_call_sso e m)
      else session_pre_call_sso e m)"

subsection \<open>The gate\<close>

text \<open>
  Without a valid cookie: a method other than login first tries single sign-on and is then
  refused; a login, or a request with no content (a download), gets a new session.
\<close>

definition pre_call_no_cookie :: "env \<Rightarrow> smod \<Rightarrow> bool \<times> smod" where
  "pre_call_no_cookie e m =
     (let session = m_session m;
          mth = (if m_has_content m then e_method e else None)
      in if m_has_content m \<and> zs_strcmp e mth (Some ''User.login'') \<noteq> 0
            \<and> zs_strcmp e mth (Some ''Zentific.hello'') \<noteq> 0 then
           (if c_count m = 0 then CTX_RETURN (session_pre_call_sso_check e m)
            else CTX_RETURN (set_error (if session_id session \<noteq> None then INVALID_SESSION else NOT_AUTHENTICATED) m))
         else
           (let m = upd_session (\<lambda>s. s\<lparr>session_id := Some (e_uuid e)\<rparr>) m;
                m = emit (OCookie (Some (e_uuid e))) (m\<lparr>m_cookie := Some (e_uuid e)\<rparr>)
            in CTX_RETURN (snd (z_setSession e m))))"

text \<open>With a valid cookie that has not been checked: load the session, then check it.\<close>

definition pre_call_unchecked :: "env \<Rightarrow> smod \<Rightarrow> bool \<times> smod" where
  "pre_call_unchecked e m =
     (if c_count m = 0 then CTX_RETURN (session_pre_call_sso_check e m)
      else if session_id (m_session m) = None then
        (let m = upd_session (\<lambda>s. s\<lparr>session_id := m_cookie m\<rparr>) m;
             m = snd (z_getSession e (m_cookie m) m);
             m = CTX_CB_ADD (Sess Session_pre_call_cb_getSession) m
         in CTX_RETURN (REWIND m))
      else CTX_RETURN (REWIND (snd (z_checkSession e m))))"

text \<open>The decision on a checked session.\<close>

definition pre_call_decide :: "env \<Rightarrow> smod \<Rightarrow> bool \<times> smod" where
  "pre_call_decide e m =
     (let mth = (if m_has_content m then e_method e else None);
          fallthrough = (\<lambda>m. CTX_RETURN (m\<lparr>c_error := None\<rparr>))
      in if streq e mth ''User.login'' \<or> streq e mth ''Zentific.hello'' then
           (let m = RESUME m;
                m = upd_session (\<lambda>s. s\<lparr>s_uid := -1\<rparr>) m;
                m = upd_session (\<lambda>s. s\<lparr>authenticated := False\<rparr>) m
            in fallthrough m)
         else if authenticated (m_session m) \<and> streq e mth ''User.logout'' then fallthrough m
         else if e_get e then CTX_RETURN (RESUME (m\<lparr>c_error := None\<rparr>))
         else
           (let status = s_status (m_session m) in
            if status = errcode VALID_SESSION then
              (let m = snd (z_getUserType e (s_uid (m_session m)) m);
                   m = CTX_CB_ADD (Sess Session_pre_call_cb_super) m
               in CTX_RETURN (m\<lparr>c_error := None\<rparr>))
            else if status = errcode EXPIRED_SESSION then CTX_RETURN (set_error EXPIRED_SESSION m)
            else if status = errcode NOT_AUTHORIZED then CTX_RETURN (set_error NOT_AUTHORIZED m)
            else CTX_RETURN (set_error INVALID_SESSION m)))"

definition session_pre_call :: "env \<Rightarrow> smod \<Rightarrow> bool \<times> smod" where
  "session_pre_call e m =
     (if client_host (m_session m) = None then
        (let m = session_getClientIP e m;
             m = CTX_CB_ADD (Sess Session_pre_call_cb_ip) m
         in CTX_RETURN (REWIND m))
      else if \<not> zs_uuid e (m_cookie m) then pre_call_no_cookie e m
      else if \<not> c_checked m then pre_call_unchecked e m
      else pre_call_decide e m)"

subsection \<open>include/servlets.h\<close>

text \<open>A module at the start of its first call: a new session of user -1, the context zeroed.\<close>

definition server_module_init :: "zentific_config \<Rightarrow> smod \<Rightarrow> smod" where
  "server_module_init config m = m
     \<lparr> m_session := SESSION_new\<lparr>s_uid := -1\<rparr>, m_zconf := config, c_cbs := [], c_params := (\<lambda>_. VNull),
       c_retval := VNull, c_data := VNull, c_data2 := VNull, c_free_func := None, c_job := None, c_error := None, c_count := 0,
       c_user_type := 0, c_state := False, c_ret := False, c_ret_set := False, c_dead := False,
       c_checked := False, c_auth := False, c_sso := False \<rparr>"

text \<open>
  \<open>fresh\<close> says that the module has no session. While modules are being reloaded the module
  is only put on a list (the first component of the result).
\<close>

definition PRE_CALL :: "env \<Rightarrow> bool \<Rightarrow> bool \<Rightarrow> zentific_config \<Rightarrow> smod \<Rightarrow> bool \<times> bool \<times> smod" where
  "PRE_CALL e fresh reloading config m =
     (let m = (if fresh then server_module_init config m else m)
      in if reloading then (True, True, m) else (False, session_pre_call e m))"

end
