(* ===== verification/Gate.thy ===== *)
theory Gate
  imports Precall Frame
begin

text \<open>
  The gate as a state machine: every schedule of entering \<open>session_pre_call\<close>, answers of the
  database, callbacks taken from the chain and jobs, on a clock that does not run
  backwards. The schedule is unconstrained (the gate may be entered at any time and a
  callback called with any value), so what is shown holds however the RPC library schedules
  the handlers. Single sign-on is off: its jobs may run, but a step that switches it on is
  not part of a run.
\<close>

subsection \<open>Events\<close>

datatype gate_event = Enter int | Result esql_res | Call int val | Job int

text \<open>The callbacks and the jobs the gate registers.\<close>

fun gate_cb :: "env \<Rightarrow> fname \<Rightarrow> val \<Rightarrow> smod \<Rightarrow> smod option" where
  "gate_cb e (Sess Session_getClientIP_cb) v m = Some (session_getClientIP_cb e v m)"
| "gate_cb e (Sess Session_pre_call_cb_ip) v m = Some (session_pre_call_cb_ip v m)"
| "gate_cb e (Sess Session_get_cb) v m = Some (session_get_cb v m)"
| "gate_cb e (Sess Session_pre_call_cb_getSession) v m = Some (session_pre_call_cb_getSession v m)"
| "gate_cb e (Sess Session_check_cb) v m = Some (session_check_cb e v m)"
| "gate_cb e (Sess Session_pre_call_cb_super) v m = Some (session_pre_call_cb_super e v m)"
| "gate_cb e (Sess Session_cb_error_clear) v m = Some (session_cb_error_clear v m)"
| "gate_cb e (Core Cb_pointer_job) v m = Some (cb_pointer_job v m)"
| "gate_cb e _ v m = None"

fun gate_job :: "env \<Rightarrow> fname \<Rightarrow> smod \<Rightarrow> smod option" where
  "gate_job e (Sess Session_pre_call_sso_check) m = Some (session_pre_call_sso_check e m)"
| "gate_job e (Sess Session_pre_call_sso) m = Some (session_pre_call_sso e m)"
| "gate_job e _ m = None"

definition clock :: "env \<Rightarrow> int \<Rightarrow> env" where
  "clock e t = e\<lparr>e_now := t\<rparr>"

lemma clock_simps [simp]:
  "e_now (clock e t) = t" "zs_strcmp (clock e t) = zs_strcmp e" "zs_uuid (clock e t) = zs_uuid e"
  "e_method (clock e t) = e_method e" "e_get (clock e t) = e_get e" "e_uuid (clock e t) = e_uuid e"
  by (simp_all add: clock_def)

text \<open>
  One step at a time not before \<open>t0\<close>. The answer to the query for the session timeout is the
  configured value \<open>tmo\<close>.
\<close>

fun gate_step :: "env \<Rightarrow> int \<Rightarrow> cstr \<Rightarrow> gate_event \<Rightarrow> smod \<Rightarrow> smod option" where
  "gate_step e t0 tmo (Enter t) m = (if t0 \<le> t then Some (snd (session_pre_call (clock e t) m)) else None)"
| "gate_step e t0 tmo (Result res) m = Some (event_cb res m)"
| "gate_step e t0 tmo (Call t v) m =
     (case c_cbs m of
        f # _ \<Rightarrow>
          if t0 \<le> t \<and> (f \<noteq> Sess Session_check_cb \<or> as_str v = tmo) then gate_cb (clock e t) f v m else None
      | [] \<Rightarrow> None)"
| "gate_step e t0 tmo (Job t) m =
     (case c_job m of
        Some f \<Rightarrow>
          if t0 \<le> t then
            (case gate_job (clock e t) f m of Some m' \<Rightarrow> if c_sso m' then None else Some m' | None \<Rightarrow> None)
          else None
      | None \<Rightarrow> None)"

inductive gate_run :: "env \<Rightarrow> int \<Rightarrow> cstr \<Rightarrow> smod \<Rightarrow> smod \<Rightarrow> bool"
  for e :: env and t0 :: int and tmo :: cstr and m0 :: smod where
  start: "gate_run e t0 tmo m0 m0"
| step: "gate_run e t0 tmo m0 m \<Longrightarrow> gate_step e t0 tmo ev m = Some m' \<Longrightarrow> gate_run e t0 tmo m0 m'"

fun_cases gate_cbE: "gate_cb e f v m = Some m'"

inductive_cases gate_runE: "gate_run e t0 tmo m0 m"

fun gate_exec :: "env \<Rightarrow> int \<Rightarrow> cstr \<Rightarrow> gate_event list \<Rightarrow> smod \<Rightarrow> smod option" where
  "gate_exec e t0 tmo [] m = Some m"
| "gate_exec e t0 tmo (ev # evs) m =
     (case gate_step e t0 tmo ev m of None \<Rightarrow> None | Some m' \<Rightarrow> gate_exec e t0 tmo evs m')"

lemma gate_exec_run: "gate_run e t0 tmo m0 m \<Longrightarrow> gate_exec e t0 tmo evs m = Some m' \<Longrightarrow> gate_run e t0 tmo m0 m'"
  by (induction evs arbitrary: m) (auto intro: gate_run.step split: option.splits)

text \<open>A call that enters the gate: a new module and a request that is neither a login nor a greeting.\<close>

definition guarded_request :: "env \<Rightarrow> bool" where
  "guarded_request e \<longleftrightarrow> (\<exists>mth. e_method e = Some mth \<and> mth \<noteq> ''User.login'' \<and> mth \<noteq> ''Zentific.hello'')"

definition entering :: "smod \<Rightarrow> bool" where
  "entering m \<longleftrightarrow> m_has_content m \<and> \<not> c_checked m \<and> \<not> c_sso m \<and> c_cbs m = []
     \<and> session_id (m_session m) = None \<and> \<not> authenticated (m_session m)"

definition timeout_limit :: "cstr \<Rightarrow> int" where
  "timeout_limit tmo = max 900 (session_timeout_secs tmo sample_mod)"

subsection \<open>The invariant\<close>

text \<open>
  A checked call whose status says valid has an authenticated session that was not older
  than the timeout at some time of the run. The session is loaded before it is checked: the
  callback that loads it is never behind, or together with, a finished check.
\<close>

abbreviation load_cb :: fname where "load_cb \<equiv> Sess Session_pre_call_cb_getSession"
abbreviation check_cb :: fname where "check_cb \<equiv> Sess Session_check_cb"

definition load_first :: "fname list \<Rightarrow> bool" where
  "load_first cbs \<longleftrightarrow> load_cb \<notin> set (dropWhile (\<lambda>f. f \<noteq> check_cb) cbs)"

definition judged :: "int \<Rightarrow> cstr \<Rightarrow> session \<Rightarrow> bool" where
  "judged t0 tmo s \<longleftrightarrow> authenticated s \<and> t0 - timestamp s \<le> timeout_limit tmo"

definition gate_inv :: "int \<Rightarrow> cstr \<Rightarrow> smod \<Rightarrow> bool" where
  "gate_inv t0 tmo m \<longleftrightarrow> m_has_content m \<and> \<not> c_sso m
     \<and> load_first (c_cbs m)
     \<and> (c_checked m \<longrightarrow> load_cb \<notin> set (c_cbs m))
     \<and> (session_id (m_session m) = None \<longrightarrow> \<not> c_checked m \<and> load_cb \<notin> set (c_cbs m) \<and> check_cb \<notin> set (c_cbs m))
     \<and> (c_checked m \<longrightarrow> s_status (m_session m) = errcode VALID_SESSION \<longrightarrow> judged t0 tmo (m_session m))"

lemma load_first_Nil [simp]: "load_first []"
  and load_first_Cons: "load_first (f # cbs) \<longleftrightarrow> (if f = check_cb then load_cb \<notin> set cbs else load_first cbs)"
  by (auto simp: load_first_def)

lemma load_first_snoc:
  "load_first (cbs @ [f]) \<longleftrightarrow> load_first cbs \<and> (f = load_cb \<longrightarrow> check_cb \<notin> set cbs)"
  by (induction cbs) (auto simp: load_first_Cons)

lemma load_first_notin: "load_cb \<notin> set cbs \<Longrightarrow> load_first cbs"
  by (auto simp: load_first_def dest: set_dropWhileD)

lemma load_first_nocheck: "check_cb \<notin> set cbs \<Longrightarrow> load_first cbs"
  by (induction cbs) (auto simp: load_first_Cons)

lemma load_first_tl: "load_first cbs \<Longrightarrow> load_first (tl cbs)"
  by (cases cbs) (auto simp: load_first_Cons load_first_notin split: if_splits)

lemma gate_inv_entering: "entering m \<Longrightarrow> gate_inv t0 tmo m"
  by (simp add: entering_def gate_inv_def)

text \<open>
  A step that keeps the session and the flags, and whose chain is the old one, or one link
  shorter, or longer by callbacks other than the two above, keeps the invariant.
\<close>

definition same_gate :: "smod \<Rightarrow> smod \<Rightarrow> bool" where
  "same_gate m m' \<longleftrightarrow> m_session m' = m_session m \<and> c_checked m' = c_checked m \<and> c_sso m' = c_sso m
     \<and> m_has_content m' = m_has_content m
     \<and> (\<exists>fs. load_cb \<notin> set fs \<and> check_cb \<notin> set fs \<and> (c_cbs m' = c_cbs m @ fs \<or> c_cbs m' = tl (c_cbs m) @ fs))"

lemma load_first_append: "load_cb \<notin> set fs \<Longrightarrow> load_first (cbs @ fs) \<longleftrightarrow> load_first cbs"
  by (induction cbs) (auto simp: load_first_Cons load_first_def dest: set_dropWhileD)

lemma in_tlD: "x \<in> set (tl xs) \<Longrightarrow> x \<in> set xs"
  by (cases xs) auto

lemma same_gate_inv: "same_gate m m' \<Longrightarrow> gate_inv t0 tmo m \<Longrightarrow> gate_inv t0 tmo m'"
  by (auto simp: same_gate_def gate_inv_def load_first_append dest: in_tlD load_first_tl)

lemma same_gateI:
  assumes "m_session m' = m_session m" "c_checked m' = c_checked m" "c_sso m' = c_sso m"
    "m_has_content m' = m_has_content m" "c_cbs m' = c_cbs m @ fs \<or> c_cbs m' = tl (c_cbs m) @ fs"
    "load_cb \<notin> set fs" "check_cb \<notin> set fs"
  shows "same_gate m m'"
  using assms by (auto simp: same_gate_def)

lemma same_gate_appendI:
  assumes "m_session m' = m_session m" "c_checked m' = c_checked m" "c_sso m' = c_sso m"
    "m_has_content m' = m_has_content m" "take (length (c_cbs m)) (c_cbs m') = c_cbs m"
    "load_cb \<notin> set (drop (length (c_cbs m)) (c_cbs m'))" "check_cb \<notin> set (drop (length (c_cbs m)) (c_cbs m'))"
  shows "same_gate m m'"
  by (rule same_gateI [OF assms(1-4) disjI1 assms(6,7)]) (metis assms(5) append_take_drop_id)

lemma same_gate_tlI:
  assumes "m_session m' = m_session m" "c_checked m' = c_checked m" "c_sso m' = c_sso m"
    "m_has_content m' = m_has_content m" "c_cbs m' = c_cbs m \<or> c_cbs m' = tl (c_cbs m)"
  shows "same_gate m m'"
  by (rule same_gateI [of _ _ "[]"]) (use assms in simp_all)

subsection \<open>The steps keep the invariant\<close>

lemma result_inv:
  assumes "gate_inv t0 tmo m"
  shows "gate_inv t0 tmo (event_cb res m)"
proof (rule same_gate_inv [OF same_gateI [of _ _ "[]"] assms])
  show "c_cbs (event_cb res m) = c_cbs m @ [] \<or> c_cbs (event_cb res m) = tl (c_cbs m) @ []"
    using event_cb_cbs [of res m] by (metis append_Nil2 list.sel(3))
qed simp_all

lemma sso_check_same:
  assumes "\<not> c_sso m" "\<not> c_sso (session_pre_call_sso_check e m)"
  shows "same_gate m (session_pre_call_sso_check e m)"
proof -
  let ?off = "zs_strcasecmp e (as_str (CTX_PARAM_PEEK (Sess Session_pre_call_sso_check) m)) (Some ''yes'') \<noteq> 0"
  consider "c_count m = 0" | "c_count m = 1" | "c_count m \<noteq> 0" "c_count m \<noteq> 1" by blast
  then show ?thesis
  proof cases
    case 2
    then have off: ?off
      using assms by (auto simp: session_pre_call_sso_check_def session_pre_call_sso_def CTX_VALUE_JOB_def
          z_getConfig_def CTX_PARAM_GET_def Let_def)
    show ?thesis
      by (rule same_gate_appendI)
         (use assms off 2 in \<open>simp_all add: session_pre_call_sso_check_def session_pre_call_sso_def CTX_PARAM_GET_def Let_def\<close>)
  qed (use assms in \<open>auto intro!: same_gate_appendI simp: session_pre_call_sso_check_def session_pre_call_sso_def
        CTX_VALUE_JOB_def z_getConfig_def CTX_CB_ADD_cbs Let_def split: if_splits\<close>)
qed

lemma sso_same: "\<not> c_sso m \<Longrightarrow> session_pre_call_sso e m = m"
  by (simp add: session_pre_call_sso_def)

lemma job_inv:
  assumes "gate_inv t0 tmo m" "gate_job e f m = Some m'" "\<not> c_sso m'"
  shows "gate_inv t0 tmo m'"
proof -
  have "\<not> c_sso m" using assms(1) by (simp add: gate_inv_def)
  then show ?thesis
    using assms same_gate_inv [OF sso_check_same, of m e t0 tmo] sso_same [of m e]
    by (cases "(e, f, m)" rule: gate_job.cases) auto
qed

lemma timeout_le: "session_timeout_secs tmo m \<le> timeout_limit tmo"
  by (auto simp: timeout_limit_def session_timeout_secs_def DEFAULT_SESSION_TIMEOUT_def sample_mod_def Let_def
      split: prod.splits)

lemma check_inv:
  assumes inv: "gate_inv t0 tmo m" and head: "c_cbs m = check_cb # fs" and t: "t0 \<le> t" and v: "as_str v = tmo"
  shows "gate_inv t0 tmo (session_check_cb (clock e t) v m)"
proof -
  have load: "load_cb \<notin> set fs" using inv head by (simp add: gate_inv_def load_first_Cons)
  have sid: "session_id (m_session m) \<noteq> None" using inv head by (auto simp: gate_inv_def)
  have "t0 - timestamp (m_session m) \<le> timeout_limit tmo"
    if "t - timestamp (m_session m) \<le> session_timeout_secs tmo (MARK_CB m)"
    using that t timeout_le [of tmo "MARK_CB m"] by simp
  then show ?thesis
    using inv load sid head v
    by (auto simp: gate_inv_def session_check_cb_def session_checker_fst session_checker_snd split_beta Let_def
        judged_def load_first_notin)
qed

lemma load_inv:
  assumes "gate_inv t0 tmo m" "c_cbs m = load_cb # fs"
  shows "gate_inv t0 tmo (session_pre_call_cb_getSession v m)"
  using assms by (auto simp: gate_inv_def session_pre_call_cb_getSession_def Let_def load_first_Cons split: val.splits)

lemma super_inv:
  assumes "gate_inv t0 tmo m"
  shows "gate_inv t0 tmo (session_pre_call_cb_super e v m)"
  using assms in_tlD [of _ "c_cbs m"] load_first_tl [of "c_cbs m"]
  by (auto simp: gate_inv_def session_pre_call_cb_super_def z_setSession_def CTX_CB_ADD_cbs load_first_append Let_def
      split: if_splits)

lemma plain_cb_same:
  "same_gate m (session_getClientIP_cb e v m)" "same_gate m (session_get_cb v m)"
  "same_gate m (session_cb_error_clear v m)" "same_gate m (cb_pointer_job v m)"
  by (auto intro!: same_gate_tlI simp: session_getClientIP_cb_def session_get_cb_def
      session_cb_error_clear_def cb_pointer_job_def CTX_PARAM_GET_def Let_def split: option.splits)

lemma ip_inv:
  assumes "gate_inv t0 tmo m"
  shows "gate_inv t0 tmo (session_pre_call_cb_ip v m)"
  using assms in_tlD [of _ "c_cbs m"] load_first_tl [of "c_cbs m"]
  by (auto simp: gate_inv_def session_pre_call_cb_ip_def judged_def)

lemma call_inv:
  assumes inv: "gate_inv t0 tmo m" and cbs: "c_cbs m = f # fs" "t0 \<le> t" "f \<noteq> check_cb \<or> as_str v = tmo"
    and call: "gate_cb (clock e t) f v m = Some m'"
  shows "gate_inv t0 tmo m'"
  by (rule gate_cbE [OF call])
     (use load_inv [OF inv] check_inv [OF inv] cbs in \<open>simp_all add: ip_inv [OF inv] super_inv [OF inv]
        plain_cb_same [THEN same_gate_inv, OF inv]\<close>)

text \<open>Entering the gate: each of its parts extends the chain, and only loading touches the session.\<close>

lemma sso_count_0: "c_count m = 0 \<Longrightarrow> c_sso (session_pre_call_sso_check e m) = c_sso m"
  by (simp add: session_pre_call_sso_check_def CTX_VALUE_JOB_def z_getConfig_def)

lemma no_cookie_inv:
  assumes "gate_inv t0 tmo m" "guarded_request e" "strcmp_spec e"
  shows "gate_inv t0 tmo (snd (pre_call_no_cookie e m))"
proof -
  have m: "m_has_content m" "\<not> c_sso m" using assms(1) by (simp_all add: gate_inv_def)
  have "zs_strcmp e (e_method e) (Some ''User.login'') \<noteq> 0" "zs_strcmp e (e_method e) (Some ''Zentific.hello'') \<noteq> 0"
    using assms(2,3) by (auto simp: guarded_request_def strcmp_spec_def)
  then have eq: "pre_call_no_cookie e m =
      (if c_count m = 0 then CTX_RETURN (session_pre_call_sso_check e m)
       else CTX_RETURN (set_error (if session_id (m_session m) \<noteq> None then INVALID_SESSION else NOT_AUTHENTICATED) m))"
    using m by (simp add: pre_call_no_cookie_def Let_def)
  have "same_gate m (snd (pre_call_no_cookie e m))"
  proof (cases "c_count m = 0")
    case True
    then have "same_gate m (session_pre_call_sso_check e m)"
      using sso_check_same m(2) sso_count_0 [of m e] by simp
    then show ?thesis by (simp add: eq True same_gate_def)
  qed (simp add: eq same_gate_appendI)
  then show ?thesis using same_gate_inv assms(1) by blast
qed

lemma unchecked_inv:
  assumes inv: "gate_inv t0 tmo m" "\<not> c_checked m" and cookie: "m_cookie m \<noteq> None"
  shows "gate_inv t0 tmo (snd (pre_call_unchecked e m))"
proof -
  consider "c_count m = 0" | "c_count m \<noteq> 0" "session_id (m_session m) = None"
    | "c_count m \<noteq> 0" "session_id (m_session m) \<noteq> None" by blast
  then show ?thesis
  proof cases
    case 1
    then have "same_gate m (session_pre_call_sso_check e m)"
      using sso_check_same inv(1) sso_count_0 [of m e] by (simp add: gate_inv_def)
    then have "same_gate m (snd (pre_call_unchecked e m))"
      by (simp add: pre_call_unchecked_def 1 same_gate_def)
    then show ?thesis using same_gate_inv inv(1) by blast
  next
    case 2
    then show ?thesis
      using inv cookie
      by (auto simp: pre_call_unchecked_def gate_inv_def z_getSession_def CTX_CB_ADD_cbs load_first_nocheck Let_def)
  next
    case 3
    then show ?thesis
      using inv by (auto simp: pre_call_unchecked_def gate_inv_def z_checkSession_def z_getConfig_def CTX_CB_ADD_cbs
          load_first_snoc Let_def)
  qed
qed

lemma decide_inv:
  assumes inv: "gate_inv t0 tmo m" and req: "guarded_request e" "strcmp_spec e"
  shows "gate_inv t0 tmo (snd (pre_call_decide e m))"
proof -
  have "m_has_content m" using inv by (simp add: gate_inv_def)
  then have "\<not> (streq e (if m_has_content m then e_method e else None) ''User.login''
      \<or> streq e (if m_has_content m then e_method e else None) ''Zentific.hello'')"
    using req by (auto simp: guarded_request_def strcmp_spec_def)
  then have "same_gate m (snd (pre_call_decide e m))"
    by (intro same_gate_appendI)
       (auto simp: pre_call_decide_def z_getUserType_def CTX_CB_ADD_cbs Let_def split: if_splits)
  then show ?thesis using same_gate_inv inv by blast
qed

lemma ip_ask_inv:
  assumes "gate_inv t0 tmo m"
  shows "gate_inv t0 tmo (snd (CTX_RETURN (REWIND (CTX_CB_ADD (Sess Session_pre_call_cb_ip) (session_getClientIP e m)))))"
  by (rule same_gate_inv [OF same_gate_appendI assms])
     (auto simp: session_getClientIP_def z_getConfig_def CTX_CB_ADD_cbs split: if_splits)

lemma enter_inv:
  assumes "gate_inv t0 tmo m" "guarded_request e" "strcmp_spec e" "\<not> zs_uuid e None"
  shows "gate_inv t0 tmo (snd (session_pre_call e m))"
proof -
  have "m_cookie m \<noteq> None" if "zs_uuid e (m_cookie m)"
    using that assms(4) by (cases "m_cookie m") auto
  then show ?thesis
    unfolding session_pre_call_def
    by (simp add: Let_def ip_ask_inv [OF assms(1)] no_cookie_inv [OF assms(1-3)] decide_inv [OF assms(1-3)]
        unchecked_inv [OF assms(1)])
qed

lemma gate_run_inv:
  assumes "gate_run e t0 tmo m0 m" "entering m0" "guarded_request e" "strcmp_spec e" "\<not> zs_uuid e None"
  shows "gate_inv t0 tmo m"
  using assms(1)
proof (induction rule: gate_run.induct)
  case start
  then show ?case using gate_inv_entering assms(2) by blast
next
  case (step m ev m')
  have req: "guarded_request (clock e t)" "strcmp_spec (clock e t)" "\<not> zs_uuid (clock e t) None" for t
    using assms(3-5) by (simp_all add: guarded_request_def strcmp_spec_def)
  show ?case
  proof (cases ev)
    case (Enter t)
    then show ?thesis using step enter_inv [OF step.IH req] by (auto split: if_splits)
  next
    case (Result res)
    then show ?thesis using step.hyps result_inv [OF step.IH, of res] by auto
  next
    case (Call t v)
    with step.hyps obtain f fs where "c_cbs m = f # fs" "t0 \<le> t" "f \<noteq> check_cb \<or> as_str v = tmo"
      "gate_cb (clock e t) f v m = Some m'"
      by (auto split: list.splits if_splits)
    then show ?thesis using call_inv step.IH by blast
  next
    case (Job t)
    with step.hyps obtain f where "gate_job (clock e t) f m = Some m'" "\<not> c_sso m'"
      by (auto split: option.splits if_splits)
    then show ?thesis using job_inv step.IH by blast
  qed
qed

subsection \<open>Properties\<close>

text \<open>
  The gate admits a call when it registers the callback that stores the type of the user and
  saves the session, the last thing before the method runs.
\<close>

definition gate_admits :: "env \<Rightarrow> smod \<Rightarrow> bool" where
  "gate_admits e m \<longleftrightarrow> c_cbs (snd (session_pre_call e m)) = c_cbs m @ [Sess Session_pre_call_cb_super]"

lemma admits_decided:
  assumes "gate_admits e m" "m_has_content m" "guarded_request e" "strcmp_spec e" "e_method e \<noteq> Some ''User.logout''"
  shows "c_checked m \<and> s_status (m_session m) = errcode VALID_SESSION"
proof -
  have no: "\<not> (streq e (e_method e) ''User.login'' \<or> streq e (e_method e) ''Zentific.hello'')"
    using assms by (auto simp: guarded_request_def strcmp_spec_def)
  have "client_host (m_session m) \<noteq> None"
    using assms(1) by (auto simp: gate_admits_def session_pre_call_def session_getClientIP_def z_getConfig_def
        CTX_CB_ADD_cbs Let_def split: if_splits)
  moreover have "zs_uuid e (m_cookie m)"
  proof (rule ccontr)
    assume "\<not> zs_uuid e (m_cookie m)"
    with calculation show False
      using assms(1,2) no by (auto simp: gate_admits_def session_pre_call_def pre_call_no_cookie_def
          session_pre_call_sso_check_def CTX_VALUE_JOB_def z_getConfig_def CTX_CB_ADD_cbs Let_def split: if_splits)
  qed
  moreover have "c_checked m"
  proof (rule ccontr)
    assume "\<not> c_checked m"
    with calculation show False
      using assms(1) by (auto simp: gate_admits_def session_pre_call_def pre_call_unchecked_def z_getSession_def
          z_checkSession_def session_pre_call_sso_check_def CTX_VALUE_JOB_def z_getConfig_def CTX_CB_ADD_cbs Let_def
          split: if_splits)
  qed
  ultimately have "c_checked m" "c_cbs (snd (pre_call_decide e m)) = c_cbs m @ [Sess Session_pre_call_cb_super]"
    using assms(1) by (auto simp: gate_admits_def session_pre_call_def Let_def)
  then show ?thesis
    using assms(2) no by (auto simp: pre_call_decide_def Let_def split: if_splits)
qed


definition sample_call :: smod where
  "sample_call = sample_mod\<lparr>m_cookie := Some ''uuid''\<rparr>"

definition sample_loaded :: session where
  "sample_loaded = SESSION_new\<lparr>authenticated := True, s_uid := 3, timestamp := 400\<rparr>"

definition sample_events :: "gate_event list" where
  "sample_events =
     [Enter 1000, Call 1000 (VStr ''no''), Call 1000 (VStr ''10.0.0.1''), Enter 1000, Call 1000 (VStr ''no''), Job 1000,
      Enter 1001, Call 1001 (VSession sample_loaded), Call 1001 (VSession sample_loaded), Enter 1002, Call 1002 (VStr ''30'')]"

lemma sample_gate_exec:
  "case gate_exec sample_env 1000 (Some ''30'') sample_events sample_call of
     None \<Rightarrow> False
   | Some m \<Rightarrow> gate_admits (clock sample_env 1002) m \<and> s_uid (m_session m) = 3 \<and> timestamp (m_session m) = 400"
  by code_simp


text \<open>
  C16: A refused call has one answer: with no valid cookie (single sign-on having been tried),
  or with a checked session that is expired, not authenticated or unknown, the gate
  returns false, sets the fault code that fits, resumes the client once with failure,
  makes no query and leaves session and callbacks alone.
\<close>

theorem gate_refuses:
  assumes "guarded_request e" "strcmp_spec e" "e_method e \<noteq> Some ''User.logout''" "\<not> e_get e"
    "m_has_content m" "client_host (m_session m) \<noteq> None"
    "\<not> zs_uuid e (m_cookie m) \<and> c_count m \<noteq> 0
      \<or> zs_uuid e (m_cookie m) \<and> c_checked m \<and> s_status (m_session m) \<noteq> errcode VALID_SESSION"
  shows "session_pre_call e m = (False, emit (OResume False) (fault_set x (set_error x m)))
     \<longleftrightarrow> x = (if \<not> zs_uuid e (m_cookie m)
              then (if session_id (m_session m) = None then NOT_AUTHENTICATED else INVALID_SESSION)
              else if s_status (m_session m) = errcode EXPIRED_SESSION then EXPIRED_SESSION
              else if s_status (m_session m) = errcode NOT_AUTHORIZED then NOT_AUTHORIZED
              else INVALID_SESSION)" (is "?lhs x \<longleftrightarrow> x = ?x")
proof -
  have no: "\<not> (streq e (e_method e) ''User.login'' \<or> streq e (e_method e) ''Zentific.hello'')"
    "\<not> streq e (e_method e) ''User.logout''"
    using assms by (auto simp: guarded_request_def strcmp_spec_def)
  have "?lhs ?x"
    using assms(4-7) no
    by (auto simp: session_pre_call_def pre_call_no_cookie_def pre_call_decide_def CTX_RETURN_def set_error_def Let_def)
  moreover have "x = y" if "?lhs x" "?lhs y" for x y
  proof -
    have "c_error (emit (OResume False) (fault_set x (set_error x m))) = c_error (emit (OResume False) (fault_set y (set_error y m)))"
      using that by simp
    then show ?thesis by (simp add: set_error_def)
  qed
  ultimately show ?thesis by blast
qed

theorem gate_refuses_witness:
  "session_pre_call sample_env (sample_mod\<lparr>m_session := SESSION_new\<lparr>client_host := Some ''10.0.0.1''\<rparr>, c_count := 2\<rparr>)
   = (False, emit (OResume False) (fault_set NOT_AUTHENTICATED (set_error NOT_AUTHENTICATED
       (sample_mod\<lparr>m_session := SESSION_new\<lparr>client_host := Some ''10.0.0.1''\<rparr>, c_count := 2\<rparr>))))"
  by (subst gate_refuses)
     (simp_all add: guarded_request_def sample_env_def sample_mod_def SESSION_new_def strcmp_spec_def)

end
