(* ===== verification/Login.thy ===== *)
theory Login
  imports Precall
begin

text \<open>
  src/servlets/servlet-functions.c: logging in, and serving files in self-hosting mode.
\<close>

subsection \<open>Login\<close>

text \<open>An unknown user is not reported as an error: the return value is set and the session saved.\<close>

definition login_cb_uid :: "env \<Rightarrow> val \<Rightarrow> smod \<Rightarrow> smod" where
  "login_cb_uid e ret m =
     (let m = MARK_CB m in
      if as_int ret < 0 then
        (if c_error m = Some UNKNOWN_RESOURCE then
           snd (z_setSession e (AZY_RETVAL VNull (m\<lparr>c_error := None\<rparr>)))
         else if c_error m \<noteq> None then RESUME m
         else snd (z_setSession e (AZY_RETVAL VNull m)))
      else RESUME (REWIND (upd_session (\<lambda>s. s\<lparr>s_uid := as_int ret\<rparr>) m)))"

text \<open>The first run of a login: lockout after too many failures, then the user id.\<close>

definition login_first :: "env \<Rightarrow> cstr \<Rightarrow> smod \<Rightarrow> bool \<times> smod" where
  "login_first e user m =
     (let m = upd_session (\<lambda>s. s\<lparr>s_username := user\<rparr>) m;
          session = m_session m;
          locked = (MAX_LOGIN_FAILURES (m_zconf m) \<le> failures session)
      in if locked \<and> e_now e - timestamp session < s32 (RETRY_TIMEOUT (m_zconf m) * 60) then
           CTX_RETURN (set_error MAX_LOGIN_FAILURES_ERR m)
         else
           (let m = (if locked then upd_session (\<lambda>s. s\<lparr>failures := 0\<rparr>) m else m) in
            with_str user m (\<lambda>u.
              if name_too_long e u then CTX_RETURN (set_error INVALID_PARAMETER m)
              else CTX_RETURN (CTX_CB_ADD (Acct Login_cb_uid) (snd (z_getActiveUserUID e user m))))))"

text \<open>The end of a login, once the password has been judged.\<close>

definition login_finish :: "env \<Rightarrow> smod \<Rightarrow> bool \<times> smod" where
  "login_finish e m =
     (let m = (if authenticated (m_session m) then
                 (let m = upd_session (\<lambda>s. s\<lparr>failures := 0\<rparr>) m;
                      m = snd (z_setLastLogin e (s_uid (m_session m)) m);
                      m = CTX_CB_ADD F_NULL m;
                      m = upd_session (\<lambda>s. s\<lparr>session_id := Some (e_uuid e)\<rparr>) m
                  in emit (OCookie (Some (e_uuid e))) (m\<lparr>m_cookie := Some (e_uuid e)\<rparr>))
               else
                 (let m = upd_session (\<lambda>s. s\<lparr>failures := failures s + 1\<rparr>) m
                  in if m_fault m \<noteq> None \<and> m_fault m \<noteq> Some DB_FAIL then m\<lparr>m_fault := None\<rparr> else m));
          m = snd (z_setSession e m)
      in (authenticated (m_session m), m))"

definition z_login :: "env \<Rightarrow> cstr \<Rightarrow> cstr \<Rightarrow> smod \<Rightarrow> bool \<times> smod" where
  "z_login e user pass m =
     (if s_uid (m_session m) = -1 then login_first e user m
      else if \<not> c_auth m then
        (case z_auth e pass m of
           (False, m) \<Rightarrow> CTX_RETURN (if m_fault m = None then set_error SERVER_FAILURE m else m)
         | (True, m) \<Rightarrow> if \<not> c_auth m then CTX_RETURN m else login_finish e m)
      else login_finish e m)"

subsection \<open>Downloads\<close>

text \<open>
  What \<open>_servlet_download\<close> answers: a refusal, a redirect to the login page, or a file with
  its content type. The build without \<open>ZDEV_DEBUG\<close> is modelled. The file system is a
  parameter: the size of a file that can be opened and mapped. When the file cannot be
  opened, the buffer that holds its name is freed and the name is used again
  (\<open>D_dangling\<close>), unless the count is raised, which gives the plain 404 answer.
\<close>

datatype download = D_refuse | D_redirect | D_404 | D_file string nat string | D_dangling

definition str_has_suffix :: "string \<Rightarrow> string \<Rightarrow> bool" where
  "str_has_suffix s suf \<longleftrightarrow> length suf \<le> length s \<and> drop (length s - length suf) s = suf"

definition public_path :: "env \<Rightarrow> string \<Rightarrow> bool" where
  "public_path e path \<longleftrightarrow>
     \<not> (zs_strcmp e (map_option (\<lambda>n. drop n path) (strrchr CHR ''/'' path)) (Some ''/index.html'') \<noteq> 0
        \<and> (\<not> strstr path ''/javascript/'' \<and> \<not> strstr path ''/images/'' \<and> \<not> strstr path ''/plugins/''
            \<and> \<not> strstr path ''/sansation-webfont/'' \<and> \<not> strstr path ''/css/'' \<and> \<not> strstr path ''/icon_set/''))"

definition content_type :: "string \<Rightarrow> string" where
  "content_type file =
     (let suf = str_has_suffix file in
      if suf ''.css'' then ''text/css''
      else if suf ''.js'' \<or> suf ''.ctf'' then ''application/javascript''
      else if suf ''.gz'' then ''application/x-gzip''
      else if suf ''.gif'' then ''image/gif''
      else if suf ''.png'' then ''image/png''
      else if suf ''.ttf'' then ''application/x-font-ttf''
      else if suf ''.eot'' then ''application/vnd.ms-fontobject''
      else if suf ''.svg'' then ''image/svg+xml''
      else if suf ''.xml'' \<or> suf ''.xsl'' then ''application/xml''
      else if suf ''.woff'' then ''application/x-woff''
      else if suf ''.mov'' then ''video/quicktime''
      else if suf ''.jar'' then ''application/java-archive''
      else ''text/html'')"

definition index_file :: "string \<Rightarrow> string" where
  "index_file f = (if f \<noteq> [] \<and> last f = CHR ''/'' then f @ ''index.html'' else f)"

definition servlet_download :: "env \<Rightarrow> (string \<Rightarrow> nat option) \<Rightarrow> string \<Rightarrow> smod \<Rightarrow> download \<times> smod" where
  "servlet_download e fs path m =
     (if \<not> SELF_HOST (m_zconf m) then (D_refuse, emit (OResume False) m)
      else
        (let m = (if m_cookie m \<noteq> None \<and> zs_uuid e (m_cookie m)
                  then upd_session (\<lambda>s. s\<lparr>session_id := m_cookie m\<rparr>) m else m);
             m = upd_session (\<lambda>s. s\<lparr>referrer :=
                   Some (if strstr path ''login'' then ''/Zentific/index.html'' else path)\<rparr>) m
         in if \<not> public_path e path then (D_redirect, emit (OResume True) m)
            else
              (let file = index_file (printf_s (WEB_ROOT (m_zconf m)) @ path)
               in case fs file of
                   Some sz \<Rightarrow> (D_file file sz (content_type file), emit (OResume True) m)
                 | None \<Rightarrow>
                     if c_count m \<noteq> 0 then (D_404, emit (OResume True) m)
                     else (D_dangling, count_inc m))))"

end
