(* ===== verification/Sql_Group.thy ===== *)
theory Sql_Group
  imports SqlFmt
begin

text \<open>
  The queries on user groups and memberships: zrpcdb_group.c.
\<close>

subsection \<open>db_sources/mysql/zrpcdb_group.c\<close>

definition db_isUserGroup :: "int \<Rightarrow> dbreq" where
  "db_isUserGroup gid = DbQuery (QIA
    (''SELECT `gid` FROM `groups` WHERE `gid`='%d''
     @ squote)
    [AI gid])"

definition db_modifyUserGroup :: "int \<Rightarrow> user_group \<Rightarrow> dbreq" where
  "db_modifyUserGroup gid ug = DbQuery (QE
    (''UPDATE `groups`''
     @ '' SET `name`='%s', `desc`='%s', `privilege`='%d''
     @ squote
     @ '' WHERE `gid`='%d''
     @ squote)
    [AS (g_name ug), AS (g_desc ug), AI (g_privilege ug), AI gid])"

definition db_removeUserGroup :: "int \<Rightarrow> dbreq" where
  "db_removeUserGroup gid = DbQuery (QE
    (''DELETE FROM `groups` WHERE `gid`='%d''
     @ squote)
    [AI gid])"

definition db_getUserGroup :: "int \<Rightarrow> dbreq" where
  "db_getUserGroup gid = DbQuery (mk_query False None (Some USER_GROUP_esql)
    (''SELECT * FROM `groups` WHERE `gid`='%d''
     @ squote)
    [AI gid]
    (Some (Some USER_GROUP_free)) None)"

definition db_getUserGroupName :: "int \<Rightarrow> dbreq" where
  "db_getUserGroupName gid = DbQuery (QSA
    (''SELECT name FROM `groups` WHERE `gid`='%d''
     @ squote)
    [AI gid])"

definition db_getUserGroupMembers :: "int \<Rightarrow> dbreq" where
  "db_getUserGroupMembers gid = DbQuery (QISA
    (''SELECT `uid` FROM `membership` WHERE `gid`='%d''
     @ squote)
    [AI gid])"

definition db_getUserGroupMembersFull :: "int \<Rightarrow> dbreq" where
  "db_getUserGroupMembersFull gid = DbQuery (mk_query False None (Some Array_USER_esql)
    (''SELECT users.* FROM membership ''
     @ ''JOIN users ON membership.uid=users.uid ''
     @ ''WHERE gid='%d''
     @ squote)
    [AI gid]
    (Some (Some Array_USER_free)) (Some Zrpcdb_cb_ptr))"

definition db_addToUserGroup :: "int \<Rightarrow> int \<Rightarrow> dbreq" where
  "db_addToUserGroup uid gid = DbQuery (QE
    ''INSERT INTO `membership` (`uid`,`gid`) VALUES ('%d','%d')''
    [AI uid, AI gid])"

definition db_removeFromUserGroup :: "int \<Rightarrow> int \<Rightarrow> dbreq" where
  "db_removeFromUserGroup uid gid = DbQuery (QE
    (''DELETE FROM `membership` WHERE `uid`='%d' AND `gid`='%d''
     @ squote)
    [AI uid, AI gid])"

definition db_renameUserGroup :: "int \<Rightarrow> cstr \<Rightarrow> dbreq" where
  "db_renameUserGroup gid new_name = DbQuery (QE
    (''UPDATE `groups` SET `name`='%s' WHERE `gid`='%d''
     @ squote)
    [AS new_name, AI gid])"

definition db_isUserGroupMember :: "int \<Rightarrow> int \<Rightarrow> dbreq" where
  "db_isUserGroupMember uid gid = DbQuery (QIA
    (''SELECT `uid` FROM `membership` WHERE `uid`='%d' AND `gid`='%d''
     @ squote)
    [AI uid, AI gid])"

definition db_isUserGroupByName :: "cstr \<Rightarrow> dbreq" where
  "db_isUserGroupByName nm = DbQuery (QIA
    (''SELECT `gid` FROM `groups` WHERE `name`='%s''
     @ squote)
    [AS nm])"

definition db_modifyUserGroupByName :: "cstr \<Rightarrow> user_group \<Rightarrow> dbreq" where
  "db_modifyUserGroupByName groupname ug = DbQuery (QE
    (''UPDATE `groups`''
     @ '' SET `name`='%s', `desc`='%s', `privilege`='%d' ''
     @ ''WHERE name = '%s''
     @ squote)
    [AS (g_name ug), AS (g_desc ug), AI (g_privilege ug), AS groupname])"

definition db_removeUserGroupByName :: "cstr \<Rightarrow> dbreq" where
  "db_removeUserGroupByName groupname = DbQuery (QE
    (''DELETE FROM `groups` ''
     @ ''WHERE `gid`=''
     @ ''(SELECT gid FROM `groups` WHERE name = '%s' LIMIT 1)'')
    [AS groupname])"

definition db_getUserGroupByName :: "cstr \<Rightarrow> dbreq" where
  "db_getUserGroupByName groupname = DbQuery (mk_query False None (Some USER_GROUP_esql)
    (''SELECT * FROM `groups` ''
     @ ''WHERE `gid` = ''
     @ ''(SELECT gid FROM `groups` WHERE name = '%s' LIMIT 1)'')
    [AS groupname]
    (Some (Some USER_GROUP_free)) None)"

definition db_getUserGroupId :: "cstr \<Rightarrow> dbreq" where
  "db_getUserGroupId groupname = DbQuery (QIA
    (''SELECT gid FROM `groups` WHERE `name`='%s''
     @ squote)
    [AS groupname])"

definition db_getUserGroupMembersByName :: "cstr \<Rightarrow> dbreq" where
  "db_getUserGroupMembersByName groupname = DbQuery (QISA
    (''SELECT `uid` FROM `membership` ''
     @ ''WHERE `gid` = ''
     @ ''(SELECT gid FROM `groups` WHERE name = '%s' LIMIT 1)'')
    [AS groupname])"

definition db_renameUserGroupByName :: "cstr \<Rightarrow> cstr \<Rightarrow> dbreq" where
  "db_renameUserGroupByName groupname new_name = DbQuery (QE
    (''UPDATE `groups` SET `name`='%s' ''
     @ ''WHERE `gid` = ''
     @ ''(SELECT gid FROM `groups` WHERE name = '%s' LIMIT 1)'')
    [AS new_name, AS groupname])"

definition db_addToUserGroupByName :: "int \<Rightarrow> cstr \<Rightarrow> dbreq" where
  "db_addToUserGroupByName uid groupname = DbQuery (QE
    (''INSERT INTO `membership` (`uid`,`gid`) VALUES ''
     @ ''(''
     @ '''%d',''
     @ ''(SELECT gid FROM `groups` WHERE name = '%s' LIMIT 1)''
     @ '')'')
    [AI uid, AS groupname])"

definition db_removeFromUserGroupByName :: "int \<Rightarrow> cstr \<Rightarrow> dbreq" where
  "db_removeFromUserGroupByName uid groupname = DbQuery (QE
    (''DELETE FROM `membership` WHERE `uid`='%d' AND `gid`='%s''
     @ squote)
    [AI uid, AS groupname])"

definition db_isUserGroupMemberByName :: "int \<Rightarrow> cstr \<Rightarrow> dbreq" where
  "db_isUserGroupMemberByName uid groupname = DbQuery (QIAB
    (''SELECT `uid` FROM `membership` ''
     @ ''WHERE `uid`='%d' AND `gid` = ''
     @ ''(SELECT gid FROM `groups` WHERE name = '%s' LIMIT 1)'')
    [AI uid, AS groupname])"

definition db_addToUserGroupByNameAndUsername :: "cstr \<Rightarrow> cstr \<Rightarrow> dbreq" where
  "db_addToUserGroupByNameAndUsername uname groupname = DbQuery (QE
    (''INSERT INTO `membership` (`uid`,`gid`) VALUES ''
     @ ''(''
     @ ''(SELECT uid FROM `users` WHERE username = '%s' LIMIT 1), ''
     @ ''(SELECT gid FROM `groups` WHERE name = '%s' LIMIT 1)''
     @ '')'')
    [AS uname, AS groupname])"

definition db_removeFromUserGroupByNameAndUsername :: "cstr \<Rightarrow> cstr \<Rightarrow> dbreq" where
  "db_removeFromUserGroupByNameAndUsername uname groupname = DbQuery (QE
    (''DELETE FROM `membership` ''
     @ ''WHERE `uid` = ''
     @ ''(SELECT uid FROM `users` WHERE username = '%s' LIMIT 1) ''
     @ ''AND `gid` = ''
     @ ''(SELECT gid FROM `groups` WHERE name = '%s' LIMIT 1) '')
    [AS uname, AS groupname])"

definition db_isUserGroupMemberByNameAndUsername :: "cstr \<Rightarrow> cstr \<Rightarrow> dbreq" where
  "db_isUserGroupMemberByNameAndUsername uname groupname = DbQuery (QIAB
    (''SELECT `uid` FROM `membership` ''
     @ ''WHERE `uid` = ''
     @ ''(SELECT uid FROM `users` WHERE username = '%s' LIMIT 1) ''
     @ ''AND `gid` = ''
     @ ''(SELECT gid FROM `groups` WHERE name = '%s' LIMIT 1) '')
    [AS uname, AS groupname])"

definition db_addUserGroup :: "user_group \<Rightarrow> dbreq" where
  "db_addUserGroup ug = DbQuery (QEJ
    (''INSERT INTO `groups`''
     @ '' (`privilege`,`name`,`desc`)''
     @ '' VALUES ('%d','%s','%s')'')
    [AI (g_privilege ug), AS (g_name ug), AS (g_desc ug)])"

definition db_getUserGroupsByUID :: "int \<Rightarrow> dbreq" where
  "db_getUserGroupsByUID uid = DbQuery (QISA
    (''SELECT `gid` FROM `membership` WHERE `uid`='%d''
     @ squote)
    [AI uid])"

definition db_getUserGroupsByName :: "cstr \<Rightarrow> dbreq" where
  "db_getUserGroupsByName uname = DbQuery (QISA
    (''SELECT gid FROM membership ''
     @ ''JOIN users ON membership.uid=users.uid ''
     @ ''WHERE username='%s' LIMIT 1'')
    [AS uname])"

definition db_getUserGroupNamesByUID :: "int \<Rightarrow> dbreq" where
  "db_getUserGroupNamesByUID uid = DbQuery (QSSA
    (''SELECT name FROM membership ''
     @ ''JOIN users ON membership.uid=users.uid ''
     @ ''WHERE uid='%i' LIMIT 1'')
    [AI uid])"

definition db_getUserGroupNamesByName :: "cstr \<Rightarrow> dbreq" where
  "db_getUserGroupNamesByName uname = DbQuery (QSA
    (''SELECT name FROM groups ''
     @ ''JOIN membership ON groups.gid=membership.gid ''
     @ ''JOIN users ON membership.uid=users.uid ''
     @ ''WHERE username='%s' LIMIT 1'')
    [AS uname])"

definition db_getUserGroupCount :: "dbreq" where
  "db_getUserGroupCount = DbQuery (QIS
    ''SELECT COUNT(gid) FROM `groups`'')"

text \<open>Lists, paged when both bounds are non-negative.\<close>

definition db_getAllUserGroups :: "int \<Rightarrow> int \<Rightarrow> dbreq" where
  "db_getAllUserGroups offset recordcount = DbQuery
     (if offset < 0 \<or> recordcount < 0 then QIS ''SELECT `gid` FROM `groups`''
      else QISA ''SELECT `gid` FROM `groups` LIMIT %d, %d'' [AI offset, AI recordcount])"

definition db_getAllUserGroupNames :: "int \<Rightarrow> int \<Rightarrow> dbreq" where
  "db_getAllUserGroupNames offset recordcount = DbQuery
     (if offset < 0 \<or> recordcount < 0 then QSS ''SELECT `name` FROM `groups`''
      else QSSA ''SELECT `name` FROM `groups` LIMIT %d, %d'' [AI offset, AI recordcount])"

definition db_getAllUserGroupsFull :: "int \<Rightarrow> int \<Rightarrow> dbreq" where
  "db_getAllUserGroupsFull offset recordcount = DbQuery
     (if offset < 0 \<or> recordcount < 0
      then QUERY False Array_USER_GROUP_esql ''SELECT * FROM `groups`'' [] None None
      else QUERY False Array_USER_GROUP_esql ''SELECT * FROM `groups` LIMIT %d, %d''
        [AI offset, AI recordcount] None None)"

definition db_getAllUserGroupsSorted :: "cstr \<Rightarrow> bool \<Rightarrow> int \<Rightarrow> int \<Rightarrow> dbreq" where
  "db_getAllUserGroupsSorted sortfield desc offset recordcount = DbQuery (QISA
     (''SELECT id FROM `groups` '' @ ''ORDER BY `%s` %s %s'')
     [AS sortfield, AS (Some (desc_word desc)), AS (Some (limit_clause offset recordcount))])"

definition db_getAllUserGroupsFullSorted :: "cstr \<Rightarrow> bool \<Rightarrow> int \<Rightarrow> int \<Rightarrow> dbreq" where
  "db_getAllUserGroupsFullSorted sortfield desc offset recordcount =
     DbQuery (QUERY False Array_USER_GROUP_esql
     (''SELECT * FROM `groups` '' @ ''ORDER BY `%s` %s %s'')
     [AS sortfield, AS (Some (desc_word desc)), AS (Some (limit_clause offset recordcount))]
     (Some (Some Array_USER_GROUP_free)) None)"

subsection \<open>All requests of the module\<close>

lemmas group_request_defs = db_isUserGroup_def db_modifyUserGroup_def db_removeUserGroup_def db_getUserGroup_def
  db_getUserGroupName_def db_getUserGroupMembers_def db_getUserGroupMembersFull_def
  db_addToUserGroup_def db_removeFromUserGroup_def db_renameUserGroup_def db_isUserGroupMember_def
  db_isUserGroupByName_def db_modifyUserGroupByName_def db_removeUserGroupByName_def
  db_getUserGroupByName_def db_getUserGroupId_def db_getUserGroupMembersByName_def
  db_renameUserGroupByName_def db_addToUserGroupByName_def db_removeFromUserGroupByName_def
  db_isUserGroupMemberByName_def db_addToUserGroupByNameAndUsername_def
  db_removeFromUserGroupByNameAndUsername_def db_isUserGroupMemberByNameAndUsername_def
  db_addUserGroup_def db_getUserGroupsByUID_def db_getUserGroupsByName_def
  db_getUserGroupNamesByUID_def db_getUserGroupNamesByName_def db_getUserGroupCount_def
  db_getAllUserGroups_def db_getAllUserGroupNames_def db_getAllUserGroupsFull_def
  db_getAllUserGroupsSorted_def db_getAllUserGroupsFullSorted_def

text \<open>The requests whose text arguments are all quoted.\<close>

definition group_requests :: "dbreq set" where
  "group_requests =
     range db_isUserGroup \<union> range (\<lambda>(gid, ug). db_modifyUserGroup gid ug)
     \<union> range db_removeUserGroup \<union> range db_getUserGroup \<union> range db_getUserGroupName
     \<union> range db_getUserGroupMembers \<union> range db_getUserGroupMembersFull
     \<union> range (\<lambda>(uid, gid). db_addToUserGroup uid gid)
     \<union> range (\<lambda>(uid, gid). db_removeFromUserGroup uid gid)
     \<union> range (\<lambda>(gid, new_name). db_renameUserGroup gid new_name)
     \<union> range (\<lambda>(uid, gid). db_isUserGroupMember uid gid)
     \<union> range db_isUserGroupByName
     \<union> range (\<lambda>(groupname, ug). db_modifyUserGroupByName groupname ug)
     \<union> range db_removeUserGroupByName \<union> range db_getUserGroupByName
     \<union> range db_getUserGroupId \<union> range db_getUserGroupMembersByName
     \<union> range (\<lambda>(groupname, new_name). db_renameUserGroupByName groupname new_name)
     \<union> range (\<lambda>(uid, groupname). db_addToUserGroupByName uid groupname)
     \<union> range (\<lambda>(uid, groupname). db_removeFromUserGroupByName uid groupname)
     \<union> range (\<lambda>(uid, groupname). db_isUserGroupMemberByName uid groupname)
     \<union> range (\<lambda>(uname, groupname). db_addToUserGroupByNameAndUsername uname groupname)
     \<union> range (\<lambda>(uname, groupname). db_removeFromUserGroupByNameAndUsername uname groupname)
     \<union> range (\<lambda>(uname, groupname). db_isUserGroupMemberByNameAndUsername uname groupname)
     \<union> range db_addUserGroup \<union> range db_getUserGroupsByUID
     \<union> range db_getUserGroupsByName \<union> range db_getUserGroupNamesByUID
     \<union> range db_getUserGroupNamesByName \<union> {db_getUserGroupCount}
     \<union> range (\<lambda>(offset, recordcount). db_getAllUserGroups offset recordcount)
     \<union> range (\<lambda>(offset, recordcount). db_getAllUserGroupNames offset recordcount)
     \<union> range (\<lambda>(offset, recordcount). db_getAllUserGroupsFull offset recordcount)"

text \<open>The other well-formed requests: a name of a column or a clause is spliced in.\<close>

definition group_unquoted :: "dbreq set" where
  "group_unquoted =
     
     range (\<lambda>(sortfield, desc, offset, recordcount). db_getAllUserGroupsSorted sortfield desc offset recordcount)
     \<union> range (\<lambda>(sortfield, desc, offset, recordcount). db_getAllUserGroupsFullSorted sortfield desc offset recordcount)"

lemma group_requests_ok_1:
  "range db_isUserGroup \<union> range (\<lambda>(gid, ug). db_modifyUserGroup gid ug)
     \<union> range db_removeUserGroup \<union> range db_getUserGroup \<union> range db_getUserGroupName
     \<union> range db_getUserGroupMembers \<union> range db_getUserGroupMembersFull
     \<union> range (\<lambda>(uid, gid). db_addToUserGroup uid gid)
     \<union> range (\<lambda>(uid, gid). db_removeFromUserGroup uid gid)
     \<union> range (\<lambda>(gid, new_name). db_renameUserGroup gid new_name)
     \<union> range (\<lambda>(uid, gid). db_isUserGroupMember uid gid)
     \<union> range db_isUserGroupByName
     \<subseteq> {r. req_ok r \<and> req_quoted r}"
  unfolding group_request_defs query_forms Let_def
  by (intro Un_least; clarsimp simp: req_evals simp del: req_ok.simps(2) req_quoted.simps(2) split: option.splits cong: req_weak_congs)

lemma group_requests_ok_2:
  "range (\<lambda>(groupname, ug). db_modifyUserGroupByName groupname ug)
     \<union> range db_removeUserGroupByName \<union> range db_getUserGroupByName
     \<union> range db_getUserGroupId \<union> range db_getUserGroupMembersByName
     \<union> range (\<lambda>(groupname, new_name). db_renameUserGroupByName groupname new_name)
     \<union> range (\<lambda>(uid, groupname). db_addToUserGroupByName uid groupname)
     \<union> range (\<lambda>(uid, groupname). db_removeFromUserGroupByName uid groupname)
     \<union> range (\<lambda>(uid, groupname). db_isUserGroupMemberByName uid groupname)
     \<union> range (\<lambda>(uname, groupname). db_addToUserGroupByNameAndUsername uname groupname)
     \<union> range (\<lambda>(uname, groupname). db_removeFromUserGroupByNameAndUsername uname groupname)
     \<union> range (\<lambda>(uname, groupname). db_isUserGroupMemberByNameAndUsername uname groupname)
     \<subseteq> {r. req_ok r \<and> req_quoted r}"
  unfolding group_request_defs query_forms Let_def
  by (intro Un_least; clarsimp simp: req_evals simp del: req_ok.simps(2) req_quoted.simps(2) split: option.splits cong: req_weak_congs)

lemma group_requests_ok_3:
  "range db_addUserGroup \<union> range db_getUserGroupsByUID \<union> range db_getUserGroupsByName
     \<union> range db_getUserGroupNamesByUID \<union> range db_getUserGroupNamesByName
     \<union> {db_getUserGroupCount}
     \<union> range (\<lambda>(offset, recordcount). db_getAllUserGroups offset recordcount)
     \<union> range (\<lambda>(offset, recordcount). db_getAllUserGroupNames offset recordcount)
     \<union> range (\<lambda>(offset, recordcount). db_getAllUserGroupsFull offset recordcount)
     \<subseteq> {r. req_ok r \<and> req_quoted r}"
  unfolding group_request_defs query_forms Let_def
  by (intro Un_least; clarsimp simp: req_evals simp del: req_ok.simps(2) req_quoted.simps(2) split: option.splits cong: req_weak_congs)

lemma group_requests_ok: "group_requests \<subseteq> {r. req_ok r \<and> req_quoted r}"
  unfolding group_requests_def
  using group_requests_ok_1 group_requests_ok_2 group_requests_ok_3
  by (simp only: Un_subset_iff simp_thms)

lemma group_unquoted_ok: "group_unquoted \<subseteq> {r. req_ok r}"
  unfolding group_unquoted_def group_request_defs query_forms Let_def
  by (intro Un_least; clarsimp simp: req_evals simp del: req_ok.simps(2) req_quoted.simps(2) split: option.splits cong: req_weak_congs)

end
