(* ===== verification/Group.thy ===== *)
theory Group
  imports User Sql_Group
begin

text \<open>
  src/servlets/functions/functions-group.c: groups of users. Creating, renaming and
  modifying a group first ask whether the (new) name is taken.
\<close>

subsection \<open>Callbacks\<close>

definition group_cb_modify :: "env \<Rightarrow> val \<Rightarrow> smod \<Rightarrow> smod" where
  "group_cb_modify e ret m =
     (let m = MARK_CB m;
          (ug, m) = CTX_PARAM_GET (Acct Group_cb_modify) m
      in if as_int ret = -1 \<and> c_error m \<noteq> None then
           (let m = m\<lparr>c_error := None\<rparr> in
            case ug of
              VGroup g \<Rightarrow> db_call e (db_modifyUserGroup (g_gid g) g) m
            | _ \<Rightarrow> emit OCrash m)
         else RESUME (if c_error m = None then set_error ENTITY_ALREADY_EXISTS m else m))"

definition group_cb_add :: "env \<Rightarrow> val \<Rightarrow> smod \<Rightarrow> smod" where
  "group_cb_add e ret m =
     (let m = MARK_CB m;
          (ug, m) = CTX_PARAM_GET (Acct Group_cb_add) m
      in if \<not> as_bool ret then
           (let m = m\<lparr>c_error := None\<rparr> in
            case ug of
              VGroup g \<Rightarrow> db_call e (db_addUserGroup g) m
            | _ \<Rightarrow> emit OCrash m)
         else RESUME (if c_error m = None then set_error ENTITY_ALREADY_EXISTS m else m))"

subsection \<open>By group id and by name\<close>

definition z_removeUserGroup :: "env \<Rightarrow> int \<Rightarrow> smod \<Rightarrow> bool \<times> smod" where
  "z_removeUserGroup e gid m =
     CTX_RETURN (db_call e (db_removeUserGroup gid) m)"

definition z_removeFromUserGroup :: "env \<Rightarrow> int \<Rightarrow> int \<Rightarrow> smod \<Rightarrow> bool \<times> smod" where
  "z_removeFromUserGroup e uid gid m =
     CTX_RETURN (db_call e (db_removeFromUserGroup uid gid) m)"

definition z_isUserGroupMember :: "env \<Rightarrow> int \<Rightarrow> int \<Rightarrow> smod \<Rightarrow> bool \<times> smod" where
  "z_isUserGroupMember e uid gid m =
     CTX_RETURN (db_call e (db_isUserGroupMember uid gid) m)"

definition z_getUserGroup :: "env \<Rightarrow> int \<Rightarrow> smod \<Rightarrow> bool \<times> smod" where
  "z_getUserGroup e gid m = CTX_RETURN (db_call e (db_getUserGroup gid) m)"

definition z_getUserGroupMembers :: "env \<Rightarrow> int \<Rightarrow> smod \<Rightarrow> bool \<times> smod" where
  "z_getUserGroupMembers e gid m =
     CTX_RETURN (db_call e (db_getUserGroupMembers gid) m)"

definition z_getUserGroupMembersFull :: "env \<Rightarrow> int \<Rightarrow> smod \<Rightarrow> bool \<times> smod" where
  "z_getUserGroupMembersFull e gid m =
     CTX_RETURN (db_call e (db_getUserGroupMembersFull gid) m)"

definition z_isUserGroupByName :: "env \<Rightarrow> cstr \<Rightarrow> smod \<Rightarrow> bool \<times> smod" where
  "z_isUserGroupByName e nm m =
     CTX_RETURN (db_call e (db_isUserGroupByName nm) m)"

definition z_removeUserGroupByName :: "env \<Rightarrow> cstr \<Rightarrow> smod \<Rightarrow> bool \<times> smod" where
  "z_removeUserGroupByName e groupname m =
     CTX_RETURN (db_call e (db_removeUserGroupByName groupname) m)"

definition z_getUserGroupByName :: "env \<Rightarrow> cstr \<Rightarrow> smod \<Rightarrow> bool \<times> smod" where
  "z_getUserGroupByName e groupname m =
     CTX_RETURN (db_call e (db_getUserGroupByName groupname) m)"

definition z_getUserGroupMembersByName :: "env \<Rightarrow> cstr \<Rightarrow> smod \<Rightarrow> bool \<times> smod" where
  "z_getUserGroupMembersByName e groupname m =
     CTX_RETURN (db_call e (db_getUserGroupMembersByName groupname) m)"

definition z_isUserGroupMemberByName :: "env \<Rightarrow> int \<Rightarrow> cstr \<Rightarrow> smod \<Rightarrow> bool \<times> smod" where
  "z_isUserGroupMemberByName e uid groupname m =
     CTX_RETURN (db_call e (db_isUserGroupMemberByName uid groupname) m)"

definition z_addToUserGroupByName :: "env \<Rightarrow> int \<Rightarrow> cstr \<Rightarrow> smod \<Rightarrow> bool \<times> smod" where
  "z_addToUserGroupByName e uid groupname m =
     CTX_RETURN (db_call e (db_addToUserGroupByName uid groupname) m)"

definition z_removeFromUserGroupByName :: "env \<Rightarrow> int \<Rightarrow> cstr \<Rightarrow> smod \<Rightarrow> bool \<times> smod" where
  "z_removeFromUserGroupByName e uid groupname m =
     CTX_RETURN (db_call e (db_removeFromUserGroupByName uid groupname) m)"

definition z_isUserGroupMemberByNameAndUsername :: "env \<Rightarrow> cstr \<Rightarrow> cstr \<Rightarrow> smod \<Rightarrow> bool \<times> smod" where
  "z_isUserGroupMemberByNameAndUsername e uname groupname m =
     CTX_RETURN (db_call e (db_isUserGroupMemberByNameAndUsername uname groupname) m)"

definition z_addToUserGroupByNameAndUsername :: "env \<Rightarrow> cstr \<Rightarrow> cstr \<Rightarrow> smod \<Rightarrow> bool \<times> smod" where
  "z_addToUserGroupByNameAndUsername e uname groupname m =
     CTX_RETURN (db_call e (db_addToUserGroupByNameAndUsername uname groupname) m)"

definition z_removeFromUserGroupByNameAndUsername :: "env \<Rightarrow> cstr \<Rightarrow> cstr \<Rightarrow> smod \<Rightarrow> bool \<times> smod" where
  "z_removeFromUserGroupByNameAndUsername e uname groupname m =
     CTX_RETURN (db_call e (db_removeFromUserGroupByNameAndUsername uname groupname) m)"

definition z_getAllUserGroupNames :: "env \<Rightarrow> int \<Rightarrow> int \<Rightarrow> smod \<Rightarrow> bool \<times> smod" where
  "z_getAllUserGroupNames e offset recordcount m =
     CTX_RETURN (db_call e (db_getAllUserGroupNames offset recordcount) m)"

definition z_getUserGroupsByUID :: "env \<Rightarrow> int \<Rightarrow> smod \<Rightarrow> bool \<times> smod" where
  "z_getUserGroupsByUID e uid m =
     CTX_RETURN (db_call e (db_getUserGroupsByUID uid) m)"

definition z_getUserGroupsByName :: "env \<Rightarrow> cstr \<Rightarrow> smod \<Rightarrow> bool \<times> smod" where
  "z_getUserGroupsByName e uname m =
     CTX_RETURN (db_call e (db_getUserGroupsByName uname) m)"

definition z_getUserGroupNamesByUID :: "env \<Rightarrow> int \<Rightarrow> smod \<Rightarrow> bool \<times> smod" where
  "z_getUserGroupNamesByUID e uid m =
     CTX_RETURN (db_call e (db_getUserGroupNamesByUID uid) m)"

definition z_getUserGroupNamesByName :: "env \<Rightarrow> cstr \<Rightarrow> smod \<Rightarrow> bool \<times> smod" where
  "z_getUserGroupNamesByName e uname m =
     CTX_RETURN (db_call e (db_getUserGroupNamesByName uname) m)"

definition z_getUserGroupName :: "env \<Rightarrow> int \<Rightarrow> smod \<Rightarrow> bool \<times> smod" where
  "z_getUserGroupName e gid m =
     CTX_RETURN (db_call e (db_getUserGroupName gid) m)"

definition z_getUserGroupId :: "env \<Rightarrow> cstr \<Rightarrow> smod \<Rightarrow> bool \<times> smod" where
  "z_getUserGroupId e groupname m =
     CTX_RETURN (db_call e (db_getUserGroupId groupname) m)"

definition z_getUserGroupCount :: "env \<Rightarrow> smod \<Rightarrow> bool \<times> smod" where
  "z_getUserGroupCount e m = CTX_RETURN (db_call e db_getUserGroupCount m)"

definition z_isUserGroup :: "env \<Rightarrow> int \<Rightarrow> smod \<Rightarrow> bool \<times> smod" where
  "z_isUserGroup e gid m =
     (if gid < 0 then CTX_RETURN (set_error INVALID_PARAMETER m)
      else CTX_RETURN (db_call e (db_isUserGroup gid) m))"

definition z_modifyUserGroup :: "env \<Rightarrow> int \<Rightarrow> user_group \<Rightarrow> smod \<Rightarrow> bool \<times> smod" where
  "z_modifyUserGroup e gid ug m =
     (let m = snd (z_getUserGroupId e (g_name ug) m);
          ug = ug\<lparr>g_gid := gid\<rparr>;
          m = CTX_CB_ADD (Acct Group_cb_modify) m
      in CTX_RETURN (CTX_PARAM_ADD (Acct Group_cb_modify) (VGroup ug) m))"

definition z_addToUserGroup :: "env \<Rightarrow> int \<Rightarrow> int \<Rightarrow> smod \<Rightarrow> bool \<times> smod" where
  "z_addToUserGroup e uid gid m =
     CTX_RETURN
       (if c_count m = 0 then CTX_CB_ADD (Core Cb_bool_rewind) (snd (z_isUserUID e uid m))
        else if c_error m = None then db_call e (db_addToUserGroup uid gid) m
        else m)"

text \<open>
  The second half of a change that needs an unused name: the query for the name has run,
  and \<open>UNKNOWN_RESOURCE\<close> says that nothing has it.
\<close>

definition if_name_free :: "env \<Rightarrow> dbreq \<Rightarrow> smod \<Rightarrow> smod" where
  "if_name_free e r m =
     (if c_error m \<noteq> None then
        (if c_error m = Some UNKNOWN_RESOURCE then db_call e r (m\<lparr>c_error := None\<rparr>) else m)
      else set_error ENTITY_ALREADY_EXISTS m)"

definition z_renameUserGroup :: "env \<Rightarrow> int \<Rightarrow> cstr \<Rightarrow> smod \<Rightarrow> bool \<times> smod" where
  "z_renameUserGroup e gid new_name m =
     CTX_RETURN
       (if c_count m = 0 then CTX_CB_ADD (Core Cb_bool_rewind) (snd (z_isUserGroupByName e new_name m))
        else if_name_free e (db_renameUserGroup gid new_name) m)"

definition z_modifyUserGroupByName :: "env \<Rightarrow> cstr \<Rightarrow> user_group \<Rightarrow> smod \<Rightarrow> bool \<times> smod" where
  "z_modifyUserGroupByName e groupname ug m =
     CTX_RETURN
       (if c_count m = 0 then CTX_CB_ADD (Core Cb_bool_rewind) (snd (z_isUserGroupByName e (g_name ug) m))
        else if_name_free e (db_modifyUserGroupByName groupname ug) m)"

definition z_renameUserGroupByName :: "env \<Rightarrow> cstr \<Rightarrow> cstr \<Rightarrow> smod \<Rightarrow> bool \<times> smod" where
  "z_renameUserGroupByName e groupname new_name m =
     CTX_RETURN
       (if c_count m = 0 then CTX_CB_ADD (Core Cb_bool_rewind) (snd (z_isUserGroupByName e new_name m))
        else if_name_free e (db_renameUserGroupByName groupname new_name) m)"

subsection \<open>Adding and listing\<close>

definition z_addUserGroup :: "env \<Rightarrow> user_group \<Rightarrow> smod \<Rightarrow> bool \<times> smod" where
  "z_addUserGroup e ug m =
     (let m = snd (z_isUserGroupByName e (g_name ug) m);
          m = CTX_CB_ADD (Acct Group_cb_add) m
      in CTX_RETURN (CTX_PARAM_ADD (Acct Group_cb_add) (VGroup ug) m))"

definition z_getAllUserGroups :: "env \<Rightarrow> cstr \<Rightarrow> bool \<Rightarrow> int \<Rightarrow> int \<Rightarrow> smod \<Rightarrow> bool \<times> smod" where
  "z_getAllUserGroups e sortfield desc offset recordcount m =
     CTX_RETURN (if nonempty sortfield
                 then db_call e (db_getAllUserGroupsSorted sortfield desc offset recordcount) m
                 else db_call e (db_getAllUserGroups offset recordcount) m)"

definition z_getAllUserGroupsFull :: "env \<Rightarrow> cstr \<Rightarrow> bool \<Rightarrow> int \<Rightarrow> int \<Rightarrow> smod \<Rightarrow> bool \<times> smod" where
  "z_getAllUserGroupsFull e sortfield desc offset recordcount m =
     CTX_RETURN (if nonempty sortfield
                 then db_call e (db_getAllUserGroupsFullSorted sortfield desc offset recordcount) m
                 else db_call e (db_getAllUserGroupsFull offset recordcount) m)"

end
