(* ===== verification/Sql_Jobs.thy ===== *)
theory Sql_Jobs
  imports SqlFmt
begin

text \<open>
  The queries on jobs, schedulers, platforms and control modules: zrpcdb_scheduler.c.
\<close>

subsection \<open>db_sources/mysql/zrpcdb_scheduler.c\<close>

definition db_isJob :: "int \<Rightarrow> dbreq" where
  "db_isJob jobid = DbQuery (QIAB
    (''SELECT `id` FROM `jobs` WHERE `id`='%d''
     @ squote)
    [AI jobid])"

definition db_getJob :: "int \<Rightarrow> int \<Rightarrow> dbreq" where
  "db_getJob jobid caller_uid = DbQuery (mk_query False None (Some JOB_esql)
    (''SELECT * FROM jobs ''
     @ ''LEFT JOIN nodes ON jobs.target_node=nodes.uuid ''
     @ ''LEFT JOIN ownershipnode ON ownershipnode.node=nodes.id ''
     @ ''LEFT JOIN vms ON jobs.target_vm=vms.uuid ''
     @ ''LEFT JOIN ownershipvm ON ownershipvm.vm=vms.id ''
     @ ''LEFT JOIN users ON jobs.uid=users.uid ''
     @ ''WHERE status < 4 ''
     @ ''AND jobs.id='%i' ''
     @ ''AND (jobs.uid='%i' ''
     @ ''OR (ownershipvm.uid='%i' AND ownershipvm.privileges != 4) OR (ownershipnode.uid='%i' AND ownershipnode.privileges != 4) ''
     @ ''OR (users.uid='%i' AND users.type='0'))'')
    [AI jobid, AI caller_uid, AI caller_uid, AI caller_uid, AI caller_uid]
    (Some (Some JOB_free)) None)"

definition db_getRecentJobs :: "int \<Rightarrow> dbreq" where
  "db_getRecentJobs age = DbQuery (QISA
    (''SELECT `id` FROM `jobs` WHERE ''
     @ '' `timestamp` >= DATE_SUB(NOW(), INTERVAL %d MINUTE)'')
    [AI age])"

definition db_getRecentJobsByUID :: "int \<Rightarrow> int \<Rightarrow> dbreq" where
  "db_getRecentJobsByUID uid age = DbQuery (QISA
    (''SELECT `id` FROM `jobs` ''
     @ ''LEFT JOIN users ON jobs.uid=users.uid ''
     @ ''WHERE jobs.uid='%d' ''
     @ ''AND jobs.timestamp >= users.lastlogin ''
     @ ''AND `timestamp` >= DATE_SUB(NOW(), INTERVAL %d MINUTE)'')
    [AI uid, AI age])"

definition db_getJobUID :: "int \<Rightarrow> dbreq" where
  "db_getJobUID ident = DbQuery (QIA
    (''SELECT uid FROM `jobs` WHERE id='%d''
     @ squote)
    [AI ident])"

definition db_getJobs :: "dbreq" where
  "db_getJobs = DbQuery (QISA
    (''SELECT id FROM `jobs` where status < '%d''
     @ squote)
    [AI ZENSCHED_JOB_STATUS_COMPLETED])"

definition db_getJobsByUID :: "int \<Rightarrow> dbreq" where
  "db_getJobsByUID uid = DbQuery (QISA
    (''SELECT jobs.id FROM jobs ''
     @ ''LEFT JOIN nodes ON jobs.target_node=nodes.uuid ''
     @ ''LEFT JOIN ownershipnode ON ownershipnode.node=nodes.id ''
     @ ''LEFT JOIN vms ON jobs.target_vm=vms.uuid ''
     @ ''LEFT JOIN ownershipvm ON ownershipvm.vm=vms.id ''
     @ ''LEFT JOIN users ON jobs.uid=users.uid ''
     @ ''WHERE status < %i ''
     @ ''AND (jobs.uid='%i' ''
     @ ''OR (ownershipvm.uid='%i' AND ownershipvm.privileges != 4) OR (ownershipnode.uid='%i' AND ownershipnode.privileges != 4) ''
     @ ''OR (users.uid='%i' AND users.type='0'))'')
    [AI ZENSCHED_JOB_STATUS_COMPLETED, AI uid, AI uid, AI uid, AI uid])"

definition db_getJobsByUUID :: "cstr \<Rightarrow> dbreq" where
  "db_getJobsByUUID uuid = DbQuery (QISA
    (''SELECT id FROM `jobs` ''
     @ ''WHERE `status` < %i AND ''
     @ ''(`target_vm` = '%s' OR `target_node` = '%s' )'')
    [AI ZENSCHED_JOB_STATUS_COMPLETED, AS uuid, AS uuid])"

definition db_getJobStatus :: "int \<Rightarrow> int \<Rightarrow> dbreq" where
  "db_getJobStatus jobid caller_uid = DbQuery (QIA
    (''SELECT jobs.status FROM jobs ''
     @ ''LEFT JOIN nodes ON jobs.target_node=nodes.uuid ''
     @ ''LEFT JOIN ownershipnode ON ownershipnode.node=nodes.id ''
     @ ''LEFT JOIN vms ON jobs.target_vm=vms.uuid ''
     @ ''LEFT JOIN ownershipvm ON ownershipvm.vm=vms.id ''
     @ ''LEFT JOIN users ON jobs.uid=users.uid ''
     @ ''WHERE jobs.id='%i''
     @ squote
     @ ''AND (jobs.uid='%i' ''
     @ ''OR (ownershipvm.uid='%i' AND ownershipvm.privileges != 4) OR (ownershipnode.uid='%i' AND ownershipnode.privileges != 4) ''
     @ ''OR (users.uid='%i' AND users.type='0'))'')
    [AI jobid, AI caller_uid, AI caller_uid, AI caller_uid, AI caller_uid])"

definition db_getSchedulerAddressByModuleName :: "cstr \<Rightarrow> dbreq" where
  "db_getSchedulerAddressByModuleName modname = DbQuery (QSA
    (''SELECT schedulers.address FROM schedulers ''
     @ ''RIGHT JOIN controlmodules on schedulers.id=controlmodules.scheduler ''
     @ ''WHERE controlmodules.name='%s''
     @ squote)
    [AS modname])"

definition db_getSchedulerAddressByJob :: "int \<Rightarrow> dbreq" where
  "db_getSchedulerAddressByJob jobid = DbQuery (QSA
    (''SELECT schedulers.address FROM schedulers ''
     @ ''RIGHT JOIN controlmodules ON schedulers.id=controlmodules.scheduler ''
     @ ''RIGHT JOIN jobs ON jobs.module_name=controlmodules.name ''
     @ ''WHERE jobs.id='%d''
     @ squote)
    [AI jobid])"

definition db_getSchedulerIdByModuleName :: "cstr \<Rightarrow> dbreq" where
  "db_getSchedulerIdByModuleName modname = DbQuery (QISA
    (''SELECT schedulers.id FROM schedulers''
     @ '' RIGHT JOIN controlmodules on schedulers.id=controlmodules.scheduler''
     @ '' WHERE controlmodules.name='%s''
     @ squote)
    [AS modname])"

definition db_getSchedulerIdByJob :: "int \<Rightarrow> dbreq" where
  "db_getSchedulerIdByJob jobid = DbQuery (QISA
    (''SELECT scheduler FROM jobs WHERE id='%d''
     @ squote)
    [AI jobid])"

definition db_getSchedulerIdByPlatform :: "cstr \<Rightarrow> dbreq" where
  "db_getSchedulerIdByPlatform modname = DbQuery (QISA
    (''SELECT schedulers.id FROM schedulers ''
     @ ''RIGHT JOIN controlmodules on schedulers.id=controlmodules.scheduler ''
     @ ''WHERE controlmodules.name='%s''
     @ squote)
    [AS modname])"

definition db_getModuleConfigByNode :: "int \<Rightarrow> cstr \<Rightarrow> dbreq" where
  "db_getModuleConfigByNode mid uuid = DbQuery (mk_query False None (Some Array_KEYVALUE_esql)
    (''SELECT `config`.`key`, `config`.`value` FROM `config` ''
     @ ''RIGHT JOIN controlmodules ON config.mid=controlmodules.id ''
     @ ''RIGHT JOIN nodes ON nodes.id=config.node ''
     @ ''WHERE `config`.`valueBlob`=''
     @ squote
     @ ''' AND `config`.`subsystem`='zensched' ''
     @ ''AND nodes.uuid='%s' AND config.mid='%d''
     @ squote)
    [AS uuid, AI mid]
    None None)"

definition db_getModuleConfigByVm :: "int \<Rightarrow> cstr \<Rightarrow> dbreq" where
  "db_getModuleConfigByVm mid uuid = DbQuery (mk_query False None (Some Array_KEYVALUE_esql)
    (''SELECT `config`.`key`, `config`.`value` FROM `config` ''
     @ ''RIGHT JOIN controlmodules ON config.mid=controlmodules.id ''
     @ ''RIGHT JOIN vms ON vms.id=config.vm ''
     @ ''WHERE `config`.`valueBlob`=''
     @ squote
     @ ''' AND `config`.`subsystem`='zensched' ''
     @ ''AND vms.uuid='%s' AND config.mid='%d''
     @ squote)
    [AS uuid, AI mid]
    None None)"

definition db_getModuleConfig :: "cstr \<Rightarrow> dbreq" where
  "db_getModuleConfig module_name = DbQuery (mk_query False None (Some Array_KEYVALUE_esql)
    (''SELECT `key`, `value` FROM `config` ''
     @ ''WHERE valueBlob=''
     @ squote
     @ ''' AND `subsystem` = 'zensched' ''
     @ ''AND vm='-1' AND node='-1' AND uid='-1' AND vgid='-1' AND ngid='-1' ''
     @ ''AND gid='-1' AND platform='-1' AND role='-1' ''
     @ ''AND `mid` = (SELECT `id` FROM `controlmodules` WHERE `name`='%s')'')
    [AS module_name]
    None None)"

definition db_registerScheduler :: "cstr \<Rightarrow> cstr \<Rightarrow> int \<Rightarrow> dbreq" where
  "db_registerScheduler hostname address port = DbQuery (QEJ
    (''INSERT INTO `schedulers` (hostname, address, port) ''
     @ ''VALUES ('%s', '%s', '%d') ''
     @ ''ON DUPLICATE KEY UPDATE `hostname`='%s', `address`='%s', ''
     @ ''port='%d', id=LAST_INSERT_ID(id)'')
    [AS hostname, AS address, AI port, AS hostname, AS address, AI port])"

definition db_getModuleID :: "cstr \<Rightarrow> int \<Rightarrow> dbreq" where
  "db_getModuleID modul schedulerId = DbQuery (QIA
    (''SELECT `id` FROM `controlmodules` ''
     @ ''WHERE name='%s' AND AND scheduler='%d''
     @ squote)
    [AS modul, AI schedulerId])"

definition db_getPlatformID :: "cstr \<Rightarrow> dbreq" where
  "db_getPlatformID platform = DbQuery (QIA
    (''SELECT `id` FROM `platforms` WHERE name='%s''
     @ squote)
    [AS platform])"

definition db_isModule :: "cstr \<Rightarrow> int \<Rightarrow> dbreq" where
  "db_isModule modname schedulerId = DbQuery (QIAB
    (''SELECT id FROM `controlmodules` WHERE name='%s' and scheduler='%d''
     @ squote)
    [AS modname, AI schedulerId])"

definition db_isPlatformNameByScheduler :: "cstr \<Rightarrow> int \<Rightarrow> dbreq" where
  "db_isPlatformNameByScheduler platname schedulerId = DbQuery (QIAB
    (''SELECT id FROM `platforms` WHERE name='%s' and scheduler='%d''
     @ squote)
    [AS platname, AI schedulerId])"

definition db_clearControlModules :: "int \<Rightarrow> dbreq" where
  "db_clearControlModules schedulerId = DbQuery (QE
    (''DELETE FROM `controlmodules` WHERE scheduler='%d''
     @ squote)
    [AI schedulerId])"

definition JOB_OWNER :: string where
  "JOB_OWNER =
     ''LEFT JOIN nodes ON jobs.target_node=nodes.uuid ''
     @ ''LEFT JOIN ownershipnode ON ownershipnode.node=nodes.id ''
     @ ''LEFT JOIN vms ON jobs.target_vm=vms.uuid ''
     @ ''LEFT JOIN ownershipvm ON ownershipvm.vm=vms.id ''
     @ ''LEFT JOIN users ON jobs.uid=users.uid ''"

definition JOB_VISIBLE :: string where
  "JOB_VISIBLE =
     ''AND (jobs.uid='%i' ''
     @ ''OR (ownershipvm.uid='%i' AND ownershipvm.privileges != 4) OR (ownershipnode.uid='%i' AND ownershipnode.privileges != 4) ''
     @ ''OR (users.uid='%i' AND users.type='0'))''"

definition db_getJobsByIds :: "int list \<Rightarrow> int \<Rightarrow> dbreq" where
  "db_getJobsByIds jids caller_uid = DbQuery (mk_query False (Some (Some Eina_list_free)) (Some Array_int_esql)
     (''SELECT jobs.* FROM jobs '' @ JOB_OWNER @ ''WHERE status < 4 '' @ ''AND (%s) '' @ JOB_VISIBLE)
     [AS (Some (job_id_clause jids)), AI caller_uid, AI caller_uid, AI caller_uid, AI caller_uid]
     None (Some Zrpcdb_cb_ptr))"

definition db_getJobsStatus :: "int list \<Rightarrow> int \<Rightarrow> dbreq" where
  "db_getJobsStatus jids caller_uid = DbQuery (mk_query False (Some (Some Eina_list_free)) (Some Array_int_esql)
     (''SELECT jobs.status FROM jobs '' @ JOB_OWNER @ ''WHERE (%s) '' @ JOB_VISIBLE)
     [AS (Some (job_id_clause jids)), AI caller_uid, AI caller_uid, AI caller_uid, AI caller_uid]
     None (Some Zrpcdb_cb_ptr))"

text \<open>
  The dependencies of a new job: the non-negative ids, each followed by a comma unless it
  is the last element of the list.
\<close>

fun dependency_clause :: "int list \<Rightarrow> string" where
  "dependency_clause [] = []"
| "dependency_clause (d # ds) =
     (if 0 \<le> d then int_dec d @ (if ds = [] then [] else '','') else []) @ dependency_clause ds"

definition db_addJob :: "job \<Rightarrow> dbreq" where
  "db_addJob j = DbQuery (mk_query True None None
     (''INSERT INTO `jobs` ''
      @ ''(module_name, module_function, target_host, target_node, target_vm, input_string, extra, uid, status, dependencies, scheduler) ''
      @ ''VALUES ''
      @ ''('%s', '%s', '%s', '%s', '%s', '%s', '%s', '%d', '%d', '%s', ''
      @ ''(SELECT schedulers.id FROM schedulers ''
      @ ''RIGHT JOIN controlmodules on schedulers.id=controlmodules.scheduler ''
      @ ''WHERE controlmodules.name='%s' ''
      @ ''LIMIT 1)''
      @ '')'')
     [AS (j_module_name j), AS (j_module_function j), AS (j_target_host j), AS (j_target_node j),
      AS (j_target_vm j), AS (j_input_string j), AS (j_extra j), AI (j_uid j),
      AI ZENSCHED_JOB_STATUS_INSERTED, AS (Some (dependency_clause (j_dependencies j))), AS (j_module_name j)]
     None (Some Zrpcdb_cb_exec))"

definition db_fetchJobs :: "bool \<Rightarrow> dbreq" where
  "db_fetchJobs fetchAll = DbQuery
     (if fetchAll
      then QUERY False Array_JOB_esql
        (''SELECT * FROM `jobs` '' @ ''WHERE `status` >= '%d' AND `status` < '%d' '' @ ''ORDER BY `id` ASC'')
        [AI ZENSCHED_JOB_STATUS_INSERTED, AI ZENSCHED_JOB_STATUS_COMPLETED] None None
      else QUERY False Array_JOB_esql (''SELECT * FROM `jobs` WHERE `status`='%d'' @ squote)
        [AI ZENSCHED_JOB_STATUS_INSERTED] None None)"

definition db_getBlobConfig :: "int \<Rightarrow> int \<Rightarrow> cstr \<Rightarrow> dbreq" where
  "db_getBlobConfig platform modul key = DbQuery
     (if key \<noteq> None
      then QUERY False Array_KEYVALUE_esql
        (''SELECT `key`, `valueBlob` FROM `config`''
         @ '' WHERE `platform`='%d' AND mid='%d' AND `key`='%s' AND `value`='' @ squote @ squote)
        [AI platform, AI modul, AS key] None None
      else QUERY False Array_KEYVALUE_esql
        (''SELECT `key`, `valueBlob` FROM `config`''
         @ '' WHERE `platform`='%d' AND mid='%d' and `value`='' @ squote @ squote)
        [AI platform, AI modul] None None)"

text \<open>The fields of \<open>Zensched_Job\<close> and \<open>Zensched_Module_Info\<close> that the queries read.\<close>

record zensched_job =
  zj_id :: int
  zj_status :: int
  zj_return_value :: int
  zj_cron_nexttime :: int
  zj_cron_count :: int
  zj_time_started :: int
  zj_pid :: int
  zj_time_finished :: int
  zj_output_string :: cstr

record zensched_module_info =
  mi_platform_ctrl :: bool
  mi_network_ctrl :: bool
  mi_storage_ctrl :: bool
  mi_platform :: cstr
  mi_platformver :: cstr
  mi_platformbuild :: cstr
  mi_platformvendor :: cstr
  mi_platformdescription :: cstr
  mi_platformfeatures :: int
  mi_name :: cstr
  mi_description :: cstr

definition db_updateJob :: "zensched_job \<Rightarrow> int \<Rightarrow> dbreq" where
  "db_updateJob j schedulerId = DbQuery (QE
     (''UPDATE `jobs` SET `status`='%d', `return_value`='%d', ''
      @ ''`nexttime`='%i', `croncount`='%i', ''
      @ ''`time_started`='%d', `pid`='%d', `time_finished`='%d', ''
      @ ''`output_string`='%s', scheduler='%d' ''
      @ ''WHERE `id`='%d'' @ squote)
     [AI (zj_status j), AI (zj_return_value j), AI (s32 (zj_cron_nexttime j)), AI (zj_cron_count j),
      AI (if 0 < zj_time_started j then zj_time_started j else -1),
      AI (if 0 < zj_pid j then zj_pid j else -1),
      AI (if 0 < zj_time_finished j then zj_time_finished j else -1),
      AS (zj_output_string j), AI schedulerId, AI (zj_id j)])"

definition db_registerPlatform :: "zensched_module_info \<Rightarrow> int \<Rightarrow> dbreq" where
  "db_registerPlatform mi schedulerId = DbQuery (QE
     (''INSERT INTO `platforms`''
      @ '' (name, vendor, version, build, description, enabled, features, scheduler)''
      @ '' VALUES ('%s', '%s', '%s', '%s', '%s', '1', '%d', '%d')''
      @ '' ON DUPLICATE KEY UPDATE `vendor`='%s', `version`='%s',''
      @ '' `build`='%s', `description`='%s', features='%d', scheduler='%d'' @ squote)
     [AS (mi_platform mi), AS (mi_platformvendor mi), AS (mi_platformver mi), AS (mi_platformbuild mi),
      AS (mi_platformdescription mi), AI (mi_platformfeatures mi), AI schedulerId,
      AS (mi_platformvendor mi), AS (mi_platformver mi), AS (mi_platformbuild mi),
      AS (mi_platformdescription mi), AI (mi_platformfeatures mi), AI schedulerId])"

definition db_registerControlModule :: "env \<Rightarrow> zensched_module_info \<Rightarrow> int \<Rightarrow> int \<Rightarrow> dbreq" where
  "db_registerControlModule e mi platid schedulerId =
     (if platid < 0 \<and> \<not> streq e (mi_platform mi) ''ANY'' then DbReject (Some PLATFORM_NOT_PRESENT)
      else DbQuery (QE
        (''INSERT INTO `controlmodules` ''
         @ ''(platformid, name, enabled, description, controlplatform, controlnetwork, controlstorage, scheduler) ''
         @ ''VALUES ('%d','%s', '1', '%s', '%d', '%d', '%d', '%d')'')
        [AI (if streq e (mi_platform mi) ''ANY'' then -1 else platid), AS (mi_name mi), AS (mi_description mi),
         AI (of_bool (mi_platform_ctrl mi)), AI (of_bool (mi_network_ctrl mi)),
         AI (of_bool (mi_storage_ctrl mi)), AI schedulerId]))"

subsection \<open>All requests of the module\<close>

lemmas jobs_request_defs = db_isJob_def db_getJob_def db_getRecentJobs_def db_getRecentJobsByUID_def db_getJobUID_def
  db_getJobs_def db_getJobsByUID_def db_getJobsByUUID_def db_getJobStatus_def
  db_getSchedulerAddressByModuleName_def db_getSchedulerAddressByJob_def
  db_getSchedulerIdByModuleName_def db_getSchedulerIdByJob_def db_getSchedulerIdByPlatform_def
  db_getModuleConfigByNode_def db_getModuleConfigByVm_def db_getModuleConfig_def
  db_registerScheduler_def db_getModuleID_def db_getPlatformID_def db_isModule_def
  db_isPlatformNameByScheduler_def db_clearControlModules_def db_addJob_def db_fetchJobs_def
  db_getBlobConfig_def db_updateJob_def db_registerPlatform_def db_registerControlModule_def
  db_getJobsByIds_def db_getJobsStatus_def JOB_OWNER_def JOB_VISIBLE_def

text \<open>The requests whose text arguments are all quoted.\<close>

definition jobs_requests :: "dbreq set" where
  "jobs_requests =
     range db_isJob \<union> range (\<lambda>(jobid, caller_uid). db_getJob jobid caller_uid)
     \<union> range db_getRecentJobs \<union> range (\<lambda>(uid, age). db_getRecentJobsByUID uid age)
     \<union> range db_getJobUID \<union> {db_getJobs} \<union> range db_getJobsByUID
     \<union> range db_getJobsByUUID
     \<union> range (\<lambda>(jobid, caller_uid). db_getJobStatus jobid caller_uid)
     \<union> range db_getSchedulerAddressByModuleName \<union> range db_getSchedulerAddressByJob
     \<union> range db_getSchedulerIdByModuleName \<union> range db_getSchedulerIdByJob
     \<union> range db_getSchedulerIdByPlatform
     \<union> range (\<lambda>(mid, uuid). db_getModuleConfigByNode mid uuid)
     \<union> range (\<lambda>(mid, uuid). db_getModuleConfigByVm mid uuid)
     \<union> range db_getModuleConfig
     \<union> range (\<lambda>(hostname, address, port). db_registerScheduler hostname address port)
     \<union> range (\<lambda>(modul, schedulerId). db_getModuleID modul schedulerId)
     \<union> range db_getPlatformID
     \<union> range (\<lambda>(modname, schedulerId). db_isModule modname schedulerId)
     \<union> range (\<lambda>(platname, schedulerId). db_isPlatformNameByScheduler platname schedulerId)
     \<union> range db_clearControlModules \<union> range db_addJob \<union> range db_fetchJobs
     \<union> range (\<lambda>(platform, modul, key). db_getBlobConfig platform modul key)
     \<union> range (\<lambda>(j, schedulerId). db_updateJob j schedulerId)
     \<union> range (\<lambda>(mi, schedulerId). db_registerPlatform mi schedulerId)
     \<union> range (\<lambda>(e, mi, platid, schedulerId). db_registerControlModule e mi platid schedulerId)"

text \<open>The other well-formed requests: a name of a column or a clause is spliced in.\<close>

definition jobs_unquoted :: "dbreq set" where
  "jobs_unquoted =
     range (\<lambda>(jids, caller_uid). db_getJobsByIds jids caller_uid)
     \<union> range (\<lambda>(jids, caller_uid). db_getJobsStatus jids caller_uid)"

lemma jobs_requests_ok_1:
  "range db_isJob \<union> range (\<lambda>(jobid, caller_uid). db_getJob jobid caller_uid)
     \<union> range db_getRecentJobs \<union> range (\<lambda>(uid, age). db_getRecentJobsByUID uid age)
     \<union> range db_getJobUID \<union> {db_getJobs} \<union> range db_getJobsByUID
     \<union> range db_getJobsByUUID
     \<union> range (\<lambda>(jobid, caller_uid). db_getJobStatus jobid caller_uid)
     \<union> range db_getSchedulerAddressByModuleName \<union> range db_getSchedulerAddressByJob
     \<union> range db_getSchedulerIdByModuleName
     \<subseteq> {r. req_ok r \<and> req_quoted r}"
  unfolding jobs_request_defs query_forms Let_def
  by (intro Un_least; clarsimp simp: req_evals simp del: req_ok.simps(2) req_quoted.simps(2) split: option.splits cong: req_weak_congs)

lemma jobs_requests_ok_2:
  "range db_getSchedulerIdByJob \<union> range db_getSchedulerIdByPlatform
     \<union> range (\<lambda>(mid, uuid). db_getModuleConfigByNode mid uuid)
     \<union> range (\<lambda>(mid, uuid). db_getModuleConfigByVm mid uuid)
     \<union> range db_getModuleConfig
     \<union> range (\<lambda>(hostname, address, port). db_registerScheduler hostname address port)
     \<union> range (\<lambda>(modul, schedulerId). db_getModuleID modul schedulerId)
     \<union> range db_getPlatformID
     \<union> range (\<lambda>(modname, schedulerId). db_isModule modname schedulerId)
     \<union> range (\<lambda>(platname, schedulerId). db_isPlatformNameByScheduler platname schedulerId)
     \<union> range db_clearControlModules \<union> range db_addJob
     \<subseteq> {r. req_ok r \<and> req_quoted r}"
  unfolding jobs_request_defs query_forms Let_def
  by (intro Un_least; clarsimp simp: req_evals simp del: req_ok.simps(2) req_quoted.simps(2) split: option.splits cong: req_weak_congs)

lemma jobs_requests_ok_3:
  "range db_fetchJobs
     \<union> range (\<lambda>(platform, modul, key). db_getBlobConfig platform modul key)
     \<union> range (\<lambda>(j, schedulerId). db_updateJob j schedulerId)
     \<union> range (\<lambda>(mi, schedulerId). db_registerPlatform mi schedulerId)
     \<union> range (\<lambda>(e, mi, platid, schedulerId). db_registerControlModule e mi platid schedulerId)
     \<subseteq> {r. req_ok r \<and> req_quoted r}"
  unfolding jobs_request_defs query_forms Let_def
  by (intro Un_least; clarsimp simp: req_evals simp del: req_ok.simps(2) req_quoted.simps(2) split: option.splits cong: req_weak_congs)

lemma jobs_requests_ok: "jobs_requests \<subseteq> {r. req_ok r \<and> req_quoted r}"
  unfolding jobs_requests_def
  using jobs_requests_ok_1 jobs_requests_ok_2 jobs_requests_ok_3
  by (simp only: Un_subset_iff simp_thms)

lemma jobs_unquoted_ok: "jobs_unquoted \<subseteq> {r. req_ok r}"
  unfolding jobs_unquoted_def jobs_request_defs query_forms Let_def
  by (intro Un_least; clarsimp simp: req_evals simp del: req_ok.simps(2) req_quoted.simps(2) split: option.splits cong: req_weak_congs)

end
