(* ===== verification/Sql_Platform.thy ===== *)
theory Sql_Platform
  imports SqlFmt
begin

text \<open>
  The queries on platforms and control modules: zrpcdb_platform.c.
\<close>

subsection \<open>db_sources/mysql/zrpcdb_platform.c\<close>

definition db_isControlModuleForPlatform :: "cstr \<Rightarrow> int \<Rightarrow> dbreq" where
  "db_isControlModuleForPlatform modname platformid = DbQuery (QIAB
    (''SELECT id FROM `controlmodules` ''
     @ ''WHERE name='%s' ''
     @ ''AND platformid = '%d''
     @ squote)
    [AS modname, AI platformid])"

definition db_isControlModuleForPlatformByMid :: "int \<Rightarrow> int \<Rightarrow> dbreq" where
  "db_isControlModuleForPlatformByMid mid platformid = DbQuery (QIAB
    (''SELECT id FROM `controlmodules` ''
     @ ''WHERE id='%i' ''
     @ ''AND platformid = '%d''
     @ squote)
    [AI mid, AI platformid])"

definition db_isControlModuleForPlatformById :: "int \<Rightarrow> cstr \<Rightarrow> dbreq" where
  "db_isControlModuleForPlatformById mid platformname = DbQuery (QIAB
    (''SELECT id FROM `controlmodules` ''
     @ ''WHERE id='%i' ''
     @ ''AND name='%s''
     @ squote)
    [AI mid, AS platformname])"

definition db_isControlModuleForPlatformByName :: "cstr \<Rightarrow> cstr \<Rightarrow> dbreq" where
  "db_isControlModuleForPlatformByName modname platformname = DbQuery (QIAB
    (''SELECT * FROM `controlmodules` ''
     @ ''RIGHT JOIN platforms ON controlmodules.platformid=platforms.id''
     @ ''WHERE controlmodules.name='%s' ''
     @ ''AND platforms.name LIKE '%%%s%%''
     @ squote)
    [AS modname, AS platformname])"

definition db_isControlModule :: "int \<Rightarrow> dbreq" where
  "db_isControlModule ident = DbQuery (QIAB
    (''SELECT id FROM `controlmodules` ''
     @ ''WHERE id = '%d''
     @ squote)
    [AI ident])"

definition db_isControlModuleByName :: "cstr \<Rightarrow> dbreq" where
  "db_isControlModuleByName nm = DbQuery (QIAB
    (''SELECT id FROM `controlmodules` ''
     @ ''WHERE name='%s''
     @ squote)
    [AS nm])"

definition db_isPlatform :: "int \<Rightarrow> dbreq" where
  "db_isPlatform ident = DbQuery (QIAB
    (''SELECT name FROM `platforms` WHERE id='%d''
     @ squote)
    [AI ident])"

definition db_isPlatformByName :: "cstr \<Rightarrow> dbreq" where
  "db_isPlatformByName platname = DbQuery (QIAB
    (''SELECT id FROM `platforms` WHERE name LIKE '%%%s%%''
     @ squote)
    [AS platname])"

definition db_enableControlModule :: "int \<Rightarrow> dbreq" where
  "db_enableControlModule ident = DbQuery (QE
    (''UPDATE `controlmodules` SET enabled='1' WHERE id='%d''
     @ squote)
    [AI ident])"

definition db_disableControlModule :: "int \<Rightarrow> dbreq" where
  "db_disableControlModule ident = DbQuery (QE
    (''UPDATE `controlmodules` SET enabled='0' WHERE id='%d''
     @ squote)
    [AI ident])"

definition db_enablePlatform :: "int \<Rightarrow> dbreq" where
  "db_enablePlatform ident = DbQuery (QE
    (''UPDATE `platforms` SET enabled='1' WHERE id='%d''
     @ squote)
    [AI ident])"

definition db_disablePlatform :: "int \<Rightarrow> dbreq" where
  "db_disablePlatform ident = DbQuery (QE
    (''UPDATE `platforms` SET enabled='0' WHERE id='%d''
     @ squote)
    [AI ident])"

definition db_getPlatformId :: "cstr \<Rightarrow> dbreq" where
  "db_getPlatformId nm = DbQuery (QIA
    (''SELECT id FROM `platforms` where name='%s''
     @ squote)
    [AS nm])"

definition db_getPlatforms :: "dbreq" where
  "db_getPlatforms = DbQuery (QIS
    ''SELECT id FROM `platforms`'')"

definition db_getPlatformsFull :: "dbreq" where
  "db_getPlatformsFull = DbQuery (mk_query False None (Some (Rows_esql T_PLATFORM))
    ''SELECT * FROM `platforms`''
    []
    (Some (Some (Rows_free T_PLATFORM))) None)"

definition db_getPlatform :: "int \<Rightarrow> dbreq" where
  "db_getPlatform ident = DbQuery (mk_query False None (Some (Row_esql T_PLATFORM))
    (''SELECT * FROM `platforms` WHERE `id`='%d''
     @ squote)
    [AI ident]
    (Some (Some (Row_free T_PLATFORM))) None)"

definition db_getPlatformByName :: "cstr \<Rightarrow> dbreq" where
  "db_getPlatformByName nm = DbQuery (mk_query False None (Some (Row_esql T_PLATFORM))
    (''SELECT * FROM `platforms` WHERE `name`='%s''
     @ squote)
    [AS nm]
    (Some (Some (Row_free T_PLATFORM))) None)"

definition db_addPlatform :: "platform \<Rightarrow> dbreq" where
  "db_addPlatform p = DbQuery (QE
    (''INSERT INTO `platforms`''
     @ '' ( name, version, vendor, build, description, mechanism, enabled, features)''
     @ '' VALUES''
     @ '' ('%s', '%s', '%s', '%s', '%s', '%s', '%d', '%d')'')
    [AS (pf_name p), AS (pf_version p), AS (pf_vendor p), AS (pf_build p), AS (pf_description p),
         AS (pf_mechanism p), AI (of_bool (pf_enabled p)), AI (pf_features p)])"

definition db_modifyPlatform :: "int \<Rightarrow> platform \<Rightarrow> dbreq" where
  "db_modifyPlatform ident p = DbQuery (QE
    (''UPDATE `platforms`''
     @ '' SET''
     @ '' `name`='%s', `version`='%s', `vendor`='%s',''
     @ '' `build`='%s', `description`='%s', `mechanism`='%s',''
     @ '' `enabled`='%d', features='%d''
     @ squote
     @ '' WHERE `id`='%d''
     @ squote)
    [AS (pf_name p), AS (pf_version p), AS (pf_vendor p), AS (pf_build p), AS (pf_description p),
         AS (pf_mechanism p), AI (of_bool (pf_enabled p)), AI (pf_features p), AI ident])"

definition db_getPlatformConfig :: "int \<Rightarrow> cstr \<Rightarrow> dbreq" where
  "db_getPlatformConfig platformid key = DbQuery
   (if key \<noteq> None \<and> key \<noteq> Some []
    then mk_query False None (Some Array_KEYVALUE_esql)
    (''SELECT * FROM `config` WHERE `platform`='%d' AND `key`='%s''
       @ squote)
    [AI platformid, AS key] (Some (Some Array_KEYVALUE_free)) None
    else mk_query False None (Some Array_KEYVALUE_esql)
    (''SELECT * FROM `config` WHERE `platform`='%d''
       @ squote)
    [AI platformid] (Some (Some Array_KEYVALUE_free)) None)"

definition db_getControlModuleConfig :: "int \<Rightarrow> cstr \<Rightarrow> dbreq" where
  "db_getControlModuleConfig ident key = DbQuery
   (if key \<noteq> None
    then mk_query False None (Some Array_KEYVALUE_esql)
    (''SELECT * FROM `config` WHERE `subsystem` = 'zensched''
       @ squote
       @ '' AND `mid` = '%d' AND `key`='%s''
       @ squote)
    [AI ident, AS key] (Some (Some Array_KEYVALUE_free)) None
    else mk_query False None (Some Array_KEYVALUE_esql)
    (''SELECT * FROM `config` WHERE `subsystem` = 'zensched''
       @ squote
       @ '' AND `mid` = '%d''
       @ squote)
    [AI ident] (Some (Some Array_KEYVALUE_free)) None)"

definition db_getControlModuleId :: "cstr \<Rightarrow> dbreq" where
  "db_getControlModuleId nm = DbQuery (QIA
    (''SELECT id FROM `controlmodules` where name='%s''
     @ squote)
    [AS nm])"

definition db_getControlModuleName :: "int \<Rightarrow> dbreq" where
  "db_getControlModuleName ident = DbQuery (QSA
    (''SELECT name FROM `controlmodules` where id='%d''
     @ squote)
    [AI ident])"

definition db_getControlModuleNameByNetwork :: "int \<Rightarrow> dbreq" where
  "db_getControlModuleNameByNetwork nwid = DbQuery (QSA
    (''SELECT name FROM `controlmodules` ''
     @ ''LEFT JOIN networks ON networks.mid=controlmodules.id ''
     @ ''WHERE networks.id='%d''
     @ squote)
    [AI nwid])"

definition db_getControlModuleNameByStorage :: "int \<Rightarrow> dbreq" where
  "db_getControlModuleNameByStorage ident = DbQuery (QSA
    (''SELECT name FROM `controlmodules` ''
     @ ''LEFT JOIN storage ON storage.mid=controlmodules.id ''
     @ ''WHERE storage.id='%d''
     @ squote)
    [AI ident])"

definition db_getControlModules :: "dbreq" where
  "db_getControlModules = DbQuery (QIS
    ''SELECT id FROM `controlmodules`'')"

definition db_getStorageControlModulesFull :: "dbreq" where
  "db_getStorageControlModulesFull = DbQuery (mk_query False None (Some Array_PLUGIN_esql)
    (''SELECT * FROM `controlmodules` WHERE controlstorage='1''
     @ squote)
    []
    (Some (Some Array_PLUGIN_free)) None)"

definition db_getNetworkControlModulesFull :: "dbreq" where
  "db_getNetworkControlModulesFull = DbQuery (mk_query False None (Some Array_PLUGIN_esql)
    (''SELECT * FROM `controlmodules` WHERE controlnetwork='1''
     @ squote)
    []
    (Some (Some Array_PLUGIN_free)) None)"

definition db_getPlatformControlModulesFull :: "dbreq" where
  "db_getPlatformControlModulesFull = DbQuery (mk_query False None (Some Array_PLUGIN_esql)
    (''SELECT * FROM `controlmodules` WHERE controlplatform='1''
     @ squote)
    []
    (Some (Some Array_PLUGIN_free)) None)"

definition db_getPlatformControlModules :: "dbreq" where
  "db_getPlatformControlModules = DbQuery (QIS
    (''SELECT id FROM `controlmodules` WHERE controlplatform='1''
     @ squote))"

definition db_getStorageControlModules :: "dbreq" where
  "db_getStorageControlModules = DbQuery (QIS
    (''SELECT id FROM `controlmodules` WHERE controlstorage='1''
     @ squote))"

definition db_getNetworkControlModules :: "dbreq" where
  "db_getNetworkControlModules = DbQuery (QIS
    (''SELECT id FROM `controlmodules` WHERE controlnetwork='1''
     @ squote))"

definition db_getControlModulesByPlatform :: "int \<Rightarrow> dbreq" where
  "db_getControlModulesByPlatform ident = DbQuery (QISA
    ''SELECT id FROM `controlmodules` WHERE (platformid='%d' OR platformid='-1')''
    [AI ident])"

definition db_getControlModulesFull :: "dbreq" where
  "db_getControlModulesFull = DbQuery (mk_query False None (Some Array_PLUGIN_esql)
    ''SELECT * FROM `controlmodules`''
    []
    (Some (Some Array_PLUGIN_free)) None)"

definition db_getControlModule :: "int \<Rightarrow> dbreq" where
  "db_getControlModule ident = DbQuery (mk_query False None (Some (Row_esql T_PLUGIN))
    (''SELECT * FROM `controlmodules` WHERE `id`='%d''
     @ squote)
    [AI ident]
    (Some (Some (Row_free T_PLUGIN))) None)"

definition db_getControlModuleByName :: "cstr \<Rightarrow> dbreq" where
  "db_getControlModuleByName nm = DbQuery (mk_query False None (Some (Row_esql T_PLUGIN))
    (''SELECT * FROM `controlmodules` WHERE `name`='%s''
     @ squote)
    [AS nm]
    (Some (Some Array_PLUGIN_free)) None)"

definition db_getPlatformIdByVm :: "cstr \<Rightarrow> dbreq" where
  "db_getPlatformIdByVm uuid = DbQuery (QIA
    (''SELECT platforms.id FROM platforms''
     @ '' RIGHT JOIN controlmodules ON platforms.id=controlmodules.platformid''
     @ '' RIGHT JOIN nodes ON nodes.controlmodule=controlmodules.name''
     @ '' RIGHT JOIN (SELECT vm, node FROM nodechildren''
     @ [CHR 0x09]
     @ ''RIGHT JOIN vms ON vms.id=nodechildren.vm''
     @ [CHR 0x09]
     @ ''WHERE vms.uuid='%s''
     @ squote
     @ [CHR 0x09]
     @ ''ORDER by nodechildren.timestamp DESC LIMIT 1)''
     @ '' AS nc ON nc.node=nodes.id''
     @ '' RIGHT JOIN vms ON nc.vm=vms.id''
     @ '' WHERE vms.uuid='%s''
     @ squote)
    [AS uuid, AS uuid])"

definition db_getPlatformFeatures :: "int \<Rightarrow> dbreq" where
  "db_getPlatformFeatures platform = DbQuery (QIA
    (''SELECT features FROM platforms WHERE id='%d''
     @ squote)
    [AI platform])"

subsection \<open>All requests of the module\<close>

lemmas platform_request_defs = db_isControlModuleForPlatform_def db_isControlModuleForPlatformByMid_def
  db_isControlModuleForPlatformById_def db_isControlModuleForPlatformByName_def db_isControlModule_def
  db_isControlModuleByName_def db_isPlatform_def db_isPlatformByName_def db_enableControlModule_def
  db_disableControlModule_def db_enablePlatform_def db_disablePlatform_def db_getPlatformId_def
  db_getPlatforms_def db_getPlatformsFull_def db_getPlatform_def db_getPlatformByName_def
  db_addPlatform_def db_modifyPlatform_def db_getPlatformConfig_def db_getControlModuleConfig_def
  db_getControlModuleId_def db_getControlModuleName_def db_getControlModuleNameByNetwork_def
  db_getControlModuleNameByStorage_def db_getControlModules_def db_getStorageControlModulesFull_def
  db_getNetworkControlModulesFull_def db_getPlatformControlModulesFull_def
  db_getPlatformControlModules_def db_getStorageControlModules_def db_getNetworkControlModules_def
  db_getControlModulesByPlatform_def db_getControlModulesFull_def db_getControlModule_def
  db_getControlModuleByName_def db_getPlatformIdByVm_def db_getPlatformFeatures_def

text \<open>The requests whose text arguments are all quoted.\<close>

definition platform_requests :: "dbreq set" where
  "platform_requests =
     range (\<lambda>(modname, platformid). db_isControlModuleForPlatform modname platformid)
     \<union> range (\<lambda>(mid, platformid). db_isControlModuleForPlatformByMid mid platformid)
     \<union> range (\<lambda>(mid, platformname). db_isControlModuleForPlatformById mid platformname)
     \<union> range (\<lambda>(modname, platformname). db_isControlModuleForPlatformByName modname platformname)
     \<union> range db_isControlModule \<union> range db_isControlModuleByName
     \<union> range db_isPlatform \<union> range db_isPlatformByName
     \<union> range db_enableControlModule \<union> range db_disableControlModule
     \<union> range db_enablePlatform \<union> range db_disablePlatform \<union> range db_getPlatformId
     \<union> {db_getPlatforms} \<union> {db_getPlatformsFull} \<union> range db_getPlatform
     \<union> range db_getPlatformByName \<union> range db_addPlatform
     \<union> range (\<lambda>(ident, p). db_modifyPlatform ident p)
     \<union> range (\<lambda>(platformid, key). db_getPlatformConfig platformid key)
     \<union> range (\<lambda>(ident, key). db_getControlModuleConfig ident key)
     \<union> range db_getControlModuleId \<union> range db_getControlModuleName
     \<union> range db_getControlModuleNameByNetwork \<union> range db_getControlModuleNameByStorage
     \<union> {db_getControlModules} \<union> {db_getStorageControlModulesFull}
     \<union> {db_getNetworkControlModulesFull} \<union> {db_getPlatformControlModulesFull}
     \<union> {db_getPlatformControlModules} \<union> {db_getStorageControlModules}
     \<union> {db_getNetworkControlModules} \<union> range db_getControlModulesByPlatform
     \<union> {db_getControlModulesFull} \<union> range db_getControlModule
     \<union> range db_getControlModuleByName \<union> range db_getPlatformIdByVm
     \<union> range db_getPlatformFeatures"

lemma platform_requests_ok_1:
  "range (\<lambda>(modname, platformid). db_isControlModuleForPlatform modname platformid)
     \<union> range (\<lambda>(mid, platformid). db_isControlModuleForPlatformByMid mid platformid)
     \<union> range (\<lambda>(mid, platformname). db_isControlModuleForPlatformById mid platformname)
     \<union> range (\<lambda>(modname, platformname). db_isControlModuleForPlatformByName modname platformname)
     \<union> range db_isControlModule \<union> range db_isControlModuleByName
     \<union> range db_isPlatform \<union> range db_isPlatformByName
     \<union> range db_enableControlModule \<union> range db_disableControlModule
     \<union> range db_enablePlatform \<union> range db_disablePlatform
     \<subseteq> {r. req_ok r \<and> req_quoted r}"
  unfolding platform_request_defs query_forms Let_def
  by (intro Un_least; clarsimp simp: req_evals simp del: req_ok.simps(2) req_quoted.simps(2) split: option.splits cong: req_weak_congs)

lemma platform_requests_ok_2:
  "range db_getPlatformId \<union> {db_getPlatforms} \<union> {db_getPlatformsFull}
     \<union> range db_getPlatform \<union> range db_getPlatformByName \<union> range db_addPlatform
     \<union> range (\<lambda>(ident, p). db_modifyPlatform ident p)
     \<union> range (\<lambda>(platformid, key). db_getPlatformConfig platformid key)
     \<union> range (\<lambda>(ident, key). db_getControlModuleConfig ident key)
     \<union> range db_getControlModuleId \<union> range db_getControlModuleName
     \<union> range db_getControlModuleNameByNetwork
     \<subseteq> {r. req_ok r \<and> req_quoted r}"
  unfolding platform_request_defs query_forms Let_def
  by (intro Un_least; clarsimp simp: req_evals simp del: req_ok.simps(2) req_quoted.simps(2) split: option.splits cong: req_weak_congs)

lemma platform_requests_ok_3:
  "range db_getControlModuleNameByStorage \<union> {db_getControlModules}
     \<union> {db_getStorageControlModulesFull} \<union> {db_getNetworkControlModulesFull}
     \<union> {db_getPlatformControlModulesFull} \<union> {db_getPlatformControlModules}
     \<union> {db_getStorageControlModules} \<union> {db_getNetworkControlModules}
     \<union> range db_getControlModulesByPlatform \<union> {db_getControlModulesFull}
     \<union> range db_getControlModule \<union> range db_getControlModuleByName
     \<subseteq> {r. req_ok r \<and> req_quoted r}"
  unfolding platform_request_defs query_forms Let_def
  by (intro Un_least; clarsimp simp: req_evals simp del: req_ok.simps(2) req_quoted.simps(2) split: option.splits cong: req_weak_congs)

lemma platform_requests_ok_4:
  "range db_getPlatformIdByVm \<union> range db_getPlatformFeatures
     \<subseteq> {r. req_ok r \<and> req_quoted r}"
  unfolding platform_request_defs query_forms Let_def
  by (intro Un_least; clarsimp simp: req_evals simp del: req_ok.simps(2) req_quoted.simps(2) split: option.splits cong: req_weak_congs)

lemma platform_requests_ok: "platform_requests \<subseteq> {r. req_ok r \<and> req_quoted r}"
  unfolding platform_requests_def
  using platform_requests_ok_1 platform_requests_ok_2 platform_requests_ok_3 platform_requests_ok_4
  by (simp only: Un_subset_iff simp_thms)

end
