(* ===== verification/Sql_Network.thy ===== *)
theory Sql_Network
  imports SqlFmt
begin

text \<open>
  The queries on networks and storage: zrpcdb_network.c and zrpcdb_storage.c.
\<close>

subsection \<open>db_sources/mysql/zrpcdb_network.c\<close>

definition db_getAllNetworksFull :: "int \<Rightarrow> int \<Rightarrow> dbreq" where
  "db_getAllNetworksFull offset recordcount = DbQuery
   (if offset < 0 \<or> recordcount < 0
    then mk_query False None (Some (Rows_esql T_NETWORK))
    ''SELECT * FROM `networks`''
    [] (Some (Some (Rows_free T_NETWORK))) None
    else mk_query False None (Some (Rows_esql T_NETWORK))
    ''SELECT * FROM `networks` LIMIT %d, %d''
    [AI offset, AI recordcount] (Some (Some (Rows_free T_NETWORK))) None)"

definition db_getAllNetworksFullSorted :: "cstr \<Rightarrow> bool \<Rightarrow> int \<Rightarrow> int \<Rightarrow> dbreq" where
  "db_getAllNetworksFullSorted sortfield desc offset recordcount = DbQuery (mk_query False None (Some (Rows_esql T_NETWORK))
    (''SELECT * FROM `networks` ''
       @ ''ORDER BY `%s` %s %s'')
    [AS sortfield, AS (Some (desc_word desc)), AS (Some (limit_clause offset recordcount))] (Some (Some (Rows_free T_NETWORK))) None)"

definition db_getAllNetworksSorted :: "cstr \<Rightarrow> bool \<Rightarrow> int \<Rightarrow> int \<Rightarrow> dbreq" where
  "db_getAllNetworksSorted sortfield desc offset recordcount = DbQuery (QISA (''SELECT id FROM `networks` ''
         @ ''ORDER BY `%s` %s %s'')
        [AS sortfield, AS (Some (desc_word desc)), AS (Some (limit_clause offset recordcount))])"

definition db_getAllNetworks :: "int \<Rightarrow> int \<Rightarrow> dbreq" where
  "db_getAllNetworks offset recordcount = DbQuery
   (if offset < 0 \<or> recordcount < 0
    then mk_query False None (Some Array_int_esql)
    ''SELECT id FROM `networks`''
    [] (Some (Some Eina_list_free)) None
    else mk_query False None (Some (Rows_esql T_NETWORK))
    ''SELECT id FROM `networks` LIMIT %d, %d''
    [AI offset, AI recordcount] (Some (Some Eina_list_free)) None)"

definition db_getAllNetworksByType :: "cstr \<Rightarrow> int \<Rightarrow> int \<Rightarrow> dbreq" where
  "db_getAllNetworksByType ty offset recordcount = DbQuery
   (if offset < 0 \<or> recordcount < 0
    then mk_query False None (Some Array_int_esql)
    (''SELECT id FROM `networks` WHERE type='%s''
       @ squote)
    [AS ty] (Some (Some Eina_list_free)) None
    else mk_query False None (Some Array_int_esql)
    ''SELECT id FROM `networks` WHERE type='%s' LIMIT %d, %d''
    [AS ty, AI offset, AI recordcount] (Some (Some Eina_list_free)) None)"

definition db_getNetwork :: "int \<Rightarrow> dbreq" where
  "db_getNetwork ident = DbQuery (mk_query False None (Some (Row_esql T_NETWORK))
    (''SELECT * FROM `networks` WHERE id='%d''
     @ squote)
    [AI ident]
    (Some (Some (Row_free T_NETWORK))) None)"

definition db_getNetworkVlans :: "int \<Rightarrow> dbreq" where
  "db_getNetworkVlans ident = DbQuery (QSA
    (''SELECT vlans FROM `networks` WHERE id='%d''
     @ squote)
    [AI ident])"

definition db_removeNetwork :: "int \<Rightarrow> dbreq" where
  "db_removeNetwork ident = DbQuery (QE
    (''DELETE FROM `networks` WHERE id='%d''
     @ squote)
    [AI ident])"

definition db_getNodesByNetworkVlan :: "int \<Rightarrow> dbreq" where
  "db_getNodesByNetworkVlan vlan = DbQuery (QSSA
    (''SELECT nodes.uuid FROM nodes''
     @ '' RIGHT JOIN `networksnodes` ON networksnodes.node=nodes.id''
     @ '' RIGHT JOIN `networks` ON networksnodes.network=networks.id''
     @ '' WHERE networks.vlans REGEXP '(^|,)%d(,|$)''
     @ squote)
    [AI vlan])"

definition db_getNodesByNetwork :: "int \<Rightarrow> dbreq" where
  "db_getNodesByNetwork ident = DbQuery (QSSA
    (''SELECT uuid from nodes RIGHT JOIN `networksnodes` ON networksnodes.node=nodes.id''
     @ '' WHERE networksnodes.network='%d''
     @ squote)
    [AI ident])"

definition db_getNetworksByNode :: "cstr \<Rightarrow> dbreq" where
  "db_getNetworksByNode uuid = DbQuery (mk_query False None (Some (Rows_esql T_NETWORK))
    (''SELECT * FROM `networks` RIGHT JOIN networksnodes ON networksnodes.node=node.id WHERE nodes.uuid='%s''
     @ squote)
    [AS uuid]
    (Some (Some (Rows_free T_NETWORK))) None)"

definition db_isNetwork :: "network \<Rightarrow> dbreq" where
  "db_isNetwork net = DbQuery (QIAB
    (''SELECT id FROM `networks`''
     @ '' WHERE name='%s' OR mac='%s''
     @ squote)
    [AS (nw_name net), AS (nw_mac net)])"

definition db_isNetworkId :: "int \<Rightarrow> dbreq" where
  "db_isNetworkId ident = DbQuery (QIAB
    (''SELECT id FROM `networks`''
     @ '' WHERE id='%d''
     @ squote)
    [AI ident])"

definition db_addNetIf :: "cstr \<Rightarrow> netif \<Rightarrow> dbreq" where
  "db_addNetIf uuid vif = DbQuery (QEE
    (''INSERT INTO `vifconfig`''
     @ '' ''
     @ [CHR 0x09]
     @ ''(vif, revision, type, mac, bridge, name, script, label, ip, netmask, gateway, broadcast)''
     @ '' VALUES (''
     @ ''       (SELECT id FROM `vifs` WHERE uuid='%s' AND mac='%s'),''
     @ ''       ((''
     @ ''SELECT revision FROM `vifconfig`''
     @ '' RIGHT JOIN `vifs` ON vifconfig.vif=vifs.id''
     @ '' WHERE vifs.uuid='%s''
     @ squote
     @ '' ORDER BY vifconfig.timestamp DESC LIMIT 1'')
    [
         AS (Some ('') + 1),'' @ [CHR 0x09] @ '''%s', '%s', '%s', '%s', '%s', '%s', '%s', '%s', '%s', '%s'' @ squote @ '')'')),
         AS uuid, AS (ni_mac vif), AS uuid, AS (ni_type vif), AS (ni_mac vif), AS (ni_bridge vif),
         AS (ni_name vif), AS (ni_script vif), AS (ni_label vif), AS (ni_ip vif), AS (ni_netmask vif),
         AS (ni_gateway vif), AS (ni_broadcast vif)])"

definition db_attachNetIf :: "cstr \<Rightarrow> cstr \<Rightarrow> int \<Rightarrow> dbreq" where
  "db_attachNetIf uuid mac nwid = DbQuery (QE
    (''UPDATE vifs SET nwid='%d' WHERE mac='%s AND uuid='%s''
     @ squote)
    [AI nwid, AS mac, AS uuid])"

definition db_detachNetIf :: "cstr \<Rightarrow> cstr \<Rightarrow> int \<Rightarrow> dbreq" where
  "db_detachNetIf uuid mac nwid = DbQuery (QE
    (''UPDATE vifs SET nwid='-1' WHERE nwid='%d' AND mac='%s' and uuid='%s''
     @ squote)
    [AI nwid, AS mac, AS uuid])"

definition db_modifyNetIf :: "cstr \<Rightarrow> cstr \<Rightarrow> netif \<Rightarrow> dbreq" where
  "db_modifyNetIf uuid mac vif = DbQuery (QE
    (''INSERT INTO `vifconfig`''
     @ '' ''
     @ [CHR 0x09]
     @ ''(vif, revision, type, mac, bridge, name, script, label, ip, netmask, gateway, broadcast)''
     @ '' VALUES (''
     @ ''       (SELECT id FROM `vifs` WHERE uuid='%s' AND mac='%s'),''
     @ ''       ((''
     @ ''SELECT revision FROM `vifconfig`''
     @ '' RIGHT JOIN `vifs` ON vifconfig.vif=vifs.id''
     @ '' WHERE vifs.uuid='%s''
     @ squote
     @ '' ORDER BY vifconfig.timestamp DESC LIMIT 1'')
    [
         AS (Some ('') + 1),'' @ [CHR 0x09] @ '''%s', '%s', '%s', '%s', '%s', '%s', '%s', '%s', '%s', '%s'' @ squote @ '')'')),
         AS uuid, AS mac, AS uuid, AS (ni_type vif), AS (ni_mac vif), AS (ni_bridge vif),
         AS (ni_name vif), AS (ni_script vif), AS (ni_label vif), AS (ni_ip vif), AS (ni_netmask vif),
         AS (ni_gateway vif), AS (ni_broadcast vif)])"

definition db_removeNetIf :: "cstr \<Rightarrow> cstr \<Rightarrow> dbreq" where
  "db_removeNetIf uuid mac = DbQuery (QE
    (''DELETE vifstats.*, vifconfig.*, vifs.* ''
     @ ''JOIN vifs ON vifstats.vif=vifs.id ''
     @ ''JOIN vifconfig ON vifconfig.vif=vifs.id ''
     @ ''WHERE vifs.mac='%s' AND uuid='%s''
     @ squote)
    [AS mac, AS uuid])"

definition db_detachAllNetIfsByNetwork :: "int \<Rightarrow> dbreq" where
  "db_detachAllNetIfsByNetwork nwid = DbQuery (QE
    (''UPDATE vifs SET nwid='-1' WHERE nwid='%d''
     @ squote)
    [AI nwid])"

definition db_getNetworkControlModule :: "int \<Rightarrow> dbreq" where
  "db_getNetworkControlModule nwid = DbQuery (QIA
    (''SELECT mid FROM networks WHERE id='%d''
     @ squote)
    [AI nwid])"

definition db_setNetworkControlModule :: "int \<Rightarrow> int \<Rightarrow> dbreq" where
  "db_setNetworkControlModule nwid mid = DbQuery (QE
    (''UPDATE networks SET mid='%d' WHERE id='%d''
     @ squote)
    [AI mid, AI nwid])"

definition db_detachNetworkFromNode :: "cstr \<Rightarrow> int \<Rightarrow> dbreq" where
  "db_detachNetworkFromNode uuid nwid = DbQuery (QE
    (''DELETE FROM networksnodes ''
     @ ''USING networksnodes JOIN nodes ON networksnodes.node=nodes.id ''
     @ ''WHERE nodes.uuid='%s' ''
     @ ''AND networksnodes.network='%d''
     @ squote)
    [AS uuid, AI nwid])"

definition db_attachNetworkToNode :: "cstr \<Rightarrow> int \<Rightarrow> dbreq" where
  "db_attachNetworkToNode uuid nwid = DbQuery (QE
    (''INSERT INTO networksnodes (node, network) ''
     @ ''VALUES ((SELECT id FROM nodes WHERE uuid='%s'), '%d')'')
    [AS uuid, AI nwid])"

definition db_getVmsByNetwork :: "int \<Rightarrow> dbreq" where
  "db_getVmsByNetwork nwid = DbQuery (QSSA
    (''SELECT uuid FROM vifs ''
     @ ''WHERE nwid='%d' ''
     @ ''GROUP BY uuid'')
    [AI nwid])"

definition db_getNetworksByVm :: "cstr \<Rightarrow> dbreq" where
  "db_getNetworksByVm uuid = DbQuery (QISA
    (''SELECT nwid FROM vifs ''
     @ ''WHERE uuid='%s' ''
     @ ''GROUP BY nwid'')
    [AS uuid])"

definition db_isNetworkInUse :: "int \<Rightarrow> dbreq" where
  "db_isNetworkInUse nwid = DbQuery (QIAB
    ''SELECT network from networksnodes WHERE network='%d' LIMIT 1''
    [AI nwid])"

definition db_getNetworkByNetIf :: "cstr \<Rightarrow> cstr \<Rightarrow> dbreq" where
  "db_getNetworkByNetIf uuid mac = DbQuery (QIA
    (''SELECT nwid FROM vifs WHERE uuid='%s' AND mac='%s''
     @ squote)
    [AS uuid, AS mac])"

definition db_getNetworkIdByName :: "cstr \<Rightarrow> dbreq" where
  "db_getNetworkIdByName nm = DbQuery (QIA
    (''SELECT id FROM networks WHERE name='%s''
     @ squote)
    [AS nm])"

definition db_getNetworkCount :: "dbreq" where
  "db_getNetworkCount = DbQuery (QIS
    ''SELECT COUNT(id) FROM `networks`'')"

subsection \<open>db_sources/mysql/zrpcdb_storage.c\<close>

definition db_getAllStorage :: "int \<Rightarrow> int \<Rightarrow> dbreq" where
  "db_getAllStorage offset recordcount = DbQuery
     (if offset < 0 \<or> recordcount < 0
      then QIS ''SELECT id FROM `storage`''
      else QISA ''SELECT id FROM `storage` LIMIT %d, %d''
        [AI offset, AI recordcount])"

definition db_getAllStorageFull :: "int \<Rightarrow> int \<Rightarrow> dbreq" where
  "db_getAllStorageFull offset recordcount = DbQuery
   (if offset < 0 \<or> recordcount < 0
    then mk_query False None (Some (Rows_esql T_STORAGE))
    ''SELECT * FROM `storage`''
    [] (Some (Some (Rows_free T_STORAGE))) None
    else mk_query False None (Some (Rows_esql T_STORAGE))
    ''SELECT * from storage LIMIT %d, %d''
    [AI offset, AI recordcount] (Some (Some (Rows_free T_STORAGE))) None)"

definition db_getAllStorageFullSorted :: "cstr \<Rightarrow> bool \<Rightarrow> int \<Rightarrow> int \<Rightarrow> dbreq" where
  "db_getAllStorageFullSorted sortfield desc offset recordcount = DbQuery (mk_query False None (Some (Rows_esql T_STORAGE))
    (''SELECT * FROM `storage` ''
       @ ''ORDER BY `%s` %s %s'')
    [AS sortfield, AS (Some (desc_word desc)), AS (Some (limit_clause offset recordcount))] (Some (Some (Rows_free T_STORAGE))) None)"

definition db_getAllStorageSorted :: "cstr \<Rightarrow> bool \<Rightarrow> int \<Rightarrow> int \<Rightarrow> dbreq" where
  "db_getAllStorageSorted sortfield desc offset recordcount = DbQuery (QISA (''SELECT id FROM `storage` ''
         @ ''ORDER BY `%s` %s %s'')
        [AS sortfield, AS (Some (desc_word desc)), AS (Some (limit_clause offset recordcount))])"

definition db_getAllStorageByType :: "cstr \<Rightarrow> int \<Rightarrow> int \<Rightarrow> dbreq" where
  "db_getAllStorageByType ty offset recordcount = DbQuery
     (if offset < 0 \<or> recordcount < 0
      then QISA (''SELECT id FROM `storage` WHERE type='%s''
         @ squote)
        [AS ty]
      else QISA ''SELECT id FROM `storage` WHERE type='%s' LIMIT %d, %d''
        [AS ty, AI offset, AI recordcount])"

definition db_getStorageHost :: "int \<Rightarrow> dbreq" where
  "db_getStorageHost ident = DbQuery (QSA
    (''SELECT host FROM storage WHERE id='%i''
     @ squote)
    [AI ident])"

definition db_getStorage :: "int \<Rightarrow> dbreq" where
  "db_getStorage ident = DbQuery (mk_query False None (Some (Rows_esql T_STORAGE))
    (''SELECT * FROM `storage` WHERE id='%d''
     @ squote)
    [AI ident]
    (Some (Some (Rows_free T_STORAGE))) None)"

definition db_removeStorage :: "int \<Rightarrow> dbreq" where
  "db_removeStorage ident = DbQuery (QE
    (''DELETE FROM `storage` WHERE id='%d''
     @ squote)
    [AI ident])"

definition db_getNodesByStorage :: "int \<Rightarrow> dbreq" where
  "db_getNodesByStorage ident = DbQuery (QSSA
    (''SELECT uuid from nodes RIGHT JOIN `storagenodes` ON storagenodes.node=nodes.id''
     @ '' WHERE storagenodes.storage='%d''
     @ squote)
    [AI ident])"

definition db_getStorageByNode :: "cstr \<Rightarrow> dbreq" where
  "db_getStorageByNode uuid = DbQuery (mk_query False None (Some (Rows_esql T_STORAGE))
    (''SELECT * FROM `storage` RIGHT JOIN storagenodes ON storagenodes.storage=storage.id''
     @ '' RIGHT JOIN nodes ON nodes.id=storagenodes.node WHERE nodes.uuid='%s''
     @ squote)
    [AS uuid]
    (Some (Some (Rows_free T_STORAGE))) None)"

definition db_defineStorage :: "storage \<Rightarrow> dbreq" where
  "db_defineStorage stor = DbQuery (QEJ
    (''INSERT INTO storage''
     @ '' (name, type, path, host, mode, capacity, freespace, mid)''
     @ '' VALUES ''
     @ '' ('%s', '%s', '%s', '%s', '%s', '%d', '%d', '%d')'')
    [AS (st_name stor), AS (st_type stor), AS (st_path stor), AS (st_host stor), AS (st_mode stor),
         AI (st_capacity stor), AI (st_freespace stor), AI (st_mid stor)])"

definition db_modifyStorage :: "int \<Rightarrow> storage \<Rightarrow> dbreq" where
  "db_modifyStorage ident storage = DbQuery (QE
    (''UPDATE `storage`''
     @ '' SET name='%s', type='%s', path='%s', capacity='%d',''
     @ '' freespace='%d', mid='%d', mode='%s', host='%s''
     @ squote
     @ '' WHERE id='%d''
     @ squote)
    [AS (st_name storage), AS (st_type storage), AS (st_path storage), AI (st_capacity storage),
         AI (st_freespace storage), AI (st_mid storage), AS (st_mode storage), AS (st_host storage),
         AI ident])"

definition db_isStorageId :: "int \<Rightarrow> dbreq" where
  "db_isStorageId ident = DbQuery (QIAB
    (''SELECT id FROM `storage`''
     @ '' WHERE id='%d''
     @ squote)
    [AI ident])"

definition db_isStorage :: "storage \<Rightarrow> dbreq" where
  "db_isStorage stor = DbQuery (QIAB
    (''SELECT id FROM `storage`''
     @ '' WHERE name='%s''
     @ squote)
    [AS (st_name stor)])"

definition db_addDisk :: "int \<Rightarrow> disk \<Rightarrow> dbreq" where
  "db_addDisk storid disk = DbQuery (QE
    (''INSERT INTO `diskconfig`''
     @ ''  (disk, revision, type, mode, int_dev, ext_dev, mapped_dev, partition_type, num_sectors, start_sector, size_sector, block_size)''
     @ '' VALUES (''
     @ ''  (SELECT id FROM `disks` WHERE storid='%d' and path='%s'),''
     @ ''  '%d',''
     @ ''  '%s', '%s', '%s', '%s', '%s', '%s',''
     @ ''  '%lf', '%lf', '%d', '%d''
     @ squote
     @ '' )'')
    [AI storid, AS (d_ext_dev disk), AI 0, AS (d_type disk), AS (d_mode disk), AS (d_int_dev disk),
         AS (d_ext_dev disk), AS (d_mapped_dev disk), AS (d_partition_type disk),
         AD (d_num_sectors disk), AD (d_start_sector disk), AI (d_size_sector disk),
         AI (d_block_size disk)])"

definition db_enableDisk :: "int \<Rightarrow> cstr \<Rightarrow> dbreq" where
  "db_enableDisk storid path = DbQuery (QE
    ''UPDATE disks SET enabled='1' WHERE storid='%d' AND path='%s''
    [AI storid, AS path])"

definition db_disableDisk :: "int \<Rightarrow> cstr \<Rightarrow> dbreq" where
  "db_disableDisk storid path = DbQuery (QE
    (''UPDATE disks SET enabled='0' WHERE storid='%d' AND path='%s''
     @ squote)
    [AI storid, AS path])"

definition db_attachDisk :: "int \<Rightarrow> cstr \<Rightarrow> dbreq" where
  "db_attachDisk storid path = DbQuery (QE
    ''UPDATE disks SET attached='1' WHERE storid='%d' AND path='%s''
    [AI storid, AS path])"

definition db_detachDisk :: "int \<Rightarrow> cstr \<Rightarrow> dbreq" where
  "db_detachDisk storid path = DbQuery (QE
    (''UPDATE disks SET attached='0' WHERE storid='%d' AND path='%s''
     @ squote)
    [AI storid, AS path])"

definition db_modifyDisk :: "int \<Rightarrow> cstr \<Rightarrow> disk \<Rightarrow> dbreq" where
  "db_modifyDisk storid path disk = DbQuery (QE
    (''INSERT INTO `diskconfig`''
     @ ''  (disk, revision, type, mode, int_dev, ext_dev, mapped_dev, partition_type, num_sectors, start_sector, size_sector, block_size)''
     @ '' VALUES (''
     @ ''  (SELECT id FROM `disks` WHERE storid='%d' and path='%s'),''
     @ ''  ((SELECT revision FROM diskconfig WHERE storid='%d' AND path='%s' ORDER BY timestamp DESC LIMIT 1)+1),''
     @ ''  '%s', '%s', '%s', '%s', '%s', '%s',''
     @ ''  '%lf', '%lf', '%d', '%d''
     @ squote
     @ '' )'')
    [AI storid, AS path, AI storid, AS path, AS (d_type disk), AS (d_mode disk),
         AS (d_int_dev disk), AS (d_ext_dev disk), AS (d_mapped_dev disk), AS (d_partition_type disk),
         AD (d_num_sectors disk), AD (d_start_sector disk), AI (d_size_sector disk),
         AI (d_block_size disk)])"

definition db_removeDisk :: "int \<Rightarrow> cstr \<Rightarrow> dbreq" where
  "db_removeDisk storid path = DbQuery (QE
    (''DELETE diskstats.*, diskconfig.*, disks.* ''
     @ ''JOIN disks ON diskstats.disk=disks.id ''
     @ ''JOIN diskconfig ON diskconfig.disk=disks.id ''
     @ ''WHERE disks.path='%s' AND storid='%i''
     @ squote)
    [AS path, AI storid])"

definition db_detachAllDisksByStorage :: "int \<Rightarrow> dbreq" where
  "db_detachAllDisksByStorage storid = DbQuery (QE
    (''UPDATE disks SET attached='0' WHERE storid='%d''
     @ squote)
    [AI storid])"

definition db_getStorageControlModule :: "int \<Rightarrow> dbreq" where
  "db_getStorageControlModule storid = DbQuery (QIA
    (''SELECT mid FROM storage WHERE id='%d''
     @ squote)
    [AI storid])"

definition db_setStorageControlModule :: "int \<Rightarrow> int \<Rightarrow> dbreq" where
  "db_setStorageControlModule storid mid = DbQuery (QE
    (''UPDATE storage SET mid='%d' WHERE id='%d''
     @ squote)
    [AI mid, AI storid])"

definition db_detachStorageFromNode :: "cstr \<Rightarrow> int \<Rightarrow> dbreq" where
  "db_detachStorageFromNode uuid storid = DbQuery (QE
    (''DELETE FROM storagenodes ''
     @ ''JOIN nodes ON storagenodes.node=nodes.id ''
     @ ''WHERE nodes.uuid='%s' ''
     @ ''AND storage='%d''
     @ squote)
    [AS uuid, AI storid])"

definition db_attachStorageToNode :: "cstr \<Rightarrow> int \<Rightarrow> dbreq" where
  "db_attachStorageToNode uuid storid = DbQuery (QE
    (''INSERT INTO storagenodes (node, storage)''
     @ '' VALUES ((SELECT id FROM nodes WHERE uuid='%s'), '%d')'')
    [AS uuid, AI storid])"

definition db_getVmsByStorage :: "int \<Rightarrow> dbreq" where
  "db_getVmsByStorage storid = DbQuery (QSSA
    (''SELECT uuid FROM disks ''
     @ ''WHERE storid='%d' ''
     @ ''GROUP BY uuid'')
    [AI storid])"

definition db_getStorageByVm :: "cstr \<Rightarrow> dbreq" where
  "db_getStorageByVm uuid = DbQuery (QISA
    (''SELECT storid FROM disks ''
     @ ''WHERE uuid='%s' ''
     @ ''GROUP BY storid'')
    [AS uuid])"

definition db_isStorageInUse :: "int \<Rightarrow> dbreq" where
  "db_isStorageInUse storid = DbQuery (QIAB
    ''SELECT storid from storagenodes WHERE storage='%d' LIMIT 1''
    [AI storid])"

definition db_getStorageByDisk :: "cstr \<Rightarrow> cstr \<Rightarrow> dbreq" where
  "db_getStorageByDisk uuid path = DbQuery (QIA
    (''SELECT storid FROM disks WHERE uuid='%s' AND path='%s''
     @ squote)
    [AS uuid, AS path])"

definition db_getStorageIdByName :: "cstr \<Rightarrow> dbreq" where
  "db_getStorageIdByName nm = DbQuery (QIA
    (''SELECT id FROM storage WHERE name='%s''
     @ squote)
    [AS nm])"

definition db_getAllStorageTypes :: "dbreq" where
  "db_getAllStorageTypes = DbQuery (QSS
    ''SELECT type FROM storage'')"

definition db_isDiskByStorage :: "int \<Rightarrow> cstr \<Rightarrow> dbreq" where
  "db_isDiskByStorage storid path = DbQuery (QIAB
    (''SELECT id FROM disks''
     @ '' WHERE storid='%d' AND path='%s''
     @ squote)
    [AI storid, AS path])"

definition db_getStorageCount :: "dbreq" where
  "db_getStorageCount = DbQuery (QIS
    ''SELECT COUNT(id) FROM `storage`'')"

text \<open>
  The networks' virtual lans: the non-negative ids, each followed by a comma unless it is
  the last element of the list. Both statements raise \<open>ctx->state\<close> and end in the callback
  of statements that may find an existing row.
\<close>

fun vlan_clause :: "int list \<Rightarrow> string" where
  "vlan_clause [] = []"
| "vlan_clause (v # vs) = (if 0 \<le> v then int_dec v @ (if vs = [] then [] else '','') else []) @ vlan_clause vs"

definition db_defineNetwork :: "network \<Rightarrow> dbreq" where
  "db_defineNetwork net = DbQuery (mk_query True None None
     (''INSERT INTO networks''
      @ '' (name, type, vlans, network, netmask, gateway, interface, mac, mid, host)''
      @ '' VALUES''
      @ '' ('%s', '%s', '%s', '%s', '%s', '%s', '%s', '%s', '%d', '%s')'')
     [AS (nw_name net), AS (nw_type net), AS (Some (vlan_clause (nw_vlans net))), AS (nw_network net),
      AS (nw_netmask net), AS (nw_gateway net), AS (nw_interface net), AS (nw_mac net), AI (nw_mid net),
      AS (nw_host net)] None (Some Zrpcdb_cb_exec_exists))"

definition db_modifyNetwork :: "int \<Rightarrow> network \<Rightarrow> dbreq" where
  "db_modifyNetwork ident net = DbQuery (mk_query True None None
     (''UPDATE `networks`''
      @ '' SET name='%s', type='%s', vlans='%s', network='%s', mid='%d',''
      @ '' netmask='%s', gateway='%s', interface='%s', mac='%s', host='%s'' @ squote
      @ '' WHERE id='%d'' @ squote)
     [AS (nw_name net), AS (nw_type net), AS (Some (vlan_clause (nw_vlans net))), AS (nw_network net),
      AI (nw_mid net), AS (nw_netmask net), AS (nw_gateway net), AS (nw_interface net), AS (nw_mac net),
      AS (nw_host net), AI ident] None (Some Zrpcdb_cb_exec_exists))"

subsection \<open>All requests of the module\<close>

lemmas network_request_defs = db_getAllNetworksFull_def db_getAllNetworks_def db_getAllNetworksByType_def db_getNetwork_def
  db_getNetworkVlans_def db_removeNetwork_def db_getNodesByNetworkVlan_def db_getNodesByNetwork_def
  db_getNetworksByNode_def db_isNetwork_def db_isNetworkId_def db_detachNetIf_def db_removeNetIf_def
  db_detachAllNetIfsByNetwork_def db_getNetworkControlModule_def db_setNetworkControlModule_def
  db_detachNetworkFromNode_def db_attachNetworkToNode_def db_getVmsByNetwork_def
  db_getNetworksByVm_def db_isNetworkInUse_def db_getNetworkByNetIf_def db_getNetworkIdByName_def
  db_getNetworkCount_def db_getAllStorage_def db_getAllStorageFull_def db_getAllStorageByType_def
  db_getStorageHost_def db_getStorage_def db_removeStorage_def db_getNodesByStorage_def
  db_getStorageByNode_def db_defineStorage_def db_modifyStorage_def db_isStorageId_def
  db_isStorage_def db_addDisk_def db_disableDisk_def db_detachDisk_def db_modifyDisk_def
  db_removeDisk_def db_detachAllDisksByStorage_def db_getStorageControlModule_def
  db_setStorageControlModule_def db_detachStorageFromNode_def db_attachStorageToNode_def
  db_getVmsByStorage_def db_getStorageByVm_def db_isStorageInUse_def db_getStorageByDisk_def
  db_getStorageIdByName_def db_getAllStorageTypes_def db_isDiskByStorage_def db_getStorageCount_def
  db_defineNetwork_def db_modifyNetwork_def db_getAllNetworksFullSorted_def
  db_getAllNetworksSorted_def db_attachNetIf_def db_getAllStorageFullSorted_def
  db_getAllStorageSorted_def db_enableDisk_def db_attachDisk_def

text \<open>The requests whose text arguments are all quoted.\<close>

definition network_requests :: "dbreq set" where
  "network_requests =
     range (\<lambda>(offset, recordcount). db_getAllNetworksFull offset recordcount)
     \<union> range (\<lambda>(offset, recordcount). db_getAllNetworks offset recordcount)
     \<union> range (\<lambda>(ty, offset, recordcount). db_getAllNetworksByType ty offset recordcount)
     \<union> range db_getNetwork \<union> range db_getNetworkVlans \<union> range db_removeNetwork
     \<union> range db_getNodesByNetworkVlan \<union> range db_getNodesByNetwork
     \<union> range db_getNetworksByNode \<union> range db_isNetwork \<union> range db_isNetworkId
     \<union> range (\<lambda>(uuid, mac, nwid). db_detachNetIf uuid mac nwid)
     \<union> range (\<lambda>(uuid, mac). db_removeNetIf uuid mac)
     \<union> range db_detachAllNetIfsByNetwork \<union> range db_getNetworkControlModule
     \<union> range (\<lambda>(nwid, mid). db_setNetworkControlModule nwid mid)
     \<union> range (\<lambda>(uuid, nwid). db_detachNetworkFromNode uuid nwid)
     \<union> range (\<lambda>(uuid, nwid). db_attachNetworkToNode uuid nwid)
     \<union> range db_getVmsByNetwork \<union> range db_getNetworksByVm \<union> range db_isNetworkInUse
     \<union> range (\<lambda>(uuid, mac). db_getNetworkByNetIf uuid mac)
     \<union> range db_getNetworkIdByName \<union> {db_getNetworkCount}
     \<union> range (\<lambda>(offset, recordcount). db_getAllStorage offset recordcount)
     \<union> range (\<lambda>(offset, recordcount). db_getAllStorageFull offset recordcount)
     \<union> range (\<lambda>(ty, offset, recordcount). db_getAllStorageByType ty offset recordcount)
     \<union> range db_getStorageHost \<union> range db_getStorage \<union> range db_removeStorage
     \<union> range db_getNodesByStorage \<union> range db_getStorageByNode
     \<union> range db_defineStorage
     \<union> range (\<lambda>(ident, storage). db_modifyStorage ident storage)
     \<union> range db_isStorageId \<union> range db_isStorage
     \<union> range (\<lambda>(storid, disk). db_addDisk storid disk)
     \<union> range (\<lambda>(storid, path). db_disableDisk storid path)
     \<union> range (\<lambda>(storid, path). db_detachDisk storid path)
     \<union> range (\<lambda>(storid, path, disk). db_modifyDisk storid path disk)
     \<union> range (\<lambda>(storid, path). db_removeDisk storid path)
     \<union> range db_detachAllDisksByStorage \<union> range db_getStorageControlModule
     \<union> range (\<lambda>(storid, mid). db_setStorageControlModule storid mid)
     \<union> range (\<lambda>(uuid, storid). db_detachStorageFromNode uuid storid)
     \<union> range (\<lambda>(uuid, storid). db_attachStorageToNode uuid storid)
     \<union> range db_getVmsByStorage \<union> range db_getStorageByVm \<union> range db_isStorageInUse
     \<union> range (\<lambda>(uuid, path). db_getStorageByDisk uuid path)
     \<union> range db_getStorageIdByName \<union> {db_getAllStorageTypes}
     \<union> range (\<lambda>(storid, path). db_isDiskByStorage storid path)
     \<union> {db_getStorageCount} \<union> range db_defineNetwork
     \<union> range (\<lambda>(ident, net). db_modifyNetwork ident net)"

text \<open>The other well-formed requests: a name of a column or a clause is spliced in.\<close>

definition network_unquoted :: "dbreq set" where
  "network_unquoted =
     
     range (\<lambda>(sortfield, desc, offset, recordcount). db_getAllNetworksFullSorted sortfield desc offset recordcount)
     \<union> range (\<lambda>(sortfield, desc, offset, recordcount). db_getAllNetworksSorted sortfield desc offset recordcount)
     \<union> range (\<lambda>(uuid, mac, nwid). db_attachNetIf uuid mac nwid)
     \<union> range (\<lambda>(sortfield, desc, offset, recordcount). db_getAllStorageFullSorted sortfield desc offset recordcount)
     \<union> range (\<lambda>(sortfield, desc, offset, recordcount). db_getAllStorageSorted sortfield desc offset recordcount)
     \<union> range (\<lambda>(storid, path). db_enableDisk storid path)
     \<union> range (\<lambda>(storid, path). db_attachDisk storid path)"

lemma network_requests_ok_1:
  "range (\<lambda>(offset, recordcount). db_getAllNetworksFull offset recordcount)
     \<union> range (\<lambda>(offset, recordcount). db_getAllNetworks offset recordcount)
     \<union> range (\<lambda>(ty, offset, recordcount). db_getAllNetworksByType ty offset recordcount)
     \<union> range db_getNetwork \<union> range db_getNetworkVlans \<union> range db_removeNetwork
     \<union> range db_getNodesByNetworkVlan \<union> range db_getNodesByNetwork
     \<union> range db_getNetworksByNode \<union> range db_isNetwork \<union> range db_isNetworkId
     \<union> range (\<lambda>(uuid, mac, nwid). db_detachNetIf uuid mac nwid)
     \<subseteq> {r. req_ok r \<and> req_quoted r}"
  unfolding network_request_defs query_forms Let_def
  by (intro Un_least; clarsimp simp: req_evals simp del: req_ok.simps(2) req_quoted.simps(2) split: option.splits cong: req_weak_congs)

lemma network_requests_ok_2:
  "range (\<lambda>(uuid, mac). db_removeNetIf uuid mac) \<union> range db_detachAllNetIfsByNetwork
     \<union> range db_getNetworkControlModule
     \<union> range (\<lambda>(nwid, mid). db_setNetworkControlModule nwid mid)
     \<union> range (\<lambda>(uuid, nwid). db_detachNetworkFromNode uuid nwid)
     \<union> range (\<lambda>(uuid, nwid). db_attachNetworkToNode uuid nwid)
     \<union> range db_getVmsByNetwork \<union> range db_getNetworksByVm \<union> range db_isNetworkInUse
     \<union> range (\<lambda>(uuid, mac). db_getNetworkByNetIf uuid mac)
     \<union> range db_getNetworkIdByName \<union> {db_getNetworkCount}
     \<subseteq> {r. req_ok r \<and> req_quoted r}"
  unfolding network_request_defs query_forms Let_def
  by (intro Un_least; clarsimp simp: req_evals simp del: req_ok.simps(2) req_quoted.simps(2) split: option.splits cong: req_weak_congs)

lemma network_requests_ok_3:
  "range (\<lambda>(offset, recordcount). db_getAllStorage offset recordcount)
     \<union> range (\<lambda>(offset, recordcount). db_getAllStorageFull offset recordcount)
     \<union> range (\<lambda>(ty, offset, recordcount). db_getAllStorageByType ty offset recordcount)
     \<union> range db_getStorageHost \<union> range db_getStorage \<union> range db_removeStorage
     \<union> range db_getNodesByStorage \<union> range db_getStorageByNode
     \<union> range db_defineStorage
     \<union> range (\<lambda>(ident, storage). db_modifyStorage ident storage)
     \<union> range db_isStorageId \<union> range db_isStorage
     \<subseteq> {r. req_ok r \<and> req_quoted r}"
  unfolding network_request_defs query_forms Let_def
  by (intro Un_least; clarsimp simp: req_evals simp del: req_ok.simps(2) req_quoted.simps(2) split: option.splits cong: req_weak_congs)

lemma network_requests_ok_4:
  "range (\<lambda>(storid, disk). db_addDisk storid disk)
     \<union> range (\<lambda>(storid, path). db_disableDisk storid path)
     \<union> range (\<lambda>(storid, path). db_detachDisk storid path)
     \<union> range (\<lambda>(storid, path, disk). db_modifyDisk storid path disk)
     \<union> range (\<lambda>(storid, path). db_removeDisk storid path)
     \<union> range db_detachAllDisksByStorage \<union> range db_getStorageControlModule
     \<union> range (\<lambda>(storid, mid). db_setStorageControlModule storid mid)
     \<union> range (\<lambda>(uuid, storid). db_detachStorageFromNode uuid storid)
     \<union> range (\<lambda>(uuid, storid). db_attachStorageToNode uuid storid)
     \<union> range db_getVmsByStorage \<union> range db_getStorageByVm
     \<subseteq> {r. req_ok r \<and> req_quoted r}"
  unfolding network_request_defs query_forms Let_def
  by (intro Un_least; clarsimp simp: req_evals simp del: req_ok.simps(2) req_quoted.simps(2) split: option.splits cong: req_weak_congs)

lemma network_requests_ok_5:
  "range db_isStorageInUse \<union> range (\<lambda>(uuid, path). db_getStorageByDisk uuid path)
     \<union> range db_getStorageIdByName \<union> {db_getAllStorageTypes}
     \<union> range (\<lambda>(storid, path). db_isDiskByStorage storid path)
     \<union> {db_getStorageCount} \<union> range db_defineNetwork
     \<union> range (\<lambda>(ident, net). db_modifyNetwork ident net)
     \<subseteq> {r. req_ok r \<and> req_quoted r}"
  unfolding network_request_defs query_forms Let_def
  by (intro Un_least; clarsimp simp: req_evals simp del: req_ok.simps(2) req_quoted.simps(2) split: option.splits cong: req_weak_congs)

lemma network_requests_ok: "network_requests \<subseteq> {r. req_ok r \<and> req_quoted r}"
  unfolding network_requests_def
  using network_requests_ok_1 network_requests_ok_2 network_requests_ok_3 network_requests_ok_4 network_requests_ok_5
  by (simp only: Un_subset_iff simp_thms)

lemma network_unquoted_ok: "network_unquoted \<subseteq> {r. req_ok r}"
  unfolding network_unquoted_def network_request_defs query_forms Let_def
  by (intro Un_least; clarsimp simp: req_evals simp del: req_ok.simps(2) req_quoted.simps(2) split: option.splits cong: req_weak_congs)

end
