(* ===== verification/Sql_Node.thy ===== *)
theory Sql_Node
  imports SqlFmt
begin

text \<open>
  The queries on nodes: zrpcdb_node.c.
\<close>

subsection \<open>db_sources/mysql/zrpcdb_node.c\<close>

definition db_getNODEstat :: "cstr \<Rightarrow> cstr \<Rightarrow> dbreq" where
  "db_getNODEstat uuid stat = DbQuery (QSA
    (''SELECT `%s` FROM `nodestats` ''
     @ ''LEFT JOIN `nodes` ON nodes.id=nodestats.node ''
     @ ''WHERE nodes.uuid='%s' ''
     @ ''ORDER BY nodestats.timestamp DESC LIMIT 1'')
    [AS stat, AS uuid])"

definition db_getNODEattribute :: "cstr \<Rightarrow> cstr \<Rightarrow> dbreq" where
  "db_getNODEattribute uuid attribute = DbQuery (QSA
    (''SELECT `%s` FROM `nodeconfig` ''
     @ ''LEFT JOIN `nodes` ON nodes.id=nodeconfig.node ''
     @ ''WHERE nodes.uuid='%s' ''
     @ ''ORDER BY nodeconfig.timestamp DESC LIMIT 1'')
    [AS attribute, AS uuid])"

definition db_getLatestNodeStat :: "cstr \<Rightarrow> dbreq" where
  "db_getLatestNodeStat uuid = DbQuery (mk_query False None (Some (Row_esql T_NODE_STATS))
    (''SELECT * FROM nodes ''
     @ ''RIGHT JOIN nodestats ON nodes.id=nodestats.node ''
     @ ''WHERE nodestats.timestamp <= NOW() ''
     @ ''AND nodes.uuid='%s' ''
     @ ''ORDER BY nodestats.timestamp DESC LIMIT 1'')
    [AS uuid]
    (Some (Some (Row_free T_NODE_STATS))) None)"

definition db_getNodeAddress :: "cstr \<Rightarrow> dbreq" where
  "db_getNodeAddress uuid = DbQuery (QSA
    (''SELECT address FROM `nodeconfig` ''
     @ ''JOIN nodes ON nodeconfig.node=nodes.id ''
     @ ''WHERE nodes.uuid='%s' LIMIT 1'')
    [AS uuid])"

definition db_getNodeStats :: "cstr \<Rightarrow> int \<Rightarrow> int \<Rightarrow> int \<Rightarrow> int \<Rightarrow> dbreq" where
  "db_getNodeStats uuid start_epoch end_epoch max_events interval =
   DbQuery (mk_query False None (Some (Rows_esql T_NODE_STATS))
    (''SELECT * FROM nodes ''
     @ ''RIGHT JOIN nodestats ON nodes.id=nodestats.node ''
     @ ''WHERE nodestats.timestamp <= NOW() ''
     @ ''AND nodes.uuid='%s' ''
     @ ''AND nodestats.timestamp >= FROM_UNIXTIME('%d') ''
     @ ''AND nodestats.timestamp <= FROM_UNIXTIME('%d') ''
     @ ''ORDER BY nodestats.timestamp DESC LIMIT 0, %d'')
    [AS uuid, AI start_epoch, AI end_epoch,
         AI (if max_events < 1 \<or> 100 < max_events then 30 else max_events)]
    (Some (Some (Rows_free T_NODE_STATS))) None)"

definition db_updateNodeStats :: "cstr \<Rightarrow> node_stats \<Rightarrow> dbreq" where
  "db_updateNodeStats uuid stats = DbQuery (QE
    (''IF(''
     @ ''SELECT value FROM `config` WHERE `key`='stat_retention''
     @ squote
     @ '' AND `subsystem`='zrpc' AND `mid`='-1''
     @ squote
     @ '' AND `uid`='-1' AND `gid`='-1' AND `vgid`='-1''
     @ squote
     @ '' AND `ngid`='-1' AND `vm`='-1' AND `node`='-1''
     @ squote
     @ '' AND `platform`='-1''
     @ squote
     @ '', ''
     @ ''DELETE FROM `nodestats` where nodestats.timestamp < DATE_SUB(CURDATE(), INTERVAL (''
     @ ''SELECT value FROM `config` WHERE `key`='stat_retention''
     @ squote
     @ '' AND `subsystem`='zrpc' AND `mid`='-1''
     @ squote
     @ '' AND `uid`='-1' AND `gid`='-1' AND `vgid`='-1''
     @ squote
     @ '' AND `ngid`='-1' AND `vm`='-1' AND `node`='-1''
     @ squote
     @ '' AND `platform`='-1''
     @ squote
     @ '') HOUR) AND node=''
     @ ''(SELECT nodes.id FROM `nodes` WHERE nodes.uuid='%s')''
     @ '', ''
     @ ''DELETE FROM `nodestats` where nodestats.timestamp < DATE_SUB(CURDATE(), INTERVAL 31''
     @ '' HOUR) AND node=''
     @ ''(SELECT nodes.id FROM `nodes` WHERE nodes.uuid='%s')''
     @ '');''
     @ ''INSERT INTO `nodestats`''
     @ ''       (node, ''
     @ ''       iowait, loadavg, uptime, cpupct,''
     @ ''       intr, ctxts, num_procs, mem_free,''
     @ ''       mem_total, mem_shared, mem_buffered, swap_total,''
     @ ''       swap_free, total_phys_mem, free_phys_mem)''
     @ '' VALUES (''
     @ ''       (SELECT id FROM `nodes` WHERE uuid='%s' ORDER BY id DESC LIMIT 1),''
     @ ''       '%lf', '%s', '%lf', '%lf',''
     @ ''       '%d', '%d', '%d', '%d',''
     @ ''       '%d', '%d', '%d', '%d', '%d',''
     @ ''       '%lf', '%lf''
     @ squote
     @ '' );'')
    [AS uuid, AS uuid, AS uuid, AD (ns_iowait stats), AS (ns_loadavg stats), AD (ns_uptime stats),
         AD (ns_cpupct stats), AI (ns_intr stats), AI (ns_ctxts stats), AI (ns_num_procs stats),
         AI (ns_mem_free stats), AI (ns_mem_total stats), AI (ns_mem_shared stats),
         AI (ns_mem_buffered stats), AI (ns_swap_total stats), AI (ns_swap_free stats),
         AD (ns_total_phys_mem stats), AD (ns_free_phys_mem stats)])"

definition db_updateNodeConfig :: "node \<Rightarrow> dbreq" where
  "db_updateNodeConfig node = DbQuery (QE
    (''INSERT INTO `nodeconfig`''
     @ ''(node, revision, kernel, os, architecture, hostname, address, default_vnc_pass, ''
     @ ''domainname, platformver, platform, num_cpus, ''
     @ ''cores_per_socket, threads_per_core, num_cpu_nodes, sockets_per_node, ''
     @ ''cpu_mhz, total_phys_mem, hvm, ''
     @ ''platformfull, platformvendor, platformbuild, capabilities)''
     @ ''VALUES (''
     @ ''(SELECT id FROM `nodes` WHERE uuid='%s' ORDER BY id DESC LIMIT 1), ''
     @ ''((SELECT revision FROM `nodeconfig` ''
     @ ''RIGHT JOIN `nodes` ON nodeconfig.node=nodes.id ''
     @ ''WHERE nodes.uuid='node' ''
     @ ''ORDER BY nodeconfig.timestamp DESC LIMIT 1) + 1), ''
     @ '''%s', '%s', '%s', '%s', '%s', '%s', ''
     @ '''%s', '%s', '%s', '%d', ''
     @ '''%d', '%d', '%d', '%d', ''
     @ '''%lf', '%lf', '%d', ''
     @ '''%s', '%s', '%s', '%s''
     @ squote
     @ '')'')
    [AS (n_uuid node), AS (n_kernel node), AS (n_os node), AS (n_architecture node),
         AS (n_hostname node), AS (n_address node), AS (n_default_vnc_pass node),
         AS (n_domainname node), AS (n_platformver node), AS (n_platform node), AI (n_num_cpus node),
         AI (n_cores_per_socket node), AI (n_threads_per_core node), AI (n_num_cpu_nodes node),
         AI (n_sockets_per_node node), AD (n_cpu_mhz node), AD (n_total_phys_mem node),
         AI (of_bool (n_hvm node)), AS (n_platformfull node), AS (n_platformvendor node),
         AS (n_platformbuild node), AS (n_capabilities node)])"

definition db_getNodeControlModule :: "cstr \<Rightarrow> dbreq" where
  "db_getNodeControlModule uuid = DbQuery (QSA
    (''SELECT controlmodule FROM nodes WHERE uuid='%s''
     @ squote)
    [AS uuid])"

definition db_setNodeConfiguredHost :: "cstr \<Rightarrow> cstr \<Rightarrow> dbreq" where
  "db_setNodeConfiguredHost uuid host = DbQuery (QE
    (''UPDATE `nodes` SET `configuredhost`='%s' WHERE `uuid`='%s''
     @ squote)
    [AS host, AS uuid])"

definition db_getNodeConfiguredHost :: "cstr \<Rightarrow> dbreq" where
  "db_getNodeConfiguredHost uuid = DbQuery (QSA
    (''SELECT `configuredhost` FROM `nodes` WHERE `uuid`='%s''
     @ squote)
    [AS uuid])"

definition db_createNode :: "node \<Rightarrow> dbreq" where
  "db_createNode node = DbQuery (QE
    (''INSERT INTO `nodes` (`uuid`, `configuredhost`, `enabled`) ''
     @ ''VALUES ('%s', '%s', '%i')'')
    [AS (n_uuid node), AS (n_address node), AI (of_bool (n_enabled node))])"

definition db_setNodeStatus :: "cstr \<Rightarrow> bool \<Rightarrow> dbreq" where
  "db_setNodeStatus uuid enabled = DbQuery (QE
    (''UPDATE `nodes` SET enabled='%d' WHERE uuid='%s''
     @ squote)
    [AI (of_bool enabled), AS uuid])"

definition db_setNodeControlModuleByName :: "cstr \<Rightarrow> cstr \<Rightarrow> dbreq" where
  "db_setNodeControlModuleByName nodeuuid controlmodule = DbQuery (QE
    (''UPDATE `nodes` SET `controlmodule` = '%s' WHERE uuid='%s''
     @ squote)
    [AS controlmodule, AS nodeuuid])"

definition db_setNodeControlModule :: "cstr \<Rightarrow> int \<Rightarrow> dbreq" where
  "db_setNodeControlModule nodeuuid controlmodule = DbQuery (QE
    (''UPDATE `nodes` ''
     @ ''JOIN controlmodules ON nodes.controlmodule=controlmodules.name ''
     @ ''SET nodes.controlmodule=controlmodules.name ''
     @ ''WHERE controlmodules.id='%i' ''
     @ ''AND uuid='%s''
     @ squote)
    [AI controlmodule, AS nodeuuid])"

definition db_removeNode :: "cstr \<Rightarrow> dbreq" where
  "db_removeNode uuid = DbQuery (QE
    (''DELETE FROM `nodes` WHERE `uuid`='%s''
     @ squote)
    [AS uuid])"

definition db_isNodeEnabled :: "cstr \<Rightarrow> dbreq" where
  "db_isNodeEnabled uuid = DbQuery (QBA
    (''SELECT enabled from `nodes` where uuid='%s''
     @ squote)
    [AS uuid])"

definition db_getAllUnconfiguredNodes :: "int \<Rightarrow> int \<Rightarrow> dbreq" where
  "db_getAllUnconfiguredNodes offset recordcount = DbQuery
     (if offset < 0 \<or> recordcount < 0
      then QSSA (''SELECT uuid FROM `nodes` WHERE controlmodule = ''
         @ squote
         @ squote)
        []
      else QSSA (''SELECT uuid FROM `nodes` WHERE controlmodule = ''
         @ squote
         @ ''' LIMIT %d, %d'')
        [AI offset, AI recordcount])"

definition db_getAllUnconfiguredNodesByUID :: "int \<Rightarrow> int \<Rightarrow> int \<Rightarrow> dbreq" where
  "db_getAllUnconfiguredNodesByUID uid offset recordcount = DbQuery
     (if offset < 0 \<or> recordcount < 0
      then QSSA (''SELECT uuid FROM `nodes` ''
         @ ''JOIN ownershipnode ON ownershipnode.node=nodes.id ''
         @ ''WHERE ownershipnode.uid='%d' AND controlmodule = ''
         @ squote
         @ squote)
        [AI uid]
      else QSSA (''SELECT uuid FROM `nodes` ''
         @ ''JOIN ownershipnode ON ownershipnode.node=nodes.id ''
         @ ''WHERE ownershipnode.uid='%d' AND controlmodule = ''
         @ squote
         @ ''' ''
         @ ''LIMIT %d, %d'')
        [AI uid, AI offset, AI recordcount])"

definition db_getNodeConfiguredState :: "cstr \<Rightarrow> dbreq" where
  "db_getNodeConfiguredState uuid = DbQuery (mk_query False None (Some (Row_esql T_NODE))
    (''SELECT enabled, controlmodule, configuredhost AS address FROM `nodes` ''
     @ ''WHERE uuid='%s''
     @ squote)
    [AS uuid]
    (Some (Some (Row_free T_NODE))) None)"

definition db_isNode :: "cstr \<Rightarrow> dbreq" where
  "db_isNode uuid = DbQuery (QBA
    (''SELECT * from `nodes` where uuid='%s''
     @ squote)
    [AS uuid])"

definition db_getNodePlatform :: "cstr \<Rightarrow> dbreq" where
  "db_getNodePlatform uuid = DbQuery (QSA
    (''SELECT platform FROM `nodeconfig` ''
     @ ''JOIN nodes ON nodeconfig.node=nodes.id ''
     @ ''WHERE nodes.uuid='%s' ''
     @ ''ORDER BY revision DESC LIMIT 1'')
    [AS uuid])"

definition db_getNode :: "cstr \<Rightarrow> dbreq" where
  "db_getNode uuid = DbQuery (mk_query False None (Some (Row_esql T_NODE))
    (''SELECT * from nodeconfig ''
     @ ''LEFT JOIN nodes ON nodeconfig.node=nodes.id ''
     @ ''WHERE nodes.uuid='%s''
     @ squote
     @ ''ORDER BY nodeconfig.timestamp DESC LIMIT 1'')
    [AS uuid]
    (Some (Some (Row_free T_NODE))) None)"

definition db_getAllNodesFullRangeSorted :: "cstr \<Rightarrow> bool \<Rightarrow> int \<Rightarrow> int \<Rightarrow> dbreq" where
  "db_getAllNodesFullRangeSorted sortfield desc offset recordcount = DbQuery (mk_query False None (Some (Rows_esql T_NODE))
    (''SELECT * FROM `nodeconfig` ''
       @ ''LEFT JOIN nodes ON nodeconfig.node=nodes.id ''
       @ ''GROUP BY nodes.uuid ''
       @ ''ORDER BY `%s` %s %s'')
    [AS sortfield, AS (Some (desc_word desc)), AS (Some (limit_clause offset recordcount))] (Some (Some (Rows_free T_NODE))) None)"

definition db_getAllNodesFull :: "dbreq" where
  "db_getAllNodesFull = DbQuery (mk_query False None (Some (Rows_esql T_NODE))
    (''SELECT * from nodeconfig ''
     @ ''LEFT JOIN nodes ON nodeconfig.node=nodes.id ''
     @ ''GROUP BY nodes.uuid'')
    []
    (Some (Some (Rows_free T_NODE))) None)"

definition db_getNodeNameAndUuid :: "cstr \<Rightarrow> dbreq" where
  "db_getNodeNameAndUuid uuid = DbQuery (QSSA
    (''SELECT uuid, hostname from nodeconfig ''
     @ ''JOIN nodes ON nodeconfig.node=nodes.id ''
     @ ''WHERE nodes.uuid='%s' ''
     @ ''ORDER BY `timestamp` DESC LIMIT 1'')
    [AS uuid])"

definition db_getNodeName :: "cstr \<Rightarrow> dbreq" where
  "db_getNodeName uuid = DbQuery (QSA
    (''SELECT `hostname` from nodeconfig ''
     @ ''JOIN nodes ON nodeconfig.node=nodes.id ''
     @ ''WHERE nodes.uuid='%s' ''
     @ ''ORDER BY `timestamp` DESC LIMIT 1'')
    [AS uuid])"

definition db_getNodeByName :: "cstr \<Rightarrow> dbreq" where
  "db_getNodeByName nm = DbQuery (QSA
    (''SELECT uuid FROM nodes ''
     @ ''RIGHT JOIN nodeconfig ON nodeconfig.node=nodes.id ''
     @ ''WHERE nodeconfig.name='%s' ''
     @ ''ORDER BY nodeconfig.timestamp DESC LIMIT 1'')
    [AS nm])"

definition db_getAllNodes :: "int \<Rightarrow> int \<Rightarrow> int \<Rightarrow> dbreq" where
  "db_getAllNodes which offset recordcount = DbQuery
     (if which = 0 \<or> which = 1
      then QSSA ''SELECT uuid FROM `nodes` WHERE enabled=%i%s''
        [AI which, AS (Some (limit_clause offset recordcount))]
      else QSSA ''SELECT uuid FROM `nodes`%s''
        [AS (Some (limit_clause offset recordcount))])"

definition db_getAllNodesByUID :: "int \<Rightarrow> int \<Rightarrow> int \<Rightarrow> int \<Rightarrow> dbreq" where
  "db_getAllNodesByUID which uid offset recordcount = DbQuery
     (if which = 0 \<or> which = 1
      then QSSA (''SELECT uuid FROM `nodes` ''
         @ ''JOIN ownershipnode ON ownershipnode.node=nodes.id ''
         @ ''WHERE ownershipnode.uid='%d' AND enabled=%i%s'')
        [AI uid, AI which, AS (Some (limit_clause offset recordcount))]
      else QSSA ''SELECT uuid FROM `nodes` ''
        [
         AS (Some (''JOIN ownershipnode ON ownershipnode.node=nodes.id '' @ ''WHERE ownershipnode.uid='%d'%s'')),
         AI uid, AS (Some (limit_clause offset recordcount))])"

definition db_getAllNodesSorted :: "int \<Rightarrow> cstr \<Rightarrow> bool \<Rightarrow> int \<Rightarrow> int \<Rightarrow> dbreq" where
  "db_getAllNodesSorted which sortfield desc offset recordcount = DbQuery
     (if which = 0 \<or> which = 1
      then QSSA (''SELECT nodes.uuid FROM ''
         @ ''(SELECT node, revision, MAX(revision) AS m FROM nodeconfig GROUP BY node) AS xx ''
         @ ''INNER JOIN nodeconfig AS t ON t.node=xx.node AND t.revision = xx.m ''
         @ ''JOIN nodes ON nodes.id=t.node ''
         @ ''WHERE nodes.enabled='%i' ''
         @ ''GROUP BY t.node ''
         @ ''ORDER BY t.`%s` %s %s'')
        [AI which, AS sortfield, AS (Some (desc_word desc)), AS (Some (limit_clause offset recordcount))]
      else QSSA (''SELECT nodes.uuid FROM ''
         @ ''(SELECT node, revision, MAX(revision) AS m FROM nodeconfig GROUP BY node) AS xx ''
         @ ''INNER JOIN nodeconfig AS t ON t.node=xx.node AND t.revision = xx.m ''
         @ ''JOIN nodes ON nodes.id=t.node ''
         @ ''GROUP BY t.node ''
         @ ''ORDER BY t.`%s` %s %s'')
        [AS sortfield, AS (Some (desc_word desc)), AS (Some (limit_clause offset recordcount))])"

definition db_getAllNodesByUIDSorted :: "int \<Rightarrow> cstr \<Rightarrow> bool \<Rightarrow> int \<Rightarrow> int \<Rightarrow> int \<Rightarrow> dbreq" where
  "db_getAllNodesByUIDSorted which sortfield desc uid offset recordcount = DbQuery
     (if which = 0 \<or> which = 1
      then QSSA (''SELECT nodes.uuid FROM ''
         @ ''(SELECT node, revision, MAX(revision) AS m FROM nodeconfig GROUP BY node) AS xx ''
         @ ''INNER JOIN nodeconfig AS t ON t.node=xx.node AND t.revision = xx.m ''
         @ ''JOIN nodes ON nodes.id=t.node ''
         @ ''JOIN ownershipnode ON ownershipnode.node=nodes.id ''
         @ ''WHERE ownershipnode.uid='%d' AND nodes.enabled='%i' ''
         @ ''GROUP BY t.node ''
         @ ''ORDER BY t.`%s` %s %s'')
        [AI uid, AI which, AS sortfield, AS (Some (desc_word desc)),
         AS (Some (limit_clause offset recordcount))]
      else QSSA (''SELECT nodes.uuid FROM ''
         @ ''(SELECT node, revision, MAX(revision) AS m FROM nodeconfig GROUP BY node) AS xx ''
         @ ''INNER JOIN nodeconfig AS t ON t.node=xx.node AND t.revision = xx.m ''
         @ ''JOIN nodes ON nodes.id=t.node ''
         @ ''JOIN ownershipnode ON ownershipnode.node=nodes.id ''
         @ ''WHERE ownershipnode.uid='%d' ''
         @ ''GROUP BY t.node ''
         @ ''ORDER BY t.`%s` %s %s'')
        [AI uid, AS sortfield, AS (Some (desc_word desc)), AS (Some (limit_clause offset recordcount))])"

definition db_getNodeByHostname :: "cstr \<Rightarrow> dbreq" where
  "db_getNodeByHostname hostname = DbQuery (mk_query False None (Some (Row_esql T_NODE))
    (''SELECT * FROM nodes ''
     @ ''RIGHT JOIN nodeconfig ON nodes.id=nodeconfig.node ''
     @ ''WHERE nodeconfig.timestamp <= NOW() ''
     @ ''AND nodeconfig.hostname='%s' ''
     @ ''ORDER BY nodeconfig.timestamp DESC LIMIT 1'')
    [AS hostname]
    (Some (Some (Row_free T_NODE))) None)"

definition db_pruneNodeStats :: "cstr \<Rightarrow> dbreq" where
  "db_pruneNodeStats uuid = DbQuery (QE
    (''USING `nodestats` ''
     @ ''JOIN nodes ON nodestats.node=nodes.id ''
     @ ''WHERE timestamp < DATE_SUB(CURDATE(), ''
     @ ''WHERE timestamp < DATE_SUB(CURDATE(), ''
     @ ''INTERVAL IFNULL(''
     @ ''(SELECT value FROM `config` WHERE `key`='stat_retention''
     @ squote
     @ '' AND `subsystem`='zrpc' AND `mid`='-1''
     @ squote
     @ '' AND `uid`='-1' AND `gid`='-1' AND `vgid`='-1''
     @ squote
     @ '' AND `ngid`='-1' AND `vm`='-1' AND `node`='-1''
     @ squote
     @ '' AND `platform`='-1'), 31) HOUR) ''
     @ ''AND nodes.uuid='%s''
     @ squote)
    [AS uuid])"

definition db_getNodeLogs :: "cstr \<Rightarrow> dbreq" where
  "db_getNodeLogs uuid = DbQuery (mk_query False None (Some (Rows_esql T_LOG))
    (''SELECT timestamp, uid, severity, message FROM `nodelogs` ''
     @ ''JOIN nodes ON nodelogs.node=nodes.id ''
     @ ''WHERE nodes.uuid='%s' ''
     @ ''ORDER BY timestamp DESC'')
    [AS uuid]
    (Some (Some (Rows_free T_LOG))) None)"

definition db_getNodeDefaultVNCpass :: "cstr \<Rightarrow> dbreq" where
  "db_getNodeDefaultVNCpass uuid = DbQuery (QSA
    (''SELECT default_vnc_pass FROM `nodeconfig` ''
     @ ''JOIN nodes ON nodeconfig.node=nodes.id ''
     @ ''WHERE nodes.uuid='%s' LIMIT 1'')
    [AS uuid])"

definition db_getNodeHVM :: "cstr \<Rightarrow> dbreq" where
  "db_getNodeHVM uuid = DbQuery (QBA
    (''SELECT hvm FROM `nodeconfig` ''
     @ ''JOIN nodes ON nodeconfig.node=nodes.id ''
     @ ''WHERE nodes.uuid='%s' LIMIT 1'')
    [AS uuid])"

definition db_getNodeCount :: "dbreq" where
  "db_getNodeCount = DbQuery (QI
    ''SELECT COUNT(uuid) FROM `nodes`'')"

definition db_getNodeCountByUID :: "int \<Rightarrow> dbreq" where
  "db_getNodeCountByUID uid = DbQuery (QIA
    (''SELECT COUNT(uuid) FROM `nodes` ''
     @ ''JOIN ownershipnode ON ownershipvm.node=nodes.id ''
     @ ''WHERE ownershipnode.uid='%d''
     @ squote)
    [AI uid])"

text \<open>
  The first query of a chain: the callback looks at the answer and asks for the control
  module. The uuid waits in the context.
\<close>

definition db_isNodeEnabledAndConfigured :: "cstr \<Rightarrow> dbreq" where
  "db_isNodeEnabledAndConfigured uuid = DbQuery (mk_query True None (Some Esql_res_to_lli)
     (''SELECT enabled from `nodes` where uuid='%s'' @ squote)
     [AS uuid] None (Some Zrpcdb_node_cb_enc))"

definition db_nodeControlModuleSet :: "cstr \<Rightarrow> dbreq" where
  "db_nodeControlModuleSet uuid = DbQuery (mk_query True None (Some Esql_res_to_lli)
     (''SELECT id FROM `nodes` ''
      @ ''WHERE uuid='%s' ''
      @ ''AND controlmodule != '' @ squote @ squote)
     [AS uuid] None (Some Zrpcdb_node_cb_conf))"

subsection \<open>All requests of the module\<close>

lemmas node_request_defs = db_getLatestNodeStat_def db_getNodeAddress_def db_getNodeStats_def db_updateNodeStats_def
  db_updateNodeConfig_def db_getNodeControlModule_def db_setNodeConfiguredHost_def
  db_getNodeConfiguredHost_def db_createNode_def db_setNodeStatus_def
  db_setNodeControlModuleByName_def db_setNodeControlModule_def db_removeNode_def db_isNodeEnabled_def
  db_getAllUnconfiguredNodes_def db_getAllUnconfiguredNodesByUID_def db_getNodeConfiguredState_def
  db_isNode_def db_getNodePlatform_def db_getNode_def db_getAllNodesFull_def db_getNodeNameAndUuid_def
  db_getNodeName_def db_getNodeByName_def db_getNodeByHostname_def db_pruneNodeStats_def
  db_getNodeLogs_def db_getNodeDefaultVNCpass_def db_getNodeHVM_def db_getNodeCount_def
  db_getNodeCountByUID_def db_isNodeEnabledAndConfigured_def db_nodeControlModuleSet_def
  db_getNODEstat_def db_getNODEattribute_def db_getAllNodesFullRangeSorted_def db_getAllNodes_def
  db_getAllNodesSorted_def db_getAllNodesByUIDSorted_def

text \<open>The requests whose text arguments are all quoted.\<close>

definition node_requests :: "dbreq set" where
  "node_requests =
     range db_getLatestNodeStat \<union> range db_getNodeAddress
     \<union> range (\<lambda>(uuid, start_epoch, end_epoch, max_events, interval). db_getNodeStats uuid start_epoch end_epoch max_events interval)
     \<union> range (\<lambda>(uuid, stats). db_updateNodeStats uuid stats)
     \<union> range db_updateNodeConfig \<union> range db_getNodeControlModule
     \<union> range (\<lambda>(uuid, host). db_setNodeConfiguredHost uuid host)
     \<union> range db_getNodeConfiguredHost \<union> range db_createNode
     \<union> range (\<lambda>(uuid, enabled). db_setNodeStatus uuid enabled)
     \<union> range (\<lambda>(nodeuuid, controlmodule). db_setNodeControlModuleByName nodeuuid controlmodule)
     \<union> range (\<lambda>(nodeuuid, controlmodule). db_setNodeControlModule nodeuuid controlmodule)
     \<union> range db_removeNode \<union> range db_isNodeEnabled
     \<union> range (\<lambda>(offset, recordcount). db_getAllUnconfiguredNodes offset recordcount)
     \<union> range (\<lambda>(uid, offset, recordcount). db_getAllUnconfiguredNodesByUID uid offset recordcount)
     \<union> range db_getNodeConfiguredState \<union> range db_isNode \<union> range db_getNodePlatform
     \<union> range db_getNode \<union> {db_getAllNodesFull} \<union> range db_getNodeNameAndUuid
     \<union> range db_getNodeName \<union> range db_getNodeByName \<union> range db_getNodeByHostname
     \<union> range db_pruneNodeStats \<union> range db_getNodeLogs
     \<union> range db_getNodeDefaultVNCpass \<union> range db_getNodeHVM \<union> {db_getNodeCount}
     \<union> range db_getNodeCountByUID \<union> range db_isNodeEnabledAndConfigured
     \<union> range db_nodeControlModuleSet"

text \<open>The other well-formed requests: a name of a column or a clause is spliced in.\<close>

definition node_unquoted :: "dbreq set" where
  "node_unquoted =
     range (\<lambda>(uuid, stat). db_getNODEstat uuid stat)
     \<union> range (\<lambda>(uuid, attribute). db_getNODEattribute uuid attribute)
     \<union> range (\<lambda>(sortfield, desc, offset, recordcount). db_getAllNodesFullRangeSorted sortfield desc offset recordcount)
     \<union> range (\<lambda>(which, offset, recordcount). db_getAllNodes which offset recordcount)
     \<union> range (\<lambda>(which, sortfield, desc, offset, recordcount). db_getAllNodesSorted which sortfield desc offset recordcount)
     \<union> range (\<lambda>(which, sortfield, desc, uid, offset, recordcount). db_getAllNodesByUIDSorted which sortfield desc uid offset recordcount)"

lemma node_requests_ok_1:
  "range db_getLatestNodeStat \<union> range db_getNodeAddress
     \<union> range (\<lambda>(uuid, start_epoch, end_epoch, max_events, interval). db_getNodeStats uuid start_epoch end_epoch max_events interval)
     \<union> range (\<lambda>(uuid, stats). db_updateNodeStats uuid stats)
     \<union> range db_updateNodeConfig \<union> range db_getNodeControlModule
     \<union> range (\<lambda>(uuid, host). db_setNodeConfiguredHost uuid host)
     \<union> range db_getNodeConfiguredHost \<union> range db_createNode
     \<union> range (\<lambda>(uuid, enabled). db_setNodeStatus uuid enabled)
     \<union> range (\<lambda>(nodeuuid, controlmodule). db_setNodeControlModuleByName nodeuuid controlmodule)
     \<union> range (\<lambda>(nodeuuid, controlmodule). db_setNodeControlModule nodeuuid controlmodule)
     \<subseteq> {r. req_ok r \<and> req_quoted r}"
  unfolding node_request_defs query_forms Let_def
  by (intro Un_least; clarsimp simp: req_evals simp del: req_ok.simps(2) req_quoted.simps(2) split: option.splits cong: req_weak_congs)

lemma node_requests_ok_2:
  "range db_removeNode \<union> range db_isNodeEnabled
     \<union> range (\<lambda>(offset, recordcount). db_getAllUnconfiguredNodes offset recordcount)
     \<union> range (\<lambda>(uid, offset, recordcount). db_getAllUnconfiguredNodesByUID uid offset recordcount)
     \<union> range db_getNodeConfiguredState \<union> range db_isNode \<union> range db_getNodePlatform
     \<union> range db_getNode \<union> {db_getAllNodesFull} \<union> range db_getNodeNameAndUuid
     \<union> range db_getNodeName \<union> range db_getNodeByName
     \<subseteq> {r. req_ok r \<and> req_quoted r}"
  unfolding node_request_defs query_forms Let_def
  by (intro Un_least; clarsimp simp: req_evals simp del: req_ok.simps(2) req_quoted.simps(2) split: option.splits cong: req_weak_congs)

lemma node_requests_ok_3:
  "range db_getNodeByHostname \<union> range db_pruneNodeStats \<union> range db_getNodeLogs
     \<union> range db_getNodeDefaultVNCpass \<union> range db_getNodeHVM \<union> {db_getNodeCount}
     \<union> range db_getNodeCountByUID \<union> range db_isNodeEnabledAndConfigured
     \<union> range db_nodeControlModuleSet
     \<subseteq> {r. req_ok r \<and> req_quoted r}"
  unfolding node_request_defs query_forms Let_def
  by (intro Un_least; clarsimp simp: req_evals simp del: req_ok.simps(2) req_quoted.simps(2) split: option.splits cong: req_weak_congs)

lemma node_requests_ok: "node_requests \<subseteq> {r. req_ok r \<and> req_quoted r}"
  unfolding node_requests_def
  using node_requests_ok_1 node_requests_ok_2 node_requests_ok_3
  by (simp only: Un_subset_iff simp_thms)

lemma node_unquoted_ok: "node_unquoted \<subseteq> {r. req_ok r}"
  unfolding node_unquoted_def node_request_defs query_forms Let_def
  by (intro Un_least; clarsimp simp: req_evals simp del: req_ok.simps(2) req_quoted.simps(2) split: option.splits cong: req_weak_congs)

end
