(* ===== verification/Sql_Vm.thy ===== *)
theory Sql_Vm
  imports SqlFmt
begin

text \<open>
  The queries on virtual machines and templates: zrpcdb_vm.c.
\<close>

subsection \<open>db_sources/mysql/zrpcdb_vm.c\<close>

definition db_isVM :: "cstr \<Rightarrow> dbreq" where
  "db_isVM uuid = DbQuery (QIAB
    (''SELECT * from `vms` where uuid='%s''
     @ squote)
    [AS uuid])"

definition db_isVmIgnored :: "cstr \<Rightarrow> dbreq" where
  "db_isVmIgnored uuid = DbQuery (QBA
    (''SELECT `ignored` FROM `vms` WHERE `uuid`='%s''
     @ squote)
    [AS uuid])"

definition db_needsReboot :: "cstr \<Rightarrow> dbreq" where
  "db_needsReboot uuid = DbQuery (QBA
    (''SELECT needsreboot from `vms` where uuid='%s''
     @ squote)
    [AS uuid])"

definition db_setVmNeedsReboot :: "cstr \<Rightarrow> bool \<Rightarrow> dbreq" where
  "db_setVmNeedsReboot uuid needreboot = DbQuery (QE
    (''UPDATE vms SET needsreboot='%d' WHERE uuid='%s''
     @ squote)
    [AI (of_bool needreboot), AS uuid])"

definition db_getVMparentNode :: "cstr \<Rightarrow> dbreq" where
  "db_getVMparentNode uuid = DbQuery (QSA
    (''SELECT nodes.uuid FROM nodes ''
     @ ''JOIN nodechildren ON nodes.id=nodechildren.node ''
     @ ''JOIN vms ON nodechildren.vm=vms.id ''
     @ ''WHERE vms.uuid='%s''
     @ squote)
    [AS uuid])"

definition db_updateVMparentNode :: "cstr \<Rightarrow> cstr \<Rightarrow> dbreq" where
  "db_updateVMparentNode uuid puuid = DbQuery (QE
    (''REPLACE INTO `nodechildren` (vm, node) VALUES (''
     @ '' (SELECT id FROM `vms` WHERE uuid='%s' LIMIT 1),''
     @ '' (SELECT id FROM `nodes` WHERE uuid='%s' LIMIT 1)''
     @ '' )'')
    [AS uuid, AS puuid])"

definition db_createVM :: "cstr \<Rightarrow> dbreq" where
  "db_createVM uuid = DbQuery (QEE
    ''INSERT INTO `vms` (uuid, ignored, template) VALUES('%s', '0', '0')''
    [AS uuid])"

definition db_createVmTemplate :: "cstr \<Rightarrow> dbreq" where
  "db_createVmTemplate uuid = DbQuery (QEE
    ''INSERT INTO `vms` (uuid, ignored, template) VALUES('%s', '0', '1')''
    [AS uuid])"

definition db_saveVMrevision :: "cstr \<Rightarrow> int \<Rightarrow> cstr \<Rightarrow> cstr \<Rightarrow> dbreq" where
  "db_saveVMrevision uuid uid nm description = DbQuery (QE
    (''INSERT INTO `revisions` (vif, disk, vm, uuid, uid, name, description)''
     @ '' VALUES(''
     @ ''(''
     @ ''SELECT vifs.id FROM `vifs`, `vifconfig` WHERE''
     @ ''vifs.uuid='%s' AND''
     @ ''vifs.id=vifconfig.vif AND''
     @ ''vifconfig.mac = '%s''
     @ squote
     @ ''ORDER BY vifconfig.revision DESC LIMIT 1''
     @ ''),(''
     @ ''SELECT disks.id FROM `disks`, `diskconfig` WHERE''
     @ ''disks.uuid='%s' AND''
     @ ''disks.id=diskconfig.disk AND''
     @ ''diskconfig.mac = '%s''
     @ squote
     @ ''ORDER BY diskconfig.revision DESC LIMIT 1''
     @ ''), (''
     @ ''SELECT vms.id FROM `vms`, `vmconfig` WHERE''
     @ ''vms.uuid='%s' AND''
     @ ''vms.id=vmconfig.vm AND''
     @ ''vmconfig.mac = '%s''
     @ squote
     @ ''ORDER BY vmconfig.revision DESC LIMIT 1''
     @ ''),''
     @ '''%s', %d, '%s', '%s')'')
    [AS uuid, AS uuid, AS uuid, AS uuid, AI uid, AS nm, AS description])"

definition db_getVMsSorted :: "cstr \<Rightarrow> bool \<Rightarrow> int \<Rightarrow> int \<Rightarrow> dbreq" where
  "db_getVMsSorted sortfield desc offset recordcount = DbQuery (QISA (''SELECT vms.uuid FROM ''
         @ ''(SELECT vm, revision, MAX(revision) AS m FROM vmconfig GROUP BY vm) AS xx ''
         @ ''INNER JOIN vmconfig AS t ON t.vm=xx.vm AND t.revision = xx.m ''
         @ ''JOIN vms ON vms.id=t.vm ''
         @ ''WHERE vms.template=0 ''
         @ ''GROUP BY t.vm ''
         @ ''ORDER BY t.`%s` %s %s'')
        [AS sortfield, AS (Some (desc_word desc)), AS (Some (limit_clause offset recordcount))])"

definition db_getVMsByUIDSorted :: "int \<Rightarrow> cstr \<Rightarrow> bool \<Rightarrow> int \<Rightarrow> int \<Rightarrow> dbreq" where
  "db_getVMsByUIDSorted uid sortfield desc offset recordcount = DbQuery (QISA (''SELECT vms.uuid FROM `vms` ''
         @ ''RIGHT JOIN vmconfig ON vmconfig.vm=vms.id ''
         @ ''JOIN ownershipvm ON ownershipvm.vm=vms.id ''
         @ ''WHERE vms.template=0 AND ownershipvm.uid='%d' ''
         @ ''ORDER BY vmconfig.revision, `vmconfig`.`%s` %s %s'')
        [AI uid, AS sortfield, AS (Some (desc_word desc)), AS (Some (limit_clause offset recordcount))])"

definition db_getVMsByUID :: "int \<Rightarrow> int \<Rightarrow> int \<Rightarrow> dbreq" where
  "db_getVMsByUID uid offset recordcount = DbQuery
     (if offset < 0 \<or> recordcount < 0
      then QSSA (''SELECT uuid FROM vms JOIN ownershipvm ON ownershipvm.vm=vms.id''
         @ '' WHERE ownershipvm.uid='%d''
         @ squote)
        [AI uid]
      else QSSA (''SELECT uuid FROM vms JOIN ownershipvm ON ownershipvm.vm=vms.id''
         @ '' WHERE ownershipvm.uid='%d' LIMIT %d, %d'')
        [AI uid, AI offset, AI recordcount])"

definition db_pruneVmStats :: "cstr \<Rightarrow> dbreq" where
  "db_pruneVmStats uuid = DbQuery (QE
    (''USING `vmstats` ''
     @ ''JOIN vms ON vmstats.vm=vms.id ''
     @ ''WHERE vmstats.timestamp < DATE_SUB(CURDATE(), ''
     @ ''INTERVAL IFNULL(''
     @ ''(SELECT value FROM `config` WHERE `key`='stat_retention''
     @ squote
     @ '' AND `subsystem`='zrpc' AND `mid`='-1''
     @ squote
     @ '' AND `uid`='-1' AND `gid`='-1' AND `vgid`='-1''
     @ squote
     @ '' AND `ngid`='-1' AND `vm`='-1' AND `node`='-1''
     @ squote
     @ '' AND `platform`='-1'), 31) HOUR) ''
     @ ''AND vms.uuid='%s''
     @ squote)
    [AS uuid, AS uuid])"

definition db_setVmState :: "cstr \<Rightarrow> cstr \<Rightarrow> dbreq" where
  "db_setVmState uuid state = DbQuery (QE
    (''UPDATE vms SET state='%s', timestamp=NOW() WHERE uuid='%s''
     @ squote)
    [AS state, AS uuid])"

definition db_updateVmTimestamp :: "cstr \<Rightarrow> dbreq" where
  "db_updateVmTimestamp uuid = DbQuery (QE
    (''UPDATE vms SET timestamp=NOW() WHERE uuid='%s''
     @ squote)
    [AS uuid])"

definition db_updateVmStats :: "vm \<Rightarrow> dbreq" where
  "db_updateVmStats vm = DbQuery (QE
    (''INSERT INTO `vmstats` (vm, state, cputime, cpupct, ''
     @ '' domid, uptime)''
     @ '' VALUES (''
     @ ''(SELECT vms.id FROM `vms` WHERE vms.uuid='%s'),''
     @ ''       '%s', '%lf', '%lf', '%d', '%lf''
     @ squote
     @ '');'')
    [AS (v_uuid vm), AS (v_state vm), AD (v_cputime vm), AD (v_cpupct vm), AI (v_id vm),
         AD (v_uptime vm)])"

definition db_getTopCpuConsumers :: "int \<Rightarrow> int \<Rightarrow> dbreq" where
  "db_getTopCpuConsumers intervalminutes number = DbQuery (mk_query False None (Some Zrpcdb_vm_keyvalue)
    (''SELECT AVG(cpupct) AS `avg`, uuid from vmstats ''
     @ ''RIGHT JOIN vms ON vmstats.vm=vms.id ''
     @ ''WHERE timestamp > DATE_SUB(NOW(), INTERVAL %d MINUTE) ''
     @ ''GROUP BY `vm` ''
     @ ''ORDER BY `avg` DESC LIMIT %d'')
    [AI intervalminutes, AI number]
    None None)"

definition db_getTopBandwidthConsumers :: "int \<Rightarrow> int \<Rightarrow> dbreq" where
  "db_getTopBandwidthConsumers intervalminutes number = DbQuery (mk_query False None (Some Zrpcdb_vm_keyvalue)
    (''SELECT SUM(txbytes+rxbytes)/1024/1024 AS avg, vms.uuid from vifstats ''
     @ ''RIGHT JOIN vifs ON vifstats.vif=vifs.id ''
     @ ''RIGHT JOIN vms ON vifs.uuid=vms.uuid ''
     @ ''WHERE timestamp > DATE_SUB(NOW(), INTERVAL %d MINUTE) ''
     @ ''GROUP BY vifs.id ORDER BY bw DESC LIMIT %d'')
    [AI intervalminutes, AI number]
    None None)"

definition db_ignoreVm :: "cstr \<Rightarrow> dbreq" where
  "db_ignoreVm uuid = DbQuery (QE
    (''UPDATE `vms` SET ignored=1 WHERE uuid='%s''
     @ squote)
    [AS uuid])"

definition db_removeVm :: "cstr \<Rightarrow> dbreq" where
  "db_removeVm uuid = DbQuery (QE
    (''DELETE FROM vms, vmstats, vmconfig, revisions ''
     @ ''LEFT JOIN vmstats ON vms.id=vmstats.vm ''
     @ ''LEFT JOIN vmconfig ON vms.id=vmconfig.vm ''
     @ ''LEFT JOIN revisions ON vms.id=revisions.vm ''
     @ ''WHERE uuid='%s''
     @ squote)
    [AS uuid])"

definition db_updateVmConfig :: "vm \<Rightarrow> dbreq" where
  "db_updateVmConfig input = DbQuery (QE
    (''INSERT INTO `vmconfig`''
     @ ''  (vm, revision, name, type, os,''
     @ ''       kernel, ramdisk, cmdline, on_reboot,''
     @ ''       on_poweroff, on_crash, vncpasswd,''
     @ ''       mem, maxmem, vcpus, vncport)''
     @ '' VALUES (''
     @ ''       (SELECT id FROM `vms` WHERE uuid='%s' ORDER BY id DESC LIMIT 1),''
     @ ''((SELECT revision FROM vmconfig ''
     @ ''RIGHT JOIN vms ON vmconfig.vm=vms.id ''
     @ ''WHERE vms.uuid='%s' ''
     @ ''ORDER BY vmconfig.timestamp DESC LIMIT 1) + 1),''
     @ ''       '%s', '%s', '%s', '%s', '%s',''
     @ ''       '%s', '%s', '%s', '%s', '%s',''
     @ ''       '%d', '%d', '%d', '%d''
     @ squote
     @ '' )'')
    [AS (v_uuid input), AS (v_uuid input), AS (Some (v_name input)), AS (v_type input),
         AS (v_os input), AS (v_kernel input), AS (v_ramdisk input), AS (v_cmdline input),
         AS (v_on_reboot input), AS (v_on_poweroff input), AS (v_on_crash input),
         AS (v_vncpasswd input), AI (v_mem input), AI (v_maxmem input), AI (v_vcpus input),
         AI (v_vncport input)])"

definition db_getAllUsersByVm :: "cstr \<Rightarrow> dbreq" where
  "db_getAllUsersByVm uuid = DbQuery (QISA
    (''SELECT ownershipvm.uid FROM ownershipvm''
     @ '' RIGHT JOIN vms ON vms.id=ownershipvm.vm''
     @ '' WHERE vms.uuid='%s' ''
     @ ''GROUP BY ownershipvm.uid'')
    [AS uuid])"

definition db_getVMstat :: "cstr \<Rightarrow> cstr \<Rightarrow> dbreq" where
  "db_getVMstat uuid stat = DbQuery (QSA
    (''SELECT `%s` FROM `vmstats` LEFT JOIN `vms` ON vms.id=vmstats.vm''
     @ '' WHERE vms.uuid='%s' ORDER BY vmstats.timestamp DESC LIMIT 1'')
    [AS stat, AS uuid])"

definition db_getVMattribute :: "cstr \<Rightarrow> cstr \<Rightarrow> dbreq" where
  "db_getVMattribute uuid attribute = DbQuery (QSA
    (''SELECT `%s` FROM `vmconfig` LEFT JOIN `vms` ON vms.id=vmconfig.vm''
     @ '' WHERE vms.uuid='%s' ORDER BY vmconfig.timestamp DESC LIMIT 1'')
    [AS attribute, AS uuid])"

definition db_saveVmNotes :: "cstr \<Rightarrow> cstr \<Rightarrow> dbreq" where
  "db_saveVmNotes uuid notes = DbQuery (QE
    (''REPLACE INTO `vmnotes` (vm, notes) VALUES (''
     @ '' (SELECT `id` FROM `vms` WHERE uuid='%s'),''
     @ '' '%s')'')
    [AS uuid, AS notes])"

definition db_getVmNotes :: "cstr \<Rightarrow> dbreq" where
  "db_getVmNotes uuid = DbQuery (QSA
    (''SELECT `notes` FROM `vmnotes` RIGHT JOIN `vms` ON vmnotes.vm=vms.id''
     @ '' WHERE vms.uuid='%s''
     @ squote)
    [AS uuid])"

definition db_getVMparentAddress :: "cstr \<Rightarrow> dbreq" where
  "db_getVMparentAddress uuid = DbQuery (QSA
    (''SELECT `configuredhost` FROM `nodes` ''
     @ ''LEFT JOIN nodechildren ON nodes.id=nodechildren.node ''
     @ ''LEFT JOIN vms ON nodechildren.vm=vms.id ''
     @ ''WHERE vms.uuid='%s' LIMIT 1'')
    [AS uuid])"

definition db_getVmLogs :: "cstr \<Rightarrow> dbreq" where
  "db_getVmLogs uuid = DbQuery (mk_query False None (Some (Rows_esql T_LOG))
    (''SELECT timestamp, uid, severity, message FROM `vmlogs` ''
     @ ''LEFT JOIN vms ON vmlogs.vm=vms.id ''
     @ ''WHERE vms.uuid='%s' ''
     @ ''ORDER BY timestamp DESC'')
    [AS uuid]
    (Some (Some (Rows_free T_LOG))) None)"

definition db_getTemplateByName :: "cstr \<Rightarrow> dbreq" where
  "db_getTemplateByName nm = DbQuery (mk_query False None (Some (Row_esql T_TEMPLATE))
    (''SELECT * FROM `vmtemplates` WHERE name='%s''
     @ squote)
    [AS nm]
    (Some (Some (Row_free T_TEMPLATE))) None)"

definition db_getTemplate :: "int \<Rightarrow> dbreq" where
  "db_getTemplate ident = DbQuery (mk_query False None (Some (Row_esql T_TEMPLATE))
    (''SELECT * FROM `vmtemplates` WHERE id='%d''
     @ squote)
    [AI ident]
    (Some (Some (Row_free T_TEMPLATE))) None)"

definition db_getAllTemplates :: "dbreq" where
  "db_getAllTemplates = DbQuery (QIS
    ''SELECT id FROM `vmtemplates`'')"

definition db_getAllTemplatesFull :: "dbreq" where
  "db_getAllTemplatesFull = DbQuery (mk_query False None (Some (Rows_esql T_TEMPLATE))
    ''SELECT * FROM `vmtemplates`''
    []
    (Some (Some (Rows_free T_TEMPLATE))) None)"

definition db_getTemplateConfig :: "int \<Rightarrow> dbreq" where
  "db_getTemplateConfig ident = DbQuery (mk_query False None (Some (Row_esql T_VM))
    (''SELECT * FROM vms''
     @ '' RIGHT JOIN vmtemplates ON vmtemplates.uuid=vms.uuid''
     @ '' RIGHT JOIN vmconfig ON vms.id=vmconfig.vm''
     @ '' WHERE vmtemplates.id='%d''
     @ squote)
    [AI ident]
    (Some (Some (Row_free T_VM))) None)"

definition db_getTemplateConfigByName :: "cstr \<Rightarrow> dbreq" where
  "db_getTemplateConfigByName nm = DbQuery (mk_query False None (Some (Row_esql T_VM))
    (''SELECT * FROM vms''
     @ '' RIGHT JOIN vmtemplates ON vmtemplates.uuid=vms.uuid''
     @ '' RIGHT JOIN vmconfig ON vms.id=vmconfig.vm''
     @ '' WHERE vmtemplates.name='%s''
     @ squote)
    [AS nm]
    (Some (Some (Row_free T_VM))) None)"

definition db_modifyTemplate :: "int \<Rightarrow> template \<Rightarrow> dbreq" where
  "db_modifyTemplate ident template = DbQuery (QE
    (''UPDATE `vmtemplates`''
     @ '' SET name='%s', architecture='%s', description='%s', type='%s', uuid='%s', platform='%d''
     @ squote
     @ '' WHERE id='%d''
     @ squote)
    [AS (tp_name template), AS (tp_architecture template), AS (tp_description template),
         AS (tp_type template), AS (tp_uuid template), AI (tp_platform template), AI ident])"

definition db_addTemplate :: "template \<Rightarrow> dbreq" where
  "db_addTemplate template = DbQuery (QEJ
    (''INSERT INTO `vmtemplates`''
     @ '' (name, architecture, description, type, uuid, platform)''
     @ '' VALUES''
     @ '' ('%s', '%s', '%s', '%s', '%s', '%d')'')
    [AS (tp_name template), AS (tp_architecture template), AS (tp_description template),
         AS (tp_type template), AS (tp_uuid template), AI (tp_platform template)])"

definition db_hasGuestTools :: "cstr \<Rightarrow> dbreq" where
  "db_hasGuestTools uuid = DbQuery (QIAB
    (''SELECT zentifictools FROM `vms` WHERE uuid='%s''
     @ squote)
    [AS uuid])"

definition db_getAllVmsByNode :: "cstr \<Rightarrow> dbreq" where
  "db_getAllVmsByNode uuid = DbQuery (QSSA
    (''SELECT vms.uuid FROM vms RIGHT JOIN nodechildren ON nodechildren.vm=vms.id ''
     @ ''RIGHT JOIN nodes ON nodechildren.node=nodes.id ''
     @ ''WHERE nodes.uuid='%s' AND vms.template=0 ''
     @ ''GROUP BY vms.uuid'')
    [AS uuid])"

definition db_getAllVmsByNodeByUID :: "cstr \<Rightarrow> int \<Rightarrow> dbreq" where
  "db_getAllVmsByNodeByUID uuid uid = DbQuery (QSSA
    (''SELECT vms.uuid FROM vms RIGHT JOIN nodechildren ON nodechildren.vm=vms.id ''
     @ ''RIGHT JOIN nodes ON nodechildren.node=nodes.id ''
     @ ''RIGHT JOIN ownershipvm ON ownershipvm.vm=vms.id ''
     @ ''WHERE nodes.uuid='%s' AND vms.template='0' AND ownershipvm.uid='%d' '')
    [AS (Some (''GROUP BY vms.uuid'')), AS uuid, AI uid])"

definition db_getVmByName :: "cstr \<Rightarrow> dbreq" where
  "db_getVmByName nm = DbQuery (QSA
    (''SELECT uuid FROM vms RIGHT JOIN vmconfig ON vmconfig.vm=vms.id ''
     @ ''WHERE vmconfig.name='%s' ORDER BY vmconfig.revision DESC LIMIT 1'')
    [AS nm])"

definition db_getVMparentNodeAndAddress :: "cstr \<Rightarrow> dbreq" where
  "db_getVMparentNodeAndAddress uuid = DbQuery (QSSA
    (''SELECT nodes.uuid, configuredhost FROM nodes ''
     @ ''JOIN nodechildren ON nodes.id=nodechildren.node ''
     @ ''JOIN vms ON nodechildren.vm=vms.id ''
     @ ''WHERE vms.uuid='%s' ''
     @ ''ORDER BY vms.uuid ASC'')
    [AS uuid])"

definition db_getVmCount :: "dbreq" where
  "db_getVmCount = DbQuery (QI
    ''SELECT COUNT(uuid) FROM `vms` WHERE template=0'')"

definition db_getVmCountByUID :: "int \<Rightarrow> dbreq" where
  "db_getVmCountByUID uid = DbQuery (QIA
    (''SELECT COUNT(uuid) FROM `vms` ''
     @ ''JOIN ownershipvm ON ownershipvm.vm=vms.id ''
     @ ''WHERE ownershipvm.uid='%d' AND template=0'')
    [AI uid])"

text \<open>A machine is read by a chain of queries: its row, then its disks and interfaces.\<close>

definition db_getVM :: "cstr \<Rightarrow> dbreq" where
  "db_getVM uuid = DbQuery (mk_query False None (Some (Row_esql T_VM))
     (''SELECT vms.*, vmconfig.*, nodes.uuid AS puuid FROM vms ''
      @ ''RIGHT JOIN vmconfig ON vmconfig.vm=vms.id ''
      @ ''AND vmconfig.revision=''
      @ ''(SELECT revision FROM vmconfig LEFT JOIN vms ON vmconfig.vm=vms.id WHERE vms.uuid='%s' ORDER BY REVISION DESC LIMIT 1) ''
      @ ''LEFT JOIN nodechildren ON vms.id=nodechildren.vm ''
      @ ''LEFT JOIN nodes ON nodechildren.node=nodes.id ''
      @ ''WHERE vms.uuid='%s' ''
      @ ''LIMIT 1'')
     [AS uuid, AS uuid] (Some (Some (Row_free T_VM))) (Some (Zrpcdb_vm_stats (-1))))"

definition db_getVmByRev :: "cstr \<Rightarrow> int \<Rightarrow> dbreq" where
  "db_getVmByRev uuid revn = DbQuery (mk_query False None (Some (Row_esql T_VM))
     (''SELECT * FROM vms RIGHT JOIN vmconfig ON vmconfig.vm=vms.id''
      @ '' WHERE vms.uuid='%s' AND vmconfig.revision='%d'' @ squote
      @ '' ORDER BY vmconfig.revision DESC LIMIT 1'')
     [AS uuid, AI revn] (Some (Some (Row_free T_VM))) (Some (Zrpcdb_vm_stats revn)))"

text \<open>\<open>getVMs\<close> with \<open>getvms\<close>: pages only for non-negative bounds.\<close>

definition db_getVMs :: "int \<Rightarrow> int \<Rightarrow> dbreq" where
  "db_getVMs offset recordcount = DbQuery
     (if offset < 0 \<or> recordcount < 0
      then mk_query False None (Some Array_string_esql) ''SELECT uuid FROM `vms` WHERE template=0'' []
        (Some (Some Array_string_free)) (Some Zrpcdb_cb_ptr)
      else mk_query False None (Some Array_string_esql) ''SELECT uuid FROM `vms` WHERE template=0 LIMIT %d, %d''
        [AI offset, AI recordcount] (Some (Some Array_string_free)) (Some Zrpcdb_cb_ptr))"

subsection \<open>All requests of the module\<close>

lemmas vm_request_defs = db_isVM_def db_isVmIgnored_def db_needsReboot_def db_setVmNeedsReboot_def db_getVMparentNode_def
  db_updateVMparentNode_def db_createVM_def db_createVmTemplate_def db_getVMsByUID_def
  db_setVmState_def db_updateVmTimestamp_def db_updateVmStats_def db_getTopCpuConsumers_def
  db_getTopBandwidthConsumers_def db_ignoreVm_def db_removeVm_def db_updateVmConfig_def
  db_getAllUsersByVm_def db_saveVmNotes_def db_getVmNotes_def db_getVMparentAddress_def
  db_getVmLogs_def db_getTemplateByName_def db_getTemplate_def db_getAllTemplates_def
  db_getAllTemplatesFull_def db_getTemplateConfig_def db_getTemplateConfigByName_def
  db_modifyTemplate_def db_addTemplate_def db_hasGuestTools_def db_getAllVmsByNode_def
  db_getVmByName_def db_getVMparentNodeAndAddress_def db_getVmCount_def db_getVmCountByUID_def
  db_getVM_def db_getVmByRev_def db_getVMs_def db_getVMsSorted_def db_getVMsByUIDSorted_def
  db_getVMstat_def db_getVMattribute_def

text \<open>The requests whose text arguments are all quoted.\<close>

definition vm_requests :: "dbreq set" where
  "vm_requests =
     range db_isVM \<union> range db_isVmIgnored \<union> range db_needsReboot
     \<union> range (\<lambda>(uuid, needreboot). db_setVmNeedsReboot uuid needreboot)
     \<union> range db_getVMparentNode
     \<union> range (\<lambda>(uuid, puuid). db_updateVMparentNode uuid puuid) \<union> range db_createVM
     \<union> range db_createVmTemplate
     \<union> range (\<lambda>(uid, offset, recordcount). db_getVMsByUID uid offset recordcount)
     \<union> range (\<lambda>(uuid, state). db_setVmState uuid state)
     \<union> range db_updateVmTimestamp \<union> range db_updateVmStats
     \<union> range (\<lambda>(intervalminutes, number). db_getTopCpuConsumers intervalminutes number)
     \<union> range (\<lambda>(intervalminutes, number). db_getTopBandwidthConsumers intervalminutes number)
     \<union> range db_ignoreVm \<union> range db_removeVm \<union> range db_updateVmConfig
     \<union> range db_getAllUsersByVm \<union> range (\<lambda>(uuid, notes). db_saveVmNotes uuid notes)
     \<union> range db_getVmNotes \<union> range db_getVMparentAddress \<union> range db_getVmLogs
     \<union> range db_getTemplateByName \<union> range db_getTemplate \<union> {db_getAllTemplates}
     \<union> {db_getAllTemplatesFull} \<union> range db_getTemplateConfig
     \<union> range db_getTemplateConfigByName
     \<union> range (\<lambda>(ident, template). db_modifyTemplate ident template)
     \<union> range db_addTemplate \<union> range db_hasGuestTools \<union> range db_getAllVmsByNode
     \<union> range db_getVmByName \<union> range db_getVMparentNodeAndAddress \<union> {db_getVmCount}
     \<union> range db_getVmCountByUID \<union> range db_getVM
     \<union> range (\<lambda>(uuid, revn). db_getVmByRev uuid revn)
     \<union> range (\<lambda>(offset, recordcount). db_getVMs offset recordcount)"

text \<open>The other well-formed requests: a name of a column or a clause is spliced in.\<close>

definition vm_unquoted :: "dbreq set" where
  "vm_unquoted =
     
     range (\<lambda>(sortfield, desc, offset, recordcount). db_getVMsSorted sortfield desc offset recordcount)
     \<union> range (\<lambda>(uid, sortfield, desc, offset, recordcount). db_getVMsByUIDSorted uid sortfield desc offset recordcount)
     \<union> range (\<lambda>(uuid, stat). db_getVMstat uuid stat)
     \<union> range (\<lambda>(uuid, attribute). db_getVMattribute uuid attribute)"

lemma vm_requests_ok_1:
  "range db_isVM \<union> range db_isVmIgnored \<union> range db_needsReboot
     \<union> range (\<lambda>(uuid, needreboot). db_setVmNeedsReboot uuid needreboot)
     \<union> range db_getVMparentNode
     \<union> range (\<lambda>(uuid, puuid). db_updateVMparentNode uuid puuid) \<union> range db_createVM
     \<union> range db_createVmTemplate
     \<union> range (\<lambda>(uid, offset, recordcount). db_getVMsByUID uid offset recordcount)
     \<union> range (\<lambda>(uuid, state). db_setVmState uuid state)
     \<union> range db_updateVmTimestamp \<union> range db_updateVmStats
     \<subseteq> {r. req_ok r \<and> req_quoted r}"
  unfolding vm_request_defs query_forms Let_def
  by (intro Un_least; clarsimp simp: req_evals simp del: req_ok.simps(2) req_quoted.simps(2) split: option.splits cong: req_weak_congs)

lemma vm_requests_ok_2:
  "range (\<lambda>(intervalminutes, number). db_getTopCpuConsumers intervalminutes number)
     \<union> range (\<lambda>(intervalminutes, number). db_getTopBandwidthConsumers intervalminutes number)
     \<union> range db_ignoreVm \<union> range db_removeVm \<union> range db_updateVmConfig
     \<union> range db_getAllUsersByVm \<union> range (\<lambda>(uuid, notes). db_saveVmNotes uuid notes)
     \<union> range db_getVmNotes \<union> range db_getVMparentAddress \<union> range db_getVmLogs
     \<union> range db_getTemplateByName \<union> range db_getTemplate
     \<subseteq> {r. req_ok r \<and> req_quoted r}"
  unfolding vm_request_defs query_forms Let_def
  by (intro Un_least; clarsimp simp: req_evals simp del: req_ok.simps(2) req_quoted.simps(2) split: option.splits cong: req_weak_congs)

lemma vm_requests_ok_3:
  "{db_getAllTemplates} \<union> {db_getAllTemplatesFull} \<union> range db_getTemplateConfig
     \<union> range db_getTemplateConfigByName
     \<union> range (\<lambda>(ident, template). db_modifyTemplate ident template)
     \<union> range db_addTemplate \<union> range db_hasGuestTools \<union> range db_getAllVmsByNode
     \<union> range db_getVmByName \<union> range db_getVMparentNodeAndAddress \<union> {db_getVmCount}
     \<union> range db_getVmCountByUID
     \<subseteq> {r. req_ok r \<and> req_quoted r}"
  unfolding vm_request_defs query_forms Let_def
  by (intro Un_least; clarsimp simp: req_evals simp del: req_ok.simps(2) req_quoted.simps(2) split: option.splits cong: req_weak_congs)

lemma vm_requests_ok_4:
  "range db_getVM \<union> range (\<lambda>(uuid, revn). db_getVmByRev uuid revn)
     \<union> range (\<lambda>(offset, recordcount). db_getVMs offset recordcount)
     \<subseteq> {r. req_ok r \<and> req_quoted r}"
  unfolding vm_request_defs query_forms Let_def
  by (intro Un_least; clarsimp simp: req_evals simp del: req_ok.simps(2) req_quoted.simps(2) split: option.splits cong: req_weak_congs)

lemma vm_requests_ok: "vm_requests \<subseteq> {r. req_ok r \<and> req_quoted r}"
  unfolding vm_requests_def
  using vm_requests_ok_1 vm_requests_ok_2 vm_requests_ok_3 vm_requests_ok_4
  by (simp only: Un_subset_iff simp_thms)

lemma vm_unquoted_ok: "vm_unquoted \<subseteq> {r. req_ok r}"
  unfolding vm_unquoted_def vm_request_defs query_forms Let_def
  by (intro Un_least; clarsimp simp: req_evals simp del: req_ok.simps(2) req_quoted.simps(2) split: option.splits cong: req_weak_congs)

end
