(* ===== verification/Requests.thy ===== *)
theory Requests
  imports Sql_Session Sql_User Sql_Group Sql_Config Sql_Jobs Sql_Device Sql_Platform Sql_Network Sql_Node Sql_Vm
begin

text \<open>
  The requests of the whole database layer together: which of them are well formed, which
  keep their text arguments inside quoted literals, and which are broken.
\<close>

definition db_requests :: "dbreq set" where
  "db_requests =
     session_requests \<union> user_requests \<union> group_requests \<union> config_requests \<union> jobs_requests
     \<union> device_requests \<union> platform_requests \<union> network_requests \<union> node_requests \<union> vm_requests"

text \<open>
  The requests that splice the name of a column, of a table, of a sort field, or a clause
  into the statement; and the three that have a literal they do not close.
\<close>

definition db_spliced :: "dbreq set" where
  "db_spliced = user_unquoted \<union> group_unquoted \<union> config_unquoted \<union> jobs_unquoted
     \<union> network_unquoted \<union> node_unquoted \<union> vm_unquoted"

lemmas requests_ok = session_requests_ok user_requests_ok group_requests_ok config_requests_ok
  jobs_requests_ok device_requests_ok platform_requests_ok network_requests_ok node_requests_ok vm_requests_ok

lemmas unquoted_ok = user_unquoted_ok group_unquoted_ok config_unquoted_ok jobs_unquoted_ok
  network_unquoted_ok node_unquoted_ok vm_unquoted_ok

subsection \<open>Properties\<close>


lemma spliced_requests_match: "db_spliced \<subseteq> {r. req_ok r}"
  unfolding db_spliced_def using unquoted_ok by (simp only: Un_subset_iff simp_thms)

lemmas broken_defs = db_modifyUser_def db_pruneVmStats_def db_saveVMrevision_def db_getVMvifsByNetwork_def
  db_pruneNetIfStats_def db_getVMdisksByStorage_def
  db_addNetIf_def db_modifyNetIf_def db_getAllNodesByUID_def db_getAllVmsByNodeByUID_def

text \<open>
  C38: Ten requests never match their arguments with their formats, whatever the caller passes:
  modifying a user (eight conversions for seven arguments), pruning the statistics of
  machines and of network interfaces and listing the interfaces of a network (surplus
  arguments, so the network id is ignored), saving a revision (a wrong number of
  arguments), listing the disks of a machine by storage (an integer where a string is
  expected), adding and modifying a network interface and listing the machines of a node
  by owner (a stray comma cuts the format off and makes the rest of it an argument), and
  listing all the nodes of an owner, where the cut off rest is the clause that asks for
  the owner.
\<close>

theorem broken_requests:
  "\<not> req_ok (db_modifyUser uid u) \<and> \<not> req_ok (db_pruneVmStats uuid) \<and> \<not> req_ok (db_saveVMrevision uuid uid nm desc)
   \<and> \<not> req_ok (db_getVMvifsByNetwork nwid) \<and> \<not> req_ok (db_pruneNetIfStats uuid mac)
   \<and> \<not> req_ok (db_getVMdisksByStorage uuid storid) \<and> \<not> req_ok (db_addNetIf uuid vif)
   \<and> \<not> req_ok (db_modifyNetIf uuid mac vif) \<and> \<not> req_ok (db_getAllVmsByNodeByUID uuid uid)
   \<and> \<not> req_ok (db_getAllNodesByUID (-1) uid offset recordcount)"
  unfolding broken_defs query_forms Let_def
  by (intro conjI; simp add: req_evals del: req_ok.simps(2) req_quoted.simps(2) cong: req_weak_congs)

lemmas injectable_defs = db_getAllUsersSorted_def db_getAllUsersFullSorted_def db_getAllUserGroupsSorted_def
  db_getAllUserGroupsFullSorted_def db_attachNetIf_def db_enableDisk_def db_attachDisk_def
  db_getVMsSorted_def db_getVMsByUIDSorted_def db_getAllNodesSorted_def db_getAllNodesFullRangeSorted_def
  db_getAllNetworksSorted_def db_getAllStorageSorted_def


end
