(* ===== verification/Resource.thy ===== *)
theory Resource
  imports Session Sql_User Sql_Vm Sql_Node Sql_Network
begin

text \<open>
  The servlet functions of functions-vm.c and functions-node.c that make one query and
  return, with the two existence and ownership checks that look first.
\<close>

subsection \<open>src/servlets/functions/functions-vm.c\<close>

definition z_isVMowner :: "env \<Rightarrow> cstr \<Rightarrow> int \<Rightarrow> smod \<Rightarrow> bool \<times> smod" where
  "z_isVMowner e uuid uid m =
     CTX_RETURN (db_call e (db_isVMowner uuid uid) m)"

definition z_getAllUsersByVm :: "env \<Rightarrow> cstr \<Rightarrow> smod \<Rightarrow> bool \<times> smod" where
  "z_getAllUsersByVm e uuid m =
     CTX_RETURN (db_call e (db_getAllUsersByVm uuid) m)"

definition z_needsReboot :: "env \<Rightarrow> cstr \<Rightarrow> smod \<Rightarrow> bool \<times> smod" where
  "z_needsReboot e uuid m = CTX_RETURN (db_call e (db_needsReboot uuid) m)"

definition z_getVMparentNode :: "env \<Rightarrow> cstr \<Rightarrow> smod \<Rightarrow> bool \<times> smod" where
  "z_getVMparentNode e uuid m =
     CTX_RETURN (db_call e (db_getVMparentNode uuid) m)"

definition z_getVMparentAddress :: "env \<Rightarrow> cstr \<Rightarrow> smod \<Rightarrow> bool \<times> smod" where
  "z_getVMparentAddress e uuid m =
     CTX_RETURN (db_call e (db_getVMparentAddress uuid) m)"

definition z_saveVmNotes :: "env \<Rightarrow> cstr \<Rightarrow> cstr \<Rightarrow> smod \<Rightarrow> bool \<times> smod" where
  "z_saveVmNotes e uuid notes m =
     CTX_RETURN (db_call e (db_saveVmNotes uuid notes) m)"

definition z_getVmNotes :: "env \<Rightarrow> cstr \<Rightarrow> smod \<Rightarrow> bool \<times> smod" where
  "z_getVmNotes e uuid m = CTX_RETURN (db_call e (db_getVmNotes uuid) m)"

definition z_getVMstat :: "env \<Rightarrow> cstr \<Rightarrow> cstr \<Rightarrow> smod \<Rightarrow> bool \<times> smod" where
  "z_getVMstat e uuid stat m =
     CTX_RETURN (db_call e (db_getVMstat uuid stat) m)"

definition z_getVMattribute :: "env \<Rightarrow> cstr \<Rightarrow> cstr \<Rightarrow> smod \<Rightarrow> bool \<times> smod" where
  "z_getVMattribute e uuid attribute m =
     CTX_RETURN (db_call e (db_getVMattribute uuid attribute) m)"

definition z_saveVMrevision :: "env \<Rightarrow> cstr \<Rightarrow> int \<Rightarrow> cstr \<Rightarrow> cstr \<Rightarrow> smod \<Rightarrow> bool \<times> smod" where
  "z_saveVMrevision e uuid uid nm description m =
     CTX_RETURN (db_call e (db_saveVMrevision uuid uid nm description) m)"

definition z_getAllVmsByNode :: "env \<Rightarrow> cstr \<Rightarrow> smod \<Rightarrow> bool \<times> smod" where
  "z_getAllVmsByNode e uuid m =
     CTX_RETURN (db_call e (db_getAllVmsByNode uuid) m)"

definition z_getVmsByNetwork :: "env \<Rightarrow> int \<Rightarrow> smod \<Rightarrow> bool \<times> smod" where
  "z_getVmsByNetwork e nwid m =
     CTX_RETURN (db_call e (db_getVmsByNetwork nwid) m)"

definition z_getVmByName :: "env \<Rightarrow> cstr \<Rightarrow> smod \<Rightarrow> bool \<times> smod" where
  "z_getVmByName e nm m = CTX_RETURN (db_call e (db_getVmByName nm) m)"

definition z_isVmIgnored :: "env \<Rightarrow> cstr \<Rightarrow> smod \<Rightarrow> bool \<times> smod" where
  "z_isVmIgnored e uuid m = CTX_RETURN (db_call e (db_isVmIgnored uuid) m)"

definition z_getAllTemplates :: "env \<Rightarrow> smod \<Rightarrow> bool \<times> smod" where
  "z_getAllTemplates e m = CTX_RETURN (db_call e db_getAllTemplates m)"

definition z_getAllTemplatesFull :: "env \<Rightarrow> smod \<Rightarrow> bool \<times> smod" where
  "z_getAllTemplatesFull e m = CTX_RETURN (db_call e db_getAllTemplatesFull m)"

definition z_getTemplate :: "env \<Rightarrow> int \<Rightarrow> smod \<Rightarrow> bool \<times> smod" where
  "z_getTemplate e ident m = CTX_RETURN (db_call e (db_getTemplate ident) m)"

definition z_getTemplateByName :: "env \<Rightarrow> cstr \<Rightarrow> smod \<Rightarrow> bool \<times> smod" where
  "z_getTemplateByName e nm m =
     CTX_RETURN (db_call e (db_getTemplateByName nm) m)"

definition z_getTemplateConfigByName :: "env \<Rightarrow> cstr \<Rightarrow> smod \<Rightarrow> bool \<times> smod" where
  "z_getTemplateConfigByName e nm m =
     CTX_RETURN (db_call e (db_getTemplateConfigByName nm) m)"

definition z_getTemplateConfig :: "env \<Rightarrow> int \<Rightarrow> smod \<Rightarrow> bool \<times> smod" where
  "z_getTemplateConfig e ident m =
     CTX_RETURN (db_call e (db_getTemplateConfig ident) m)"

definition z_hasGuestTools :: "env \<Rightarrow> cstr \<Rightarrow> smod \<Rightarrow> bool \<times> smod" where
  "z_hasGuestTools e uuid m = CTX_RETURN (db_call e (db_hasGuestTools uuid) m)"

definition z_getTopNCpuConsumers :: "env \<Rightarrow> int \<Rightarrow> int \<Rightarrow> smod \<Rightarrow> bool \<times> smod" where
  "z_getTopNCpuConsumers e intervalminutes n m =
     CTX_RETURN (db_call e (db_getTopCpuConsumers intervalminutes n) m)"

definition z_getTopNBandwidthConsumers :: "env \<Rightarrow> int \<Rightarrow> int \<Rightarrow> smod \<Rightarrow> bool \<times> smod" where
  "z_getTopNBandwidthConsumers e intervalminutes n m =
     CTX_RETURN (db_call e (db_getTopBandwidthConsumers intervalminutes n) m)"

definition z_setVmNeedsReboot :: "env \<Rightarrow> cstr \<Rightarrow> bool \<Rightarrow> smod \<Rightarrow> bool \<times> smod" where
  "z_setVmNeedsReboot e uuid needreboot m =
     CTX_RETURN (db_call e (db_setVmNeedsReboot uuid needreboot) m)"

definition z_addTemplate :: "env \<Rightarrow> template \<Rightarrow> smod \<Rightarrow> bool \<times> smod" where
  "z_addTemplate e template m =
     CTX_RETURN (db_call e (db_addTemplate template) m)"

definition z_modifyTemplate :: "env \<Rightarrow> int \<Rightarrow> template \<Rightarrow> smod \<Rightarrow> bool \<times> smod" where
  "z_modifyTemplate e ident template m =
     CTX_RETURN (db_call e (db_modifyTemplate ident template) m)"

definition z_isVM :: "env \<Rightarrow> cstr \<Rightarrow> smod \<Rightarrow> bool \<times> smod" where
  "z_isVM e uuid m =
     CTX_RETURN (if \<not> zs_uuid e uuid then set_error INVALID_PARAMETER m else db_call e (db_isVM uuid) m)"

subsection \<open>src/servlets/functions/functions-node.c\<close>

definition z_getNODEstat :: "env \<Rightarrow> cstr \<Rightarrow> cstr \<Rightarrow> smod \<Rightarrow> bool \<times> smod" where
  "z_getNODEstat e uuid stat m =
     CTX_RETURN (db_call e (db_getNODEstat uuid stat) m)"

definition z_getNODEattribute :: "env \<Rightarrow> cstr \<Rightarrow> cstr \<Rightarrow> smod \<Rightarrow> bool \<times> smod" where
  "z_getNODEattribute e uuid attribute m =
     CTX_RETURN (db_call e (db_getNODEattribute uuid attribute) m)"

definition z_getNodeControlModule :: "env \<Rightarrow> cstr \<Rightarrow> smod \<Rightarrow> bool \<times> smod" where
  "z_getNodeControlModule e uuid m =
     CTX_RETURN (db_call e (db_getNodeControlModule uuid) m)"

definition z_isNodeEnabled :: "env \<Rightarrow> cstr \<Rightarrow> smod \<Rightarrow> bool \<times> smod" where
  "z_isNodeEnabled e uuid m = CTX_RETURN (db_call e (db_isNodeEnabled uuid) m)"

definition z_isNodeConfigured :: "env \<Rightarrow> cstr \<Rightarrow> smod \<Rightarrow> bool \<times> smod" where
  "z_isNodeConfigured e uuid m =
     CTX_RETURN (db_call e (db_getNodeControlModule uuid) m)"

definition z_getLatestNodeStat :: "env \<Rightarrow> cstr \<Rightarrow> smod \<Rightarrow> bool \<times> smod" where
  "z_getLatestNodeStat e uuid m =
     CTX_RETURN (db_call e (db_getLatestNodeStat uuid) m)"

definition z_removeNode :: "env \<Rightarrow> cstr \<Rightarrow> smod \<Rightarrow> bool \<times> smod" where
  "z_removeNode e uuid m = CTX_RETURN (db_call e (db_removeNode uuid) m)"

definition z_getNodePlatform :: "env \<Rightarrow> cstr \<Rightarrow> smod \<Rightarrow> bool \<times> smod" where
  "z_getNodePlatform e uuid m =
     CTX_RETURN (db_call e (db_getNodePlatform uuid) m)"

definition z_getNodeName :: "env \<Rightarrow> cstr \<Rightarrow> smod \<Rightarrow> bool \<times> smod" where
  "z_getNodeName e uuid m = CTX_RETURN (db_call e (db_getNodeName uuid) m)"

definition z_getNode :: "env \<Rightarrow> cstr \<Rightarrow> smod \<Rightarrow> bool \<times> smod" where
  "z_getNode e uuid m = CTX_RETURN (db_call e (db_getNode uuid) m)"

definition z_getAllNodesFull :: "env \<Rightarrow> smod \<Rightarrow> bool \<times> smod" where
  "z_getAllNodesFull e m = CTX_RETURN (db_call e db_getAllNodesFull m)"

definition z_getNodeByHostname :: "env \<Rightarrow> cstr \<Rightarrow> smod \<Rightarrow> bool \<times> smod" where
  "z_getNodeByHostname e hostname m =
     CTX_RETURN (db_call e (db_getNodeByHostname hostname) m)"

definition z_getNodeAddress :: "env \<Rightarrow> cstr \<Rightarrow> smod \<Rightarrow> bool \<times> smod" where
  "z_getNodeAddress e uuid m =
     CTX_RETURN (db_call e (db_getNodeAddress uuid) m)"

definition z_getNodeDefaultVncPass :: "env \<Rightarrow> cstr \<Rightarrow> smod \<Rightarrow> bool \<times> smod" where
  "z_getNodeDefaultVncPass e uuid m =
     CTX_RETURN (db_call e (db_getNodeDefaultVNCpass uuid) m)"

definition z_supportsHvm :: "env \<Rightarrow> cstr \<Rightarrow> smod \<Rightarrow> bool \<times> smod" where
  "z_supportsHvm e uuid m = CTX_RETURN (db_call e (db_getNodeHVM uuid) m)"

definition z_getNodeByName :: "env \<Rightarrow> cstr \<Rightarrow> smod \<Rightarrow> bool \<times> smod" where
  "z_getNodeByName e nm m = CTX_RETURN (db_call e (db_getNodeByName nm) m)"

definition z_getNodeHostname :: "env \<Rightarrow> cstr \<Rightarrow> smod \<Rightarrow> bool \<times> smod" where
  "z_getNodeHostname e uuid m =
     CTX_RETURN (db_call e (db_getNodeConfiguredHost uuid) m)"

definition z_getAllUnconfiguredNodes :: "env \<Rightarrow> int \<Rightarrow> int \<Rightarrow> smod \<Rightarrow> bool \<times> smod" where
  "z_getAllUnconfiguredNodes e offset recordcount m =
     CTX_RETURN (db_call e (db_getAllUnconfiguredNodes offset recordcount) m)"

definition z_getAllUnconfiguredNodesByUID :: "env \<Rightarrow> int \<Rightarrow> int \<Rightarrow> int \<Rightarrow> smod \<Rightarrow> bool \<times> smod" where
  "z_getAllUnconfiguredNodesByUID e uid offset recordcount m =
     CTX_RETURN (db_call e (db_getAllUnconfiguredNodesByUID uid offset recordcount) m)"

definition z_setNodeStatus :: "env \<Rightarrow> cstr \<Rightarrow> bool \<Rightarrow> smod \<Rightarrow> bool \<times> smod" where
  "z_setNodeStatus e uuid enabled m =
     CTX_RETURN (db_call e (db_setNodeStatus uuid enabled) m)"

definition z_isNODEowner :: "env \<Rightarrow> cstr \<Rightarrow> int \<Rightarrow> smod \<Rightarrow> bool \<times> smod" where
  "z_isNODEowner e uuid uid m =
     CTX_RETURN (if c_user_type m = 0 then db_call e (db_isNode uuid) m
                 else db_call e (db_isNODEowner uuid uid) m)"

definition z_isNODE :: "env \<Rightarrow> cstr \<Rightarrow> smod \<Rightarrow> bool \<times> smod" where
  "z_isNODE e uuid m =
     CTX_RETURN (if \<not> zs_uuid e uuid then set_error INVALID_PARAMETER m else db_call e (db_isNode uuid) m)"

text \<open>Whether a node is enabled and configured is asked by a chain of two queries.\<close>

definition isNodeEnabledAndConfigured :: "env \<Rightarrow> cstr \<Rightarrow> smod \<Rightarrow> smod" where
  "isNodeEnabledAndConfigured e uuid m =
     (let taken = esql_accepts e (m_qid m);
          m = db_call e (db_isNodeEnabledAndConfigured uuid) m
      in if taken then m\<lparr>c_retval := (case uuid of None \<Rightarrow> VNull | Some s \<Rightarrow> VStr s)\<rparr> else m)"

definition zrpcdb_node_cb_enc :: "env \<Rightarrow> esql_res \<Rightarrow> bool \<Rightarrow> smod \<Rightarrow> smod" where
  "zrpcdb_node_cb_enc e res enabled m =
     (if r_rows res = 0 then emit OEvError (set_error UNKNOWN_RESOURCE m)
      else if \<not> enabled then emit OEvError (set_error NODE_DISABLED m)
      else
        (let taken = esql_accepts e (m_qid m);
             m = db_call e (db_nodeControlModuleSet (as_str (c_retval m))) m
         in if taken then m else emit OEvError m))"

definition z_isNodeEnabledAndConfigured :: "env \<Rightarrow> cstr \<Rightarrow> smod \<Rightarrow> bool \<times> smod" where
  "z_isNodeEnabledAndConfigured e uuid m = CTX_RETURN (isNodeEnabledAndConfigured e uuid m)"

subsection \<open>src/servlets/functions/functions-log.c and functions-debug.c\<close>

definition z_getNodeLogs :: "env \<Rightarrow> cstr \<Rightarrow> smod \<Rightarrow> bool \<times> smod" where
  "z_getNodeLogs e uuid m = CTX_RETURN (db_call e (db_getNodeLogs uuid) m)"

definition z_getVmLogs :: "env \<Rightarrow> cstr \<Rightarrow> smod \<Rightarrow> bool \<times> smod" where
  "z_getVmLogs e uuid m = CTX_RETURN (db_call e (db_getVmLogs uuid) m)"

text \<open>The debugging calls are compiled as constants.\<close>

definition z_crashme :: int where "z_crashme = 1"

definition z_nonexist :: int where "z_nonexist = 1"

end
