(* ===== verification/Privs.thy ===== *)
theory Privs
  imports Resource
begin

text \<open>
  The checks a servlet method makes before it does anything (include/servlets.h): that
  the user is a superuser or a node, or that a resource exists and the user owns it.
\<close>

subsection \<open>The macros\<close>

text \<open>
  A check ends with the method refused, suspended until a query is answered, or run. The
  method itself is what the caller does with \<open>P_run\<close>.
\<close>

datatype priv_outcome = P_denied smod | P_wait smod | P_run smod

definition deny :: "smod \<Rightarrow> priv_outcome" where
  "deny m = P_denied (emit (OResume False) (fault_set NOT_AUTHORIZED m))"

definition CHECK_SUPER_PRIV :: "smod \<Rightarrow> priv_outcome" where
  "CHECK_SUPER_PRIV m = (if c_user_type m \<noteq> 0 then deny m else P_run m)"

definition CHECK_ZPOLL_PRIV :: "smod \<Rightarrow> priv_outcome" where
  "CHECK_ZPOLL_PRIV m =
     (if c_user_type m \<noteq> USER_TYPE_SUPER_USER \<and> c_user_type m \<noteq> USER_TYPE_NODE then deny m else P_run m)"

text \<open>
  \<open>exists\<close> and \<open>owner\<close> are \<open>_is##TYPE (ctx, uuid)\<close> and \<open>_is##TYPE##owner (ctx, uuid, uid)\<close>.
\<close>

definition CHECK_EXIST_AND_PRIVS :: "(smod \<Rightarrow> bool \<times> smod) \<Rightarrow> (int \<Rightarrow> smod \<Rightarrow> bool \<times> smod) \<Rightarrow> smod \<Rightarrow> priv_outcome" where
  "CHECK_EXIST_AND_PRIVS exists owner m =
     (let final = (\<lambda>m. if c_checked m \<or> c_auth m then (if \<not> c_auth m then deny m else P_run m) else P_wait m) in
      if \<not> c_checked m \<and> \<not> c_auth m then
        (if c_error m \<noteq> None then deny m
         else if c_user_type m = 0 then final (m\<lparr>c_auth := True, c_checked := True\<rparr>)
         else if c_count m = 0 then P_wait (CTX_CB_ADD (Core Cb_bool_rewind) (snd (exists m)))
         else
           (let m = snd (owner (s_uid (m_session m)) m);
                m = CTX_CB_ADD (Core Cb_auth_rewind) m
            in P_wait (m\<lparr>c_checked := True\<rparr>)))
      else final m)"

definition CHECK_EXIST_AND_PRIVS_VM :: "env \<Rightarrow> cstr \<Rightarrow> smod \<Rightarrow> priv_outcome" where
  "CHECK_EXIST_AND_PRIVS_VM e uuid = CHECK_EXIST_AND_PRIVS (z_isVM e uuid) (z_isVMowner e uuid)"

definition CHECK_EXIST_AND_PRIVS_NODE :: "env \<Rightarrow> cstr \<Rightarrow> smod \<Rightarrow> priv_outcome" where
  "CHECK_EXIST_AND_PRIVS_NODE e uuid = CHECK_EXIST_AND_PRIVS (z_isNODE e uuid) (z_isNODEowner e uuid)"

subsection \<open>The check as a state machine\<close>

text \<open>
  The method is run, its query is answered, the callback at the head of the chain is called
  with the answer and rewinds the call, and the method is run again. \<open>pending\<close> says that a
  result belongs to the query just made and that its callback is still registered.
\<close>

definition pending :: "esql_res \<Rightarrow> smod \<Rightarrow> bool" where
  "pending res m \<longleftrightarrow> Suc (r_qid res) = m_qid m \<and> m_db_cbs m (r_qid res) \<noteq> None"

fun priv_call :: "fname \<Rightarrow> val \<Rightarrow> smod \<Rightarrow> smod option" where
  "priv_call (Core Cb_bool_rewind) v m = Some (cb_bool_rewind v m)"
| "priv_call (Core Cb_auth_rewind) v m = Some (cb_auth_rewind v m)"
| "priv_call _ v m = None"

definition last_call :: "smod \<Rightarrow> (fname \<times> val) option" where
  "last_call m = (case rev (m_out m) of OCall f v # _ \<Rightarrow> Some (f, v) | _ \<Rightarrow> None)"

datatype priv_state = Ready smod | Waiting smod | Denied smod | Running smod

fun priv_method :: "priv_outcome \<Rightarrow> priv_state" where
  "priv_method (P_wait m) = Waiting m"
| "priv_method (P_denied m) = Denied m"
| "priv_method (P_run m) = Running m"

inductive priv_run :: "(smod \<Rightarrow> priv_outcome) \<Rightarrow> smod \<Rightarrow> esql_res list \<Rightarrow> priv_state \<Rightarrow> bool"
  for check :: "smod \<Rightarrow> priv_outcome" and m0 :: smod where
  start: "priv_run check m0 [] (Ready m0)"
| invoke: "priv_run check m0 rs (Ready m) \<Longrightarrow> priv_run check m0 rs (priv_method (check m))"
| answer: "priv_run check m0 rs (Waiting m) \<Longrightarrow> pending res m \<Longrightarrow> event_cb res m = m1
    \<Longrightarrow> last_call m1 = Some (f, v) \<Longrightarrow> priv_call f v m1 = Some m2 \<Longrightarrow> priv_run check m0 (rs @ [res]) (Ready m2)"

text \<open>
  What the check needs of the two functions it calls: each either makes its query, with a
  callback from \<open>ends\<close> registered for it, or fails with an error and leaves nothing pending.
\<close>

definition idle :: "smod \<Rightarrow> bool" where
  "idle m \<longleftrightarrow> (\<forall>n. m_qid m \<le> Suc n \<longrightarrow> m_db_cbs m n = None)"

definition awaiting :: "end_cb set \<Rightarrow> query \<Rightarrow> smod \<Rightarrow> bool" where
  "awaiting ends q m \<longleftrightarrow>
     (\<exists>n en. m_qid m = Suc n \<and> m_db_cbs m n = Some en \<and> en \<in> ends \<and> m_type_cbs m n \<noteq> None
       \<and> (\<forall>k. Suc n \<le> k \<longrightarrow> m_db_cbs m k = None) \<and> c_state m \<and> OQuery n q \<in> set (m_out m))"

definition same_call :: "smod \<Rightarrow> smod \<Rightarrow> bool" where
  "same_call m m' \<longleftrightarrow> c_checked m' = c_checked m \<and> c_auth m' = c_auth m \<and> c_count m' = c_count m
     \<and> c_user_type m' = c_user_type m \<and> c_cbs m' = c_cbs m \<and> c_dead m' = c_dead m
     \<and> m_session m' = m_session m \<and> set (m_out m) \<subseteq> set (m_out m')"

definition asks :: "end_cb set \<Rightarrow> query \<Rightarrow> smod \<Rightarrow> smod \<Rightarrow> bool" where
  "asks ends q m m' \<longleftrightarrow> same_call m m'
     \<and> (c_error m' = None \<and> awaiting ends q m' \<or> c_error m' \<noteq> None \<and> idle m')"

lemma run_query_asks:
  assumes "idle m" "c_error m = None" "q_state q" "q_end q = Some en" "en \<in> ends" "q_conv q \<noteq> None"
  shows "asks ends q m (snd (CTX_RETURN (run_query e q m)))"
  using assms
  by (auto simp: asks_def same_call_def idle_def awaiting_def run_query_def set_free_def CTX_RETURN_def emit_def
      set_error_def fault_set_def Let_def split: option.splits)

lemma error_asks:
  assumes "idle m"
  shows "asks ends q m (snd (CTX_RETURN (set_error x m)))"
  using assms by (auto simp: asks_def same_call_def idle_def set_error_def fault_set_def emit_def)

text \<open>What an answer to a pending query of the check does.\<close>

lemma answer_spec:
  assumes aw: "awaiting ends q m" and ends: "ends \<subseteq> {Zrpcdb_cb_bool, Zrpcdb_cb_int}"
    and m: "c_error m = None" "c_cbs m = [f]" "f \<noteq> F_NULL" and pend: "pending res m"
    and call: "last_call (event_cb res m) = Some (f', v)"
  shows "f' = f" "\<not> r_error res" "r_rows res \<le> 1" "same_call m (event_cb res m)" "idle (event_cb res m)"
    "c_error (event_cb res m) = None \<longleftrightarrow> r_rows res = 1"
    "ends = {Zrpcdb_cb_bool} \<Longrightarrow> v = VBool (r_rows res = 1)"
    "m_qid (event_cb res m) = m_qid m"
proof -
  obtain n en cv where n: "m_qid m = Suc n" "m_db_cbs m n = Some en" "en \<in> ends" "m_type_cbs m n = Some cv"
    "\<forall>k. Suc n \<le> k \<longrightarrow> m_db_cbs m k = None" "c_state m"
    using aw by (auto simp: awaiting_def)
  have qid: "r_qid res = n" using pend n by (simp add: pending_def)
  have ok: "\<not> r_error res" "\<not> 1 < r_rows res"
    using call by (auto simp: event_cb_def last_call_def emit_def set_error_def qid n Let_def split: if_splits)
  then show "\<not> r_error res" "r_rows res \<le> 1" by simp_all
  define m' where "m' = m\<lparr>c_state := False, m_db_cbs := (m_db_cbs m)(n := None)\<rparr>"
  have ev: "event_cb res m = end_call en res (r_conv res cv) m'"
    using ok n by (simp add: event_cb_def qid m'_def Let_def)
  have en: "en = Zrpcdb_cb_bool \<or> en = Zrpcdb_cb_int" using n(3) ends by auto
  let ?m2 = "if r_rows res = 0 then set_error UNKNOWN_RESOURCE m' else m'"
  have res: "\<exists>w. event_cb res m = emit (OCall f w) ?m2 \<and> (en = Zrpcdb_cb_bool \<longrightarrow> w = VBool (r_rows res = 1))"
    using en m ok(2) unfolding ev
    by (auto simp: end_call_def zrpcdb_cb_bool_def zrpcdb_cb_int_def ZRPCDB_HANDLE_RET_def m'_def set_error_def Let_def)
  then obtain w where w: "event_cb res m = emit (OCall f w) ?m2" "en = Zrpcdb_cb_bool \<longrightarrow> w = VBool (r_rows res = 1)"
    by blast
  show "f' = f" using call w(1) by (simp add: last_call_def emit_def)
  have "v = w" using call w(1) by (simp add: last_call_def emit_def)
  then show "ends = {Zrpcdb_cb_bool} \<Longrightarrow> v = VBool (r_rows res = 1)" using w(2) n(3) by simp
  show "same_call m (event_cb res m)" unfolding w(1)
    by (auto simp: same_call_def m'_def emit_def set_error_def)
  show "idle (event_cb res m)" unfolding w(1) using n
    by (auto simp: idle_def m'_def emit_def set_error_def)
  show "c_error (event_cb res m) = None \<longleftrightarrow> r_rows res = 1" unfolding w(1) using m ok
    by (auto simp: m'_def emit_def set_error_def)
  show "m_qid (event_cb res m) = m_qid m" unfolding w(1)
    by (simp add: m'_def emit_def set_error_def)
qed

lemma awaiting_pending: "awaiting ends q m \<Longrightarrow> m_qid m = Suc (r_qid res) \<Longrightarrow> pending res m"
  by (auto simp: awaiting_def pending_def)

text \<open>One answer of the database, as the step of the machine makes it.\<close>

definition priv_answer :: "esql_res \<Rightarrow> smod \<Rightarrow> smod option" where
  "priv_answer res m =
     (if pending res m then
        (case last_call (event_cb res m) of Some (f, v) \<Rightarrow> priv_call f v (event_cb res m) | None \<Rightarrow> None)
      else None)"

lemma priv_answer_step:
  "priv_run check m0 rs (Waiting m) \<Longrightarrow> priv_answer res m = Some m2 \<Longrightarrow> priv_run check m0 (rs @ [res]) (Ready m2)"
  by (auto simp: priv_answer_def split: if_splits option.splits intro: priv_run.answer)

definition one_row :: "nat \<Rightarrow> esql_res \<Rightarrow> bool" where
  "one_row n r \<longleftrightarrow> r_qid r = n \<and> \<not> r_error r \<and> r_rows r = 1"

lemma answer_call:
  assumes "awaiting ends q m" "ends \<subseteq> {Zrpcdb_cb_bool, Zrpcdb_cb_int}" "c_error m = None" "c_cbs m = [f]"
    "f \<noteq> F_NULL" "pending res m" "\<not> r_error res" "r_rows res = 1"
  shows "\<exists>w. last_call (event_cb res m) = Some (f, w)"
  using assms
  by (auto simp: awaiting_def pending_def event_cb_def end_call_def zrpcdb_cb_bool_def zrpcdb_cb_int_def
      ZRPCDB_HANDLE_RET_def last_call_def emit_def Let_def)

subsection \<open>The contract of an owned resource\<close>

text \<open>A method about to run for a user who is not a superuser.\<close>

definition fresh :: "smod \<Rightarrow> bool" where
  "fresh m \<longleftrightarrow> c_error m = None \<and> \<not> c_checked m \<and> \<not> c_auth m \<and> c_count m = 0 \<and> c_user_type m \<noteq> 0
     \<and> \<not> c_dead m \<and> c_cbs m = [] \<and> idle m"

locale owned_resource =
  fixes exists :: "smod \<Rightarrow> bool \<times> smod" and owner :: "int \<Rightarrow> smod \<Rightarrow> bool \<times> smod"
    and exists_query :: query and owner_query :: "int \<Rightarrow> query"
  assumes exists_asks: "idle m \<Longrightarrow> c_error m = None \<Longrightarrow>
      asks {Zrpcdb_cb_bool, Zrpcdb_cb_int} exists_query m (snd (exists m))"
    and owner_asks: "idle m \<Longrightarrow> c_error m = None \<Longrightarrow> c_user_type m \<noteq> 0 \<Longrightarrow>
      asks {Zrpcdb_cb_bool} (owner_query uid) m (snd (owner uid m))"
begin

abbreviation check :: "smod \<Rightarrow> priv_outcome" where
  "check \<equiv> CHECK_EXIST_AND_PRIVS exists owner"

definition first_wait :: "smod \<Rightarrow> smod \<Rightarrow> bool" where
  "first_wait m0 m \<longleftrightarrow> \<not> c_checked m \<and> \<not> c_auth m \<and> c_count m = 0 \<and> c_user_type m \<noteq> 0 \<and> \<not> c_dead m
     \<and> m_session m = m_session m0
     \<and> (c_error m = None \<and> awaiting {Zrpcdb_cb_bool, Zrpcdb_cb_int} exists_query m \<and> c_cbs m = [Core Cb_bool_rewind]
        \<or> c_error m \<noteq> None \<and> idle m)"

definition exists_found :: "esql_res \<Rightarrow> smod \<Rightarrow> bool" where
  "exists_found r m \<longleftrightarrow> \<not> r_error r \<and> r_rows r = 1 \<and> (\<exists>n. OQuery n exists_query \<in> set (m_out m))"

definition second_ready :: "smod \<Rightarrow> esql_res \<Rightarrow> smod \<Rightarrow> bool" where
  "second_ready m0 r m \<longleftrightarrow> \<not> c_checked m \<and> \<not> c_auth m \<and> c_count m = 1 \<and> c_user_type m \<noteq> 0 \<and> \<not> c_dead m
     \<and> m_session m = m_session m0 \<and> c_cbs m = [] \<and> idle m \<and> (c_error m = None \<longrightarrow> exists_found r m)"

definition second_wait :: "smod \<Rightarrow> esql_res \<Rightarrow> smod \<Rightarrow> bool" where
  "second_wait m0 r m \<longleftrightarrow> c_checked m \<and> \<not> c_auth m \<and> \<not> c_dead m \<and> exists_found r m
     \<and> (c_error m = None \<and> awaiting {Zrpcdb_cb_bool} (owner_query (s_uid (m_session m0))) m \<and> c_cbs m = [Core Cb_auth_rewind]
        \<or> c_error m \<noteq> None \<and> idle m)"

definition owner_found :: "smod \<Rightarrow> esql_res \<Rightarrow> smod \<Rightarrow> bool" where
  "owner_found m0 r m \<longleftrightarrow> \<not> r_error r \<and> r_rows r = 1
     \<and> (\<exists>n. OQuery n (owner_query (s_uid (m_session m0))) \<in> set (m_out m))"

definition third_ready :: "smod \<Rightarrow> esql_res \<Rightarrow> esql_res \<Rightarrow> smod \<Rightarrow> bool" where
  "third_ready m0 r1 r2 m \<longleftrightarrow> c_checked m \<and> exists_found r1 m \<and> (c_auth m \<longrightarrow> owner_found m0 r2 m)"

lemma idle_not_pending: "idle m \<Longrightarrow> \<not> pending res m"
  by (auto simp: idle_def pending_def)

lemma first_step: "fresh m0 \<Longrightarrow> \<exists>m. check m0 = P_wait m \<and> first_wait m0 m
    \<and> c_error m = c_error (snd (exists m0)) \<and> m_qid m = m_qid (snd (exists m0))"
  using exists_asks [of m0]
  by (auto simp: fresh_def CHECK_EXIST_AND_PRIVS_def Let_def first_wait_def asks_def same_call_def CTX_CB_ADD_def
      awaiting_def idle_def)

lemma first_answer:
  assumes w: "first_wait m0 m" and p: "pending res m" and call: "last_call (event_cb res m) = Some (f, v)"
    and cb: "priv_call f v (event_cb res m) = Some m2"
  shows "second_ready m0 res m2"
proof -
  have m: "c_error m = None" "awaiting {Zrpcdb_cb_bool, Zrpcdb_cb_int} exists_query m" "c_cbs m = [Core Cb_bool_rewind]"
    using w p idle_not_pending by (auto simp: first_wait_def)
  note a = answer_spec [OF m(2) subset_refl m(1,3) _ p call, simplified]
  have m2: "m2 = cb_bool_rewind v (event_cb res m)" using cb a(1) by simp
  have found: "c_error (event_cb res m) = None \<longrightarrow> exists_found res (event_cb res m)"
    using a m(2) by (auto simp: exists_found_def awaiting_def same_call_def)
  show ?thesis
    using a w m found unfolding m2
    by (auto simp: second_ready_def first_wait_def same_call_def cb_bool_rewind_def MARK_CB_def count_inc_def
        REWIND_def emit_def exists_found_def idle_def Let_def)
qed

lemma second_step:
  assumes "second_ready m0 r m"
  shows "(\<exists>m'. check m = P_denied m') \<or> (\<exists>m'. check m = P_wait m' \<and> second_wait m0 r m')"
proof (cases "c_error m = None")
  case False
  then show ?thesis using assms
    by (auto simp: second_ready_def CHECK_EXIST_AND_PRIVS_def Let_def deny_def)
next
  case True
  have "asks {Zrpcdb_cb_bool} (owner_query (s_uid (m_session m))) m (snd (owner (s_uid (m_session m)) m))"
    using assms True by (intro owner_asks) (auto simp: second_ready_def)
  then show ?thesis using assms True
    by (auto simp: second_ready_def CHECK_EXIST_AND_PRIVS_def Let_def second_wait_def asks_def same_call_def
        CTX_CB_ADD_def exists_found_def awaiting_def idle_def)
qed

lemma second_step_wait:
  assumes "second_ready m0 r m" "c_error m = None"
  shows "\<exists>m'. check m = P_wait m' \<and> second_wait m0 r m'
    \<and> c_error m' = c_error (snd (owner (s_uid (m_session m)) m)) \<and> m_qid m' = m_qid (snd (owner (s_uid (m_session m)) m))"
  using second_step [OF assms(1)] assms
  by (auto simp: second_ready_def CHECK_EXIST_AND_PRIVS_def Let_def deny_def CTX_CB_ADD_def)

lemma second_answer:
  assumes w: "second_wait m0 r1 m" and p: "pending res m" and call: "last_call (event_cb res m) = Some (f, v)"
    and cb: "priv_call f v (event_cb res m) = Some m2"
  shows "third_ready m0 r1 res m2"
proof -
  have m: "c_error m = None" "awaiting {Zrpcdb_cb_bool} (owner_query (s_uid (m_session m0))) m"
    "c_cbs m = [Core Cb_auth_rewind]"
    using w p idle_not_pending by (auto simp: second_wait_def)
  note a = answer_spec [OF m(2) _ m(1,3) _ p call, simplified]
  have m2: "m2 = cb_auth_rewind v (event_cb res m)" using cb a(1) by simp
  show ?thesis
    using a w m unfolding m2
    by (auto simp: third_ready_def second_wait_def same_call_def cb_auth_rewind_def MARK_CB_def
        REWIND_def emit_def exists_found_def owner_found_def awaiting_def Let_def)
qed

lemma third_step:
  assumes "third_ready m0 r1 r2 m"
  shows "(\<exists>m'. check m = P_denied m') \<or> check m = P_run m \<and> exists_found r1 m \<and> owner_found m0 r2 m"
  using assms by (auto simp: third_ready_def CHECK_EXIST_AND_PRIVS_def Let_def deny_def)

lemma first_answer_found:
  assumes w: "first_wait m0 m" "c_error m = None" and p: "pending res m" "\<not> r_error res" "r_rows res = 1"
  shows "\<exists>m2. priv_answer res m = Some m2 \<and> second_ready m0 res m2 \<and> c_error m2 = None \<and> m_qid m2 = m_qid m"
proof -
  have m: "awaiting {Zrpcdb_cb_bool, Zrpcdb_cb_int} exists_query m" "c_cbs m = [Core Cb_bool_rewind]"
    using w by (auto simp: first_wait_def)
  then obtain v where call: "last_call (event_cb res m) = Some (Core Cb_bool_rewind, v)"
    using answer_call [OF m(1) subset_refl w(2) m(2) _ p] by auto
  then have "priv_answer res m = Some (cb_bool_rewind v (event_cb res m))"
    using p by (simp add: priv_answer_def)
  moreover have "second_ready m0 res (cb_bool_rewind v (event_cb res m))"
    using first_answer [OF w(1) p(1) call] by simp
  moreover have "c_error (event_cb res m) = None" "m_qid (event_cb res m) = m_qid m"
    using answer_spec [OF m(1) subset_refl w(2) m(2) _ p(1) call] p(3) by simp_all
  ultimately show ?thesis
    by (auto simp: cb_bool_rewind_def MARK_CB_def count_inc_def REWIND_def emit_def Let_def)
qed

lemma second_answer_found:
  assumes w: "second_wait m0 r1 m" "c_error m = None" and p: "pending res m" "\<not> r_error res" "r_rows res = 1"
  shows "\<exists>m2. priv_answer res m = Some m2 \<and> third_ready m0 r1 res m2 \<and> c_auth m2"
proof -
  have m: "awaiting {Zrpcdb_cb_bool} (owner_query (s_uid (m_session m0))) m" "c_cbs m = [Core Cb_auth_rewind]" "\<not> c_dead m"
    using w by (auto simp: second_wait_def)
  then obtain v where call: "last_call (event_cb res m) = Some (Core Cb_auth_rewind, v)"
    using answer_call [OF m(1) _ w(2) m(2) _ p] by auto
  then have "priv_answer res m = Some (cb_auth_rewind v (event_cb res m))"
    using p by (simp add: priv_answer_def)
  moreover have "third_ready m0 r1 res (cb_auth_rewind v (event_cb res m))"
    using second_answer [OF w(1) p(1) call] by simp
  moreover have "c_error (event_cb res m) = None" "v = VBool True" "\<not> c_dead (event_cb res m)"
    using answer_spec [OF m(1) _ w(2) m(2) _ p(1) call] p(3) m(3) by (auto simp: same_call_def)
  ultimately show ?thesis
    by (auto simp: cb_auth_rewind_def MARK_CB_def REWIND_def emit_def Let_def)
qed

text \<open>
  A user for whom both queries find a row gets through; \<open>accepted\<close> says that the database
  client took the two queries and their results are the next two.
\<close>

definition accepted :: "smod \<Rightarrow> esql_res \<Rightarrow> esql_res \<Rightarrow> bool" where
  "accepted m0 r1 r2 \<longleftrightarrow>
     c_error (snd (exists m0)) = None \<and> m_qid (snd (exists m0)) = Suc (r_qid r1)
     \<and> (\<forall>m. m_qid m = Suc (r_qid r1) \<longrightarrow> c_error m = None \<longrightarrow>
          c_error (snd (owner (s_uid (m_session m)) m)) = None \<and> m_qid (snd (owner (s_uid (m_session m)) m)) = Suc (r_qid r2))"

lemma owner_gets_through:
  assumes "fresh m0" "accepted m0 r1 r2" "\<not> r_error r1" "r_rows r1 = 1" "\<not> r_error r2" "r_rows r2 = 1"
  shows "\<exists>m. priv_run check m0 [r1, r2] (Running m)"
proof -
  obtain m1 where m1: "check m0 = P_wait m1" "first_wait m0 m1" "c_error m1 = None" "m_qid m1 = Suc (r_qid r1)"
    using first_step [OF assms(1)] assms(2) by (auto simp: accepted_def)
  have "pending r1 m1" using m1 by (intro awaiting_pending) (auto simp: first_wait_def)
  then obtain m2 where m2: "priv_answer r1 m1 = Some m2" "second_ready m0 r1 m2" "c_error m2 = None" "m_qid m2 = Suc (r_qid r1)"
    using first_answer_found [OF m1(2,3)] m1(4) assms by auto
  obtain m3 where m3: "check m2 = P_wait m3" "second_wait m0 r1 m3" "c_error m3 = None" "m_qid m3 = Suc (r_qid r2)"
    using second_step_wait [OF m2(2,3)] assms(2) m2(3,4) by (auto simp: accepted_def)
  have "pending r2 m3" using m3 by (intro awaiting_pending) (auto simp: second_wait_def)
  then obtain m4 where m4: "priv_answer r2 m3 = Some m4" "third_ready m0 r1 r2 m4" "c_auth m4"
    using second_answer_found [OF m3(2,3)] assms by auto
  have run: "check m4 = P_run m4"
    using m4(2,3) by (simp add: third_ready_def CHECK_EXIST_AND_PRIVS_def Let_def)
  have "priv_run check m0 [] (Waiting m1)"
    using priv_run.invoke [OF priv_run.start, of check m0] m1(1) by simp
  then have "priv_run check m0 [r1] (Ready m2)"
    using priv_answer_step m2(1) by fastforce
  then have "priv_run check m0 [r1] (Waiting m3)"
    using priv_run.invoke [of check m0 "[r1]" m2] m3(1) by simp
  then have "priv_run check m0 [r1, r2] (Ready m4)"
    using priv_answer_step m4(1) by fastforce
  then show ?thesis
    using priv_run.invoke [of check m0 "[r1, r2]" m4] run by auto
qed

definition phase :: "smod \<Rightarrow> esql_res list \<Rightarrow> priv_state \<Rightarrow> bool" where
  "phase m0 rs s =
     (case s of
        Ready m \<Rightarrow> (case rs of [] \<Rightarrow> m = m0 | [r1] \<Rightarrow> second_ready m0 r1 m | [r1, r2] \<Rightarrow> third_ready m0 r1 r2 m | _ \<Rightarrow> False)
      | Waiting m \<Rightarrow> (case rs of [] \<Rightarrow> first_wait m0 m | [r1] \<Rightarrow> second_wait m0 r1 m | _ \<Rightarrow> False)
      | Denied m \<Rightarrow> True
      | Running m \<Rightarrow> (case rs of [r1, r2] \<Rightarrow> exists_found r1 m \<and> owner_found m0 r2 m | _ \<Rightarrow> False))"

lemma phase_invariant: "priv_run check m0 rs s \<Longrightarrow> fresh m0 \<Longrightarrow> phase m0 rs s"
proof (induction rs s rule: priv_run.induct)
  case start
  then show ?case by (simp add: phase_def)
next
  case (invoke rs m)
  then consider "rs = []" "m = m0" | r1 where "rs = [r1]" "second_ready m0 r1 m"
    | r1 r2 where "rs = [r1, r2]" "third_ready m0 r1 r2 m"
    by (auto simp: phase_def split: list.splits)
  then show ?case
    by cases (use invoke.prems first_step second_step third_step in \<open>fastforce simp: phase_def\<close>)+
next
  case (answer rs m res m1 f v m2)
  then consider "rs = []" "first_wait m0 m" | r1 where "rs = [r1]" "second_wait m0 r1 m"
    by (auto simp: phase_def split: list.splits)
  then show ?case
    by cases (use answer.hyps first_answer second_answer in \<open>auto simp: phase_def\<close>)
qed

lemma run_needs_both:
  assumes "priv_run check m0 rs (Running m)" "fresh m0"
  shows "\<exists>r1 r2. rs = [r1, r2] \<and> exists_found r1 m \<and> owner_found m0 r2 m"
  using phase_invariant [OF assms] by (auto simp: phase_def split: list.splits)

end

interpretation vm: owned_resource "z_isVM e uuid" "z_isVMowner e uuid" "query_of (db_isVM uuid)"
    "\<lambda>uid. query_of (db_isVMowner uuid uid)" for e uuid
proof unfold_locales
  fix m :: smod
  assume m: "idle m" "c_error m = None"
  then show "asks {Zrpcdb_cb_bool, Zrpcdb_cb_int} (query_of (db_isVM uuid)) m (snd (z_isVM e uuid m))"
    by (auto simp: z_isVM_def db_call_def db_isVM_def query_macros intro!: run_query_asks error_asks)
  fix uid
  show "asks {Zrpcdb_cb_bool} (query_of (db_isVMowner uuid uid)) m (snd (z_isVMowner e uuid uid m))"
    using m by (auto simp: z_isVMowner_def db_call_def db_isVMowner_def query_macros intro!: run_query_asks)
qed

interpretation node: owned_resource "z_isNODE e uuid" "z_isNODEowner e uuid" "query_of (db_isNode uuid)"
    "\<lambda>uid. query_of (db_isNODEowner uuid uid)" for e uuid
proof unfold_locales
  fix m :: smod
  assume m: "idle m" "c_error m = None"
  then show "asks {Zrpcdb_cb_bool, Zrpcdb_cb_int} (query_of (db_isNode uuid)) m (snd (z_isNODE e uuid m))"
    by (auto simp: z_isNODE_def db_call_def db_isNode_def query_macros intro!: run_query_asks error_asks)
  fix uid
  assume "c_user_type m \<noteq> 0"
  then show "asks {Zrpcdb_cb_bool} (query_of (db_isNODEowner uuid uid)) m (snd (z_isNODEowner e uuid uid m))"
    using m by (auto simp: z_isNODEowner_def db_call_def db_isNODEowner_def query_macros intro!: run_query_asks)
qed

subsection \<open>Properties\<close>

text \<open>
  C2: A method guarded by \<open>CHECK_EXIST_AND_PRIVS_VM\<close>, started for a user who is
  not a superuser, runs only after exactly two answers of the database, each without error
  and with exactly one row: one to the query whether the virtual machine exists and one to
  the query whether the user of the session owns it. No order of answers and reruns, and
  no answer with errors, no rows or several rows, leads to the method.
\<close>

theorem vm_method_authorized:
  assumes "fresh m0" "priv_run (CHECK_EXIST_AND_PRIVS_VM e uuid) m0 rs (Running m)"
  shows "\<exists>r1 r2 n1 n2. rs = [r1, r2] \<and> \<not> r_error r1 \<and> r_rows r1 = 1 \<and> \<not> r_error r2 \<and> r_rows r2 = 1
    \<and> OQuery n1 (query_of (db_isVM uuid)) \<in> set (m_out m)
    \<and> OQuery n2 (query_of (db_isVMowner uuid (s_uid (m_session m0)))) \<in> set (m_out m)"
  using vm.run_needs_both [of e uuid m0 rs m] assms
  by (auto simp: CHECK_EXIST_AND_PRIVS_VM_def vm.exists_found_def vm.owner_found_def)

lemma vm_accepted:
  assumes "zs_uuid e uuid" "\<forall>n. esql_accepts e n" "c_error m0 = None"
    "r_qid r1 = m_qid m0" "r_qid r2 = Suc (m_qid m0)"
  shows "vm.accepted e uuid m0 r1 r2"
  using assms
  by (auto simp: vm.accepted_def z_isVM_def z_isVMowner_def db_isVM_def db_isVMowner_def query_macros run_query_defs
      CTX_RETURN_def emit_def Let_def)

text \<open>
  C17: The owner of a virtual machine gets through: when the id is valid, the database client
  takes the two queries, and each answer has one row and no error, the guarded method does
  run.
\<close>

theorem vm_owner_gets_through:
  assumes "fresh m0" "zs_uuid e uuid" "\<forall>n. esql_accepts e n"
    "r_qid r1 = m_qid m0" "r_qid r2 = Suc (m_qid m0)"
    "\<not> r_error r1" "r_rows r1 = 1" "\<not> r_error r2" "r_rows r2 = 1"
  shows "\<exists>m. priv_run (CHECK_EXIST_AND_PRIVS_VM e uuid) m0 [r1, r2] (Running m)"
  using vm.owner_gets_through [of m0 e uuid r1 r2] vm_accepted [of e uuid m0 r1 r2] assms
  by (simp add: fresh_def CHECK_EXIST_AND_PRIVS_VM_def)

definition sample_row :: "nat \<Rightarrow> esql_res" where
  "sample_row n = \<lparr> r_qid = n, r_error = False, r_rows = 1, r_affected = 0, r_id = 0, r_conv = (\<lambda>_. VInt 7) \<rparr>"

definition sample_method :: smod where
  "sample_method = sample_mod\<lparr>c_user_type := 2\<rparr>"

lemma fresh_sample_method: "fresh sample_method"
  by (simp add: fresh_def sample_method_def sample_mod_def idle_def)

lemma vm_sample_run:
  "\<exists>m. priv_run (CHECK_EXIST_AND_PRIVS_VM sample_env (Some ''uuid'')) sample_method [sample_row 0, sample_row 1] (Running m)"
  using vm.owner_gets_through [OF fresh_sample_method, of sample_env "Some ''uuid''" "sample_row 0" "sample_row 1"]
    vm_accepted [of sample_env "Some ''uuid''" sample_method "sample_row 0" "sample_row 1"]
  by (simp add: CHECK_EXIST_AND_PRIVS_VM_def sample_env_simps sample_row_def sample_method_def sample_mod_def)

theorem vm_method_authorized_witness:
  "\<exists>(m :: smod) n1 n2. OQuery n1 (query_of (db_isVM (Some ''uuid''))) \<in> set (m_out m)
     \<and> OQuery n2 (query_of (db_isVMowner (Some ''uuid'') 0)) \<in> set (m_out m)"
proof -
  obtain m where m: "priv_run (CHECK_EXIST_AND_PRIVS_VM sample_env (Some ''uuid'')) sample_method
      [sample_row 0, sample_row 1] (Running m)"
    using vm_sample_run by blast
  have "s_uid (m_session sample_method) = 0"
    by (simp add: sample_method_def sample_mod_def SESSION_new_def)
  then obtain n1 n2 where "OQuery n1 (query_of (db_isVM (Some ''uuid''))) \<in> set (m_out m)"
      "OQuery n2 (query_of (db_isVMowner (Some ''uuid'') 0)) \<in> set (m_out m)"
    using vm_method_authorized [OF fresh_sample_method m] by auto
  then show ?thesis by blast
qed

theorem vm_owner_gets_through_witness:
  "\<exists>m. priv_run (CHECK_EXIST_AND_PRIVS_VM sample_env (Some ''uuid'')) sample_method [sample_row 0, sample_row 1] (Running m)"
  by (rule vm_owner_gets_through [OF fresh_sample_method])
     (simp_all add: sample_env_simps sample_row_def sample_method_def sample_mod_def)

text \<open>
  C18: The same for nodes: the guarded method runs for a user who is not a superuser only after
  the existence query and the ownership query have each been answered with exactly one row
  and no error.
\<close>

theorem node_method_authorized:
  assumes "fresh m0" "priv_run (CHECK_EXIST_AND_PRIVS_NODE e uuid) m0 rs (Running m)"
  shows "\<exists>r1 r2 n1 n2. rs = [r1, r2] \<and> \<not> r_error r1 \<and> r_rows r1 = 1 \<and> \<not> r_error r2 \<and> r_rows r2 = 1
    \<and> OQuery n1 (query_of (db_isNode uuid)) \<in> set (m_out m)
    \<and> OQuery n2 (query_of (db_isNODEowner uuid (s_uid (m_session m0)))) \<in> set (m_out m)"
  using node.run_needs_both [of e uuid m0 rs m] assms
  by (auto simp: CHECK_EXIST_AND_PRIVS_NODE_def node.exists_found_def node.owner_found_def)

lemma node_accepted:
  assumes "zs_uuid e uuid" "\<forall>n. esql_accepts e n" "c_error m0 = None"
    "r_qid r1 = m_qid m0" "r_qid r2 = Suc (m_qid m0)"
  shows "node.accepted e uuid m0 r1 r2"
  using assms
  by (auto simp: node.accepted_def z_isNODE_def z_isNODEowner_def db_isNode_def db_isNODEowner_def query_macros
      run_query_defs CTX_RETURN_def emit_def Let_def)

theorem node_method_authorized_witness:
  "\<exists>(m :: smod) n1 n2. OQuery n1 (query_of (db_isNode (Some ''uuid''))) \<in> set (m_out m)
     \<and> OQuery n2 (query_of (db_isNODEowner (Some ''uuid'') 0)) \<in> set (m_out m)"
proof -
  have "node.accepted sample_env (Some ''uuid'') sample_method (sample_row 0) (sample_row 1)"
    by (rule node_accepted) (simp_all add: sample_env_simps sample_row_def sample_method_def sample_mod_def)
  from node.owner_gets_through [OF fresh_sample_method this]
  obtain m where m: "priv_run (CHECK_EXIST_AND_PRIVS_NODE sample_env (Some ''uuid'')) sample_method
      [sample_row 0, sample_row 1] (Running m)"
    unfolding CHECK_EXIST_AND_PRIVS_NODE_def by (auto simp: sample_row_def)
  have "s_uid (m_session sample_method) = 0"
    by (simp add: sample_method_def sample_mod_def SESSION_new_def)
  then obtain n1 n2 where "OQuery n1 (query_of (db_isNode (Some ''uuid''))) \<in> set (m_out m)"
      "OQuery n2 (query_of (db_isNODEowner (Some ''uuid'') 0)) \<in> set (m_out m)"
    using node_method_authorized [OF fresh_sample_method m] by auto
  then show ?thesis by blast
qed

lemma superuser_checks:
  "(CHECK_SUPER_PRIV m = (if c_user_type m = USER_TYPE_SUPER_USER then P_run m else deny m))
   \<and> (CHECK_ZPOLL_PRIV m = (if c_user_type m \<in> {USER_TYPE_SUPER_USER, USER_TYPE_NODE} then P_run m else deny m))
   \<and> (\<exists>m'. deny m = P_denied m' \<and> m_fault m' = Some NOT_AUTHORIZED \<and> m_out m' = m_out m @ [OResume False])
   \<and> CHECK_EXIST_AND_PRIVS_VM e uuid (m\<lparr>c_user_type := USER_TYPE_SUPER_USER, c_error := None, c_checked := False, c_auth := False\<rparr>)
      = P_run (m\<lparr>c_user_type := USER_TYPE_SUPER_USER, c_error := None, c_checked := True, c_auth := True\<rparr>)"
  by (simp add: CHECK_SUPER_PRIV_def CHECK_ZPOLL_PRIV_def CHECK_EXIST_AND_PRIVS_VM_def CHECK_EXIST_AND_PRIVS_def
      deny_def USER_TYPE_SUPER_USER_def USER_TYPE_NODE_def fault_set_def emit_def Let_def)

end
