(* ===== verification/Join.thy ===== *)
theory Join
  imports Frame
begin

text \<open>
  What a call relies on that starts contexts of their own and waits for the last of them. It
  is provided by functions-vm.c (reports and listings), functions-platform.c and
  functions-storage.c.
\<close>

subsection \<open>Waiting for contexts that run on their own\<close>

text \<open>
  A call that starts several contexts raises its step counter by their number; each one that
  ends lowers it, and the last one wakes the call up. What this needs is stated once:
  an arrival lowers the counter by one, and wakes exactly when that reaches the limit.
\<close>

locale join =
  fixes arrive :: "'r \<Rightarrow> smod \<Rightarrow> smod" and limit :: "32 word" and wake :: "eff list"
  assumes counts: "c_count (arrive r m) = c_count m - 1"
    and wakes: "m_out (arrive r m) = m_out m @ (if c_count m - 1 = limit then wake else [])"
begin

lemma waiting:
  assumes "c_count m = limit + of_nat k" "length rs < k" "k < 2 ^ 32"
  shows "m_out (fold arrive rs m) = m_out m \<and> c_count (fold arrive rs m) = limit + of_nat (k - length rs)"
  using assms
proof (induction rs arbitrary: m k)
  case (Cons r rs)
  then have k: "1 < k" "length rs < k - 1" "k - 1 < 2 ^ 32" by auto
  have "(of_nat (k - 1) :: 32 word) \<noteq> 0"
    using k by (simp add: word_of_nat_eq_0_iff nat_dvd_not_less del: of_nat_diff)
  moreover have "of_nat k - (1 :: 32 word) = of_nat (k - 1)" using k by simp
  ultimately have "c_count (arrive r m) = limit + of_nat (k - 1)" "m_out (arrive r m) = m_out m"
    using Cons.prems(1) counts [of r m] wakes [of r m] by (simp_all add: algebra_simps)
  then show ?case using Cons.IH [of "arrive r m" "k - 1"] k by simp
qed simp

lemma joined:
  assumes "c_count m = limit + of_nat (length rs)" "rs \<noteq> []" "length rs < 2 ^ 32"
  shows "m_out (fold arrive rs m) = m_out m @ wake \<and> c_count (fold arrive rs m) = limit"
proof -
  obtain qs r where rs: "rs = qs @ [r]" using assms(2) by (cases rs rule: rev_exhaust) auto
  have "m_out (fold arrive qs m) = m_out m \<and> c_count (fold arrive qs m) = limit + of_nat (length rs - length qs)"
    using assms by (intro waiting) (auto simp: rs)
  then show ?thesis
    using counts [of r "fold arrive qs m"] wakes [of r "fold arrive qs m"] by (simp add: rs)
qed

end

end
