(* ===== verification/Device.thy ===== *)
theory Device
  imports Resource Sql_Device Sql_Config Frame
begin

text \<open>
  src/servlets/functions/functions-vif.c and functions-disk.c: the lookups, the comparison of
  a reported configuration with the stored one, and the machines that bring the stored
  configurations up to date. The latter run on a context of their own; the context of the
  virtual machine they belong to is the parent. A step returns whether the context has been
  freed, which is also when the parent's counter goes down.
\<close>

subsection \<open>Lookups\<close>

definition z_isNetIf :: "env \<Rightarrow> cstr \<Rightarrow> cstr \<Rightarrow> smod \<Rightarrow> bool \<times> smod" where
  "z_isNetIf e uuid mac m =
     CTX_RETURN (db_call e (db_isNetIf uuid mac) m)"

definition z_createNetIf :: "env \<Rightarrow> cstr \<Rightarrow> cstr \<Rightarrow> smod \<Rightarrow> bool \<times> smod" where
  "z_createNetIf e uuid mac m =
     CTX_RETURN (db_call e (db_createNetIf uuid mac) m)"

definition z_getNumVMvifs :: "env \<Rightarrow> cstr \<Rightarrow> smod \<Rightarrow> bool \<times> smod" where
  "z_getNumVMvifs e uuid m = CTX_RETURN (db_call e (db_getNumVMvifs uuid) m)"

definition z_getNetIfByMAC :: "env \<Rightarrow> cstr \<Rightarrow> cstr \<Rightarrow> smod \<Rightarrow> bool \<times> smod" where
  "z_getNetIfByMAC e uuid mac m =
     CTX_RETURN (db_call e (db_getVMvifByMac uuid mac) m)"

definition z_updateNetIfStats :: "env \<Rightarrow> cstr \<Rightarrow> netif \<Rightarrow> smod \<Rightarrow> bool \<times> smod" where
  "z_updateNetIfStats e uuid vif m =
     CTX_RETURN (db_call e (db_updateNetIfStats uuid vif) m)"

definition z_getVMvifs :: "env \<Rightarrow> cstr \<Rightarrow> smod \<Rightarrow> bool \<times> smod" where
  "z_getVMvifs e uuid m = CTX_RETURN (db_call e (db_getVMvifs uuid) m)"

definition z_isDisk :: "env \<Rightarrow> cstr \<Rightarrow> cstr \<Rightarrow> smod \<Rightarrow> bool \<times> smod" where
  "z_isDisk e uuid ext_dev m =
     CTX_RETURN (db_call e (db_isDisk uuid ext_dev) m)"

definition z_createDisk :: "env \<Rightarrow> cstr \<Rightarrow> cstr \<Rightarrow> int \<Rightarrow> smod \<Rightarrow> bool \<times> smod" where
  "z_createDisk e uuid path storid m =
     CTX_RETURN (db_call e (db_createDisk uuid path storid) m)"

definition z_updateDiskStats :: "env \<Rightarrow> cstr \<Rightarrow> disk \<Rightarrow> smod \<Rightarrow> bool \<times> smod" where
  "z_updateDiskStats e uuid disk m =
     CTX_RETURN (db_call e (db_updateDiskStats uuid disk) m)"

definition z_getVmDisk :: "env \<Rightarrow> cstr \<Rightarrow> cstr \<Rightarrow> smod \<Rightarrow> bool \<times> smod" where
  "z_getVmDisk e uuid path m =
     CTX_RETURN (db_call e (db_getVmDisk uuid path) m)"

definition z_getVMdisks :: "env \<Rightarrow> cstr \<Rightarrow> smod \<Rightarrow> bool \<times> smod" where
  "z_getVMdisks e uuid m = CTX_RETURN (db_call e (db_getVMdisks uuid) m)"

definition z_getNumVMdisks :: "env \<Rightarrow> cstr \<Rightarrow> smod \<Rightarrow> bool \<times> smod" where
  "z_getNumVMdisks e uuid m = CTX_RETURN (db_call e (db_getNumVMdisks uuid) m)"

subsection \<open>Comparing configurations\<close>

text \<open>
  The three comparisons return true for a difference. A missing structure is None; two
  present ones are at different addresses, since one comes from the request and the other
  from the database.
\<close>

definition NETIF_mac_cmp :: "netif \<Rightarrow> netif \<Rightarrow> bool" where
  "NETIF_mac_cmp a b = (ni_mac a \<noteq> ni_mac b)"

fun NETIF_config_cmp :: "netif option \<Rightarrow> netif option \<Rightarrow> bool" where
  "NETIF_config_cmp None None = False"
| "NETIF_config_cmp None (Some b) = True"
| "NETIF_config_cmp (Some a) None = True"
| "NETIF_config_cmp (Some a) (Some b) =
     (if ni_name a = ni_name b then True
      else if ni_netmask a = ni_netmask b then True
      else if ni_ip a = ni_ip b then True
      else if ni_type a = ni_type b then True
      else if ni_script a = ni_script b then True
      else if ni_bridge a = ni_bridge b then True
      else if ni_mac a = ni_mac b then True
      else if ni_gateway a = ni_gateway b then True
      else if ni_broadcast a = ni_broadcast b then True
      else if ni_mtu a \<noteq> ni_mtu b then True
      else False)"

definition DISK_path_cmp :: "disk \<Rightarrow> disk \<Rightarrow> bool" where
  "DISK_path_cmp a b = (d_ext_dev a \<noteq> d_ext_dev b)"

fun DISK_config_cmp :: "disk option \<Rightarrow> disk option \<Rightarrow> bool" where
  "DISK_config_cmp None None = False"
| "DISK_config_cmp None (Some b) = True"
| "DISK_config_cmp (Some a) None = True"
| "DISK_config_cmp (Some a) (Some b) =
     (if d_int_dev a \<noteq> d_int_dev b then True
      else if d_ext_dev a \<noteq> d_ext_dev b then True
      else if d_mode a \<noteq> d_mode b then True
      else if d_type a \<noteq> d_type b then True
      else if d_partition_type a \<noteq> d_partition_type b then True
      else if d_mapped_dev a \<noteq> d_mapped_dev b then True
      else if d_num_sectors a \<noteq> d_num_sectors b then True
      else if d_size_sector a \<noteq> d_size_sector b then True
      else if d_start_sector a \<noteq> d_start_sector b then True
      else if d_capacity a \<noteq> d_capacity b then True
      else if d_block_size a \<noteq> d_block_size b then True
      else False)"

subsection \<open>Storing a revision of every device\<close>

text \<open>
  The second step reads the latest revision through its address, but \<open>cb_int_job\<close> has stored
  the number itself: with at least one device the step crashes after the statistics of the
  first one (\<open>pret\<close> and \<open>pchecked\<close> are the parent's fields: no statistics, existing machine).
\<close>

definition vifs_updateconfig :: "env \<Rightarrow> vm \<Rightarrow> bool \<Rightarrow> bool \<Rightarrow> smod \<Rightarrow> bool \<times> smod" where
  "vifs_updateconfig e vm pret pchecked m =
     (let cont = (\<lambda>m. (c_error m \<noteq> None, m)) in
      if c_count m = 0 then
        cont (CTX_INT_JOB (Vmf Vifs_updateconfig) (db_call e (db_getLatestRevision (v_uuid vm) 3) m))
      else if c_count m = 1 then
        (let m = snd (CTX_PARAM_GET (Vmf Vifs_updateconfig) m) in
         case v_vifs vm of
           [] \<Rightarrow> cont m
         | v # _ \<Rightarrow>
             (let m = (if \<not> pret then
                         (let m = (if pchecked
                                   then CTX_CB_ADD F_NULL (db_call e (db_pruneNetIfStats (v_uuid vm) (ni_mac v)) m)
                                   else m)
                          in CTX_CB_ADD F_NULL (db_call e (db_updateNetIfStats (v_uuid vm) v) m))
                       else m)
              in (False, emit OCrash m)))
      else if c_count m = 1 + of_nat (length (v_vifs vm)) then (True, m)
      else cont m)"

definition disks_updateconfig :: "env \<Rightarrow> vm \<Rightarrow> bool \<Rightarrow> bool \<Rightarrow> smod \<Rightarrow> bool \<times> smod" where
  "disks_updateconfig e vm pret pchecked m =
     (let cont = (\<lambda>m. (c_error m \<noteq> None, m)) in
      if c_count m = 0 then
        cont (CTX_INT_JOB (Vmf Disks_updateconfig) (db_call e (db_getLatestRevision (v_uuid vm) 2) m))
      else if c_count m = 1 then
        (let m = snd (CTX_PARAM_GET (Vmf Disks_updateconfig) m) in
         case v_disks vm of
           [] \<Rightarrow> cont m
         | v # _ \<Rightarrow>
             (let m = (if \<not> pret then
                         (let m = (if pchecked
                                   then CTX_CB_ADD F_NULL (db_call e (db_pruneDiskStats (v_uuid vm) (d_ext_dev v)) m)
                                   else m)
                          in CTX_CB_ADD F_NULL (db_call e (db_updateDiskStats (v_uuid vm) v) m))
                       else m)
              in (False, emit OCrash m)))
      else if c_count m = 1 + of_nat (length (v_disks vm)) then (True, m)
      else cont m)"

subsection \<open>Reconciling the stored devices with the reported ones\<close>

text \<open>
  The loop over the reported devices, the same in both files: a device that is not stored is
  created, one whose configuration differs marks the context. \<open>same\<close> finds the stored
  device, \<open>differs\<close> compares the configurations, \<open>create\<close> makes the query. The number of
  devices created comes back.
\<close>

fun reconcile :: "('d \<Rightarrow> 'd \<Rightarrow> bool) \<Rightarrow> ('d \<Rightarrow> 'd \<Rightarrow> bool) \<Rightarrow> ('d \<Rightarrow> smod \<Rightarrow> smod) \<Rightarrow> 'd list \<Rightarrow> 'd list \<Rightarrow> nat \<Rightarrow> smod \<Rightarrow> nat \<times> smod" where
  "reconcile same differs create stored [] n m = (n, m)"
| "reconcile same differs create stored (v # vs) n m =
     (case find (\<lambda>x. same x v) stored of
        None \<Rightarrow> reconcile same differs create stored vs (Suc n) (create v m)
      | Some x \<Rightarrow> reconcile same differs create stored vs n (if differs x v then m\<lparr>c_checked := True\<rparr> else m))"

text \<open>
  One step of \<open>vif_cb_updateconfig\<close> and \<open>disk_cb_updateconfig\<close>. It returns whether the context
  has been freed, whether the parent's \<open>auth\<close> has been raised, and the context. The tail runs
  the machine of the previous section when a revision is due; when that has freed the context,
  the caller still reads its error.
\<close>

definition device_tail :: "(smod \<Rightarrow> bool \<times> smod) \<Rightarrow> smod \<Rightarrow> bool \<times> smod" where
  "device_tail update m =
     (let m = (if c_count m = 1000 then m\<lparr>c_auth := True, c_count := 0\<rparr> else m);
          (freed, m) = (if c_auth m then update m else (False, m))
      in if freed then (True, emit OCrash m) else (c_error m \<noteq> None, m))"

definition device_step :: "('d \<Rightarrow> 'd \<Rightarrow> bool) \<Rightarrow> ('d \<Rightarrow> 'd \<Rightarrow> bool) \<Rightarrow> ('d \<Rightarrow> smod \<Rightarrow> smod) \<Rightarrow> (smod \<Rightarrow> bool \<times> smod)
    \<Rightarrow> 'd list \<Rightarrow> 'd list \<Rightarrow> smod \<Rightarrow> bool \<times> bool \<times> smod" where
  "device_step same differs create update stored reported m =
     (let mark = (\<lambda>m. m\<lparr>c_auth := True, c_checked := True\<rparr>);
          tail = (\<lambda>pauth m. case device_tail update m of (freed, m) \<Rightarrow> (freed, pauth, m))
      in
      if c_count m \<noteq> 0 then tail False m
      else if stored = [] then
        (if reported = [] then (True, False, m) else (c_error m \<noteq> None, True, mark m))
      else if length stored \<noteq> length reported then tail True (mark m)
      else
        (let gone = list_ex (\<lambda>x. \<not> list_ex (\<lambda>v. same x v) reported) stored;
             m = (if gone then mark m else m);
             (n, m) = reconcile same differs create stored reported 0 m
         in if c_checked m \<and> n = 0 then (c_error m \<noteq> None, True, m\<lparr>c_auth := True\<rparr>)
            else tail (gone \<or> c_checked m) (m\<lparr>c_count := 1000 - of_nat n\<rparr>)))"

definition vif_cb_updateconfig :: "env \<Rightarrow> vm \<Rightarrow> bool \<Rightarrow> bool \<Rightarrow> smod \<Rightarrow> bool \<times> bool \<times> smod" where
  "vif_cb_updateconfig e vm pret pchecked m =
     (let (vifs, m) = (if c_count m = 0 then CTX_PARAM_GET (Vmf Vif_cb_updateconfig) m else (VNull, m));
          stored = (case vifs of VNetifs vs \<Rightarrow> vs | _ \<Rightarrow> [])
      in device_step (\<lambda>x v. \<not> NETIF_mac_cmp x v) (\<lambda>x v. NETIF_config_cmp (Some x) (Some v))
           (\<lambda>v m. CTX_BOOL_JOB (Vmf Vif_cb_updateconfig) (db_call e (db_createNetIf (v_uuid vm) (ni_mac v)) m))
           (vifs_updateconfig e vm pret pchecked) stored (v_vifs vm) m)"

definition disk_cb_updateconfig :: "env \<Rightarrow> vm \<Rightarrow> bool \<Rightarrow> bool \<Rightarrow> smod \<Rightarrow> bool \<times> bool \<times> smod" where
  "disk_cb_updateconfig e vm pret pchecked m =
     (let (disks, m) = (if c_count m = 0 then CTX_PARAM_GET (Vmf Disk_cb_updateconfig) m else (VNull, m));
          stored = (case disks of VDisks ds \<Rightarrow> ds | _ \<Rightarrow> [])
      in device_step (\<lambda>x v. \<not> DISK_path_cmp x v) (\<lambda>x v. DISK_config_cmp (Some x) (Some v))
           (\<lambda>v m. CTX_BOOL_JOB (Vmf Disk_cb_updateconfig) (db_call e (db_createDisk (v_uuid vm) (d_ext_dev v) (-1)) m))
           (disks_updateconfig e vm pret pchecked) stored (v_disks vm) m)"

text \<open>What freeing one of these contexts does to the machine's.\<close>

definition device_out :: "fname \<Rightarrow> smod \<Rightarrow> smod" where
  "device_out cb p =
     (let p = p\<lparr>c_count := c_count p - 1\<rparr> in if c_count p = 7 then emit (OJob cb) p else p)"

subsection \<open>Properties\<close>

lemma interface_compare_inverted:
  "NETIF_config_cmp (Some a) (Some a) \<and> NETIF_config_cmp (Some a) (Some (b\<lparr>ni_mac := ni_mac a\<rparr>))
   \<and> (NETIF_config_cmp (Some a) (Some b) = False \<longleftrightarrow>
       ni_name a \<noteq> ni_name b \<and> ni_netmask a \<noteq> ni_netmask b \<and> ni_ip a \<noteq> ni_ip b \<and> ni_type a \<noteq> ni_type b
       \<and> ni_script a \<noteq> ni_script b \<and> ni_bridge a \<noteq> ni_bridge b \<and> ni_mac a \<noteq> ni_mac b
       \<and> ni_gateway a \<noteq> ni_gateway b \<and> ni_broadcast a \<noteq> ni_broadcast b \<and> ni_mtu a = ni_mtu b)"
  by simp

end
