(* ===== verification/Jobs.thy ===== *)
theory Jobs
  imports Resource Sql_Jobs
begin

text \<open>
  src/servlets/functions/functions-jobs.c: jobs for the schedulers. A job is a structure on
  the heap that several callbacks share through the parameter table; its address is a
  \<open>VPtr\<close>. A timer is some non-null pointer, \<open>VUndef\<close>.
\<close>

definition DEFAULT_ZENSCHED_NEWJOB :: string where
  "DEFAULT_ZENSCHED_NEWJOB = ''ZENTIFICSCHEDULER:::ZENTIFIC_NEWJOB''"

definition DEFAULT_ZENSCHED_CANCELJOB :: string where
  "DEFAULT_ZENSCHED_CANCELJOB = ''ZENTIFICSCHEDULER:::ZENTIFIC_CANCELJOB''"

subsection \<open>The connection to a scheduler\<close>

definition jobs_cb_connect_timer :: "smod \<Rightarrow> smod" where
  "jobs_cb_connect_timer m = (set_error SCHEDULER_CONNECT_ERROR m)\<lparr>c_data := VNull\<rparr>"

definition jobs_cb_connect :: "env \<Rightarrow> smod \<Rightarrow> smod" where
  "jobs_cb_connect e m =
     (let (job, m) = CTX_PARAM_GET (Jobf Jobs_cb_connect) m
      in case job_at job m of
          None \<Rightarrow> emit OCrash m
        | Some j \<Rightarrow>
            emit (OSend (if streq e (j_module_function j) ''cancel_job''
                         then DEFAULT_ZENSCHED_CANCELJOB else DEFAULT_ZENSCHED_NEWJOB)) m)"

text \<open>
  \<open>strncmp (data, lit, size) == 0\<close> for a buffer of \<open>size\<close> bytes and a literal, whose end is a
  zero byte.
\<close>

fun strncmp_eq :: "string \<Rightarrow> string \<Rightarrow> bool" where
  "strncmp_eq [] lit = True"
| "strncmp_eq (c # cs) [] = (c = CHR 0x00)"
| "strncmp_eq (c # cs) (l # ls) = (c = l \<and> strncmp_eq cs ls)"

definition jobs_cb_data :: "string \<Rightarrow> smod \<Rightarrow> smod" where
  "jobs_cb_data buf m = (if \<not> strncmp_eq buf ''ZOKAY'' then set_error SCHEDULER_CONNECT_ERROR m else m)"

definition jobs_cb_disconnect :: "smod \<Rightarrow> smod" where
  "jobs_cb_disconnect m =
     (let (job, m) = CTX_PARAM_GET (Jobf Jobs_cb_disconnect) m;
          m = (if c_error m = None then AZY_RETVAL job m else m)
      in RESUME (job_free job m))"

definition jobs_kickScheduler :: "env \<Rightarrow> val \<Rightarrow> cstr \<Rightarrow> smod \<Rightarrow> smod" where
  "jobs_kickScheduler e job address m =
     (case address of
        None \<Rightarrow>
          (case job_at job m of
             None \<Rightarrow> emit OCrash m
           | Some j \<Rightarrow>
               (let m = db_call e (db_getSchedulerAddressByJob (j_id j)) m;
                    m = CTX_CB_ADD (Jobf Jobs_cb_address) m;
                    m = CTX_PARAM_ADD (Jobf Jobs_cb_address) job m
                in if c_error m \<noteq> None then RESUME m else m))
      | Some a \<Rightarrow>
          (let m = emit (OConnect a) m;
               m = m\<lparr>c_data := VUndef\<rparr>;
               m = CTX_PARAM_ADD (Jobf Jobs_cb_disconnect) job m
           in CTX_PARAM_ADD (Jobf Jobs_cb_connect) job m))"

definition jobs_cb_address :: "env \<Rightarrow> val \<Rightarrow> smod \<Rightarrow> smod" where
  "jobs_cb_address e ret m =
     (let m = MARK_CB m;
          (job, m) = CTX_PARAM_GET (Jobf Jobs_cb_address) m
      in if c_error m \<noteq> None then RESUME (set_error SCHEDULER_NOT_FOUND (job_free job m))
         else jobs_kickScheduler e job (as_str ret) m)"

subsection \<open>Results\<close>

text \<open>
  Both callbacks go on after resuming a failed call. A result freed on the error path is
  freed again at the end.
\<close>

definition ptr_job_cb :: "val \<Rightarrow> smod \<Rightarrow> smod" where
  "ptr_job_cb ret m =
     (let m = MARK_CB m;
          failed = (is_null ret \<or> c_error m \<noteq> None);
          m = (if failed then RESUME (if is_null ret then set_error NOT_AUTHORIZED m else m) else m);
          m = AZY_RETVAL ret m;
          m = (if failed \<and> \<not> is_null ret \<and> c_free_func m \<noteq> None then emit OCrash m else m)
      in RESUME m)"

definition ptr_int_cb :: "val \<Rightarrow> smod \<Rightarrow> smod" where
  "ptr_int_cb ret m =
     (let m = MARK_CB m;
          i = as_int ret;
          m = (if i = 0 \<or> c_error m \<noteq> None
               then RESUME (if i = 0 then set_error NOT_AUTHORIZED m else m) else m)
      in RESUME (AZY_RET i m))"

definition jobs_fill :: "env \<Rightarrow> val \<Rightarrow> smod \<Rightarrow> smod" where
  "jobs_fill e ret m =
     (if c_count m < 100 then
        (let m = (if c_user_type m \<noteq> 0 then with_job ret (\<lambda>j. j\<lparr>j_target_host := Some []\<rparr>) m else m)
         in case job_at ret m of
             None \<Rightarrow> emit OCrash m
           | Some j \<Rightarrow>
               if zs_uuid e (j_target_vm j) \<and> zs_uuid e (j_target_node j) then
                 (let m = snd (z_getVMattribute e (j_target_vm j) (Some ''name'') m);
                      m = CTX_CB_ADD (Jobf Jobs_cb_resource) m
                  in CTX_PARAM_ADD (Jobf Jobs_cb_resource) ret m)
               else if zs_uuid e (j_target_node j) \<and> (j_target_vm j = None \<or> j_target_vm j = Some []) then
                 (let m = snd (z_getNODEattribute e (j_target_node j) (Some ''hostname'') m);
                      m = CTX_CB_ADD (Jobf Jobs_cb_resource) m
                  in CTX_PARAM_ADD (Jobf Jobs_cb_resource) ret m)
               else m)
      else
        (let (kick, m) = CTX_PARAM_GET (Jobf Jobs_fill) m
         in if \<not> is_null kick then
              jobs_kickScheduler e ret None (m\<lparr>c_count := c_count m - 100\<rparr>)
            else RESUME (AZY_RETVAL ret m)))"

definition jobs_cb_resource :: "env \<Rightarrow> val \<Rightarrow> smod \<Rightarrow> smod" where
  "jobs_cb_resource e ret m =
     (let m = MARK_CB m;
          (job, m) = CTX_PARAM_GET (Jobf Jobs_cb_resource) m
      in if c_error m \<noteq> None then RESUME (job_free job m)
         else
           (let m = with_job job (\<lambda>j. j\<lparr>j_resource := as_str ret\<rparr>) m
            in jobs_fill e job (m\<lparr>c_count := c_count m + 100\<rparr>)))"

definition jobs_cb_get :: "env \<Rightarrow> val \<Rightarrow> smod \<Rightarrow> smod" where
  "jobs_cb_get e ret m =
     (let m = MARK_CB m in
      if c_error m \<noteq> None \<or> is_null ret then RESUME (set_error NOT_AUTHORIZED m)
      else jobs_fill e ret m)"

subsection \<open>Lookups\<close>

definition z_getJob :: "env \<Rightarrow> int \<Rightarrow> int \<Rightarrow> smod \<Rightarrow> bool \<times> smod" where
  "z_getJob e ident caller_uid m =
     (if ident < 0 \<or> caller_uid < 0 then CTX_RETURN (set_error INVALID_PARAMETER m)
      else CTX_RETURN (CTX_CB_ADD (Jobf Jobs_cb_get) (db_call e (db_getJob ident caller_uid) m)))"

text \<open>
  The caller's uid travels as a pointer-sized integer, and is read back through that pointer.
\<close>

definition jobs_cb_add :: "env \<Rightarrow> val \<Rightarrow> smod \<Rightarrow> smod" where
  "jobs_cb_add e ret m =
     (let m = MARK_CB m;
          (uid, m) = CTX_PARAM_GET (Jobf Jobs_cb_add) m
      in if c_error m \<noteq> None \<or> is_null uid then RESUME (set_error JOB_CREATION_FAILED m)
         else emit OCrash (CTX_PARAM_ADD (Jobf Jobs_fill) VUndef m))"

definition z_getJobs :: "env \<Rightarrow> smod \<Rightarrow> bool \<times> smod" where
  "z_getJobs e m = CTX_RETURN (db_call e db_getJobs m)"

definition z_getJobsByUUID :: "env \<Rightarrow> cstr \<Rightarrow> smod \<Rightarrow> bool \<times> smod" where
  "z_getJobsByUUID e uuid m = CTX_RETURN (db_call e (db_getJobsByUUID uuid) m)"

definition z_getJobsByUID :: "env \<Rightarrow> int \<Rightarrow> smod \<Rightarrow> bool \<times> smod" where
  "z_getJobsByUID e uid m =
     CTX_RETURN (if uid < 0 then set_error INVALID_PARAMETER m else db_call e (db_getJobsByUID uid) m)"

definition z_getRecentJobs :: "env \<Rightarrow> smod \<Rightarrow> bool \<times> smod" where
  "z_getRecentJobs e m = CTX_RETURN (CTX_CB_ADD (Jobf Ptr_job_cb) (db_call e (db_getRecentJobs 30) m))"

definition z_getRecentJobsByUID :: "env \<Rightarrow> int \<Rightarrow> smod \<Rightarrow> bool \<times> smod" where
  "z_getRecentJobsByUID e uid m =
     CTX_RETURN (CTX_CB_ADD (Jobf Ptr_job_cb) (db_call e (db_getRecentJobsByUID uid 30) m))"

definition z_getJobsByJIDs :: "env \<Rightarrow> int list \<Rightarrow> int \<Rightarrow> smod \<Rightarrow> bool \<times> smod" where
  "z_getJobsByJIDs e jobids caller_uid m =
     (if caller_uid < 0 then CTX_RETURN (set_error INVALID_PARAMETER m)
      else if list_ex (\<lambda>jid. jid < 0) jobids then CTX_RETURN (set_error INVALID_PARAMETER m)
      else CTX_RETURN (CTX_CB_ADD (Jobf Ptr_job_cb) (db_call e (db_getJobsByIds jobids caller_uid) m)))"

definition z_getJobsStatus :: "env \<Rightarrow> int list \<Rightarrow> int \<Rightarrow> smod \<Rightarrow> bool \<times> smod" where
  "z_getJobsStatus e jobids caller_uid m =
     (if caller_uid < 0 then CTX_RETURN (set_error INVALID_PARAMETER m)
      else if list_ex (\<lambda>jid. jid < 0) jobids then CTX_RETURN (set_error INVALID_PARAMETER m)
      else CTX_RETURN (CTX_CB_ADD (Jobf Ptr_job_cb) (db_call e (db_getJobsStatus jobids caller_uid) m)))"

definition z_getJobStatus :: "env \<Rightarrow> int \<Rightarrow> int \<Rightarrow> smod \<Rightarrow> bool \<times> smod" where
  "z_getJobStatus e jobid caller_uid m =
     CTX_RETURN (if jobid < 0 \<or> caller_uid < 0 then set_error INVALID_PARAMETER m
                 else CTX_CB_ADD (Jobf Ptr_int_cb) (db_call e (db_getJobStatus jobid caller_uid) m))"

definition z_isJob :: "env \<Rightarrow> int \<Rightarrow> smod \<Rightarrow> bool \<times> smod" where
  "z_isJob e ident m =
     (if ident < 0 then CTX_RETURN (set_error INVALID_PARAMETER m)
      else CTX_RETURN (db_call e (db_isJob ident) m))"

subsection \<open>Adding and cancelling\<close>

text \<open>The query reads the job through its address after the uid is stored in it.\<close>

definition add_job_query :: "env \<Rightarrow> val \<Rightarrow> int \<Rightarrow> smod \<Rightarrow> smod" where
  "add_job_query e job caller_uid m =
     (let m = with_job job (\<lambda>j. j\<lparr>j_uid := caller_uid\<rparr>) m
      in case job_at job m of None \<Rightarrow> m | Some j \<Rightarrow> db_call e (db_addJob j) m)"

definition z_addJob :: "env \<Rightarrow> val \<Rightarrow> int \<Rightarrow> smod \<Rightarrow> bool \<times> smod" where
  "z_addJob e job caller_uid m =
     (if caller_uid < 0 then CTX_RETURN (set_error INVALID_PARAMETER m)
      else CTX_RETURN (add_job_query e job caller_uid m))"

definition job_add :: "env \<Rightarrow> val \<Rightarrow> int \<Rightarrow> smod \<Rightarrow> bool \<times> smod" where
  "job_add e job caller_uid m =
     (if caller_uid < 0 then CTX_RETURN (set_error INVALID_PARAMETER m)
      else
        (let m = add_job_query e job caller_uid m;
             m = CTX_CB_ADD (Jobf Jobs_cb_add) m
         in CTX_RETURN (CTX_PARAM_ADD (Jobf Jobs_cb_add) (VInt caller_uid) m)))"

definition z_cancelJob :: "env \<Rightarrow> int \<Rightarrow> int \<Rightarrow> smod \<Rightarrow> bool \<times> smod" where
  "z_cancelJob e jobid caller_uid m =
     (let (canceljob, m) = JOB_alloc (JOB_new\<lparr>j_input_string := Some (int_dec jobid),
             j_module_name := Some ''zensched_internal'', j_module_function := Some ''cancel_job''\<rparr>) m;
          m = snd (job_add e canceljob caller_uid m)
      in CTX_RETURN m)"

fun cancel_loop :: "env \<Rightarrow> int list \<Rightarrow> int \<Rightarrow> smod \<Rightarrow> smod" where
  "cancel_loop e [] caller_uid m = m"
| "cancel_loop e (jid # jobs) caller_uid m = cancel_loop e jobs caller_uid (snd (z_cancelJob e jid caller_uid m))"

definition jobs_cancel :: "env \<Rightarrow> cstr \<Rightarrow> int \<Rightarrow> int \<Rightarrow> bool \<Rightarrow> smod \<Rightarrow> smod" where
  "jobs_cancel e uuid uid caller_uid user m =
     (if c_count m = 0 then
        CTX_VALUE_RETURN (Jobf F_jobs_cancel)
          (if user then snd (z_getJobsByUID e uid m) else snd (z_getJobsByUUID e uuid m))
      else
        (let m = (if c_error m \<noteq> None then
                    RESUME (if c_error m = Some UNKNOWN_RESOURCE
                            then AZY_RETVAL (VBool True) (m\<lparr>c_error := None\<rparr>) else m)
                  else m);
             (jobs, m) = CTX_PARAM_GET (Jobf F_jobs_cancel) m
         in case jobs of VInts jids \<Rightarrow> cancel_loop e jids caller_uid m | _ \<Rightarrow> m))"

definition z_cancelJobsByUUID :: "env \<Rightarrow> cstr \<Rightarrow> int \<Rightarrow> smod \<Rightarrow> bool \<times> smod" where
  "z_cancelJobsByUUID e uuid caller_uid m = CTX_RETURN (jobs_cancel e uuid 0 caller_uid False m)"

definition z_cancelJobsByUID :: "env \<Rightarrow> int \<Rightarrow> int \<Rightarrow> smod \<Rightarrow> bool \<times> smod" where
  "z_cancelJobsByUID e uid caller_uid m = CTX_RETURN (jobs_cancel e None uid caller_uid True m)"

end
