(* ===== verification/Dbsource.thy ===== *)
theory Dbsource
  imports Frame
begin

text \<open>
  src/bin/db_sources.c: a database module is found by its file name, loaded, and its functions
  are looked up one by one into the table every servlet function calls through. A function
  that is not on the list of lookups keeps the null pointer of the zeroed table.
\<close>

subsection \<open>Finding the module\<close>

text \<open>
  The file name behind the last slash must be the configured name and \<open>.so\<close>. Without a slash,
  or without a configured name, the code reads through a null pointer: no answer.
\<close>

definition db_sources_cb :: "string \<Rightarrow> zentific_config \<Rightarrow> bool option" where
  "db_sources_cb path conf =
     (case (strrchr (CHR ''/'') path, DB_MODULE conf) of
        (Some i, Some name) \<Rightarrow>
          (let filename = drop (Suc i) path; fl = length name; ml = length filename in
           Some (\<not> (ml \<noteq> fl + 3 \<or> drop (ml - 3) filename \<noteq> ''.so'' \<or> take fl filename \<noteq> name)))
      | _ \<Rightarrow> None)"

lemma db_sources_cb_iff:
  assumes "DB_MODULE conf = Some name" "CHR ''/'' \<notin> set base"
  shows "db_sources_cb (dir @ CHR ''/'' # base) conf = Some (base = name @ ''.so'')"
proof -
  have "strrchr (CHR ''/'') (dir @ CHR ''/'' # base) = Some (length dir)"
    using assms(2) by (rule strrchr_append_notin)
  moreover have "base = name @ ''.so''"
    if "length base = length name + 3" "drop (length base - 3) base = ''.so''" "take (length name) base = name"
    using that append_take_drop_id [of "length name" base] by simp
  ultimately show ?thesis
    using assms(1) by (auto simp: db_sources_cb_def Let_def)
qed

subsection \<open>The table of functions\<close>

text \<open>The names looked up, in order; the first that the module lacks ends the loading.\<close>

definition db_loads_1 :: "string list" where
  "db_loads_1 =
    [''init'', ''uninit'', ''getLoggedInUsers'', ''getLoggedInUsernames'', ''getSessions'', ''getSession'',
     ''setSession'', ''setLastLogin'', ''deauthSession'', ''removeSession'', ''getUserBySession'',
     ''getUserNameBySession'', ''isControlModuleForPlatform'', ''isControlModuleForPlatformByMid'',
     ''isControlModuleForPlatformById'', ''isControlModuleForPlatformByName'', ''isControlModule'',
     ''isControlModuleByName'', ''isPlatform'', ''isPlatformByName'', ''enableControlModule'',
     ''disableControlModule'', ''enablePlatform'', ''disablePlatform'', ''getPlatformId'', ''getPlatforms'',
     ''getPlatformsFull'', ''getPlatform'', ''getPlatformByName'', ''addPlatform'', ''modifyPlatform'',
     ''getPlatformConfig'', ''getControlModuleConfig'', ''getControlModuleId'', ''getControlModuleName'',
     ''getControlModuleNameByNetwork'', ''getControlModuleNameByStorage'', ''getControlModules'',
     ''getStorageControlModulesFull'', ''getNetworkControlModulesFull'', ''getPlatformControlModulesFull'',
     ''getPlatformControlModules'', ''getStorageControlModules'', ''getNetworkControlModules'',
     ''getControlModulesByPlatform'', ''getControlModulesFull'', ''getControlModule'',
     ''getControlModuleByName'', ''getPlatformIdByVm'', ''getPlatformFeatures'', ''isJob'', ''getJob'',
     ''getRecentJobs'', ''getRecentJobsByUID'', ''getJobUID'', ''getJobsByIds'', ''getJobs'',
     ''getJobsByUID'', ''getJobsByUUID'', ''getJobsStatus'', ''getJobStatus'', ''addJob'',
     ''getSchedulerAddressByModuleName'', ''getSchedulerAddressByJob'', ''getSchedulerIdByModuleName'',
     ''getSchedulerIdByJob'', ''getSchedulerIdByPlatform'', ''fetchJobs'', ''updateJob'',
     ''getModuleConfigByNode'', ''getModuleConfigByVm'', ''getModuleConfig'', ''getBlobConfig'',
     ''registerPlatform'', ''registerControlModule'', ''registerScheduler'', ''getModuleID'',
     ''getPlatformID'', ''isModule'', ''isPlatformNameByScheduler'', ''clearControlModules'', ''getUser'',
     ''isUserUID'', ''setUserType'', ''getUserType'', ''getUsername'', ''getSessionsByUID'', ''isVMowner'',
     ''isNODEowner'', ''setUserAttribute'', ''isActive'', ''removeUser'', ''setPassword'', ''getPrivilege'',
     ''grantPrivilege'', ''revokePrivilege'', ''modifyUser'', ''isUserName'', ''getUserUID'',
     ''getActiveUserUID'', ''getUserTypeByName'', ''getUserByName'', ''getSessionsByName'',
     ''isVMownerByName'', ''isNODEownerByName'', ''setUserAttributeByName'', ''isActiveByName'',
     ''removeUserByName'', ''setPasswordByName'', ''getPrivilegeByName'', ''grantPrivilegeByName'',
     ''revokePrivilegeByName'', ''modifyUserByName'', ''getLanguages'', ''getLanguageIds'',
     ''getLanguageCode'', ''getLanguageId'', ''addUser'', ''getAllUsers'', ''getAllUsersFull'']"

definition db_loads_2 :: "string list" where
  "db_loads_2 =
    [''getAllUsersFullSorted'', ''getAllUsersSorted'', ''getUserCount'', ''isUserGroup'', ''modifyUserGroup'',
     ''removeUserGroup'', ''getUserGroup'', ''getUserGroupName'', ''getUserGroupMembers'',
     ''getUserGroupMembersFull'', ''addToUserGroup'', ''removeFromUserGroup'', ''renameUserGroup'',
     ''isUserGroupMember'', ''isUserGroupByName'', ''modifyUserGroupByName'', ''removeUserGroupByName'',
     ''getUserGroupByName'', ''getUserGroupId'', ''getUserGroupMembersByName'', ''renameUserGroupByName'',
     ''addToUserGroupByName'', ''removeFromUserGroupByName'', ''isUserGroupMemberByName'',
     ''addToUserGroupByNameAndUsername'', ''removeFromUserGroupByNameAndUsername'',
     ''isUserGroupMemberByNameAndUsername'', ''addUserGroup'', ''getAllUserGroups'', ''getAllUserGroupNames'',
     ''getAllUserGroupsFull'', ''getUserGroupsByUID'', ''getUserGroupsByName'', ''getUserGroupNamesByUID'',
     ''getUserGroupNamesByName'', ''getAllUserGroupsSorted'', ''getAllUserGroupsFullSorted'',
     ''getUserGroupCount'', ''getAuth'', ''getAuthByName'', ''getAllNetworksFull'', ''getAllNetworks'',
     ''getAllNetworksFullSorted'', ''getAllNetworksSorted'', ''getAllNetworksByType'', ''getNetwork'',
     ''getNetworkVlans'', ''removeNetwork'', ''getNodesByNetworkVlan'', ''getNodesByNetwork'',
     ''getNetworksByNode'', ''defineNetwork'', ''modifyNetwork'', ''isNetwork'', ''isNetworkId'',
     ''addNetIf'', ''attachNetIf'', ''detachNetIf'', ''modifyNetIf'', ''removeNetIf'',
     ''detachAllNetIfsByNetwork'', ''getNetworkControlModule'', ''setNetworkControlModule'',
     ''detachNetworkFromNode'', ''attachNetworkToNode'', ''getVmsByNetwork'', ''getNetworksByVm'',
     ''isNetworkInUse'', ''getNetworkByNetIf'', ''getNetworkCount'', ''getAllStorage'', ''getAllStorageFull'',
     ''getAllStorageFullSorted'', ''getAllStorageSorted'', ''getAllStorageByType'', ''getStorageHost'',
     ''getStorage'', ''removeStorage'', ''getNodesByStorage'', ''getStorageByNode'', ''defineStorage'',
     ''modifyStorage'', ''isStorageId'', ''isStorage'', ''addDisk'', ''enableDisk'', ''disableDisk'',
     ''attachDisk'', ''detachDisk'', ''modifyDisk'', ''removeDisk'', ''detachAllDisksByStorage'',
     ''getStorageControlModule'', ''setStorageControlModule'', ''detachStorageFromNode'',
     ''attachStorageToNode'', ''getVmsByStorage'', ''getStorageByVm'', ''isStorageInUse'',
     ''getStorageByDisk'', ''getStorageIdByName'', ''getAllStorageTypes'', ''getStorageCount'', ''getVMvifs'',
     ''getVMvifByMac'', ''updateNetIfStats'', ''getNumVMdisks'', ''getVmDisk'', ''getNumVMvifs'',
     ''createNetIf'', ''isNetIf'', ''isNetIfByMAC'', ''isNetIfInUse'', ''updateNetIfConfig'', ''addNetIf'',
     ''modifyNetIf'', ''removeNetIf'', ''attachNetIf'', ''detachNetIf'', ''detachAllNetIfsByNetwork'']"

definition db_loads_3 :: "string list" where
  "db_loads_3 =
    [''pruneNetIfStats'', ''getNetworkControlModule'', ''setNetworkControlModule'', ''getVMvifsByNetwork'',
     ''getNodePlatform'', ''getNodeAddress'', ''getNodeByName'', ''getNodeAddress'', ''getNODEstat'',
     ''getNODEattribute'', ''getLatestNodeStat'', ''getNodeStats'', ''updateNodeStats'', ''updateNodeConfig'',
     ''getNodeControlModule'', ''setNodeConfiguredHost'', ''getNodeConfiguredHost'', ''createNode'',
     ''setNodeStatus'', ''setNodeControlModule'', ''setNodeControlModuleByName'', ''removeNode'',
     ''isNodeEnabled'', ''isNodeEnabledAndConfigured'', ''getAllUnconfiguredNodes'',
     ''getAllUnconfiguredNodesByUID'', ''getNodeConfiguredState'', ''isNode'', ''getNode'',
     ''getAllNodesFull'', ''getAllNodes'', ''getAllNodesByUID'', ''getAllNodesSorted'',
     ''getAllNodesByUIDSorted'', ''getNodeByHostname'', ''pruneNodeStats'', ''getNodeLogs'',
     ''getNodeDefaultVNCpass'', ''getNodeHVM'', ''getNodeName'', ''getNodeNameAndUuid'', ''isDisk'',
     ''createDisk'', ''updateDiskConfig'', ''getVMdisks'', ''getVMdisksByStorage'', ''updateDiskStats'',
     ''getDiskByStorage'', ''getDisksByStorage'', ''getVmByDisk'', ''pruneDiskStats'', ''isVM'',
     ''isVmIgnored'', ''needsReboot'', ''setVmNeedsReboot'', ''getVMparentNode'',
     ''getVMparentNodeAndAddress'', ''updateVMparentNode'', ''createVM'', ''createVmTemplate'',
     ''getLatestRevision'', ''saveVMrevision'', ''getVMsSorted'', ''getVMs'', ''getVMsByUIDSorted'',
     ''getVMsByUID'', ''getAllVmsByNode'', ''getAllVmsByNodeByUID'', ''updateVmStats'', ''ignoreVm'',
     ''removeVm'', ''getVM'', ''updateVmConfig'', ''getAllUsersByVm'', ''getVMstat'', ''getVMattribute'',
     ''getTopBandwidthConsumers'', ''getTopCpuConsumers'', ''saveVmNotes'', ''getVmNotes'',
     ''getVMparentAddress'', ''getConsoleLockVmsBySession'', ''getConsoleType'', ''getConsoleLockSession'',
     ''hasConsoleLock'', ''acquireConsoleLock'', ''releaseConsoleLock'', ''saveGraphicalConsolePort'',
     ''getGraphicalConsolePort'', ''getConsoleNodeHost'', ''getConsoleClientHost'',
     ''getGraphicalConsoleTunnelPort'', ''saveTextConsolePort'', ''getTextConsolePort'', ''pruneVmStats'',
     ''getVmLogs'', ''hasGuestTools'', ''ztoolsUpdate'', ''setVmState'', ''updateVmTimestamp'',
     ''getVmByName'', ''getAllTemplates'', ''getAllTemplatesFull'', ''getTemplate'', ''getTemplateByName'',
     ''getTemplateConfig'', ''getTemplateConfigByName'', ''addTemplate'', ''modifyTemplate'', ''cleanDB'',
     ''getOperatingSystems'', ''getConfigValue'', ''getConfigs'', ''getConfig'', ''setConfig'',
     ''setBlobConfig'', ''getConfigsFull'', ''isFrontendPluginEnabled'', ''getAllPlugins'',
     ''getFrontendPlugins'', ''modifyPlugin'']"

definition db_loads :: "string list" where
  "db_loads = db_loads_1 @ db_loads_2 @ db_loads_3"

fun LOAD :: "(string \<Rightarrow> bool) \<Rightarrow> string list \<Rightarrow> string list \<Rightarrow> string list option" where
  "LOAD symbol [] table = Some table"
| "LOAD symbol (x # xs) table = (if symbol x then LOAD symbol xs (x # table) else None)"

lemma LOAD_Some:
  "LOAD symbol xs table = (if \<forall>x\<in>set xs. symbol x then Some (rev xs @ table) else None)"
  by (induction xs arbitrary: table) auto

text \<open>
  The modules found (\<open>None\<close> for a path that cannot be read), and for a file whether it loads,
  which symbols it has and whether its \<open>init\<close> succeeds, are the module's business. An empty
  list gives no module to load: the code goes on with a null pointer.
\<close>

record db_files =
  f_list :: "string list option"
  f_load :: "string \<Rightarrow> bool"
  f_memory :: bool
  f_symbol :: "string \<Rightarrow> string \<Rightarrow> bool"
  f_init :: "string \<Rightarrow> bool"

datatype db_start = Db_refused | Db_table "string list" | Db_crash

definition db_initialize :: "db_files \<Rightarrow> string \<Rightarrow> string list \<Rightarrow> db_start" where
  "db_initialize files file table = (if f_init files file then Db_table table else Db_refused)"

definition db_init :: "db_files \<Rightarrow> zentific_config \<Rightarrow> db_start" where
  "db_init files conf =
     (case f_list files of
        None \<Rightarrow> Db_refused
      | Some paths \<Rightarrow>
          if list_ex (\<lambda>p. db_sources_cb p conf = None) paths then Db_crash
          else
            (let found = filter (\<lambda>p. db_sources_cb p conf = Some True) paths in
             if found = [] then Db_crash
             else
               (let file = last found in
                if \<not> f_load files file then Db_refused
                else if \<not> f_memory files then Db_refused
                else
                  (case LOAD (f_symbol files file) db_loads [] of
                     None \<Rightarrow> Db_refused
                   | Some table \<Rightarrow> db_initialize files file table))))"

text \<open>A call through the table: an entry that was never set is a call of the null pointer.\<close>

definition db_slot :: "string \<Rightarrow> (smod \<Rightarrow> smod) \<Rightarrow> smod \<Rightarrow> smod" where
  "db_slot name f m = (if name \<in> set db_loads then f m else emit OCrash m)"

lemma db_table_set: "db_init files conf = Db_table table \<Longrightarrow> set table = set db_loads"
  by (auto simp: db_init_def db_initialize_def LOAD_Some Let_def split: option.splits if_splits)

text \<open>The functions that have a slot and a caller, but are never looked up.\<close>

lemma never_loaded:
  "''setPlatformConfig'' \<notin> set db_loads" "''setControlModuleConfig'' \<notin> set db_loads"
  "''getVmByRev'' \<notin> set db_loads" "''getVmCount'' \<notin> set db_loads" "''getVmCountByUID'' \<notin> set db_loads"
  "''getNetworkIdByName'' \<notin> set db_loads" "''isDiskInUse'' \<notin> set db_loads" "''isDiskByStorage'' \<notin> set db_loads"
  "''getAllNodesFullRangeSorted'' \<notin> set db_loads" "''getNodeCount'' \<notin> set db_loads"
  "''getNodeCountByUID'' \<notin> set db_loads"
  by (simp_all add: db_loads_def db_loads_1_def db_loads_2_def db_loads_3_def)

lemma db_slot_crashes: "name \<notin> set db_loads \<Longrightarrow> db_slot name f m = emit OCrash m"
  by (simp add: db_slot_def)

lemmas null_slots = never_loaded [THEN db_slot_crashes]

end
