(* ===== verification/Vm.thy ===== *)
theory Vm
  imports Join Device Jobs Sql_Platform Dbsource
begin

text \<open>
  src/servlets/functions/functions-vm.c: the actions on virtual machines, and the reports of
  the poller, which bring the stored machines up to date by one context per machine.
\<close>

subsection \<open>Single queries and refusals\<close>

definition z_createVM :: "env \<Rightarrow> cstr \<Rightarrow> smod \<Rightarrow> bool \<times> smod" where
  "z_createVM e uuid m = CTX_RETURN (db_call e (db_createVM uuid) m)"

definition z_getVM :: "env \<Rightarrow> cstr \<Rightarrow> smod \<Rightarrow> bool \<times> smod" where
  "z_getVM e uuid m = CTX_RETURN (db_call e (db_getVM uuid) m)"

definition z_getAllUserGroupsByVm :: "env \<Rightarrow> cstr \<Rightarrow> smod \<Rightarrow> bool \<times> smod" where
  "z_getAllUserGroupsByVm e uuid m = CTX_RETURN (set_error NOT_IMPLEMENTED m)"

definition z_configPush :: "env \<Rightarrow> cstr \<Rightarrow> smod \<Rightarrow> bool \<times> smod" where
  "z_configPush e uuid m = CTX_RETURN (set_error NOT_IMPLEMENTED m)"

definition z_getVMprivilege :: "env \<Rightarrow> cstr \<Rightarrow> int \<Rightarrow> int \<Rightarrow> smod \<Rightarrow> bool \<times> smod" where
  "z_getVMprivilege e uuid uid gid m = CTX_RETURN (db_call e (db_getPrivilege uuid uid gid 1) m)"

definition z_grantVMprivilege :: "env \<Rightarrow> cstr \<Rightarrow> int \<Rightarrow> int \<Rightarrow> int \<Rightarrow> smod \<Rightarrow> bool \<times> smod" where
  "z_grantVMprivilege e uuid uid gid level m = CTX_RETURN (db_call e (db_grantPrivilege uuid uid gid level 1) m)"

definition z_revokeVMprivilege :: "env \<Rightarrow> cstr \<Rightarrow> int \<Rightarrow> int \<Rightarrow> smod \<Rightarrow> bool \<times> smod" where
  "z_revokeVMprivilege e uuid uid gid m = CTX_RETURN (db_call e (db_revokePrivilege uuid uid gid 1) m)"

text \<open>These call functions the loader of the database module never looks up.\<close>

definition z_getVmByRev :: "env \<Rightarrow> cstr \<Rightarrow> int \<Rightarrow> smod \<Rightarrow> bool \<times> smod" where
  "z_getVmByRev e uuid revision m =
     CTX_RETURN (if revision < 0 then set_error INVALID_PARAMETER m
                 else db_slot ''getVmByRev'' (db_call e (db_getVmByRev uuid revision)) m)"

definition z_removeVm :: "env \<Rightarrow> cstr \<Rightarrow> bool \<Rightarrow> bool \<Rightarrow> smod \<Rightarrow> bool \<times> smod" where
  "z_removeVm e uuid setInactive removeDisks m =
     CTX_RETURN (db_call e (if setInactive then db_ignoreVm uuid else db_removeVm uuid) m)"

definition z_getVmCount :: "env \<Rightarrow> smod \<Rightarrow> bool \<times> smod" where
  "z_getVmCount e m =
     CTX_RETURN (if c_user_type m = 0 then db_slot ''getVmCount'' (db_call e db_getVmCount) m
                 else db_slot ''getVmCountByUID'' (db_call e (db_getVmCountByUID (s_uid (m_session m)))) m)"

text \<open>A sort field of more than 25 characters is refused.\<close>

definition z_getVMs :: "env \<Rightarrow> cstr \<Rightarrow> bool \<Rightarrow> int \<Rightarrow> int \<Rightarrow> smod \<Rightarrow> bool \<times> smod" where
  "z_getVMs e sortfield desc offset recordcount m =
     CTX_RETURN
       (case sortfield of
          Some s \<Rightarrow> if 25 < strlen_bounded e s 26 then set_error INVALID_PARAMETER m
                    else db_call e (db_getVMsSorted sortfield desc offset recordcount) m
        | None \<Rightarrow> db_call e (db_getVMs offset recordcount) m)"

definition z_getVMsUID :: "env \<Rightarrow> int \<Rightarrow> cstr \<Rightarrow> bool \<Rightarrow> int \<Rightarrow> int \<Rightarrow> smod \<Rightarrow> bool \<times> smod" where
  "z_getVMsUID e uid sortfield desc offset recordcount m =
     CTX_RETURN
       (case sortfield of
          Some s \<Rightarrow> if 25 < strlen_bounded e s 26 then set_error INVALID_PARAMETER m
                    else db_call e (db_getVMsByUIDSorted uid sortfield desc offset recordcount) m
        | None \<Rightarrow> db_call e (db_getVMsByUID uid offset recordcount) m)"

subsection \<open>Listing whole machines\<close>

text \<open>
  One context per machine fetches it. A step returns whether the context has been freed and
  the machine it found; \<open>getvm_out\<close> is what freeing it does to the waiting call.
\<close>

definition vm_cb_getvm :: "env \<Rightarrow> cstr \<Rightarrow> smod \<Rightarrow> bool \<times> vm option \<times> smod" where
  "vm_cb_getvm e uuid m =
     (let cont = (\<lambda>m. (c_error m \<noteq> None, None, m)) in
      if c_count m = 0 then cont (CTX_VALUE_JOB (Vmf Vm_cb_getvm) (db_call e (db_getVM uuid) m))
      else if c_count m = 1 then
        (case CTX_PARAM_GET (Vmf Vm_cb_getvm) m of
           (VVm v, m) \<Rightarrow> if c_error m = None then (True, Some v, m) else cont m
         | (_, m) \<Rightarrow> cont m)
      else cont m)"

fun add_vm :: "vm option \<Rightarrow> val \<Rightarrow> val" where
  "add_vm None r = r"
| "add_vm (Some v) (VVms vs) = VVms (vs @ [v])"
| "add_vm (Some v) r = VVms [v]"

definition getvm_out :: "vm option \<Rightarrow> smod \<Rightarrow> smod" where
  "getvm_out found p =
     (let p = p\<lparr>c_retval := add_vm found (c_retval p)\<rparr>;
          p = p\<lparr>c_count := c_count p - 1\<rparr>
      in if c_count p = 2 then emit (OResume True) (REWIND p) else p)"

definition vm_cb_getallvmsfull :: "smod \<Rightarrow> smod" where
  "vm_cb_getallvmsfull m =
     (if c_count m = 1 then
        (let (uuids, m) = CTX_PARAM_GET (Vmf Vm_cb_getallvmsfull) m in
         if c_error m \<noteq> None then m
         else case uuids of
             VStrs us \<Rightarrow>
               (let m = m\<lparr>c_count := c_count m + of_nat (length us)\<rparr>;
                    m = fold (\<lambda>u. emit (OSpawn (Vmf Vm_cb_getvm))) us m
                in m\<lparr>c_count := c_count m + 1\<rparr>)
           | _ \<Rightarrow> RESUME (AZY_RETVAL VNull m))
      else if c_count m = 2 then AZY_RETVAL (c_retval m) (m\<lparr>c_retval := VNull\<rparr>)
      else m)"

text \<open>The five listings differ in the query that finds the machines.\<close>

definition full_listing :: "(smod \<Rightarrow> bool \<times> smod) \<Rightarrow> smod \<Rightarrow> bool \<times> smod" where
  "full_listing fetch m =
     CTX_RETURN (if c_count m = 0 then CTX_VALUE_SEND (Vmf Vm_cb_getallvmsfull) (snd (fetch m))
                 else vm_cb_getallvmsfull m)"

definition z_getVmsByNetworkFull :: "env \<Rightarrow> int \<Rightarrow> smod \<Rightarrow> bool \<times> smod" where
  "z_getVmsByNetworkFull e nwid m = full_listing (z_getVmsByNetwork e nwid) m"

definition z_getAllVmsFullByNode :: "env \<Rightarrow> cstr \<Rightarrow> smod \<Rightarrow> bool \<times> smod" where
  "z_getAllVmsFullByNode e uuid m = full_listing (\<lambda>m. (True, db_call e (db_getAllVmsByNode uuid) m)) m"

definition z_getVMsFullUID :: "env \<Rightarrow> int \<Rightarrow> cstr \<Rightarrow> bool \<Rightarrow> int \<Rightarrow> int \<Rightarrow> smod \<Rightarrow> bool \<times> smod" where
  "z_getVMsFullUID e uid sortfield desc offset recordcount m =
     full_listing (z_getVMsUID e uid sortfield desc offset recordcount) m"

definition z_getVMsFull :: "env \<Rightarrow> cstr \<Rightarrow> bool \<Rightarrow> int \<Rightarrow> int \<Rightarrow> smod \<Rightarrow> bool \<times> smod" where
  "z_getVMsFull e sortfield desc offset recordcount m =
     full_listing (z_getVMs e sortfield desc offset recordcount) m"

subsection \<open>Reports of the poller\<close>

text \<open>A state is stored as reported; the first letter says whether it was a change worth handling.\<close>

definition z_handleVmStateChange :: "env \<Rightarrow> cstr \<Rightarrow> cstr \<Rightarrow> smod \<Rightarrow> bool \<times> smod" where
  "z_handleVmStateChange e uuid state m =
     (let handled = (case state of
                       Some (c # _) \<Rightarrow> c \<in> {CHR ''s'', CHR ''d'', CHR ''c''} \<and> c \<notin> {CHR ''r'', CHR ''b'', CHR ''p''}
                     | _ \<Rightarrow> False);
          m = CTX_CB_ADD F_NULL (db_call e (db_setVmState uuid state) m);
          m = CTX_CB_ADD (Core Cb_bool_job) (db_call e (db_updateVmTimestamp uuid) m)
      in (handled, m))"

fun VM_config_cmp :: "vm option \<Rightarrow> vm option \<Rightarrow> bool" where
  "VM_config_cmp None None = False"
| "VM_config_cmp None (Some b) = True"
| "VM_config_cmp (Some a) None = True"
| "VM_config_cmp (Some a) (Some b) =
     (if v_name a \<noteq> v_name b then True
      else if v_puuid a \<noteq> v_puuid b then True
      else if v_type a \<noteq> v_type b then True
      else if v_os a \<noteq> v_os b then True
      else if v_kernel a \<noteq> v_kernel b then True
      else if v_ramdisk a \<noteq> v_ramdisk b then True
      else if v_cmdline a \<noteq> v_cmdline b then True
      else if v_on_reboot a \<noteq> v_on_reboot b then True
      else if v_on_poweroff a \<noteq> v_on_poweroff b then True
      else if v_on_crash a \<noteq> v_on_crash b then True
      else if v_mem a \<noteq> v_mem b then True
      else if v_maxmem a \<noteq> v_maxmem b then True
      else if v_vcpus a \<noteq> v_vcpus b then True
      else if v_vncport a \<noteq> v_vncport b then True
      else if v_vncpasswd a \<noteq> v_vncpasswd b then True
      else False)"

text \<open>
  The context of one reported machine goes through numbered stages, with the machine, the
  uid of the session and its own \<open>ret\<close> bit (the machine is being added, not reported) given.
  A stage returns whether the context is freed and the contexts it has started for the
  disks and interfaces. Those are started by a query of their own, when the machine is
  known, whose answer \<open>cb_pointer_job\<close> is to hand on; but where it looks for the name of a
  function, the address of one has been put, and no job is set. The tables of queries are
  shared by all contexts.
\<close>

definition device_context :: "vm \<Rightarrow> fname \<Rightarrow> smod \<Rightarrow> smod" where
  "device_context v f m =
     m\<lparr>c_cbs := [Core Cb_pointer_job], c_params := (\<lambda>_. VNull)(Core Cb_pointer_job := VCode f), c_retval := VVm v,
       c_data := VNull, c_data2 := VNull, c_free_func := None, c_job := None, c_error := None, c_count := 0,
       c_user_type := 0, c_state := False, c_ret := False, c_ret_set := False, c_dead := False,
       c_checked := False, c_auth := False, c_sso := False\<rparr>"

definition share_tables :: "smod \<Rightarrow> smod \<Rightarrow> smod" where
  "share_tables z m = m\<lparr>m_qid := m_qid z, m_type_cbs := m_type_cbs z, m_db_cbs := m_db_cbs z, m_out := m_out z\<rparr>"

definition start_device :: "env \<Rightarrow> vm \<Rightarrow> fname \<Rightarrow> dbreq \<Rightarrow> smod \<Rightarrow> smod \<times> smod" where
  "start_device e v f req m =
     (let z = (if c_checked m then db_call e req (device_context v f m) else device_context v f m)
      in (z, count_inc (share_tables z m)))"

definition vm_stage_7 :: "env \<Rightarrow> vm \<Rightarrow> int \<Rightarrow> bool \<Rightarrow> smod \<Rightarrow> bool \<times> smod" where
  "vm_stage_7 e v uid ret m =
     (let m = m\<lparr>c_error := None\<rparr> in
      if c_auth m then
        (let m = CTX_BOOL_JOB (Vmf Vm_cb_update) (db_call e
               (if ret then db_saveVMrevision (v_uuid v) uid (Some ''zrpc'') (Some ''Saved vm.'')
                else db_saveVMrevision (v_uuid v) (-1) (Some ''zrpc'')
                       (Some ''Automatically generated from zpoll data received by zrpc daemon.'')) m)
         in (c_error m \<noteq> None, m))
      else (True, m))"

definition vm_stage_6 :: "env \<Rightarrow> vm \<Rightarrow> int \<Rightarrow> bool \<Rightarrow> smod \<Rightarrow> bool \<times> smod list \<times> smod" where
  "vm_stage_6 e v uid ret m =
     (let m = m\<lparr>c_error := None\<rparr>;
          (ds, m) = (if v_disks v \<noteq> []
                     then case start_device e v (Vmf Disk_cb_updateconfig) (db_getVMdisks (v_uuid v)) m of (z, m) \<Rightarrow> ([z], m)
                     else ([], m));
          (vs, m) = (if v_vifs v \<noteq> []
                     then case start_device e v (Vmf Vif_cb_updateconfig) (db_getVMvifs (v_uuid v)) m of (z, m) \<Rightarrow> ([z], m)
                     else ([], m));
          m = count_inc m
      in if c_count m \<noteq> 7 then (c_error m \<noteq> None, ds @ vs, m)
         else case vm_stage_7 e v uid ret m of (freed, m) \<Rightarrow> (freed, ds @ vs, m))"

definition vm_stage_5 :: "env \<Rightarrow> vm \<Rightarrow> int \<Rightarrow> bool \<Rightarrow> smod \<Rightarrow> bool \<times> smod list \<times> smod" where
  "vm_stage_5 e v uid ret m =
     (let m = m\<lparr>c_error := None\<rparr> in
      if \<not> ret then
        (let m = (if c_checked m then CTX_CB_ADD F_NULL (db_call e (db_pruneVmStats (v_uuid v)) m) else m);
             m = CTX_BOOL_JOB (Vmf Vm_cb_update) (db_call e (db_updateVmStats v) m)
         in (c_error m \<noteq> None, [], m))
      else vm_stage_6 e v uid ret m)"

definition vm_stage_4 :: "env \<Rightarrow> vm \<Rightarrow> int \<Rightarrow> bool \<Rightarrow> smod \<Rightarrow> bool \<times> smod list \<times> smod" where
  "vm_stage_4 e v uid ret m =
     (let (data, m) = (if c_checked m then CTX_PARAM_GET (Vmf Vm_cb_update) m else (VNull, m));
          stored = (case data of VVm s \<Rightarrow> Some s | _ \<Rightarrow> None);
          m = (if VM_config_cmp (Some v) stored
               then CTX_BOOL_JOB (Vmf Vm_cb_update) ((db_call e (db_updateVmConfig v) m)\<lparr>c_auth := True\<rparr>)
               else count_inc m)
      in if c_count m \<noteq> 5 then (c_error m \<noteq> None, [], m) else vm_stage_5 e v uid ret m)"

definition vm_cb_update :: "env \<Rightarrow> vm \<Rightarrow> int \<Rightarrow> bool \<Rightarrow> smod \<Rightarrow> bool \<times> smod list \<times> smod" where
  "vm_cb_update e v uid ret m =
     (let cont = (\<lambda>m. (c_error m \<noteq> None, [], m)) in
      if c_count m = 0 then
        (if \<not> zs_uuid e (v_uuid v) then (True, [], m)
         else cont (CTX_BOOL_JOB (Vmf Vm_cb_update) (db_call e (db_createVM (v_uuid v)) m)))
      else if c_count m = 1 then
        (if c_error m = Some ENTITY_ALREADY_EXISTS then
           cont (snd (z_handleVmStateChange e (v_uuid v) (v_state v)
             (m\<lparr>c_count := c_count m - 1, c_error := None, c_checked := True\<rparr>)))
         else if strstr (v_name v) ''-migrating'' then (True, [], m)
         else cont (CTX_BOOL_JOB (Vmf Vm_cb_update) (db_call e (db_updateVMparentNode (v_uuid v) (v_puuid v)) m)))
      else if c_count m = 2 then
        (let m = m\<lparr>c_error := None\<rparr> in
         if c_checked m then cont (CTX_BOOL_JOB (Vmf Vm_cb_update) (db_call e (db_isVmIgnored (v_uuid v)) m))
         else vm_stage_4 e v uid ret (count_inc m))
      else if c_count m = 3 then
        (if c_checked m then
           (let (data, m) = CTX_PARAM_GET (Vmf Vm_cb_update) m in
            if \<not> is_null data then (True, [], m)
            else cont (CTX_VALUE_JOB (Vmf Vm_cb_update) (db_call e (db_getVM (v_uuid v)) m)))
         else vm_stage_4 e v uid ret (count_inc m))
      else if c_count m = 4 then vm_stage_4 e v uid ret m
      else if c_count m = 5 then vm_stage_5 e v uid ret m
      else if c_count m = 6 then vm_stage_6 e v uid ret m
      else if c_count m = 7 then (case vm_stage_7 e v uid ret m of (freed, m) \<Rightarrow> (freed, [], m))
      else (True, [], m))"

text \<open>What freeing it does to the report that waits, and the report itself.\<close>

definition update_out :: "unit \<Rightarrow> smod \<Rightarrow> smod" where
  "update_out _ p =
     (let p = p\<lparr>c_count := c_count p - 1\<rparr> in if c_count p = 5 then emit (OResume True) (REWIND p) else p)"

definition report_machines :: "cstr \<Rightarrow> vm list \<Rightarrow> vm list" where
  "report_machines uuid vms = map (\<lambda>v. v\<lparr>v_puuid := uuid\<rparr>) vms"

definition z_updateVMs :: "env \<Rightarrow> cstr \<Rightarrow> vm list \<Rightarrow> smod \<Rightarrow> bool \<times> smod" where
  "z_updateVMs e uuid vms m =
     (if c_count m = 0 then CTX_RETURN (CTX_VALUE_RETURN (Vmf F_updateVMs) (db_call e (db_getNodeControlModule uuid) m))
      else if c_count m = 1 then
        (if c_error m \<noteq> None then CTX_RETURN m
         else
           (let (modul, m) = CTX_PARAM_GET (Vmf F_updateVMs) m in
            if as_str modul = None \<or> as_str modul = Some [] then CTX_RETURN (set_error NODE_UNCONFIGURED m)
            else
              (let m = fold (\<lambda>v. emit (OSpawn (Vmf Vm_cb_update))) (report_machines uuid vms) m
               in CTX_RETURN (m\<lparr>c_count := c_count m + (of_nat (length vms) + 4)\<rparr>))))
      else CTX_RETURN (RESUME (AZY_RETVAL (VBool True) m)))"

subsection \<open>Actions\<close>

text \<open>
  An action on a machine becomes a job: its node and address are looked up, then the control
  module of the node, then the job is stored, for the user of the session.
\<close>

definition vmAction :: "env \<Rightarrow> cstr \<Rightarrow> int \<Rightarrow> string \<Rightarrow> string \<Rightarrow> string \<Rightarrow> smod \<Rightarrow> bool \<times> smod" where
  "vmAction e uuid uid module_function input_string extra m =
     (let m =
        (if c_count m = 0 then
           (let (job, m) = JOB_alloc (JOB_new\<lparr>j_uid := uid, j_target_vm := uuid, j_module_function := Some module_function,
                  j_input_string := Some input_string, j_extra := Some extra\<rparr>) m;
                m = m\<lparr>c_retval := job\<rparr>;
                m = db_call e (db_getVMparentNodeAndAddress uuid) m;
                m = CTX_CB_ADD (Core Cb_job_target_node_addr) m
            in CTX_PARAM_ADD (Core Cb_job_target_node_addr) job m)
         else if c_count m = 1 then
           (if c_error m \<noteq> None then m
            else case job_at (c_retval m) m of
                None \<Rightarrow> emit OCrash m
              | Some j \<Rightarrow>
                  (let m = snd (z_getNodeControlModule e (j_target_node j) m);
                       m = CTX_CB_ADD (Core Cb_job_module_name) m
                   in CTX_PARAM_ADD (Core Cb_job_module_name) (c_retval m) m))
         else if c_count m = 2 then
           (let m = snd (job_add e (c_retval m) (s_uid (m_session m)) m) in job_free (c_retval m) m)
         else m)
      in CTX_RETURN (if c_error m \<noteq> None then set_error JOB_CREATION_FAILED m else m))"

definition z_poweronVM :: "env \<Rightarrow> cstr \<Rightarrow> int \<Rightarrow> bool \<Rightarrow> smod \<Rightarrow> bool \<times> smod" where
  "z_poweronVM e uuid caller_uid paused m =
     vmAction e uuid caller_uid (if paused then ''powerOnPaused'' else ''powerOn'') [] [] m"

definition z_poweroffVM :: "env \<Rightarrow> cstr \<Rightarrow> int \<Rightarrow> smod \<Rightarrow> bool \<times> smod" where
  "z_poweroffVM e uuid caller_uid m = vmAction e uuid caller_uid ''powerOff'' [] [] m"

definition z_shutdownVM :: "env \<Rightarrow> cstr \<Rightarrow> int \<Rightarrow> smod \<Rightarrow> bool \<times> smod" where
  "z_shutdownVM e uuid caller_uid m = vmAction e uuid caller_uid ''shutdown'' [] [] m"

definition z_rebootVM :: "env \<Rightarrow> cstr \<Rightarrow> int \<Rightarrow> smod \<Rightarrow> bool \<times> smod" where
  "z_rebootVM e uuid caller_uid m = vmAction e uuid caller_uid ''reboot'' [] [] m"

definition z_pauseVM :: "env \<Rightarrow> cstr \<Rightarrow> int \<Rightarrow> smod \<Rightarrow> bool \<times> smod" where
  "z_pauseVM e uuid caller_uid m = vmAction e uuid caller_uid ''pause'' [] [] m"

definition z_unpauseVM :: "env \<Rightarrow> cstr \<Rightarrow> int \<Rightarrow> smod \<Rightarrow> bool \<times> smod" where
  "z_unpauseVM e uuid caller_uid m = vmAction e uuid caller_uid ''unpause'' [] [] m"

definition z_disableStateHandlingVM :: "env \<Rightarrow> cstr \<Rightarrow> int \<Rightarrow> smod \<Rightarrow> bool \<times> smod" where
  "z_disableStateHandlingVM e uuid caller_uid m = vmAction e uuid caller_uid ''disablestatehandling'' [] [] m"

definition z_enableStateHandlingVM :: "env \<Rightarrow> cstr \<Rightarrow> int \<Rightarrow> smod \<Rightarrow> bool \<times> smod" where
  "z_enableStateHandlingVM e uuid caller_uid m = vmAction e uuid caller_uid ''enablestatehandling'' [] [] m"

definition or_empty :: "cstr \<Rightarrow> string" where
  "or_empty s = (case s of None \<Rightarrow> [] | Some s \<Rightarrow> s)"

definition z_suspendVM :: "env \<Rightarrow> cstr \<Rightarrow> int \<Rightarrow> cstr \<Rightarrow> smod \<Rightarrow> bool \<times> smod" where
  "z_suspendVM e uuid caller_uid destination m =
     vmAction e uuid caller_uid ''suspend'' (or_empty destination) [] m"

definition z_migrateVM :: "env \<Rightarrow> cstr \<Rightarrow> int \<Rightarrow> cstr \<Rightarrow> smod \<Rightarrow> bool \<times> smod" where
  "z_migrateVM e uuid caller_uid destination m =
     vmAction e uuid caller_uid ''migrate'' (or_empty destination) [] m"

definition z_snapshotVM :: "smod \<Rightarrow> bool \<times> smod" where
  "z_snapshotVM m = CTX_RETURN (set_error NOT_IMPLEMENTED m)"

definition z_restoreVM :: "smod \<Rightarrow> bool \<times> smod" where
  "z_restoreVM m = CTX_RETURN (set_error NOT_IMPLEMENTED m)"

subsection \<open>New machines\<close>

text \<open>
  A new machine needs a free uuid, a configured node and memory there, total and free; then
  it is created and stored as if reported, and a job asks the node to make it. The uuid is
  the one given, or a new one when that is not valid; it is worked out in the first run and
  stays in the structure.
\<close>

definition new_uuid :: "env \<Rightarrow> vm \<Rightarrow> vm" where
  "new_uuid e v = (if zs_uuid e (v_uuid v) then v else v\<lparr>v_uuid := Some (e_uuid e)\<rparr>)"

definition fits_node :: "node_stats \<Rightarrow> vm \<Rightarrow> bool" where
  "fits_node st v \<longleftrightarrow> \<not> (ns_total_phys_mem st \<le> of_int (v_mem v) \<or> ns_free_phys_mem st \<le> of_int (v_mem v))"

definition addVm_lookups :: "env \<Rightarrow> cstr \<Rightarrow> vm \<Rightarrow> smod \<Rightarrow> smod" where
  "addVm_lookups e puuid v m =
     (let f = Vmf F_addVmToNode in
      if c_count m = 1 then
        (if c_error m = None then set_error ENTITY_ALREADY_EXISTS m
         else CTX_VALUE_RETURN f (snd (z_getNodeControlModule e puuid (m\<lparr>c_error := None\<rparr>))))
      else if c_count m = 2 then
        (if c_error m \<noteq> None then m
         else case CTX_PARAM_GET f m of (modul, m) \<Rightarrow>
           if as_str modul = None \<or> as_str modul = Some [] then set_error NODE_UNCONFIGURED m
           else
             (case JOB_alloc (JOB_new\<lparr>j_module_name := as_str modul\<rparr>) m of (job, m) \<Rightarrow>
                CTX_VALUE_RETURN f (snd (z_getLatestNodeStat e puuid (m\<lparr>c_retval := job\<rparr>)))))
      else
        (case CTX_PARAM_GET f m of (stats, m) \<Rightarrow>
           case stats of
             VStats st \<Rightarrow>
               if c_error m \<noteq> None then m
               else if \<not> fits_node st v then set_error INSUFFICIENT_RESOURCES m
               else CTX_INT_RETURN f (snd (z_createVM e (v_uuid v) m))
           | _ \<Rightarrow> set_error DB_FAIL m))"

definition addVm_job :: "env \<Rightarrow> cstr \<Rightarrow> vm \<Rightarrow> smod \<Rightarrow> smod" where
  "addVm_job e puuid v m =
     (if c_count m = 4 then
        (if c_error m \<noteq> None then m
         else (emit (OSpawn (Vmf Vm_cb_update)) m)\<lparr>c_count := c_count m + 2\<rparr>)
      else if c_count m = 5 then
        (let m = with_job (c_retval m) (\<lambda>j. j\<lparr>j_target_node := v_puuid v, j_target_vm := v_uuid v,
                   j_module_function := Some ''addVm'',
                   j_input_string := Some (''uuid='' @ printf_s (v_uuid v) @ '',puuid='' @ printf_s puuid),
                   j_extra := Some []\<rparr>) m;
             m = snd (z_getVMparentAddress e (v_uuid v) m);
             m = CTX_CB_ADD (Core Cb_job_target_host) m
         in CTX_PARAM_ADD (Core Cb_job_target_host) (c_retval m) m)
      else if c_count m = 6 then
        (let m = snd (job_add e (c_retval m) (s_uid (m_session m)) m) in job_free (c_retval m) m)
      else m)"

text \<open>The structure comes back, with what the first run has put into it.\<close>

definition z_addVmToNode :: "env \<Rightarrow> cstr \<Rightarrow> vm option \<Rightarrow> int \<Rightarrow> smod \<Rightarrow> vm option \<times> bool \<times> smod" where
  "z_addVmToNode e puuid vmo caller_uid m =
     (case vmo of
        None \<Rightarrow> (None, if c_count m = 0 then CTX_RETURN (set_error INVALID_PARAMETER m) else (False, emit OCrash m))
      | Some v \<Rightarrow>
          if c_count m = 0 then
            (if puuid = None \<or> caller_uid < 0 then (Some v, CTX_RETURN (set_error INVALID_PARAMETER m))
             else
               (let v = (new_uuid e v)\<lparr>v_puuid := puuid\<rparr>
                in (Some v, CTX_RETURN (CTX_INT_RETURN (Vmf F_addVmToNode) (snd (z_isVM e (v_uuid v) m))))))
          else (Some v, CTX_RETURN (if c_count m < 4 then addVm_lookups e puuid v m else addVm_job e puuid v m)))"

text \<open>
  Saving a machine: the labels of the \<open>switch\<close> stand inside an \<open>if\<close> that it jumps over, so a
  template is made whether asked for or not; and the template the third run wants to store
  is a local variable of the first.
\<close>

definition z_saveVM :: "env \<Rightarrow> vm \<Rightarrow> bool \<Rightarrow> smod \<Rightarrow> bool \<times> smod" where
  "z_saveVM e v astemplate m =
     CTX_RETURN
       (if c_count m = 0 then
          (let m = m\<lparr>c_retval := VTemplate \<lparr> tp_name = Some (v_name v), tp_description = Some ''Templated generated via saveVM'',
                      tp_type = v_type v, tp_platform = 0, tp_architecture = Some ''64'', tp_uuid = Some (e_uuid e) \<rparr>\<rparr>
           in CTX_INT_RETURN (Vmf F_saveVM) (db_call e (db_getPlatformIdByVm (v_uuid v)) m))
        else if c_count m = 1 then
          (case CTX_PARAM_GET (Vmf F_saveVM) m of
             (i, m) \<Rightarrow>
               if is_null i then
                 (case c_retval m of
                    VTemplate t \<Rightarrow>
                      (let m = m\<lparr>c_retval := VTemplate (t\<lparr>tp_platform := 0\<rparr>)\<rparr>
                       in CTX_INT_RETURN (Vmf F_saveVM) (db_call e (db_createVmTemplate (tp_uuid t)) m))
                  | _ \<Rightarrow> emit OCrash m)
               else emit OCrash m)
        else if c_count m = 2 then emit OCrash m
        else if c_count m = 4 then emit (OSpawn (Vmf Vm_cb_update)) m
        else if c_count m = 5 then RESUME (AZY_RETVAL (VBool (c_error m = None)) m)
        else m)"

text \<open>The statistics of the guest tools are dropped: the database function does nothing.\<close>

definition z_ztoolsUpdate :: "env \<Rightarrow> cstr \<Rightarrow> smod \<Rightarrow> bool \<times> smod" where
  "z_ztoolsUpdate e uuid m =
     CTX_RETURN (if \<not> c_state m then snd (z_isNodeEnabledAndConfigured e uuid m) else m)"

subsection \<open>The contexts that wait are joined\<close>

interpretation updates: join update_out 5 "[ORewind, OResume True]"
  by unfold_locales (simp_all add: update_out_def REWIND_def emit_def Let_def)

interpretation getvms: join getvm_out 2 "[ORewind, OResume True]"
  by unfold_locales (simp_all add: getvm_out_def REWIND_def emit_def Let_def)

interpretation devices: join "\<lambda>_. device_out cb" 7 "[OJob cb]" for cb
  by unfold_locales (simp_all add: device_out_def emit_def Let_def)

lemma fold_emit: "fold (\<lambda>x. emit (g x)) xs m = m\<lparr>m_out := m_out m @ map g xs\<rparr>"
  by (induction xs arbitrary: m) (simp_all add: emit_def)

lemma fold_update_out_frame:
  "m_retval (fold update_out rs m) = m_retval m" "c_error (fold update_out rs m) = c_error m"
  "c_ret_set (fold update_out rs m) = c_ret_set m" "m_fault (fold update_out rs m) = m_fault m"
  "m_method (fold update_out rs m) = m_method m"
  by (induction rs arbitrary: m) (simp_all add: update_out_def REWIND_def emit_def Let_def)

fun vms_of :: "val \<Rightarrow> vm list" where
  "vms_of (VVms vs) = vs"
| "vms_of _ = []"

lemma vms_of_add: "vms_of (add_vm found r) = vms_of r @ (case found of None \<Rightarrow> [] | Some v \<Rightarrow> [v])"
  by (cases found; cases r) simp_all

lemma fold_getvm_out_frame:
  "vms_of (c_retval (fold getvm_out rs m)) = vms_of (c_retval m) @ List.map_filter id rs"
  "c_error (fold getvm_out rs m) = c_error m" "c_ret_set (fold getvm_out rs m) = c_ret_set m"
  "m_fault (fold getvm_out rs m) = m_fault m" "m_method (fold getvm_out rs m) = m_method m"
  by (induction rs arbitrary: m)
     (simp_all add: getvm_out_def REWIND_def emit_def Let_def vms_of_add map_filter_simps split: option.splits)

subsection \<open>Properties\<close>

text \<open>
  C10: A report of machines is answered when the last of them is done, and once: with a
  configured node, one context per machine is started and the client hears nothing; it
  stays so while any of them runs, in whatever order they end; the end of the last rewinds
  and resumes the call once, and the rerun answers true. A report with no machine starts
  nothing, so it is never answered.
\<close>

theorem report_answered_once:
  assumes "c_count m = 1" "c_error m = None" "\<not> c_ret_set m" "m_fault m = None" "m_method m"
    and modul: "CTX_PARAM_PEEK (Vmf F_updateVMs) m = VStr name" "name \<noteq> []"
    and some: "vms \<noteq> []" "length vms < 2 ^ 32" "k < length vms"
    and started: "m1 = snd (z_updateVMs e uuid vms m)"
  shows "m_out m1 = m_out m @ map (\<lambda>_. OSpawn (Vmf Vm_cb_update)) vms
    \<and> m_out (fold update_out (replicate k ()) m1) = m_out m1
    \<and> m_out (fold update_out (replicate (length vms) ()) m1) = m_out m1 @ [ORewind, OResume True]
    \<and> m_retval (snd (z_updateVMs e uuid vms (fold update_out (replicate (length vms) ()) m1))) = Some (VBool True)
    \<and> m_out (snd (z_updateVMs e uuid [] m)) = m_out m"
proof -
  have m1: "m1 = (CTX_PARAM_DEL (Vmf F_updateVMs) m)\<lparr>m_out := m_out m @ map (\<lambda>_. OSpawn (Vmf Vm_cb_update)) vms,
      c_count := 5 + of_nat (length vms)\<rparr>"
    using assms(1-4) modul by (simp add: started z_updateVMs_def fold_emit report_machines_def CTX_RETURN_def
        CTX_PARAM_GET_def CTX_PARAM_DEL_def Let_def algebra_simps comp_def)
  have wait: "m_out (fold update_out (replicate k ()) m1) = m_out m1"
    using updates.waiting [of m1 "length vms" "replicate k ()"] some by (simp add: m1)
  have join: "m_out (fold update_out (replicate (length vms) ()) m1) = m_out m1 @ [ORewind, OResume True]"
    "c_count (fold update_out (replicate (length vms) ()) m1) = 5"
    using updates.joined [of m1 "replicate (length vms) ()"] some by (simp_all add: m1)
  have "m_retval (snd (z_updateVMs e uuid vms p)) = Some (VBool True)"
    if "c_count p = 5" "c_error p = None" "\<not> c_ret_set p" "m_fault p = None" "m_method p" for p
    using that by (simp add: z_updateVMs_def AZY_RETVAL_retval)
  then have "m_retval (snd (z_updateVMs e uuid vms (fold update_out (replicate (length vms) ()) m1))) = Some (VBool True)"
    using join(2) assms(2-5) by (simp add: fold_update_out_frame m1 CTX_PARAM_DEL_def del: fold_replicate)
  moreover have "m_out (snd (z_updateVMs e uuid [] m)) = m_out m"
    using assms(1-4) modul by (simp add: z_updateVMs_def CTX_RETURN_def report_machines_def CTX_PARAM_GET_def
        CTX_PARAM_DEL_def Let_def)
  ultimately show ?thesis using wait join(1) by (simp add: m1 del: fold_replicate)
qed

definition sample_vm :: vm where
  "sample_vm =
    \<lparr> v_name = ''web'', v_uuid = Some ''uuid'', v_puuid = Some ''node'', v_type = None, v_os = None, v_id = 1,
      v_kernel = None, v_ramdisk = None, v_cmdline = None, v_on_reboot = None, v_on_poweroff = None,
      v_on_crash = None, v_mem = 512, v_maxmem = 1024, v_vcpus = 2, v_cpupct = 0, v_cputime = 0, v_uptime = 0,
      v_state = Some ''r'', v_vncport = 5900, v_vncpasswd = None,
      v_disks = [\<lparr> d_label = None, d_int_dev = None, d_ext_dev = Some ''/dev/a'', d_mode = None, d_type = None,
        d_partition_type = None, d_mapped_dev = None, d_ooreq = 0, d_rdreq = 0, d_wrreq = 0, d_num_sectors = 0,
        d_start_sector = 0, d_free = 0, d_capacity = 0, d_size_sector = 0, d_block_size = 0 \<rparr>],
      v_vifs = [] \<rparr>"

definition sample_stage :: "32 word \<Rightarrow> fname \<Rightarrow> val \<Rightarrow> smod" where
  "sample_stage n f x = sample_mod\<lparr>c_count := n, c_checked := True, c_params := (\<lambda>_. VNull)(f := x)\<rparr>"

lemmas sample_stage_simps = sample_stage_def sample_mod_def CTX_PARAM_PEEK_def

theorem report_answered_once_witness:
  "m_out (snd (z_updateVMs sample_env (Some ''node'') [sample_vm, sample_vm]
      (sample_stage 1 (Vmf F_updateVMs) (VStr ''xen'')))) = [OSpawn (Vmf Vm_cb_update), OSpawn (Vmf Vm_cb_update)]"
  using report_answered_once [of "sample_stage 1 (Vmf F_updateVMs) (VStr ''xen'')" "''xen''" "[sample_vm, sample_vm]" 0 _
      sample_env "Some ''node''", OF _ _ _ _ _ _ _ _ _ _ refl, THEN conjunct1]
  by (simp add: sample_stage_simps)



text \<open>
  C35: Ignoring a machine has no effect on reports: the stage that asks whether it is ignored
  hands the answer to a callback that drops it, so whatever the database says, the next
  stage goes on and fetches the stored machine.
\<close>

theorem ignored_machines_updated:
  assumes "c_count m = 2" "c_checked m" "\<not> c_dead m" "c_cbs m = []"
    "esql_accepts e (m_qid m)" "esql_accepts e (Suc (m_qid m))" "CTX_PARAM_PEEK (Vmf Vm_cb_update) m = VNull"
    and asked: "m1 = snd (snd (vm_cb_update e v uid ret m))"
  shows "m_out m1 = m_out m @ [OQuery (m_qid m) (query_of (db_isVmIgnored (v_uuid v)))]
    \<and> c_cbs m1 = [Core Cb_bool_job]
    \<and> vm_cb_update e v uid ret (cb_bool_job answer m1)
        = (False, [], CTX_VALUE_JOB (Vmf Vm_cb_update) (db_call e (db_getVM (v_uuid v)) (CTX_PARAM_DEL (Vmf Vm_cb_update) (cb_bool_job answer m1))))
    \<and> m_out (snd (snd (vm_cb_update e v uid ret (cb_bool_job answer m1))))
        = m_out m1 @ [OJob (Vmf Vm_cb_update), OQuery (Suc (m_qid m)) (query_of (db_getVM (v_uuid v)))]"
proof -
  obtain q where q: "db_isVmIgnored (v_uuid v) = DbQuery q" by (simp add: db_isVmIgnored_def)
  obtain q' where q': "db_getVM (v_uuid v) = DbQuery q'" by (simp add: db_getVM_def)
  have m1: "m1 = CTX_BOOL_JOB (Vmf Vm_cb_update) (db_call e (DbQuery q) (m\<lparr>c_error := None\<rparr>))"
    using assms(1,2) by (simp add: asked vm_cb_update_def q Let_def)
  have m1_simps: "c_count m1 = 2" "c_error m1 = None" "\<not> c_dead m1" "c_job m1 = Some (Vmf Vm_cb_update)"
    "c_cbs m1 = [Core Cb_bool_job]" "m_out m1 = m_out m @ [OQuery (m_qid m) q]" "c_checked m1" "m_qid m1 = Suc (m_qid m)"
    "CTX_PARAM_PEEK (Vmf Vm_cb_update) m1 = VNull"
    using assms(1-7) by (simp_all add: m1 CTX_BOOL_JOB_def CTX_CB_ADD_cbs CTX_PARAM_PEEK_def CTX_CB_ADD_def)
  define m2 where "m2 = cb_bool_job answer m1"
  have m2: "c_count m2 = 3" "c_error m2 = None" "\<not> c_dead m2" "c_checked m2" "m_qid m2 = Suc (m_qid m)"
    "m_out m2 = m_out m1 @ [OJob (Vmf Vm_cb_update)]" "CTX_PARAM_PEEK (Vmf Vm_cb_update) m2 = VNull"
    using m1_simps by (simp_all add: m2_def cb_bool_job_def ecore_job_add_def count_inc_def MARK_CB_def CTX_PARAM_PEEK_def Let_def)
  have "vm_cb_update e v uid ret m2
      = (False, [], CTX_VALUE_JOB (Vmf Vm_cb_update) (db_call e (db_getVM (v_uuid v)) (CTX_PARAM_DEL (Vmf Vm_cb_update) m2)))"
    using m2 assms(6) by (simp add: vm_cb_update_def CTX_PARAM_GET_def q' CTX_VALUE_JOB_def Let_def)
  then show ?thesis
    using m1_simps m2 assms(6) by (simp add: m2_def [symmetric] q q' CTX_VALUE_JOB_def CTX_BOOL_JOB_def CTX_CB_ADD_def)
qed

theorem ignored_machines_updated_witness:
  "\<exists>m2. vm_cb_update sample_env sample_vm 0 False (cb_bool_job (VBool True) m2)
     = (False, [], CTX_VALUE_JOB (Vmf Vm_cb_update) (db_call sample_env (db_getVM (Some ''uuid''))
         (CTX_PARAM_DEL (Vmf Vm_cb_update) (cb_bool_job (VBool True) m2))))"
  using ignored_machines_updated [of "sample_stage 2 F_NULL VNull" sample_env _ sample_vm 0 False "VBool True", OF _ _ _ _ _ _ _ refl]
  by (simp add: sample_stage_simps sample_vm_def sample_env_def del: One_nat_def) blast

end
