(* ===== verification/Runs.thy ===== *)
theory Runs
  imports Frame
begin

text \<open>
  The life of one call: a servlet function runs, suspends on the callbacks it has chained,
  and runs again when one of them rewinds it, or when it has rewound itself. The relation
  below relates the state a run started in to the state it left; whatever error and value
  the database brings with a callback is possible.
\<close>

fun core_cb :: "core_fn \<Rightarrow> val \<Rightarrow> smod \<Rightarrow> smod" where
  "core_cb Cb_bool_job v m = cb_bool_job v m"
| "core_cb Cb_int_job v m = cb_int_job v m"
| "core_cb Cb_pointer_job v m = cb_pointer_job v m"
| "core_cb Cb_int_rewind v m = cb_int_rewind v m"
| "core_cb Cb_bool_rewind v m = cb_bool_rewind v m"
| "core_cb Cb_auth_rewind v m = cb_auth_rewind v m"
| "core_cb Cb_pointer_return v m = cb_pointer_return v m"
| "core_cb Cb_int_return v m = cb_int_return v m"
| "core_cb Cb_job_target_node_addr v m = cb_job_target_node_addr v m"
| "core_cb Cb_job_target_host v m = cb_job_target_host v m"
| "core_cb Cb_job_module_name v m = cb_job_module_name v m"

definition fresh_call :: "smod \<Rightarrow> bool" where
  "fresh_call m \<longleftrightarrow> c_count m = 0 \<and> c_cbs m = [] \<and> c_error m = None \<and> \<not> c_ret_set m \<and> m_retval m = None \<and> \<not> c_dead m"

inductive call_reach :: "(smod \<Rightarrow> bool \<times> smod) \<Rightarrow> smod \<Rightarrow> smod \<Rightarrow> bool" for h where
  first: "fresh_call m \<Longrightarrow> call_reach h m (snd (h m))"
| woken: "call_reach h m0 m \<Longrightarrow> c_cbs m = Core f # fs \<Longrightarrow> \<not> c_dead m \<Longrightarrow> m1 = core_cb f v (m\<lparr>c_error := x\<rparr>)
    \<Longrightarrow> call_reach h m1 (snd (h m1))"
| again: "call_reach h m0 m \<Longrightarrow> ORewind \<in> set (drop (length (m_out m0)) (m_out m)) \<Longrightarrow> call_reach h m (snd (h m))"

lemma fault_set_answer [simp]: "m_retval (fault_set x m) = m_retval m"
  by (simp add: fault_set_def)

lemma raised [simp]: "m_fault (fault_set x m) = Some x" "c_error (set_error x m) = Some x"
  by (simp_all add: fault_set_def set_error_def)

lemma db_call_ret_set [simp]: "c_ret_set (db_call e r m) = c_ret_set m"
  by (simp add: db_call_def run_query_def set_free_def set_error_def emit_def Let_def split: dbreq.splits option.splits)

lemma with_job_frame [simp]:
  "m_retval (with_job v f m) = m_retval m" "c_ret_set (with_job v f m) = c_ret_set m"
  "m_retval (job_free v m) = m_retval m" "c_ret_set (job_free v m) = c_ret_set m"
  "m_fault (with_job v f m) = m_fault m" "m_method (with_job v f m) = m_method m"
  "m_fault (job_free v m) = m_fault m" "m_method (job_free v m) = m_method m"
  "c_error (with_job v f m) = c_error m" "c_error (job_free v m) = c_error m"
  "c_count (with_job v f m) = c_count m" "c_count (job_free v m) = c_count m"
  "c_cbs (with_job v f m) = c_cbs m" "c_cbs (job_free v m) = c_cbs m"
  "c_dead (with_job v f m) = c_dead m" "c_dead (job_free v m) = c_dead m"
  "m_out (job_free v m) = m_out m"
  by (auto simp: job_heap_defs emit_def split: val.splits option.splits)

lemma AZY_RETVAL_failed [simp]:
  "c_error m = Some x \<Longrightarrow> AZY_RETVAL v m = m" "m_fault m = Some x \<Longrightarrow> AZY_RETVAL v m = m"
  by (simp_all add: AZY_RETVAL_def)

lemma AZY_RETVAL_blocked [simp]:
  "c_ret_set m \<Longrightarrow> AZY_RETVAL v m = m"
  "\<not> m_method m \<Longrightarrow> m_retval (AZY_RETVAL v m) = m_retval m"
  "\<not> m_method m \<Longrightarrow> c_ret_set (AZY_RETVAL v m) = c_ret_set m"
  "m_method (AZY_RETVAL v m) = m_method m" "m_fault (AZY_RETVAL v m) = m_fault m"
  by (simp_all add: AZY_RETVAL_def)

lemma RESUME_fault [simp]: "m_fault m = Some y \<Longrightarrow> m_fault (RESUME m) = Some y"
  by (auto simp: RESUME_def Let_def split: option.splits)

text \<open>A fault stays, and a call does not get into or out of its method by a callback.\<close>

lemma core_cb_fault: "m_fault m = Some y \<Longrightarrow> m_fault (core_cb f v m) = Some y"
  by (cases f) (simp_all add: cb_defs CTX_PARAM_GET_def Let_def split: option.split val.split list.split)

lemma core_cb_method [simp]: "m_method (core_cb f v m) = m_method m"
  by (cases f) (simp_all add: cb_defs CTX_PARAM_GET_def Let_def split: option.split val.split list.split)

text \<open>The callbacks of the library never set the value the client gets.\<close>

lemma core_cb_answer [simp]:
  "m_retval (core_cb f v m) = m_retval m" "c_ret_set (core_cb f v m) = c_ret_set m"
  by (cases f; auto simp: cb_defs Let_def emit_def MARK_CB_def REWIND_def CTX_PARAM_ADD_FROM_VARIABLE_def CTX_PARAM_ADD_def
      CTX_PARAM_DEL_def CTX_PARAM_GET_def split: option.splits val.splits list.splits)+

subsection \<open>Functions that never answer\<close>

text \<open>
  A function whose runs never set the value the client gets. Whatever the callbacks bring,
  the call ends without one.
\<close>

locale silent =
  fixes h :: "smod \<Rightarrow> bool \<times> smod"
  assumes keeps: "m_retval (snd (h m)) = m_retval m" "c_ret_set (snd (h m)) = c_ret_set m"
begin

lemma never_answers:
  assumes "call_reach h m0 m"
  shows "m_retval m = None \<and> \<not> c_ret_set m"
  using assms by induction (auto simp: keeps fresh_call_def)

end

end
