(* ===== verification/Platform.thy ===== *)
theory Platform
  imports Join Session Sql_Platform Sql_Config Dbsource
begin

text \<open>
  src/servlets/functions/functions-platform.c: platforms and the control modules of the
  schedulers. A platform is fetched by one query and its configuration by another, on a
  context of its own that is started by a plain call.
\<close>

subsection \<open>Single queries\<close>

definition z_getPlatforms :: "env \<Rightarrow> smod \<Rightarrow> bool \<times> smod" where
  "z_getPlatforms e m = CTX_RETURN (db_call e db_getPlatforms m)"

definition z_getControlModulesFull :: "env \<Rightarrow> smod \<Rightarrow> bool \<times> smod" where
  "z_getControlModulesFull e m = CTX_RETURN (db_call e db_getControlModulesFull m)"

definition z_getControlModules :: "env \<Rightarrow> smod \<Rightarrow> bool \<times> smod" where
  "z_getControlModules e m = CTX_RETURN (db_call e db_getControlModules m)"

definition z_getControlModuleNameByNetwork :: "env \<Rightarrow> int \<Rightarrow> smod \<Rightarrow> bool \<times> smod" where
  "z_getControlModuleNameByNetwork e nwid m =
     CTX_RETURN (db_call e (db_getControlModuleNameByNetwork nwid) m)"

definition z_enablePlatform :: "env \<Rightarrow> int \<Rightarrow> smod \<Rightarrow> bool \<times> smod" where
  "z_enablePlatform e ident m = CTX_RETURN (db_call e (db_enablePlatform ident) m)"

definition z_disablePlatform :: "env \<Rightarrow> int \<Rightarrow> smod \<Rightarrow> bool \<times> smod" where
  "z_disablePlatform e ident m =
     CTX_RETURN (db_call e (db_disablePlatform ident) m)"

definition z_enableControlModule :: "env \<Rightarrow> int \<Rightarrow> smod \<Rightarrow> bool \<times> smod" where
  "z_enableControlModule e mid m =
     CTX_RETURN (db_call e (db_enableControlModule mid) m)"

definition z_disableControlModule :: "env \<Rightarrow> int \<Rightarrow> smod \<Rightarrow> bool \<times> smod" where
  "z_disableControlModule e mid m =
     CTX_RETURN (db_call e (db_disableControlModule mid) m)"

definition z_getPlatformIdByVm :: "env \<Rightarrow> cstr \<Rightarrow> smod \<Rightarrow> bool \<times> smod" where
  "z_getPlatformIdByVm e uuid m =
     CTX_RETURN (db_call e (db_getPlatformIdByVm uuid) m)"

definition z_getPlatformFeatures :: "env \<Rightarrow> int \<Rightarrow> smod \<Rightarrow> bool \<times> smod" where
  "z_getPlatformFeatures e platform m =
     CTX_RETURN (db_call e (db_getPlatformFeatures platform) m)"

definition z_getPlatformConfig :: "env \<Rightarrow> int \<Rightarrow> smod \<Rightarrow> bool \<times> smod" where
  "z_getPlatformConfig e ident m = CTX_RETURN (db_call e (db_getPlatformConfig ident None) m)"

definition z_getControlModuleConfig :: "env \<Rightarrow> int \<Rightarrow> smod \<Rightarrow> bool \<times> smod" where
  "z_getControlModuleConfig e ident m = CTX_RETURN (db_call e (db_getControlModuleConfig ident None) m)"

text \<open>
  The two functions that store a configuration are compiled out of the database module and
  not looked up by the loader.
\<close>

definition z_setPlatformConfig :: "int \<Rightarrow> keyvalue list \<Rightarrow> smod \<Rightarrow> bool \<times> smod" where
  "z_setPlatformConfig ident config m = CTX_RETURN (db_slot ''setPlatformConfig'' id m)"

definition z_setControlModuleConfig :: "int \<Rightarrow> keyvalue list \<Rightarrow> smod \<Rightarrow> bool \<times> smod" where
  "z_setControlModuleConfig mid config m = CTX_RETURN (db_slot ''setControlModuleConfig'' id m)"

subsection \<open>Guarded queries\<close>

definition no_text :: "cstr \<Rightarrow> bool" where
  "no_text s \<longleftrightarrow> s = None \<or> s = Some []"

lemma no_text_simps [simp]: "no_text None" "no_text (Some [])" "\<not> no_text (Some (c # cs))"
  by (simp_all add: no_text_def)

definition guarded :: "env \<Rightarrow> bool \<Rightarrow> dbreq \<Rightarrow> smod \<Rightarrow> bool \<times> smod" where
  "guarded e bad req m = CTX_RETURN (if bad then set_error INVALID_PARAMETER m else db_call e req m)"

definition z_getControlModulesByPlatform :: "env \<Rightarrow> int \<Rightarrow> smod \<Rightarrow> bool \<times> smod" where
  "z_getControlModulesByPlatform e platformid m =
     guarded e (platformid < -1) (db_getControlModulesByPlatform platformid) m"

definition z_getControlModule :: "env \<Rightarrow> int \<Rightarrow> smod \<Rightarrow> bool \<times> smod" where
  "z_getControlModule e ident m = guarded e (ident < -1) (db_getControlModule ident) m"

definition z_getControlModuleByName :: "env \<Rightarrow> cstr \<Rightarrow> smod \<Rightarrow> bool \<times> smod" where
  "z_getControlModuleByName e nm m = guarded e (no_text nm) (db_getControlModuleByName nm) m"

definition z_isPlatform :: "env \<Rightarrow> int \<Rightarrow> smod \<Rightarrow> bool \<times> smod" where
  "z_isPlatform e ident m = guarded e (ident < -1) (db_isPlatform ident) m"

definition z_isPlatformByName :: "env \<Rightarrow> cstr \<Rightarrow> smod \<Rightarrow> bool \<times> smod" where
  "z_isPlatformByName e nm m = guarded e (no_text nm) (db_isPlatformByName nm) m"

definition z_isControlModule :: "env \<Rightarrow> int \<Rightarrow> smod \<Rightarrow> bool \<times> smod" where
  "z_isControlModule e ident m = guarded e (ident < 0) (db_isControlModule ident) m"

definition z_isControlModuleByName :: "env \<Rightarrow> cstr \<Rightarrow> smod \<Rightarrow> bool \<times> smod" where
  "z_isControlModuleByName e nm m = guarded e (no_text nm) (db_isControlModuleByName nm) m"

definition z_isControlModuleForPlatform :: "env \<Rightarrow> cstr \<Rightarrow> int \<Rightarrow> smod \<Rightarrow> bool \<times> smod" where
  "z_isControlModuleForPlatform e nm platformid m =
     guarded e (no_text nm \<or> platformid < -1) (db_isControlModuleForPlatform nm platformid) m"

definition z_isControlModuleForPlatformByName :: "env \<Rightarrow> cstr \<Rightarrow> cstr \<Rightarrow> smod \<Rightarrow> bool \<times> smod" where
  "z_isControlModuleForPlatformByName e nm platformname m =
     guarded e (no_text nm \<or> no_text platformname) (db_isControlModuleForPlatformByName nm platformname) m"

subsection \<open>Adding and changing platforms\<close>

definition z_addPlatform :: "env \<Rightarrow> platform \<Rightarrow> smod \<Rightarrow> bool \<times> smod" where
  "z_addPlatform e p m =
     CTX_RETURN
       (if c_count m = 0 then CTX_CB_ADD (Core Cb_bool_rewind) (snd (z_isPlatformByName e (pf_name p) m))
        else if c_error m = Some UNKNOWN_RESOURCE then db_call e (db_addPlatform p) m
        else if c_error m = None then set_error ENTITY_ALREADY_EXISTS m
        else m)"

definition z_modifyPlatform :: "env \<Rightarrow> int \<Rightarrow> platform \<Rightarrow> smod \<Rightarrow> bool \<times> smod" where
  "z_modifyPlatform e ident p m =
     CTX_RETURN
       (if c_count m = 0 then CTX_CB_ADD (Core Cb_bool_rewind) (snd (z_isPlatformByName e (pf_name p) m))
        else if c_error m = Some UNKNOWN_RESOURCE then db_call e (db_modifyPlatform ident p) m
        else if c_error m = None then set_error ENTITY_ALREADY_EXISTS m
        else m)"

text \<open>
  A secret of a control module is encrypted with the public key at the configured path
  (\<open>encrypt\<close>, OpenSSL) and printed in base 64 (\<open>base64\<close>, Azy), both given.
\<close>

definition z_setSecureControlModuleConfig :: "env \<Rightarrow> (cstr \<Rightarrow> string \<Rightarrow> string option) \<Rightarrow> (string \<Rightarrow> string)
    \<Rightarrow> zentific_config option \<Rightarrow> int \<Rightarrow> keyvalue option \<Rightarrow> smod \<Rightarrow> bool \<times> smod" where
  "z_setSecureControlModuleConfig e encrypt base64 config mid modconf m =
     CTX_RETURN
       (case (modconf, config) of
          (Some kv, Some conf) \<Rightarrow>
            (case (kv_key kv, kv_value kv) of
               (Some key, Some v) \<Rightarrow>
                 (case encrypt (CREDSTORE_PUBKEY_PATH conf) v of
                    None \<Rightarrow> set_error SERVER_FAILURE m
                  | Some encrypted \<Rightarrow>
                      db_call e (db_setBlobConfig (Some key) (Some (base64 encrypted)) (Some ''zensched'') mid
                        (-1) (-1) (-1) (-1) (-1) (-1) (-1) (-1)) m)
             | _ \<Rightarrow> set_error INVALID_PARAMETER m)
        | _ \<Rightarrow> set_error INVALID_PARAMETER m)"

subsection \<open>Fetching platforms with their configuration\<close>

text \<open>
  The context that fetches a configuration is made without a parameter table, so nothing it
  stores under a name is found again. A step returns whether the context is done with, and
  the configuration it puts into the platform; \<open>platform_out\<close> is what being done does to
  the waiting call.
\<close>

definition no_params :: "smod \<Rightarrow> smod" where
  "no_params m = m\<lparr>c_params := (\<lambda>_. VNull)\<rparr>"

definition platform_get :: "env \<Rightarrow> platform \<Rightarrow> smod \<Rightarrow> bool \<times> keyvalue list option \<times> smod" where
  "platform_get e p m =
     (let cont = (\<lambda>m. (c_error m \<noteq> None, None, m)) in
      if c_count m = 0 then
        cont (no_params (CTX_VALUE_JOB (Platf Platform_get) (db_call e (db_getPlatformConfig (pf_id p) None) m)))
      else if c_count m = 1 then
        (if c_error m \<noteq> None then cont m
         else case CTX_PARAM_GET (Platf Platform_get) m of
             (VKeyvalues kvs, m) \<Rightarrow> (True, Some kvs, m)
           | (_, m) \<Rightarrow> (True, Some [], m))
      else cont m)"

definition platform_out :: "rpc_error option \<Rightarrow> smod \<Rightarrow> smod" where
  "platform_out failed p =
     (let p = (case failed of Some x \<Rightarrow> set_error x p | None \<Rightarrow> p);
          p = p\<lparr>c_count := c_count p - 1\<rparr>
      in if c_count p = 2 then emit (OResume True) (REWIND p) else p)"

definition child_context :: "smod \<Rightarrow> smod" where
  "child_context m =
     m\<lparr>c_cbs := [], c_params := (\<lambda>_. VNull), c_retval := VNull, c_data := VNull, c_data2 := VNull, c_free_func := None,
       c_job := None, c_error := None, c_count := 0, c_user_type := 0, c_state := False, c_ret := False,
       c_ret_set := False, c_dead := False, c_checked := False, c_auth := False, c_sso := False\<rparr>"

definition with_tables :: "smod \<Rightarrow> smod \<Rightarrow> smod" where
  "with_tables z m = m\<lparr>m_qid := m_qid z, m_type_cbs := m_type_cbs z, m_db_cbs := m_db_cbs z, m_out := m_out z\<rparr>"

text \<open>The first step of the new context runs inside the call; a refused query ends it there.\<close>

definition start_platform :: "env \<Rightarrow> platform \<Rightarrow> smod \<Rightarrow> smod" where
  "start_platform e p m =
     (case platform_get e p (child_context m) of
        (freed, _, z) \<Rightarrow>
          (let m = with_tables z m in if freed then platform_out (c_error z) m else m))"

definition fetch_platform :: "env \<Rightarrow> fname \<Rightarrow> bool \<Rightarrow> dbreq \<Rightarrow> smod \<Rightarrow> bool \<times> smod" where
  "fetch_platform e f bad req m =
     (if c_count m = 0 then
        (if bad then CTX_RETURN (set_error INVALID_PARAMETER m)
         else CTX_RETURN (CTX_VALUE_RETURN f (db_call e req m)))
      else if c_count m = 1 then
        (if c_error m = Some UNKNOWN_RESOURCE then CTX_RETURN (set_error PLATFORM_NOT_PRESENT m)
         else if c_error m \<noteq> None then CTX_RETURN m
         else
           (case CTX_PARAM_GET f m of
              (VPlatform p, m) \<Rightarrow> CTX_RETURN (count_inc (start_platform e p m))
            | (_, m) \<Rightarrow> CTX_RETURN (emit OCrash m)))
      else if c_count m = 2 then
        (if c_error m \<noteq> None then
           CTX_RETURN (if c_error m = Some UNKNOWN_RESOURCE then set_error PLATFORM_NOT_PRESENT m else m)
         else CTX_RETURN (RESUME (AZY_RETVAL (c_retval m) (m\<lparr>c_retval := VNull\<rparr>))))
      else CTX_RETURN (set_error PLATFORM_NOT_PRESENT m))"

definition z_getPlatform :: "env \<Rightarrow> int \<Rightarrow> smod \<Rightarrow> bool \<times> smod" where
  "z_getPlatform e ident m = fetch_platform e (Platf F_getPlatform) (ident < -1) (db_getPlatform ident) m"

definition z_getPlatformByName :: "env \<Rightarrow> cstr \<Rightarrow> smod \<Rightarrow> bool \<times> smod" where
  "z_getPlatformByName e nm m = fetch_platform e (Platf F_getPlatformByName) (no_text nm) (db_getPlatformByName nm) m"

definition z_getPlatformsFull :: "env \<Rightarrow> smod \<Rightarrow> bool \<times> smod" where
  "z_getPlatformsFull e m =
     CTX_RETURN
       (if c_count m = 0 then CTX_VALUE_RETURN (Platf F_getPlatformsFull) (db_call e db_getPlatformsFull m)
        else if c_count m = 1 then
          (if c_error m \<noteq> None then m
           else
             (let (ps, m) = CTX_PARAM_GET (Platf F_getPlatformsFull) m;
                  ps' = (case ps of VPlatforms ps \<Rightarrow> ps | _ \<Rightarrow> []);
                  m = m\<lparr>c_retval := ps, c_count := c_count m + of_nat (length ps')\<rparr>;
                  m = fold (start_platform e) ps' m
              in count_inc m))
        else if c_count m = 2 then
          (let m = m\<lparr>c_error := None\<rparr> in RESUME (AZY_RETVAL (c_retval m) m))
        else m)"

subsection \<open>Properties\<close>

lemma start_platform_taken:
  assumes "esql_accepts e (m_qid m)"
  shows "c_count (start_platform e p m) = c_count m" "c_error (start_platform e p m) = c_error m"
    "c_retval (start_platform e p m) = c_retval m" "c_ret_set (start_platform e p m) = c_ret_set m"
    "m_fault (start_platform e p m) = m_fault m" "m_method (start_platform e p m) = m_method m"
    "m_out (start_platform e p m) = m_out m @ [OQuery (m_qid m) (query_of (db_getPlatformConfig (pf_id p) None))]"
    "m_qid (start_platform e p m) = Suc (m_qid m)"
proof -
  obtain q where q: "db_getPlatformConfig (pf_id p) None = DbQuery q" by (simp add: db_getPlatformConfig_def)
  let ?z = "no_params (CTX_VALUE_JOB (Platf Platform_get) (db_call e (DbQuery q) (child_context m)))"
  have child: "c_count (child_context m) = 0" "c_error (child_context m) = None" "m_qid (child_context m) = m_qid m"
    "m_out (child_context m) = m_out m"
    by (simp_all add: child_context_def)
  have z: "c_error ?z = None" "m_out ?z = m_out m @ [OQuery (m_qid m) q]" "m_qid ?z = Suc (m_qid m)"
    using assms child by (simp_all add: no_params_def CTX_VALUE_JOB_def CTX_CB_ADD_def CTX_PARAM_ADD_def)
  have "start_platform e p m = with_tables ?z m"
    using z(1) child(1) by (simp add: start_platform_def platform_get_def q Let_def)
  then show "c_count (start_platform e p m) = c_count m" "c_error (start_platform e p m) = c_error m"
    "c_retval (start_platform e p m) = c_retval m" "c_ret_set (start_platform e p m) = c_ret_set m"
    "m_fault (start_platform e p m) = m_fault m" "m_method (start_platform e p m) = m_method m"
    "m_out (start_platform e p m) = m_out m @ [OQuery (m_qid m) (query_of (db_getPlatformConfig (pf_id p) None))]"
    "m_qid (start_platform e p m) = Suc (m_qid m)"
    using z by (simp_all add: with_tables_def q)
qed

lemma start_platforms_taken:
  assumes "\<And>n. esql_accepts e n"
  shows "c_count (fold (start_platform e) ps m) = c_count m" "c_error (fold (start_platform e) ps m) = c_error m"
    "c_retval (fold (start_platform e) ps m) = c_retval m" "c_ret_set (fold (start_platform e) ps m) = c_ret_set m"
    "m_fault (fold (start_platform e) ps m) = m_fault m" "m_method (fold (start_platform e) ps m) = m_method m"
    "length (m_out (fold (start_platform e) ps m)) = length (m_out m) + length ps"
    "m_qid (fold (start_platform e) ps m) = m_qid m + length ps"
  using assms by (induction ps arbitrary: m) (simp_all add: start_platform_taken)

interpretation platforms: join platform_out 2 "[ORewind, OResume True]"
  by unfold_locales
     (auto simp: platform_out_def REWIND_def emit_def set_error_def Let_def split: option.splits)

lemma platform_lookup_hangs:
  assumes "c_count m = 1" "c_error m = None" "\<not> c_ret_set m" "esql_accepts e (m_qid m)"
    and found: "CTX_PARAM_PEEK (Platf F_getPlatform) m = VPlatform p"
    and run: "m1 = snd (z_getPlatform e ident m)"
  shows "m_out m1 = m_out m @ [OQuery (m_qid m) (query_of (db_getPlatformConfig (pf_id p) None))]
    \<and> c_count m1 = 2 \<and> c_count (platform_out failed m1) = 1 \<and> m_out (platform_out failed m1) = m_out m1"
proof -
  let ?m = "CTX_PARAM_DEL (Platf F_getPlatform) m"
  have "esql_accepts e (m_qid ?m)" using assms(4) by simp
  note start = start_platform_taken [OF this, of p]
  have "m1 = snd (CTX_RETURN (count_inc (start_platform e p ?m)))"
    using assms(1,2) found by (simp add: run z_getPlatform_def fetch_platform_def CTX_PARAM_GET_def)
  then have m1: "m_out m1 = m_out m @ [OQuery (m_qid m) (query_of (db_getPlatformConfig (pf_id p) None))]"
    "c_count m1 = 2"
    using assms(1-3) start by (simp_all add: CTX_RETURN_out count_inc_def)
  then show ?thesis
    using platforms.counts [of failed m1] platforms.wakes [of failed m1] by simp
qed

definition sample_platform :: platform where
  "sample_platform = \<lparr> pf_id = 3, pf_name = Some ''xen'', pf_version = None, pf_vendor = None, pf_build = None,
     pf_description = None, pf_mechanism = None, pf_features = 0, pf_enabled = True, pf_config = [] \<rparr>"



end
