(* ===== verification/Node.thy ===== *)
theory Node
  imports Runs Resource Platform
begin

text \<open>
  src/servlets/functions/functions-node.c: nodes register themselves, are added by hand, get
  their control module and report their load.
\<close>

subsection \<open>Guarded and chosen queries\<close>

definition z_getNodeStats :: "env \<Rightarrow> cstr \<Rightarrow> int \<Rightarrow> int \<Rightarrow> int \<Rightarrow> int \<Rightarrow> smod \<Rightarrow> bool \<times> smod" where
  "z_getNodeStats e uuid start_time end_time max_events interval m =
     guarded e (start_time < 0 \<or> end_time \<le> 0 \<or> end_time \<le> start_time \<or> max_events \<le> 0 \<or> interval \<le> 0)
       (db_getNodeStats uuid start_time end_time max_events interval) m"

definition z_getAllNodes :: "env \<Rightarrow> int \<Rightarrow> cstr \<Rightarrow> bool \<Rightarrow> int \<Rightarrow> int \<Rightarrow> smod \<Rightarrow> bool \<times> smod" where
  "z_getAllNodes e ty sortfield desc offset recordcount m =
     CTX_RETURN (db_call e (if no_text sortfield then db_getAllNodes ty offset recordcount
                            else db_getAllNodesSorted ty sortfield desc offset recordcount) m)"

definition z_getAllNodesByUID :: "env \<Rightarrow> int \<Rightarrow> cstr \<Rightarrow> bool \<Rightarrow> int \<Rightarrow> int \<Rightarrow> smod \<Rightarrow> bool \<times> smod" where
  "z_getAllNodesByUID e uid sortfield desc offset recordcount m =
     CTX_RETURN (db_call e (if no_text sortfield then db_getAllNodesByUID (-1) uid offset recordcount
                            else db_getAllNodesByUIDSorted (-1) sortfield desc uid offset recordcount) m)"

definition z_getNODEprivilege :: "env \<Rightarrow> cstr \<Rightarrow> int \<Rightarrow> int \<Rightarrow> smod \<Rightarrow> bool \<times> smod" where
  "z_getNODEprivilege e uuid uid gid m = CTX_RETURN (db_call e (db_getPrivilege uuid uid gid 0) m)"

definition z_grantNODEprivilege :: "env \<Rightarrow> cstr \<Rightarrow> int \<Rightarrow> int \<Rightarrow> int \<Rightarrow> smod \<Rightarrow> bool \<times> smod" where
  "z_grantNODEprivilege e uuid uid gid level m = CTX_RETURN (db_call e (db_grantPrivilege uuid uid gid level 0) m)"

definition z_revokeNODEprivilege :: "env \<Rightarrow> cstr \<Rightarrow> int \<Rightarrow> int \<Rightarrow> smod \<Rightarrow> bool \<times> smod" where
  "z_revokeNODEprivilege e uuid uid gid m = CTX_RETURN (db_call e (db_revokePrivilege uuid uid gid 0) m)"

text \<open>These two call functions the loader of the database module never looks up.\<close>

definition z_getNodeCount :: "env \<Rightarrow> smod \<Rightarrow> bool \<times> smod" where
  "z_getNodeCount e m =
     CTX_RETURN (if c_user_type m = 0 then db_slot ''getNodeCount'' (db_call e db_getNodeCount) m
                 else db_slot ''getNodeCountByUID'' (db_call e (db_getNodeCountByUID (s_uid (m_session m)))) m)"

definition z_getAllNodesFullRangeSorted :: "env \<Rightarrow> cstr \<Rightarrow> bool \<Rightarrow> int \<Rightarrow> int \<Rightarrow> smod \<Rightarrow> bool \<times> smod" where
  "z_getAllNodesFullRangeSorted e sortfield desc offset recordcount m =
     CTX_RETURN (db_slot ''getAllNodesFullRangeSorted''
       (db_call e (db_getAllNodesFullRangeSorted sortfield desc offset recordcount)) m)"

definition z_updateNodeStats :: "env \<Rightarrow> cstr \<Rightarrow> node_stats \<Rightarrow> smod \<Rightarrow> bool \<times> smod" where
  "z_updateNodeStats e uuid stats m =
     (if c_count m = 0 then CTX_RETURN (CTX_CB_ADD (Core Cb_bool_rewind) (isNodeEnabledAndConfigured e uuid m))
      else CTX_RETURN (if c_error m = None then db_call e (db_updateNodeStats uuid stats) m else m))"

subsection \<open>The stored configuration of a node\<close>

text \<open>What a node reports about itself, without the two fields the administrators decide.\<close>

fun nodeconfig_eq :: "node option \<Rightarrow> node option \<Rightarrow> bool" where
  "nodeconfig_eq None None = True"
| "nodeconfig_eq None (Some b) = False"
| "nodeconfig_eq (Some a) None = False"
| "nodeconfig_eq (Some a) (Some b) =
     (if n_kernel a \<noteq> n_kernel b then False
      else if n_address a \<noteq> n_address b then False
      else if n_os a \<noteq> n_os b then False
      else if n_architecture a \<noteq> n_architecture b then False
      else if n_hostname a \<noteq> n_hostname b then False
      else if n_domainname a \<noteq> n_domainname b then False
      else if n_platformver a \<noteq> n_platformver b then False
      else if n_platformbuild a \<noteq> n_platformbuild b then False
      else if n_platformvendor a \<noteq> n_platformvendor b then False
      else if n_platformfull a \<noteq> n_platformfull b then False
      else if n_platform a \<noteq> n_platform b then False
      else if n_default_vnc_pass a \<noteq> n_default_vnc_pass b then False
      else if n_num_cpus a \<noteq> n_num_cpus b then False
      else if n_cores_per_socket a \<noteq> n_cores_per_socket b then False
      else if n_threads_per_core a \<noteq> n_threads_per_core b then False
      else if n_num_cpu_nodes a \<noteq> n_num_cpu_nodes b then False
      else if n_sockets_per_node a \<noteq> n_sockets_per_node b then False
      else if n_cpu_mhz a \<noteq> n_cpu_mhz b then False
      else if n_total_phys_mem a \<noteq> n_total_phys_mem b then False
      else if n_hvm a \<noteq> n_hvm b then False
      else if n_capabilities a \<noteq> n_capabilities b then False
      else True)"

definition nodeconfig_update :: "env \<Rightarrow> node \<Rightarrow> smod \<Rightarrow> smod" where
  "nodeconfig_update e aNode m =
     (let fetch = (\<lambda>m. CTX_VALUE_RETURN (Nodef F_nodeconfig_update) (db_call e (db_getNode (n_uuid aNode)) m)) in
      if c_count m = 2 then fetch (CTX_CB_ADD (Core Cb_int_rewind) (db_call e (db_createNode aNode) m))
      else if c_count m = 3 then fetch m
      else if c_count m = 4 then
        (let (stored, m) = CTX_PARAM_GET (Nodef F_nodeconfig_update) m;
             stored = (case stored of VNode s \<Rightarrow> Some s | _ \<Rightarrow> None)
         in if \<not> nodeconfig_eq (Some aNode) stored
            then CTX_CB_ADD (Core Cb_int_rewind) (db_call e (db_updateNodeConfig aNode) m)
            else m)
      else m)"

subsection \<open>Registration\<close>

text \<open>
  The steps 10 to 12 look at the configured state of a node that is known. Where the code
  reads through the missing state of a node it crashes.
\<close>

definition register_enabled :: "env \<Rightarrow> node \<Rightarrow> node \<Rightarrow> smod \<Rightarrow> smod" where
  "register_enabled e node cfg m =
     (let m = m\<lparr>c_error := None\<rparr> in
      if \<not> n_enabled cfg then REWIND ((AZY_RETVAL (VBool False) m)\<lparr>c_count := 3\<rparr>)
      else CTX_CB_ADD (Core Cb_bool_rewind) (snd (z_isControlModuleByName e (n_controlmodule cfg) m)))"

definition z_registerNode :: "env \<Rightarrow> node \<Rightarrow> smod \<Rightarrow> bool \<times> smod" where
  "z_registerNode e node m =
     CTX_RETURN
       (if c_count m = 0 then CTX_CB_ADD (Core Cb_int_rewind) (snd (z_isNODE e (n_uuid node) m))
        else if c_count m = 1 then
          (if c_error m = Some UNKNOWN_RESOURCE then
             count_inc (CTX_CB_ADD (Core Cb_int_rewind) (db_call e (db_createNode (node\<lparr>n_enabled := False\<rparr>)) m))
           else
             (let m = m\<lparr>c_error := None\<rparr>;
                  m = db_call e (db_getNodeConfiguredState (n_uuid node)) m;
                  m = m\<lparr>c_count := 9\<rparr>;
                  m = CTX_VALUE_RETURN (Nodef F_registerNode) m
              in nodeconfig_update e node m))
        else if c_count m = 3 then nodeconfig_update e node m
        else if c_count m = 4 then
          (let m = nodeconfig_update e node m in
           if c_error m \<noteq> None then AZY_RETVAL (VBool False) m else AZY_RETVAL (VBool True) m)
        else if c_count m = 10 then
          (case CTX_PARAM_PEEK (Nodef F_registerNode) m of
             VNode cfg \<Rightarrow>
               if n_address cfg \<noteq> n_address node \<and> zs_ip e (n_address node)
               then CTX_CB_ADD (Core Cb_int_rewind) (db_call e (db_setNodeConfiguredHost (n_uuid node) (n_address node)) m)
               else register_enabled e node cfg m
           | _ \<Rightarrow> emit OCrash m)
        else if c_count m = 11 then
          (case CTX_PARAM_PEEK (Nodef F_registerNode) m of
             VNode cfg \<Rightarrow> register_enabled e node cfg m
           | _ \<Rightarrow> emit OCrash m)
        else if c_count m = 12 then
          (let (cfg, m) = CTX_PARAM_GET (Nodef F_registerNode) m;
               m = (if c_error m = Some UNKNOWN_RESOURCE then
                      (case cfg of
                         VNode cfg \<Rightarrow>
                           CTX_CB_ADD (Core Cb_int_rewind)
                             (AZY_RETVAL (VBool False) (snd (z_setNodeStatus e (n_uuid node) False m)))
                       | _ \<Rightarrow> emit OCrash m)
                    else m)
           in m\<lparr>c_count := 2\<rparr>)
        else m)"

text \<open>
  A node may be added before it reports itself; with a platform that is known it is disabled
  whatever was asked for.
\<close>

definition z_addNode :: "env \<Rightarrow> node option \<Rightarrow> bool \<Rightarrow> smod \<Rightarrow> bool \<times> smod" where
  "z_addNode e nd enabled m =
     (if c_count m = 0 then
        (case nd of
           None \<Rightarrow> CTX_RETURN (set_error INVALID_PARAMETER m)
         | Some node \<Rightarrow>
             if n_platform node = None then CTX_RETURN (set_error INVALID_PARAMETER m)
             else CTX_RETURN (CTX_CB_ADD (Core Cb_int_rewind) (snd (z_isNODE e (n_uuid node) m))))
      else
        (case nd of
           None \<Rightarrow> CTX_RETURN (emit OCrash m)
         | Some node \<Rightarrow>
             CTX_RETURN
               (if c_count m = 1 then
                  (if c_error m \<noteq> Some UNKNOWN_RESOURCE then set_error ENTITY_ALREADY_EXISTS m
                   else CTX_CB_ADD (Core Cb_int_rewind)
                          (db_call e (db_isPlatformByName (n_platform node)) (m\<lparr>c_error := None\<rparr>)))
                else if c_count m = 2 then
                  (let enabled = (if c_error m \<noteq> Some UNKNOWN_RESOURCE then False else enabled)
                   in nodeconfig_update e (node\<lparr>n_enabled := enabled\<rparr>) (m\<lparr>c_error := None\<rparr>))
                else if c_error m \<noteq> None then m
                else nodeconfig_update e node m)))"

subsection \<open>The control module of a node\<close>

definition z_setNodeControlModuleByName :: "env \<Rightarrow> cstr \<Rightarrow> cstr \<Rightarrow> smod \<Rightarrow> bool \<times> smod" where
  "z_setNodeControlModuleByName e uuid controlmodule m =
     CTX_RETURN
       (if c_count m = 0 then
          (if no_text controlmodule then
             CTX_CB_ADD (Core Cb_int_rewind)
               (db_call e (db_setNodeControlModuleByName uuid controlmodule) (snd (z_setNodeStatus e uuid False m)))
           else CTX_VALUE_RETURN (Nodef F_setNodeControlModuleByName) (db_call e (db_getNodePlatform uuid) m))
        else if c_count m = 1 then
          (if no_text controlmodule then (if c_error m = None then AZY_RETVAL (VBool True) m else m)
           else
             (let (platform, m) = CTX_PARAM_GET (Nodef F_setNodeControlModuleByName) m in
              if is_null platform then AZY_RETVAL (VBool False) m
              else CTX_CB_ADD (Core Cb_bool_rewind)
                     (snd (z_isControlModuleForPlatformByName e controlmodule (as_str platform) m))))
        else if c_error m = None then db_call e (db_setNodeControlModuleByName uuid controlmodule) m
        else if c_count m = 2 then
          CTX_CB_ADD (Core Cb_bool_rewind) (snd (z_isControlModuleForPlatform e controlmodule (-1) m))
        else set_error UNKNOWN_RESOURCE m)"

definition z_setNodeControlModule :: "env \<Rightarrow> cstr \<Rightarrow> int \<Rightarrow> smod \<Rightarrow> bool \<times> smod" where
  "z_setNodeControlModule e uuid controlmodule m =
     CTX_RETURN
       (if c_count m = 0 then
          (if controlmodule = 0 then
             CTX_CB_ADD (Core Cb_int_rewind)
               (db_call e (db_setNodeControlModuleByName uuid (Some [])) (snd (z_setNodeStatus e uuid False m)))
           else CTX_VALUE_RETURN (Nodef F_setNodeControlModule) (db_call e (db_getNodePlatform uuid) m))
        else if c_count m = 1 then
          (if controlmodule = 0 then (if c_error m = None then AZY_RETVAL (VBool True) m else m)
           else
             (let (platform, m) = CTX_PARAM_GET (Nodef F_setNodeControlModule) m in
              if is_null platform then AZY_RETVAL (VBool False) m
              else CTX_CB_ADD (Core Cb_bool_rewind)
                     (db_call e (db_isControlModuleForPlatformById controlmodule (as_str platform)) m)))
        else if c_error m = None then db_call e (db_setNodeControlModule uuid controlmodule) m
        else if c_count m = 2 then
          CTX_CB_ADD (Core Cb_bool_rewind) (db_call e (db_isControlModuleForPlatformByMid controlmodule (-1)) m)
        else set_error UNKNOWN_RESOURCE m)"

subsection \<open>Properties\<close>

lemma nodeconfig_update_answer [simp]:
  "m_retval (nodeconfig_update e n m) = m_retval m" "c_ret_set (nodeconfig_update e n m) = c_ret_set m"
  "m_fault (nodeconfig_update e n m) = m_fault m" "m_method (nodeconfig_update e n m) = m_method m"
  by (simp_all add: nodeconfig_update_def CTX_VALUE_RETURN_def CTX_PARAM_GET_def db_createNode_def db_getNode_def
      db_updateNodeConfig_def Let_def split: val.splits)

interpretation add_node: silent "z_addNode e nd enabled" for e nd enabled
  by unfold_locales
     (auto simp: z_addNode_def z_isNODE_def db_isNode_def db_isPlatformByName_def Let_def split: option.splits)


definition sample_node :: node where
  "sample_node = \<lparr> n_enabled = True, n_uuid = Some ''uuid'', n_kernel = None, n_address = Some ''10.0.0.1'', n_os = None,
     n_architecture = None, n_hostname = Some ''host'', n_domainname = None, n_platformver = None,
     n_platformbuild = None, n_platformvendor = None, n_platformfull = None, n_platform = Some ''xen'',
     n_default_vnc_pass = None, n_num_cpus = 2, n_cores_per_socket = 1, n_threads_per_core = 1, n_num_cpu_nodes = 1,
     n_sockets_per_node = 1, n_cpu_mhz = 2000, n_total_phys_mem = 4096, n_hvm = True, n_capabilities = None,
     n_controlmodule = Some ''xen'' \<rparr>"


text \<open>
  Registration, run by run. A call that has not answered is at one of five steps, with at
  most the one callback that takes it on; or it has a fault, or is not in its method, and
  can then set no value at all.
\<close>

definition reg_waiting :: "smod \<Rightarrow> bool" where
  "reg_waiting m \<longleftrightarrow> (c_count m, c_cbs m) \<in>
     {0, 9, 10, 11} \<times> {[], [Core Cb_int_rewind], [Core Cb_pointer_return], [Core Cb_bool_rewind]} \<union> {(2, [])}"

definition reg_starting :: "smod \<Rightarrow> bool" where
  "reg_starting m \<longleftrightarrow> c_cbs m = [] \<and> c_count m \<in> {0, 1, 10, 11, 12}"

definition reg_mute :: "smod \<Rightarrow> bool" where
  "reg_mute m \<longleftrightarrow> m_fault m \<noteq> None \<or> \<not> m_method m"

definition reg_false :: "smod \<Rightarrow> bool" where
  "reg_false m \<longleftrightarrow> c_ret_set m \<and> m_retval m = Some (VBool False)"

lemma register_enabled_run:
  assumes "c_cbs m = []" "c_count m \<in> {10, 11}" "\<not> c_ret_set m" "m_retval m = None"
  shows "let m' = snd (CTX_RETURN (register_enabled e node cfg m)) in
     reg_false m' \<or> (\<not> c_ret_set m' \<and> m_retval m' = None \<and>
       (reg_mute m' \<or> (reg_waiting m' \<and> ORewind \<notin> set (drop (length (m_out m)) (m_out m')))))"
proof (cases "n_enabled cfg")
  case True
  obtain q where q: "db_isControlModuleByName (n_controlmodule cfg) = DbQuery q"
    by (simp add: db_isControlModuleByName_def)
  show ?thesis using True assms
    by (auto simp: register_enabled_def z_isControlModuleByName_def guarded_def q Let_def CTX_CB_ADD_cbs CTX_RETURN_out
        reg_waiting_def)
next
  case False
  show ?thesis
  proof (cases "m_fault m = None \<and> m_method m")
    case True
    with False assms show ?thesis
      by (simp add: register_enabled_def AZY_RETVAL_def reg_false_def Let_def)
  next
    case mute: False
    with False assms show ?thesis
      by (auto simp: register_enabled_def AZY_RETVAL_def reg_mute_def Let_def CTX_RETURN_fault emit_def REWIND_def)
  qed
qed

lemma register_run:
  assumes "reg_starting m" "\<not> c_ret_set m" "m_retval m = None"
  shows "let m' = snd (z_registerNode e node m) in
     reg_false m' \<or> (\<not> c_ret_set m' \<and> m_retval m' = None \<and>
       (reg_mute m' \<or> (reg_waiting m' \<and> ORewind \<notin> set (drop (length (m_out m)) (m_out m')))))"
proof -
  obtain q1 q2 q3 q4 q5 where q: "db_isNode (n_uuid node) = DbQuery q1"
    "db_createNode (node\<lparr>n_enabled := False\<rparr>) = DbQuery q2" "db_getNodeConfiguredState (n_uuid node) = DbQuery q3"
    "db_setNodeConfiguredHost (n_uuid node) (n_address node) = DbQuery q4" "db_setNodeStatus (n_uuid node) False = DbQuery q5"
    by (simp add: db_isNode_def db_createNode_def db_getNodeConfiguredState_def db_setNodeConfiguredHost_def db_setNodeStatus_def)
  have cbs: "c_cbs m = []" using assms(1) by (simp add: reg_starting_def)
  consider "c_count m = 0" | "c_count m = 1" | "c_count m = 10" | "c_count m = 11" | "c_count m = 12"
    using assms(1) by (auto simp: reg_starting_def)
  then show ?thesis
  proof cases
    case 1
    then show ?thesis using assms(2,3) cbs
      by (auto simp: z_registerNode_def z_isNODE_def q Let_def reg_waiting_def CTX_CB_ADD_cbs CTX_RETURN_out)
  next
    case 2
    then show ?thesis using assms(2,3) cbs
      by (auto simp: z_registerNode_def q Let_def reg_waiting_def CTX_CB_ADD_cbs CTX_RETURN_out count_inc_def CTX_VALUE_RETURN_def nodeconfig_update_def)
  next
    case 3
    show ?thesis
    proof (cases "CTX_PARAM_PEEK (Nodef F_registerNode) m")
      case (VNode cfg)
      show ?thesis
      proof (cases "n_address cfg \<noteq> n_address node \<and> zs_ip e (n_address node)")
        case True
        then show ?thesis using 3 VNode assms(2,3) cbs
          by (auto simp: z_registerNode_def q Let_def reg_waiting_def CTX_CB_ADD_cbs CTX_RETURN_out)
      next
        case False
        then have "snd (z_registerNode e node m) = snd (CTX_RETURN (register_enabled e node cfg m))"
          using 3 VNode by (auto simp: z_registerNode_def)
        then show ?thesis using register_enabled_run [OF cbs _ assms(2,3)] 3 by simp
      qed
    qed (insert 3 assms(2,3) cbs, auto simp: z_registerNode_def reg_waiting_def CTX_RETURN_out Let_def)
  next
    case 4
    show ?thesis
    proof (cases "CTX_PARAM_PEEK (Nodef F_registerNode) m")
      case (VNode cfg)
      then have "snd (z_registerNode e node m) = snd (CTX_RETURN (register_enabled e node cfg m))"
        using 4 by (simp add: z_registerNode_def)
      then show ?thesis using register_enabled_run [OF cbs _ assms(2,3)] 4 by simp
    qed (insert 4 assms(2,3) cbs, auto simp: z_registerNode_def reg_waiting_def CTX_RETURN_out Let_def)
  next
    case 5
    then show ?thesis using assms(2,3) cbs
      by (auto simp: z_registerNode_def z_setNodeStatus_def q Let_def reg_waiting_def CTX_CB_ADD_cbs CTX_RETURN_out CTX_PARAM_GET_def split: val.splits)
  qed
qed

lemma core_cb_mute: "reg_mute m \<Longrightarrow> reg_mute (core_cb f v (m\<lparr>c_error := x\<rparr>))"
  using core_cb_fault [of "m\<lparr>c_error := x\<rparr>" _ f v] by (auto simp: reg_mute_def)

lemma register_parts_keep [simp]:
  "m_retval (snd (z_isNODE e u m)) = m_retval m" "c_ret_set (snd (z_isNODE e u m)) = c_ret_set m"
  "m_retval (snd (z_isControlModuleByName e c m)) = m_retval m" "c_ret_set (snd (z_isControlModuleByName e c m)) = c_ret_set m"
  "m_retval (snd (z_setNodeStatus e u b m)) = m_retval m" "c_ret_set (snd (z_setNodeStatus e u b m)) = c_ret_set m"
  "m_method (snd (z_setNodeStatus e u b m)) = m_method m" "c_error (snd (z_setNodeStatus e u b m)) = c_error (db_call e (db_setNodeStatus u b) m)"
  by (simp_all add: z_isNODE_def z_isControlModuleByName_def guarded_def z_setNodeStatus_def)

lemma status_error: "c_error m = Some x \<Longrightarrow> \<exists>y. c_error (db_call e (db_setNodeStatus u b) m) = Some y"
  by (simp add: db_setNodeStatus_def)

lemma register_enabled_keeps:
  assumes "c_ret_set m \<or> reg_mute m"
  shows "m_retval (register_enabled e node cfg m) = m_retval m \<and> c_ret_set (register_enabled e node cfg m) = c_ret_set m"
  using assms by (auto simp: register_enabled_def reg_mute_def Let_def)

lemma register_keeps:
  assumes "c_ret_set m \<or> reg_mute m"
  shows "m_retval (snd (z_registerNode e node m)) = m_retval m \<and> c_ret_set (snd (z_registerNode e node m)) = c_ret_set m"
proof -
  consider "c_count m = 12" | "c_count m = 4" | "c_count m = 10" | "c_count m = 11" | "c_count m = 0 \<or> c_count m = 1 \<or> c_count m = 3"
    | "c_count m \<notin> {0, 1, 3, 4, 10, 11, 12}" by auto
  then show ?thesis
  proof cases
    case 1
    then show ?thesis
      using status_error [of "CTX_PARAM_DEL (Nodef F_registerNode) m" UNKNOWN_RESOURCE e "n_uuid node" False]
      by (auto simp: z_registerNode_def CTX_PARAM_GET_def Let_def split: val.split)
  next
    case 2
    then show ?thesis using assms by (auto simp: z_registerNode_def reg_mute_def Let_def)
  next
    case 3
    then show ?thesis using register_enabled_keeps [OF assms] by (simp add: z_registerNode_def split: val.split)
  next
    case 4
    then show ?thesis using register_enabled_keeps [OF assms] by (simp add: z_registerNode_def split: val.split)
  next
    case 5
    then show ?thesis by (auto simp: z_registerNode_def Let_def)
  next
    case 6
    then show ?thesis by (simp add: z_registerNode_def)
  qed
qed

lemma int_rewind_step: "c_cbs (cb_int_rewind v m) = tl (c_cbs m)" "c_count (cb_int_rewind v m) = c_count m + 1"
  by (simp_all add: cb_int_rewind_def count_inc_def)

lemma reg_mute_ops [simp]:
  "reg_mute (emit x m) = reg_mute m" "reg_mute (CTX_CB_ADD f m) = reg_mute m" "reg_mute (db_call e r m) = reg_mute m"
  "reg_mute (CTX_PARAM_ADD f v m) = reg_mute m" "reg_mute (CTX_PARAM_DEL f m) = reg_mute m" "reg_mute (set_error y m) = reg_mute m"
  "reg_mute (count_inc m) = reg_mute m" "reg_mute (AZY_RETVAL v m) = reg_mute m" "reg_mute (REWIND m) = reg_mute m"
  "reg_mute (CTX_VALUE_RETURN f m) = reg_mute m" "reg_mute (nodeconfig_update e n m) = reg_mute m"
  "reg_mute (m\<lparr>c_error := z\<rparr>) = reg_mute m" "reg_mute (m\<lparr>c_count := k\<rparr>) = reg_mute m"
  by (simp_all add: reg_mute_def)

lemma reg_mute_return [simp]: "reg_mute m \<Longrightarrow> reg_mute (snd (CTX_RETURN m))"
  by (auto simp: reg_mute_def CTX_RETURN_fault)

lemma register_mute: "reg_mute m \<Longrightarrow> reg_mute (snd (z_registerNode e node m))"
  by (auto simp: z_registerNode_def register_enabled_def z_isNODE_def z_isControlModuleByName_def guarded_def
      z_setNodeStatus_def CTX_PARAM_GET_def Let_def split: val.split)



lemma registration_dead_ends:
  assumes "c_count u = 1" "c_error u = Some UNKNOWN_RESOURCE" "esql_accepts e (m_qid u)"
    and "c_count w = 12" "c_error w = None" "\<not> c_ret_set w"
  shows "m_out (snd (z_registerNode e node u))
        = m_out u @ [OQuery (m_qid u) (query_of (db_createNode (node\<lparr>n_enabled := False\<rparr>))), OResume False]
      \<and> m_fault (snd (z_registerNode e node u)) = Some UNKNOWN_RESOURCE
      \<and> c_cbs (snd (z_registerNode e node u)) = c_cbs u
    \<and> m_out (snd (z_registerNode e node w)) = m_out w \<and> c_cbs (snd (z_registerNode e node w)) = c_cbs w"
proof -
  obtain q where q: "db_createNode (node\<lparr>n_enabled := False\<rparr>) = DbQuery q" by (simp add: db_createNode_def)
  have "m_out (snd (z_registerNode e node u)) = m_out u @ [OQuery (m_qid u) q, OResume False]"
    "m_fault (snd (z_registerNode e node u)) = Some UNKNOWN_RESOURCE" "c_cbs (snd (z_registerNode e node u)) = c_cbs u"
    using assms(1-3) by (simp_all add: z_registerNode_def q CTX_RETURN_out CTX_RETURN_fault CTX_CB_ADD_cbs fault_set_def emit_def)
  moreover have "m_out (snd (z_registerNode e node w)) = m_out w" "c_cbs (snd (z_registerNode e node w)) = c_cbs w"
    using assms(4-6) by (simp_all add: z_registerNode_def CTX_RETURN_out CTX_PARAM_GET_def Let_def)
  ultimately show ?thesis by (simp add: q)
qed

lemma nodeconfig_compare_exact:
  assumes "c_count m = 4" "CTX_PARAM_PEEK (Nodef F_nodeconfig_update) m = VNode b" "esql_accepts e (m_qid m)"
  shows "(nodeconfig_eq (Some a) (Some b) \<longleftrightarrow>
      a\<lparr>n_enabled := False, n_uuid := None, n_controlmodule := None\<rparr> = b\<lparr>n_enabled := False, n_uuid := None, n_controlmodule := None\<rparr>)
    \<and> m_out (nodeconfig_update e a m) = m_out m @
      (if nodeconfig_eq (Some a) (Some b) then [] else [OQuery (m_qid m) (query_of (db_updateNodeConfig a))])"
proof -
  have "nodeconfig_eq (Some a) (Some b) \<longleftrightarrow>
      a\<lparr>n_enabled := False, n_uuid := None, n_controlmodule := None\<rparr> = b\<lparr>n_enabled := False, n_uuid := None, n_controlmodule := None\<rparr>"
    by (cases a; cases b) auto
  moreover obtain q where "db_updateNodeConfig a = DbQuery q" by (simp add: db_updateNodeConfig_def)
  ultimately show ?thesis using assms by (simp add: nodeconfig_update_def CTX_PARAM_GET_def Let_def)
qed

lemma owner_node_listing_unfiltered:
  assumes "esql_accepts e (m_qid m)" "c_error m = None" "\<not> c_ret_set m" "no_text sortfield"
  shows "\<exists>q. m_out (snd (z_getAllNodesByUID e uid sortfield desc offset recordcount m)) = m_out m @ [OQuery (m_qid m) q]
      \<and> q_fmt q = ''SELECT uuid FROM `nodes` '' \<and> fmt_specs False (q_fmt q) = []"
proof -
  obtain q where q: "db_getAllNodesByUID (-1) uid offset recordcount = DbQuery q"
    and fmt: "q_fmt q = ''SELECT uuid FROM `nodes` ''"
    by (simp add: db_getAllNodesByUID_def QSSA_def mk_query_def)
  have "fmt_specs False (q_fmt q) = []" unfolding fmt by simp
  then show ?thesis
    using assms fmt by (simp add: z_getAllNodesByUID_def q CTX_RETURN_out)
qed

end
