(* ===== verification/Network.thy ===== *)
theory Network
  imports Runs Device Jobs Platform
begin

text \<open>
  src/servlets/functions/functions-network.c: networks and the interfaces attached to them.
  Most operations become jobs for the scheduler of the network's control module.
\<close>

subsection \<open>Single queries and guards\<close>

definition z_isNetwork :: "env \<Rightarrow> network \<Rightarrow> smod \<Rightarrow> bool \<times> smod" where
  "z_isNetwork e net m = CTX_RETURN (db_call e (db_isNetwork net) m)"

definition z_getNetwork :: "env \<Rightarrow> int \<Rightarrow> smod \<Rightarrow> bool \<times> smod" where
  "z_getNetwork e ident m = CTX_RETURN (db_call e (db_getNetwork ident) m)"

definition z_getAllNetworksByType :: "env \<Rightarrow> cstr \<Rightarrow> int \<Rightarrow> int \<Rightarrow> smod \<Rightarrow> bool \<times> smod" where
  "z_getAllNetworksByType e ty offset recordcount m =
     CTX_RETURN (db_call e (db_getAllNetworksByType ty offset recordcount) m)"

definition z_getNetworksByNode :: "env \<Rightarrow> cstr \<Rightarrow> smod \<Rightarrow> bool \<times> smod" where
  "z_getNetworksByNode e uuid m =
     CTX_RETURN (db_call e (db_getNetworksByNode uuid) m)"

definition z_setNetworkControlModule :: "env \<Rightarrow> int \<Rightarrow> int \<Rightarrow> smod \<Rightarrow> bool \<times> smod" where
  "z_setNetworkControlModule e nwid mid m =
     CTX_RETURN (db_call e (db_setNetworkControlModule nwid mid) m)"

definition z_getNetworkControlModule :: "env \<Rightarrow> int \<Rightarrow> smod \<Rightarrow> bool \<times> smod" where
  "z_getNetworkControlModule e nwid m =
     CTX_RETURN (db_call e (db_getNetworkControlModule nwid) m)"

definition z_getNetworkControlModules :: "env \<Rightarrow> smod \<Rightarrow> bool \<times> smod" where
  "z_getNetworkControlModules e m = CTX_RETURN (db_call e db_getNetworkControlModules m)"

definition z_getNetworkControlModulesFull :: "env \<Rightarrow> smod \<Rightarrow> bool \<times> smod" where
  "z_getNetworkControlModulesFull e m = CTX_RETURN (db_call e db_getNetworkControlModulesFull m)"

definition z_getNodesByNetwork :: "env \<Rightarrow> int \<Rightarrow> smod \<Rightarrow> bool \<times> smod" where
  "z_getNodesByNetwork e nwid m =
     CTX_RETURN (db_call e (db_getNodesByNetwork nwid) m)"

definition z_getNetworkCount :: "env \<Rightarrow> smod \<Rightarrow> bool \<times> smod" where
  "z_getNetworkCount e m = CTX_RETURN (db_call e db_getNetworkCount m)"

definition z_isNetworkId :: "env \<Rightarrow> int \<Rightarrow> smod \<Rightarrow> bool \<times> smod" where
  "z_isNetworkId e ident m = guarded e (ident < 0) (db_isNetworkId ident) m"

definition z_getAllNetworks :: "env \<Rightarrow> cstr \<Rightarrow> bool \<Rightarrow> int \<Rightarrow> int \<Rightarrow> smod \<Rightarrow> bool \<times> smod" where
  "z_getAllNetworks e sortfield desc offset recordcount m =
     CTX_RETURN (db_call e (if sortfield \<noteq> None then db_getAllNetworksSorted sortfield desc offset recordcount
                            else db_getAllNetworks offset recordcount) m)"

definition z_getAllNetworksFull :: "env \<Rightarrow> cstr \<Rightarrow> bool \<Rightarrow> int \<Rightarrow> int \<Rightarrow> smod \<Rightarrow> bool \<times> smod" where
  "z_getAllNetworksFull e sortfield desc offset recordcount m =
     CTX_RETURN (db_call e (if sortfield \<noteq> None then db_getAllNetworksFullSorted sortfield desc offset recordcount
                            else db_getAllNetworksFull offset recordcount) m)"

definition z_defineNetwork :: "env \<Rightarrow> network \<Rightarrow> smod \<Rightarrow> bool \<times> smod" where
  "z_defineNetwork e net m = CTX_RETURN (db_call e (db_defineNetwork (net\<lparr>nw_mid := -1\<rparr>)) m)"

definition z_getNetworkIdByName :: "env \<Rightarrow> cstr \<Rightarrow> smod \<Rightarrow> bool \<times> smod" where
  "z_getNetworkIdByName e nm m = CTX_RETURN (db_slot ''getNetworkIdByName'' (db_call e (db_getNetworkIdByName nm)) m)"

definition z_getNodesByNetworkFull :: "env \<Rightarrow> int \<Rightarrow> smod \<Rightarrow> bool \<times> smod" where
  "z_getNodesByNetworkFull e nwid m = CTX_RETURN (snd (z_getNodesByNetwork e nwid m))"

text \<open>A lookup of the uses of a network that finds nothing is taken for a network in use.\<close>

definition z_removeNetwork :: "env \<Rightarrow> int \<Rightarrow> smod \<Rightarrow> bool \<times> smod" where
  "z_removeNetwork e ident m =
     CTX_RETURN
       (if c_count m = 0 then CTX_CB_ADD (Core Cb_bool_rewind) (snd (z_isNetworkId e ident m))
        else if c_count m = 1 then
          (if c_error m \<noteq> None then m
           else CTX_CB_ADD (Core Cb_int_rewind) (db_call e (db_isNetworkInUse ident) m))
        else if c_count m = 2 then
          (if c_error m \<noteq> None then
             (if c_error m = Some UNKNOWN_RESOURCE then set_error RESOURCE_IN_USE m else m)
           else db_call e (db_removeNetwork ident) m)
        else set_error SERVER_FAILURE m)"

subsection \<open>The input of a job\<close>

text \<open>What an action is about: the MAC address of an interface, or its description.\<close>

datatype net_info = Mac string | Iface netif

fun vlan_text :: "int list \<Rightarrow> string" where
  "vlan_text [] = []"
| "vlan_text (v # vs) = (if -1 \<le> v then int_dec v @ (if vs \<noteq> [] then '','' else []) else []) @ vlan_text vs"

definition network_settings :: "network \<Rightarrow> string" where
  "network_settings net =
     ''host='' @ printf_s (nw_host net) @ ''::name='' @ printf_s (nw_name net)
     @ ''::type='' @ printf_s (nw_type net) @ ''::network='' @ printf_s (nw_network net)
     @ ''::netmask='' @ printf_s (nw_netmask net) @ ''::gateway='' @ printf_s (nw_gateway net)
     @ ''::mac='' @ printf_s (nw_mac net) @ ''::interface='' @ printf_s (nw_interface net)
     @ ''::vlans='' @ squote @ vlan_text (nw_vlans net) @ squote"

definition network_place :: "network \<Rightarrow> string" where
  "network_place net =
     ''iface='' @ printf_s (nw_interface net) @ ''::mac='' @ printf_s (nw_mac net) @ ''::vlans='' @ vlan_text (nw_vlans net)"

definition netif_settings :: "netif \<Rightarrow> string" where
  "netif_settings i =
     ''mac='' @ printf_s (ni_mac i) @ ''::ip='' @ printf_s (ni_ip i) @ ''::netmask='' @ printf_s (ni_netmask i)
     @ ''::broadcast='' @ printf_s (ni_broadcast i) @ ''::bridge='' @ printf_s (ni_bridge i)
     @ ''::type='' @ printf_s (ni_type i) @ ''::gateway='' @ printf_s (ni_gateway i)
     @ ''::script='' @ printf_s (ni_script i) @ ''::name='' @ printf_s (ni_name i) @ ''::mtu='' @ int_dec (ni_mtu i)"

definition netif_changes :: "string \<Rightarrow> netif \<Rightarrow> string" where
  "netif_changes mac i =
     ''mac='' @ mac @ ''::newmac='' @ printf_s (ni_mac i) @ ''::label='' @ printf_s (ni_label i)
     @ ''::name='' @ printf_s (ni_name i) @ ''::bridge='' @ printf_s (ni_bridge i)
     @ ''::script='' @ printf_s (ni_script i) @ ''::type='' @ printf_s (ni_type i) @ ''::ip='' @ printf_s (ni_ip i)
     @ ''::netmask='' @ printf_s (ni_netmask i) @ ''::gateway='' @ printf_s (ni_gateway i)
     @ ''::broadcast='' @ printf_s (ni_broadcast i) @ ''::mtu='' @ int_dec (ni_mtu i)"

text \<open>
  The text of the input, and the context. \<open>None\<close> is no text: the code returns a variable it
  never set, or reads a network through a null pointer. The test for a function on networks
  is the wrong way round.
\<close>

definition network_job_string :: "env \<Rightarrow> string \<Rightarrow> net_info option \<Rightarrow> network option \<Rightarrow> smod \<Rightarrow> string option \<times> smod" where
  "network_job_string e function info net m =
     (if \<not> strstr (drop 6 function) ''Network'' then
        (case net of
           None \<Rightarrow> (None, m)
         | Some net \<Rightarrow> (Some (if take 1 function = ''m'' then network_settings net else network_place net), m))
      else if streq e (Some function) ''attachNetIf'' \<or> streq e (Some function) ''detachNetIf'' then
        (case (info, net) of
           (Some (Mac mac), Some net) \<Rightarrow>
             (Some (''vifmac='' @ mac @ ''::nwiface='' @ printf_s (nw_interface net) @ ''::nwmac='' @ printf_s (nw_mac net)), m)
         | _ \<Rightarrow> (None, m))
      else if streq e (Some function) ''addNetIf'' then
        (case info of Some (Iface i) \<Rightarrow> (Some (netif_settings i), m) | _ \<Rightarrow> (None, m))
      else if streq e (Some function) ''removeNetIf'' then
        (case info of Some (Mac mac) \<Rightarrow> (Some (''mac='' @ mac), m) | _ \<Rightarrow> (None, m))
      else if streq e (Some function) ''modifyNetIf'' then
        (case (CTX_PARAM_GET (Netf Network_job_string) m, info) of
           ((VNetif i, m), Some (Mac mac)) \<Rightarrow> (Some (netif_changes mac i), m)
         | ((_, m), _) \<Rightarrow> (None, m))
      else (None, m))"

definition network_job_init :: "int \<Rightarrow> string \<Rightarrow> string \<Rightarrow> string \<Rightarrow> job" where
  "network_job_init uid module_function input_string extra =
     JOB_new\<lparr>j_uid := uid, j_module_function := Some module_function, j_input_string := Some input_string,
       j_extra := Some extra\<rparr>"

text \<open>
  A job whose input has no text is not made: what the code stores in its place is no string,
  and the first use of it fails.
\<close>

definition network_job_init_node :: "env \<Rightarrow> fname \<Rightarrow> cstr \<Rightarrow> int \<Rightarrow> string \<Rightarrow> string option \<Rightarrow> string \<Rightarrow> smod \<Rightarrow> smod" where
  "network_job_init_node e cb uuid uid module_function input_string extra m =
     (case input_string of
        None \<Rightarrow> emit OCrash m
      | Some input \<Rightarrow>
          (let (job, m) = JOB_alloc ((network_job_init uid module_function input extra)\<lparr>j_target_vm := Some [],
                 j_target_node := uuid\<rparr>) m;
               m = snd (z_getNodeHostname e uuid m);
               m = CTX_CB_ADD (Core Cb_job_target_node_addr) m;
               m = CTX_PARAM_ADD (Core Cb_job_target_node_addr) job m
           in CTX_PARAM_ADD_FROM_VARIABLE (VFn cb) job m))"

definition network_job_init_vm :: "env \<Rightarrow> fname \<Rightarrow> cstr \<Rightarrow> int \<Rightarrow> string \<Rightarrow> string option \<Rightarrow> string \<Rightarrow> smod \<Rightarrow> smod" where
  "network_job_init_vm e cb uuid uid module_function input_string extra m =
     (case input_string of
        None \<Rightarrow> emit OCrash m
      | Some input \<Rightarrow>
          (let (job, m) = JOB_alloc ((network_job_init uid module_function input extra)\<lparr>j_target_vm := uuid\<rparr>) m;
               m = db_call e (db_getVMparentNodeAndAddress uuid) m;
               m = CTX_CB_ADD (Core Cb_job_target_node_addr) m;
               m = CTX_PARAM_ADD (Core Cb_job_target_node_addr) job m
           in CTX_PARAM_ADD_FROM_VARIABLE (VFn cb) job m))"

subsection \<open>From an action to a job\<close>

definition ask_module_name :: "env \<Rightarrow> int \<Rightarrow> val \<Rightarrow> smod \<Rightarrow> smod" where
  "ask_module_name e nwid job m =
     CTX_PARAM_ADD (Core Cb_job_module_name) job
       (CTX_CB_ADD (Core Cb_job_module_name) (snd (z_getControlModuleNameByNetwork e nwid m)))"

definition hand_over :: "env \<Rightarrow> val \<Rightarrow> int \<Rightarrow> smod \<Rightarrow> smod" where
  "hand_over e job caller_uid m = job_free job (snd (job_add e job caller_uid m))"

definition network_job_create_node :: "env \<Rightarrow> cstr \<Rightarrow> int \<Rightarrow> int \<Rightarrow> string \<Rightarrow> smod \<Rightarrow> smod" where
  "network_job_create_node e uuid nwid caller_uid function m =
     (let f = Netf Network_job_create_node in
      if c_count m = 0 then CTX_CB_ADD (Core Cb_bool_rewind) (snd (z_isNODE e uuid m))
      else if c_count m = 1 then CTX_CB_ADD (Core Cb_bool_rewind) m
      else if c_count m = 2 then CTX_VALUE_RETURN f (db_call e (db_getNetwork nwid) m)
      else if c_count m = 3 then
        (case CTX_PARAM_GET f m of
           (VNetwork net, m) \<Rightarrow>
             (case network_job_string e function None (Some net) m of
                (input, m) \<Rightarrow> network_job_init_node e f uuid caller_uid function input [] m)
         | (_, m) \<Rightarrow> if c_error m = None then set_error UNKNOWN_RESOURCE m else m)
      else if c_count m = 4 then ask_module_name e nwid (CTX_PARAM_PEEK f m) m
      else if c_count m = 5 then (case CTX_PARAM_GET f m of (job, m) \<Rightarrow> hand_over e job caller_uid m)
      else set_error SERVER_FAILURE m)"

definition create_vm_step1 :: "env \<Rightarrow> int \<Rightarrow> string \<Rightarrow> smod \<Rightarrow> smod" where
  "create_vm_step1 e nwid function m =
     (if streq e (Some function) ''addNetIf'' \<or> streq e (Some function) ''removeNetIf'' then
        (let m = CTX_CB_ADD (Core Cb_bool_rewind) (snd (z_isNetworkId e nwid m))
         in if take 1 function = ''r'' then m\<lparr>c_count := c_count m + 9\<rparr> else m)
      else CTX_VALUE_RETURN (Netf Network_job_create_vm) (db_call e (db_getNetwork nwid) m))"

text \<open>In step 13 the id of the network is an integer that is read through as a pointer.\<close>

definition create_vm_step12 :: "env \<Rightarrow> cstr \<Rightarrow> net_info option \<Rightarrow> int \<Rightarrow> string \<Rightarrow> smod \<Rightarrow> smod" where
  "create_vm_step12 e uuid info caller_uid function m =
     (let (ident, m) = CTX_PARAM_GET (Netf Network_job_create_vm) m;
          m = m\<lparr>c_retval := ident\<rparr>;
          (input, m) = network_job_string e function info None m
      in network_job_init_vm e (Netf Network_job_create_vm) uuid caller_uid function input [] m)"

definition network_job_create_vm :: "env \<Rightarrow> cstr \<Rightarrow> net_info option \<Rightarrow> int \<Rightarrow> int \<Rightarrow> string \<Rightarrow> smod \<Rightarrow> smod" where
  "network_job_create_vm e uuid info nwid caller_uid function m =
     (let f = Netf Network_job_create_vm in
      if c_count m = 0 then
        (if info = None \<or> nwid < 0 then set_error INVALID_PARAMETER m
         else create_vm_step1 e nwid function (CTX_CB_ADD (Core Cb_bool_rewind) (snd (z_isVM e uuid m))))
      else if c_count m = 1 then create_vm_step1 e nwid function m
      else if c_count m = 2 then
        (case CTX_PARAM_GET f m of
           (VNetwork net, m) \<Rightarrow>
             (case network_job_string e function info (Some net) m of
                (input, m) \<Rightarrow> network_job_init_vm e f uuid caller_uid function input [] m)
         | (_, m) \<Rightarrow> if c_error m = None then set_error UNKNOWN_RESOURCE m else m)
      else if c_count m = 3 then ask_module_name e nwid (CTX_PARAM_PEEK f m) m
      else if c_count m = 4 then CTX_CB_ADD (Core Cb_bool_rewind) m
      else if c_count m = 5 then (case CTX_PARAM_GET f m of (job, m) \<Rightarrow> hand_over e job caller_uid m)
      else if c_count m = 10 then CTX_CB_ADD (Core Cb_int_rewind) (db_call e (db_isNetworkInUse nwid) m)
      else if c_count m = 11 then
        (if c_error m \<noteq> None then
           (if c_error m = Some UNKNOWN_RESOURCE then set_error RESOURCE_IN_USE m else m)
         else create_vm_step12 e uuid info caller_uid function
           (CTX_INT_RETURN f (db_call e (db_getNetworkByNetIf uuid
              (case info of Some (Mac mac) \<Rightarrow> Some mac | _ \<Rightarrow> None)) m)))
      else if c_count m = 12 then create_vm_step12 e uuid info caller_uid function m
      else if c_count m = 13 then
        (if is_null (c_retval m) then
           ask_module_name e 0 (CTX_PARAM_PEEK f m) (m\<lparr>c_retval := VNull, c_count := c_count m - 10\<rparr>)
         else emit OCrash (m\<lparr>c_retval := VNull, c_count := c_count m - 10\<rparr>))
      else set_error SERVER_FAILURE m)"

definition z_attachNetworkToNode :: "env \<Rightarrow> cstr \<Rightarrow> int \<Rightarrow> int \<Rightarrow> smod \<Rightarrow> bool \<times> smod" where
  "z_attachNetworkToNode e uuid nwid caller_uid m =
     (let m = (if c_count m = 1 then db_call e (db_attachNetworkToNode uuid nwid) m else m)
      in CTX_RETURN (network_job_create_node e uuid nwid caller_uid ''attachNetwork'' m))"

definition z_detachNetworkFromNode :: "env \<Rightarrow> cstr \<Rightarrow> int \<Rightarrow> int \<Rightarrow> smod \<Rightarrow> bool \<times> smod" where
  "z_detachNetworkFromNode e uuid nwid caller_uid m =
     (let m = (if c_count m = 1 then db_call e (db_detachNetworkFromNode uuid nwid) m else m)
      in CTX_RETURN (network_job_create_node e uuid nwid caller_uid ''detachNetwork'' m))"

definition z_attachNetIf :: "env \<Rightarrow> cstr \<Rightarrow> cstr \<Rightarrow> int \<Rightarrow> int \<Rightarrow> smod \<Rightarrow> bool \<times> smod" where
  "z_attachNetIf e uuid mac nwid caller_uid m =
     (let m = (if c_count m = 4 then db_call e (db_attachNetIf uuid mac nwid) m else m)
      in CTX_RETURN (network_job_create_vm e uuid (map_option Mac mac) nwid caller_uid ''attachNetIf'' m))"

definition z_detachNetIf :: "env \<Rightarrow> cstr \<Rightarrow> cstr \<Rightarrow> int \<Rightarrow> int \<Rightarrow> smod \<Rightarrow> bool \<times> smod" where
  "z_detachNetIf e uuid mac nwid caller_uid m =
     (let m = (if c_count m = 4 then db_call e (db_detachNetIf uuid mac nwid) m else m)
      in CTX_RETURN (network_job_create_vm e uuid (map_option Mac mac) nwid caller_uid ''detachNetIf'' m))"

definition z_addNetIf :: "env \<Rightarrow> cstr \<Rightarrow> int \<Rightarrow> netif option \<Rightarrow> int \<Rightarrow> smod \<Rightarrow> bool \<times> smod" where
  "z_addNetIf e uuid nwid iface caller_uid m =
     (let m = (if c_count m = 4 then (case iface of Some i \<Rightarrow> db_call e (db_addNetIf uuid i) m | None \<Rightarrow> emit OCrash m) else m)
      in CTX_RETURN (network_job_create_vm e uuid (map_option Iface iface) nwid caller_uid ''addNetIf'' m))"

definition z_removeNetIf :: "env \<Rightarrow> cstr \<Rightarrow> cstr \<Rightarrow> int \<Rightarrow> smod \<Rightarrow> bool \<times> smod" where
  "z_removeNetIf e uuid mac caller_uid m =
     (let m = (if c_count m = 4 then db_call e (db_removeNetIf uuid mac) m else m)
      in CTX_RETURN (network_job_create_vm e uuid (map_option Mac mac) (-1) caller_uid ''removeNetIf'' m))"

definition z_modifyNetIf :: "env \<Rightarrow> cstr \<Rightarrow> cstr \<Rightarrow> netif \<Rightarrow> int \<Rightarrow> smod \<Rightarrow> bool \<times> smod" where
  "z_modifyNetIf e uuid mac iface caller_uid m =
     (let f = Netf F_modifyNetIf;
          create = network_job_create_vm e uuid (map_option Mac mac) (-1) caller_uid ''modifyNetIf''
      in CTX_RETURN
        (if c_count m = 0 then CTX_VALUE_RETURN f (snd (z_getNetIfByMAC e uuid mac m))
         else if c_count m = 1 then
           (case CTX_PARAM_GET f m of
              (VNetif stored, m) \<Rightarrow>
                if \<not> NETIF_config_cmp (Some iface) (Some stored) then AZY_RETVAL VNull m
                else create (CTX_PARAM_ADD (Netf Network_job_string) (VNetif iface) m)
            | (_, m) \<Rightarrow> if c_error m = None then set_error UNKNOWN_RESOURCE m else m)
         else if c_count m = 4 then create (db_call e (db_modifyNetIf uuid mac iface) m)
         else create m))"

subsection \<open>Operations on everything attached to a network\<close>

text \<open>
  One job per node or machine is made and completed by a callback each, then the jobs are
  stored, their ids collected, and a parent job is stored that depends on them. The lists
  live in \<open>ctx->retval\<close>; the callback that collects ids stores the address of its parameter.
\<close>

fun jobs_of :: "val \<Rightarrow> nat list" where
  "jobs_of (VJobs ps) = ps"
| "jobs_of _ = []"

fun ids_of :: "val \<Rightarrow> int list" where
  "ids_of (VInts xs) = xs"
| "ids_of _ = []"

fun strings_of :: "val \<Rightarrow> string list" where
  "strings_of (VStrs xs) = xs"
| "strings_of _ = []"

fun is_ids :: "val \<Rightarrow> bool" where
  "is_ids (VInts xs) = True"
| "is_ids v = is_null v"

definition free_jobs :: "nat list \<Rightarrow> smod \<Rightarrow> smod" where
  "free_jobs ps m = fold (\<lambda>p. job_free (VPtr p)) ps m"

definition parent_job :: "env \<Rightarrow> string \<Rightarrow> int \<Rightarrow> val \<Rightarrow> smod \<Rightarrow> smod" where
  "parent_job e function caller_uid deps m =
     (if is_ids deps then
        (let (job, m) = JOB_alloc (JOB_new\<lparr>j_dependencies := ids_of deps, j_module_name := Some ''parentJob'',
               j_module_function := Some function, j_uid := caller_uid\<rparr>) m
         in hand_over e job caller_uid m)
      else emit OCrash m)"

definition store_jobs :: "env \<Rightarrow> fname \<Rightarrow> int \<Rightarrow> nat list \<Rightarrow> smod \<Rightarrow> smod" where
  "store_jobs e collect caller_uid ps m =
     fold (\<lambda>p m. job_free (VPtr p) (CTX_CB_ADD collect (snd (z_addJob e (VPtr p) caller_uid m)))) ps m"

definition network_cb_jid_collect :: "env \<Rightarrow> int \<Rightarrow> smod \<Rightarrow> smod" where
  "network_cb_jid_collect e ret m =
     (let m = MARK_CB m;
          jids = (if c_count m = 10 then [e_stack e] else ids_of (c_retval m)) @ [e_stack e]
      in if c_count m = of_nat (length jids) + 10
         then RESUME (REWIND (m\<lparr>c_count := 6, c_retval := VInts jids\<rparr>))
         else m)"

text \<open>The answer is freed inside the loop, so a second job reads freed memory.\<close>

fun host_loop :: "string \<Rightarrow> string \<Rightarrow> nat list \<Rightarrow> smod \<Rightarrow> smod" where
  "host_loop node host [] m = m"
| "host_loop node host (p # ps) m =
     (let m = with_job (VPtr p) (\<lambda>j. if j_target_node j = Some node then j\<lparr>j_target_host := Some host\<rparr> else j) m
      in if ps = [] then m else emit OCrash m)"

definition network_cb_target_host :: "val \<Rightarrow> smod \<Rightarrow> smod" where
  "network_cb_target_host ret m =
     (let m = MARK_CB m; ps = jobs_of (c_retval m) in
      case (c_error m, ret) of
        (None, VStrs [node, host]) \<Rightarrow>
          (let m = host_loop node host ps (count_inc m);
               m = m\<lparr>c_count := c_count m - 1\<rparr>
           in if c_count m = 10 then RESUME (REWIND (m\<lparr>c_count := 4\<rparr>)) else m)
      | _ \<Rightarrow> RESUME (free_jobs ps m))"

definition all_detached_step :: "env \<Rightarrow> int \<Rightarrow> smod \<Rightarrow> smod" where
  "all_detached_step e caller_uid m =
     (let ps = jobs_of (c_retval m) in
      store_jobs e (Netf Network_cb_jid_collect) caller_uid ps
        (m\<lparr>c_count := 10 + of_nat (length ps), c_retval := VNull\<rparr>))"

text \<open>
  In step 3 the loop frees the list it walks over, but its body has put the list of jobs in
  that place: the first job is taken off again and the loop ends.
\<close>

definition z_detachAllNodesByNetwork :: "env \<Rightarrow> int \<Rightarrow> int \<Rightarrow> smod \<Rightarrow> bool \<times> smod" where
  "z_detachAllNodesByNetwork e nwid caller_uid m =
     (let f = Netf F_detachAllNodesByNetwork in
      CTX_RETURN
       (if c_count m = 0 then CTX_CB_ADD (Core Cb_bool_rewind) (snd (z_isNetworkId e nwid m))
        else if c_count m = 1 then CTX_VALUE_RETURN f (snd (z_getNodesByNetwork e nwid m))
        else if c_count m = 2 then
          (let (nodes, m) = CTX_PARAM_GET f m in
           if is_null nodes then (if c_error m = None then set_error UNKNOWN_RESOURCE m else m)
           else
             (let m = db_call e (db_getNetwork nwid) (m\<lparr>c_retval := nodes\<rparr>) in
              if c_error m \<noteq> None then m\<lparr>c_retval := VNull\<rparr> else CTX_VALUE_RETURN f m))
        else if c_count m = 3 then
          (let (net, m) = CTX_PARAM_GET f m;
               nodes = strings_of (c_retval m);
               m = m\<lparr>c_count := 10 + of_nat (length nodes)\<rparr>
           in case nodes of
                [] \<Rightarrow> m
              | uuid # _ \<Rightarrow>
                  (case network_job_string e ''detachNetwork'' None (case net of VNetwork n \<Rightarrow> Some n | _ \<Rightarrow> None) m of
                     (None, m) \<Rightarrow> emit OCrash m
                   | (Some input, m) \<Rightarrow>
                       (let (job, m) = JOB_alloc ((network_job_init caller_uid ''detachNetwork'' input [])
                              \<lparr>j_target_vm := Some [], j_target_node := Some uuid\<rparr>) m;
                            m = db_call e (db_getNodeNameAndUuid (Some uuid)) m;
                            m = CTX_CB_ADD (Netf Network_cb_target_host) m
                        in m\<lparr>c_retval := VNull\<rparr>)))
        else if c_count m = 4 then
          (let ps = jobs_of (c_retval m);
               m = fold (\<lambda>p m. case m_jobs m p of
                            Some j \<Rightarrow> db_call e (db_detachNetworkFromNode (j_target_node j) nwid) m
                          | None \<Rightarrow> emit OCrash m) ps m
           in (CTX_VALUE_RETURN f m)\<lparr>c_count := 10 + of_nat (length ps)\<rparr>)
        else if c_count m = 5 then all_detached_step e caller_uid m
        else if c_count m = 6 then
          (case CTX_PARAM_GET f m of (deps, m) \<Rightarrow> parent_job e ''detachAllNodesByNetwork'' caller_uid deps m)
        else
          (let m = m\<lparr>c_count := c_count m - 2\<rparr> in
           if c_count m = 10 then RESUME (REWIND (m\<lparr>c_count := 5\<rparr>)) else m)))"

definition network_cb_target_node_addr :: "val \<Rightarrow> smod \<Rightarrow> smod" where
  "network_cb_target_node_addr ret m =
     (let m = MARK_CB m; ps = jobs_of (c_retval m) in
      case (c_error m, ret) of
        (None, VStrs [node, host]) \<Rightarrow>
          (let n = unat (of_nat (length ps) + 10 - c_count m);
               m = (if n < length ps
                    then with_job (VPtr (ps ! n)) (\<lambda>j. j\<lparr>j_target_node := Some node, j_target_host := Some host\<rparr>) m
                    else emit OCrash m);
               m = m\<lparr>c_count := c_count m - 1\<rparr>
           in if c_count m = 10 then RESUME (REWIND (m\<lparr>c_count := 3\<rparr>)) else m)
      | _ \<Rightarrow> free_jobs ps m)"

text \<open>In step 2 the network kept in \<open>ctx->retval\<close> is counted as if it were a list.\<close>

definition z_detachAllNetIfsByNetwork :: "env \<Rightarrow> int \<Rightarrow> int \<Rightarrow> smod \<Rightarrow> bool \<times> smod" where
  "z_detachAllNetIfsByNetwork e nwid caller_uid m =
     (let f = Netf F_detachAllNetIfsByNetwork in
      CTX_RETURN
       (if c_count m = 0 then
          (if nwid < 0 then set_error INVALID_PARAMETER m else CTX_VALUE_RETURN f (snd (z_getNetwork e nwid m)))
        else if c_count m = 1 then
          (let (net, m) = CTX_PARAM_GET f m; m = m\<lparr>c_retval := net\<rparr> in
           if is_null net then set_error UNKNOWN_RESOURCE m
           else CTX_VALUE_RETURN f (db_call e (db_getVMvifsByNetwork nwid) m))
        else if c_count m = 2 then
          (let (netifs, m) = CTX_PARAM_GET f m in
           if is_null netifs then (set_error NO_CHANGE_PERFORMED m)\<lparr>c_retval := VNull\<rparr>
           else emit OCrash m)
        else if c_count m = 3 then CTX_CB_ADD (Core Cb_int_rewind) (db_call e (db_detachAllNetIfsByNetwork nwid) m)
        else if c_count m = 4 then all_detached_step e caller_uid m
        else if c_count m = 6 then
          (case CTX_PARAM_GET f m of (deps, m) \<Rightarrow> parent_job e ''detachAllNetIfsByNetwork'' caller_uid deps m)
        else m))"

text \<open>
  \<open>eq\<close> is the generated comparison of two networks. Step 4 goes on into step 5 before the name
  of the control module can have come.
\<close>

fun modify_nodes :: "env \<Rightarrow> network \<Rightarrow> int \<Rightarrow> string list \<Rightarrow> smod \<Rightarrow> smod" where
  "modify_nodes e net caller_uid [] m = m"
| "modify_nodes e net caller_uid (uuid # us) m =
     (case network_job_string e ''modifyNodeNetwork'' None (Some net) m of
        (None, m) \<Rightarrow> emit OCrash m
      | (Some input, m) \<Rightarrow>
          (case JOB_alloc ((network_job_init caller_uid ''modifyNodeNetwork'' input [])
                  \<lparr>j_target_vm := Some [], j_target_node := Some uuid\<rparr>) m of
             (VPtr p, m) \<Rightarrow>
               modify_nodes e net caller_uid us
                 ((CTX_CB_ADD (Netf Network_cb_target_host) (db_call e (db_getNodeNameAndUuid (Some uuid)) m))
                    \<lparr>c_retval := VJobs (jobs_of (c_retval m) @ [p])\<rparr>)
           | (_, m) \<Rightarrow> m))"

definition name_jobs :: "cstr \<Rightarrow> nat list \<Rightarrow> smod \<Rightarrow> smod" where
  "name_jobs name ps m =
     fold (\<lambda>p. with_job (VPtr p) (\<lambda>j. j\<lparr>j_module_name := (if no_text name then Some ''parentJob'' else name)\<rparr>)) ps m"

definition modify_step5 :: "env \<Rightarrow> fname \<Rightarrow> fname \<Rightarrow> int \<Rightarrow> smod \<Rightarrow> smod" where
  "modify_step5 e f collect caller_uid m =
     (let (name, m) = CTX_PARAM_GET f m; ps = jobs_of (c_retval m) in
      if is_null name \<or> c_error m \<noteq> None
      then set_error JOB_CREATION_FAILED ((free_jobs ps m)\<lparr>c_retval := VNull\<rparr>)
      else (store_jobs e collect caller_uid ps (name_jobs (as_str name) ps (m\<lparr>c_count := 10 + of_nat (length ps)\<rparr>)))
             \<lparr>c_retval := VNull\<rparr>)"

definition z_modifyNetwork :: "env \<Rightarrow> (network \<Rightarrow> network \<Rightarrow> bool) \<Rightarrow> int \<Rightarrow> network \<Rightarrow> int \<Rightarrow> smod \<Rightarrow> bool \<times> smod" where
  "z_modifyNetwork e eq ident net caller_uid m =
     (let f = Netf F_modifyNetwork in
      CTX_RETURN
       (if c_count m = 0 then CTX_VALUE_RETURN f (snd (z_getNetwork e ident m))
        else if c_count m = 1 then
          (case CTX_PARAM_GET f m of
             (VNetwork existing, m) \<Rightarrow>
               if c_error m \<noteq> None then m
               else if eq net existing then set_error NO_CHANGE_PERFORMED m
               else CTX_VALUE_RETURN f (snd (z_getNodesByNetwork e ident m))
           | (_, m) \<Rightarrow> m)
        else if c_count m = 2 then
          (let (nodes, m) = CTX_PARAM_GET f m; us = strings_of nodes in
           modify_nodes e net caller_uid us (m\<lparr>c_count := 10 + of_nat (length us)\<rparr>))
        else if c_count m = 4 then
          modify_step5 e f (Netf Network_cb_jid_collect) caller_uid
            (CTX_VALUE_RETURN f (db_call e (db_getControlModuleNameByNetwork ident) m))
        else if c_count m = 5 then modify_step5 e f (Netf Network_cb_jid_collect) caller_uid m
        else if c_count m = 6 then CTX_CB_ADD (Core Cb_int_rewind) (db_call e (db_modifyNetwork ident net) m)
        else if c_count m = 7 then parent_job e ''modifyNetwork'' caller_uid (c_retval m) (m\<lparr>c_retval := VNull\<rparr>)
        else m))"

subsection \<open>Properties\<close>

lemma network_removal_inverted:
  assumes "c_count m = 2" "esql_accepts e (m_qid m)" "\<not> c_ret_set m"
    and unused: "c_error unused = Some UNKNOWN_RESOURCE" "c_count unused = 2"
    and used: "c_error m = None"
  shows "m_out (snd (z_removeNetwork e nwid unused)) = m_out unused @ [OResume False]
      \<and> m_fault (snd (z_removeNetwork e nwid unused)) = Some RESOURCE_IN_USE
    \<and> m_out (snd (z_removeNetwork e nwid m)) = m_out m @ [OQuery (m_qid m) (query_of (db_removeNetwork nwid))]
    \<and> q_fmt (query_of (db_isNetworkInUse nwid)) = ''SELECT network from networksnodes WHERE network='%d' LIMIT 1''"
proof -
  obtain q where q: "db_removeNetwork nwid = DbQuery q" by (simp add: db_removeNetwork_def)
  have fmt: "q_fmt (query_of (db_isNetworkInUse nwid)) = ''SELECT network from networksnodes WHERE network='%d' LIMIT 1''"
    by (simp add: db_isNetworkInUse_def QIAB_def mk_query_def)
  show ?thesis using assms
    by (simp add: z_removeNetwork_def q fmt CTX_RETURN_out CTX_RETURN_fault)
qed

lemma no_network_text:
  assumes "strcmp_spec e"
  shows "network_job_string e ''attachNetwork'' info net m = (None, m)"
    "network_job_string e ''detachNetwork'' info net m = (None, m)"
    "network_job_string e ''modifyNodeNetwork'' info net m = (None, m)"
  using assms by (simp_all add: network_job_string_def streq_iff)

lemma interface_text:
  "network_job_string e ''attachNetIf'' info (Some net) m = (Some (network_place net), m)"
  by (simp add: network_job_string_def)

lemma network_actions_fail:
  assumes "strcmp_spec e" "c_count m = 3" "c_error m = None" "\<not> c_ret_set m"
    and "CTX_PARAM_PEEK (Netf Network_job_create_node) m = VNetwork net"
    and "c_count m0 = 0"
  shows "m_out (snd (z_attachNetworkToNode e uuid nwid uid m)) = m_out m @ [OCrash]
    \<and> m_out (snd (z_detachNetworkFromNode e uuid nwid uid m)) = m_out m @ [OCrash]
    \<and> m_out (snd (z_removeNetIf e uuid mac uid m0)) = m_out m0 @ [OResume False]
    \<and> m_fault (snd (z_removeNetIf e uuid mac uid m0)) = Some INVALID_PARAMETER
    \<and> network_job_string e ''attachNetIf'' info (Some net) m = network_job_string e ''attachNetIf'' info' (Some net) m"
proof -
  have "m_out (snd (z_removeNetIf e uuid mac uid m0)) = m_out m0 @ [OResume False]"
    "m_fault (snd (z_removeNetIf e uuid mac uid m0)) = Some INVALID_PARAMETER"
    using assms(6) by (simp_all add: z_removeNetIf_def network_job_create_vm_def CTX_RETURN_out CTX_RETURN_fault Let_def)
  then show ?thesis
    using assms by (simp add: z_attachNetworkToNode_def z_detachNetworkFromNode_def network_job_create_node_def CTX_PARAM_GET_def
        no_network_text interface_text network_job_init_node_def CTX_RETURN_out Let_def)
qed

definition sample_network :: network where
  "sample_network = \<lparr> nw_id = 4, nw_mid = 1, nw_name = Some ''lan'', nw_host = None, nw_type = None, nw_vlans = [1, 2],
     nw_network = None, nw_netmask = None, nw_gateway = None, nw_mac = None, nw_interface = Some ''eth0'' \<rparr>"

end
