(* ===== verification/Storage.thy ===== *)
theory Storage
  imports Join Network
begin

text \<open>
  src/servlets/functions/functions-storage.c: storage, the disks on it, and the nodes and
  machines attached to it. As with networks, most operations become jobs; some wait for
  contexts of their own that add a job per node or machine.
\<close>

subsection \<open>Single queries and guards\<close>

definition z_isStorage :: "env \<Rightarrow> storage \<Rightarrow> smod \<Rightarrow> bool \<times> smod" where
  "z_isStorage e stor m = CTX_RETURN (db_call e (db_isStorage stor) m)"

definition z_isStorageId :: "env \<Rightarrow> int \<Rightarrow> smod \<Rightarrow> bool \<times> smod" where
  "z_isStorageId e ident m = CTX_RETURN (db_call e (db_isStorageId ident) m)"

definition z_getStorage :: "env \<Rightarrow> int \<Rightarrow> smod \<Rightarrow> bool \<times> smod" where
  "z_getStorage e ident m = CTX_RETURN (db_call e (db_getStorage ident) m)"

definition z_getAllStorageByType :: "env \<Rightarrow> cstr \<Rightarrow> int \<Rightarrow> int \<Rightarrow> smod \<Rightarrow> bool \<times> smod" where
  "z_getAllStorageByType e ty offset recordcount m =
     CTX_RETURN (db_call e (db_getAllStorageByType ty offset recordcount) m)"

definition z_getStorageControlModulesFull :: "env \<Rightarrow> smod \<Rightarrow> bool \<times> smod" where
  "z_getStorageControlModulesFull e m = CTX_RETURN (db_call e db_getStorageControlModulesFull m)"

definition z_getStorageControlModules :: "env \<Rightarrow> smod \<Rightarrow> bool \<times> smod" where
  "z_getStorageControlModules e m = CTX_RETURN (db_call e db_getStorageControlModules m)"

definition z_setStorageControlModule :: "env \<Rightarrow> int \<Rightarrow> int \<Rightarrow> smod \<Rightarrow> bool \<times> smod" where
  "z_setStorageControlModule e storid mid m =
     CTX_RETURN (db_call e (db_setStorageControlModule storid mid) m)"

definition z_getStorageControlModule :: "env \<Rightarrow> int \<Rightarrow> smod \<Rightarrow> bool \<times> smod" where
  "z_getStorageControlModule e storid m =
     CTX_RETURN (db_call e (db_getStorageControlModule storid) m)"

definition z_getStorageIdByName :: "env \<Rightarrow> cstr \<Rightarrow> smod \<Rightarrow> bool \<times> smod" where
  "z_getStorageIdByName e nm m =
     CTX_RETURN (db_call e (db_getStorageIdByName nm) m)"

definition z_getStorageByNode :: "env \<Rightarrow> cstr \<Rightarrow> smod \<Rightarrow> bool \<times> smod" where
  "z_getStorageByNode e uuid m =
     CTX_RETURN (db_call e (db_getStorageByNode uuid) m)"

definition z_getNodesByStorage :: "env \<Rightarrow> int \<Rightarrow> smod \<Rightarrow> bool \<times> smod" where
  "z_getNodesByStorage e storid m =
     CTX_RETURN (db_call e (db_getNodesByStorage storid) m)"

definition z_getVmsByStorage :: "env \<Rightarrow> int \<Rightarrow> smod \<Rightarrow> bool \<times> smod" where
  "z_getVmsByStorage e storid m =
     CTX_RETURN (db_call e (db_getVmsByStorage storid) m)"

definition z_getAllStorageTypes :: "env \<Rightarrow> smod \<Rightarrow> bool \<times> smod" where
  "z_getAllStorageTypes e m = CTX_RETURN (db_call e db_getAllStorageTypes m)"

definition z_getDisksByStorage :: "env \<Rightarrow> int \<Rightarrow> smod \<Rightarrow> bool \<times> smod" where
  "z_getDisksByStorage e storid m =
     CTX_RETURN (db_call e (db_getDisksByStorage storid) m)"

definition z_getVmByDisk :: "env \<Rightarrow> int \<Rightarrow> cstr \<Rightarrow> smod \<Rightarrow> bool \<times> smod" where
  "z_getVmByDisk e storid path m =
     CTX_RETURN (db_call e (db_getVmByDisk storid path) m)"

definition z_getStorageCount :: "env \<Rightarrow> smod \<Rightarrow> bool \<times> smod" where
  "z_getStorageCount e m = CTX_RETURN (db_call e db_getStorageCount m)"

definition z_getAllStorage :: "env \<Rightarrow> cstr \<Rightarrow> bool \<Rightarrow> int \<Rightarrow> int \<Rightarrow> smod \<Rightarrow> bool \<times> smod" where
  "z_getAllStorage e sortfield desc offset recordcount m =
     CTX_RETURN (db_call e (if sortfield \<noteq> None then db_getAllStorageSorted sortfield desc offset recordcount
                            else db_getAllStorage offset recordcount) m)"

definition z_getAllStorageFull :: "env \<Rightarrow> cstr \<Rightarrow> bool \<Rightarrow> int \<Rightarrow> int \<Rightarrow> smod \<Rightarrow> bool \<times> smod" where
  "z_getAllStorageFull e sortfield desc offset recordcount m =
     CTX_RETURN (db_call e (if sortfield \<noteq> None then db_getAllStorageFullSorted sortfield desc offset recordcount
                            else db_getAllStorageFull offset recordcount) m)"

definition z_getDiskByStorage :: "env \<Rightarrow> int \<Rightarrow> cstr \<Rightarrow> smod \<Rightarrow> bool \<times> smod" where
  "z_getDiskByStorage e storid path m = guarded e (storid < 0 \<or> no_text path) (db_getDiskByStorage storid path) m"

definition z_isDiskByStorage :: "env \<Rightarrow> int \<Rightarrow> cstr \<Rightarrow> smod \<Rightarrow> bool \<times> smod" where
  "z_isDiskByStorage e storid path m = CTX_RETURN (db_slot ''isDiskByStorage'' (db_call e (db_isDiskByStorage storid path)) m)"

definition z_defineStorage :: "env \<Rightarrow> storage \<Rightarrow> smod \<Rightarrow> bool \<times> smod" where
  "z_defineStorage e stor m =
     CTX_RETURN
       (if c_count m = 0 then CTX_CB_ADD (Core Cb_bool_rewind) (snd (z_isStorage e stor m))
        else if c_error m \<noteq> None then db_call e (db_defineStorage (stor\<lparr>st_mid := -1\<rparr>)) (m\<lparr>c_error := None\<rparr>)
        else set_error ENTITY_ALREADY_EXISTS m)"

definition z_removeStorage :: "env \<Rightarrow> int \<Rightarrow> smod \<Rightarrow> bool \<times> smod" where
  "z_removeStorage e ident m =
     CTX_RETURN
       (if c_count m = 0 then CTX_CB_ADD (Core Cb_bool_rewind) (db_call e (db_isStorageInUse ident) m)
        else if c_error m = None then set_error RESOURCE_IN_USE m
        else db_call e (db_removeStorage ident) m)"

fun stor_DISK_config_cmp :: "disk option \<Rightarrow> disk option \<Rightarrow> bool" where
  "stor_DISK_config_cmp None None = False"
| "stor_DISK_config_cmp None (Some b) = True"
| "stor_DISK_config_cmp (Some a) None = True"
| "stor_DISK_config_cmp (Some a) (Some b) =
     (if d_int_dev a \<noteq> d_int_dev b then True
      else if d_ext_dev a \<noteq> d_ext_dev b then True
      else if d_mode a \<noteq> d_mode b then True
      else if d_type a \<noteq> d_type b then True
      else if d_partition_type a \<noteq> d_partition_type b then True
      else if d_mapped_dev a \<noteq> d_mapped_dev b then True
      else if d_num_sectors a \<noteq> d_num_sectors b then True
      else if d_size_sector a \<noteq> d_size_sector b then True
      else if d_start_sector a \<noteq> d_start_sector b then True
      else if d_capacity a \<noteq> d_capacity b then True
      else if d_block_size a \<noteq> d_block_size b then True
      else False)"

lemma same_comparison: "stor_DISK_config_cmp a b = DISK_config_cmp a b"
  by (cases a; cases b) simp_all

subsection \<open>The input of a job\<close>

text \<open>\<open>%f\<close> prints six decimals, rounded to the nearest and from the middle to the even one.\<close>

definition round_even :: "real \<Rightarrow> int" where
  "round_even x =
     (let f = \<lfloor>x\<rfloor>; d = x - of_int f
      in if d < 1 / 2 then f else if 1 / 2 < d then f + 1 else if even f then f else f + 1)"

definition pad6 :: "string \<Rightarrow> string" where
  "pad6 s = drop (length s) ''000000'' @ s"

definition print_f :: "real \<Rightarrow> string" where
  "print_f x =
     (let n = round_even (\<bar>x\<bar> * 10 ^ 6)
      in (if x < 0 then ''-'' else []) @ int_dec (n div 10 ^ 6) @ ''.'' @ pad6 (int_dec (n mod 10 ^ 6)))"

definition storage_place :: "storage \<Rightarrow> string" where
  "storage_place stor =
     ''path='' @ printf_s (st_path stor) @ ''::host='' @ printf_s (st_host stor) @ ''::name='' @ printf_s (st_name stor)
     @ ''::type='' @ printf_s (st_type stor) @ ''::mode='' @ printf_s (st_mode stor)"

definition storage_change :: "storage \<Rightarrow> string" where
  "storage_change stor =
     ''path='' @ printf_s (st_path stor) @ ''::host='' @ printf_s (st_host stor) @ ''::mode='' @ printf_s (st_mode stor)
     @ ''::name='' @ printf_s (st_name stor) @ ''::type='' @ printf_s (st_type stor)
     @ ''::capacity='' @ int_dec (st_capacity stor) @ ''::freespace='' @ int_dec (st_freespace stor)"

definition disk_place :: "int \<Rightarrow> storage \<Rightarrow> disk \<Rightarrow> string" where
  "disk_place storid stor disk =
     ''diskpath='' @ printf_s (d_ext_dev disk) @ ''::storagepath='' @ printf_s (st_path stor) @ ''::storid='' @ int_dec storid
     @ ''::shost='' @ printf_s (st_host stor) @ ''::mode='' @ printf_s (d_mode disk)"

definition disk_settings :: "int \<Rightarrow> disk \<Rightarrow> string" where
  "disk_settings storid disk =
     ''path='' @ printf_s (d_ext_dev disk) @ ''::internal='' @ printf_s (d_int_dev disk) @ ''::mode='' @ printf_s (d_mode disk)
     @ ''::capacity='' @ print_f (d_capacity disk) @ ''::size_sector='' @ int_dec (d_size_sector disk)
     @ ''::block_size='' @ int_dec (d_block_size disk) @ ''::partition_type='' @ printf_s (d_partition_type disk)
     @ ''::type='' @ printf_s (d_type disk) @ ''::storid='' @ int_dec storid"

definition disk_changes :: "cstr \<Rightarrow> disk \<Rightarrow> string" where
  "disk_changes path disk =
     ''path='' @ printf_s path @ ''::newpath='' @ printf_s (d_ext_dev disk) @ ''::label='' @ printf_s (d_label disk)
     @ ''::mapped_dev='' @ printf_s (d_mapped_dev disk) @ ''int_dev='' @ printf_s (d_int_dev disk)
     @ ''::type='' @ printf_s (d_type disk) @ '':::partition_type='' @ printf_s (d_partition_type disk)
     @ ''::mode='' @ printf_s (d_mode disk)"

definition storage_job_init :: "int \<Rightarrow> cstr \<Rightarrow> cstr \<Rightarrow> cstr \<Rightarrow> job" where
  "storage_job_init uid module_function input_string extra =
     JOB_new\<lparr>j_uid := uid, j_module_function := Some (case module_function of None \<Rightarrow> [] | Some f \<Rightarrow> f),
       j_input_string := input_string, j_extra := Some (case extra of None \<Rightarrow> [] | Some x \<Rightarrow> x)\<rparr>"

definition storage_job_init_node :: "env \<Rightarrow> fname \<Rightarrow> cstr \<Rightarrow> int \<Rightarrow> string \<Rightarrow> string \<Rightarrow> smod \<Rightarrow> smod" where
  "storage_job_init_node e cb uuid uid module_function input_string m =
     (let (job, m) = JOB_alloc ((storage_job_init uid (Some module_function) (Some input_string) (Some []))
            \<lparr>j_target_vm := Some [], j_target_node := uuid\<rparr>) m;
          m = snd (z_getNodeHostname e uuid m);
          m = CTX_CB_ADD (Core Cb_job_target_node_addr) m;
          m = CTX_PARAM_ADD (Core Cb_job_target_node_addr) job m
      in CTX_PARAM_ADD_FROM_VARIABLE (VFn cb) job m)"

subsection \<open>Jobs made by contexts of their own\<close>

text \<open>
  Both contexts are given the job their action belongs to (in \<open>ctx->retval\<close>) and the uid of
  the session, and make a job for one node or machine. A step returns whether the context
  has been freed; \<open>stor_job_out\<close> is what that does to the waiting call.
\<close>

definition stor_job_out :: "unit \<Rightarrow> smod \<Rightarrow> smod" where
  "stor_job_out _ p =
     (let p = p\<lparr>c_count := c_count p - 1\<rparr> in if c_count p = 4 then emit (OResume True) (REWIND p) else p)"

interpretation stor_jobs: join stor_job_out 4 "[ORewind, OResume True]"
  by unfold_locales (simp_all add: stor_job_out_def REWIND_def emit_def Let_def)

definition nodejob_step2 :: "env \<Rightarrow> int \<Rightarrow> val \<Rightarrow> smod \<Rightarrow> smod" where
  "nodejob_step2 e uid job z =
     (let f = Storf Storage_cb_nodejob; (name, z) = CTX_PARAM_GET f z in
      if is_null name \<or> c_error z \<noteq> None then set_error JOB_CREATION_FAILED z
      else case job_at job z of
          None \<Rightarrow> emit OCrash z
        | Some j \<Rightarrow>
            (let (node, z) = JOB_alloc (JOB_new\<lparr>j_uid := uid, j_target_node := j_target_node j, j_target_vm := Some [],
                   j_module_function := j_module_function j, j_input_string := j_input_string j, j_extra := j_extra j,
                   j_target_host := j_target_host j,
                   j_module_name := (if no_text (as_str name) then Some ''parentJob'' else as_str name)\<rparr>) z;
                 z = (case job_at node z of Some j \<Rightarrow> db_call e (db_addJob j) z | None \<Rightarrow> z);
                 z = CTX_INT_JOB f z
             in job_free node z))"

definition storage_cb_nodejob :: "env \<Rightarrow> int \<Rightarrow> smod \<Rightarrow> bool \<times> smod" where
  "storage_cb_nodejob e uid z =
     (let f = Storf Storage_cb_nodejob; job = c_retval z; cont = (\<lambda>z. (c_error z \<noteq> None, z)) in
      if c_count z = 0 then
        (case job_at job z of
           None \<Rightarrow> cont (emit OCrash z)
         | Some j \<Rightarrow> cont (CTX_VALUE_JOB f (db_call e (db_getNodeAddress (j_target_node j)) z)))
      else if c_count z = 1 then
        (let (host, z) = CTX_PARAM_GET f z;
             z = with_job job (\<lambda>j. j\<lparr>j_target_host := as_str host\<rparr>) z;
             z = (case job_at job z of Some j \<Rightarrow> db_call e (db_getNodeControlModule (j_target_node j)) z | None \<Rightarrow> z);
             z = CTX_VALUE_JOB f z
         in cont (nodejob_step2 e uid job z))
      else if c_count z = 2 then cont (nodejob_step2 e uid job z)
      else
        (let (jid, z) = CTX_PARAM_GET f z in
         if c_error z \<noteq> None then cont z
         else (True, with_job job (\<lambda>j. j\<lparr>j_dependencies := j_dependencies j @ [as_int jid]\<rparr>) z)))"

text \<open>
  \<open>_getNodeControlModule\<close> on such a context looks for the content of the call in the wrong
  structure when the query is refused.
\<close>

definition vmjob_last :: "val \<Rightarrow> smod \<Rightarrow> bool \<times> smod" where
  "vmjob_last job z =
     (let (jid, z) = CTX_PARAM_GET (Storf Storage_cb_vmjob) z in
      if c_error z \<noteq> None then (True, z)
      else (True, with_job job (\<lambda>j. j\<lparr>j_dependencies := j_dependencies j @ [as_int jid]\<rparr>) z))"

definition storage_cb_vmjob :: "env \<Rightarrow> int \<Rightarrow> smod \<Rightarrow> bool \<times> smod" where
  "storage_cb_vmjob e uid z =
     (let f = Storf Storage_cb_vmjob; job = c_retval z; cont = (\<lambda>z. (c_error z \<noteq> None, z)) in
      if c_count z = 0 then
        (case job_at job z of
           None \<Rightarrow> cont (emit OCrash z)
         | Some j \<Rightarrow>
             (let (vm, z) = JOB_alloc (JOB_new\<lparr>j_uid := uid, j_target_vm := j_target_vm j,
                    j_module_function := j_module_function j, j_input_string := Some [], j_extra := Some []\<rparr>) z;
                  z = z\<lparr>c_retval := vm\<rparr>
              in cont (CTX_VALUE_JOB f (db_call e (db_getVMparentNodeAndAddress (j_target_vm j)) z))))
      else if c_count z = 1 then
        (let (ret, z) = CTX_PARAM_GET f z in
         case (ret, c_error z) of
           (VStrs [node, host], None) \<Rightarrow>
             (let z = with_job job (\<lambda>j. j\<lparr>j_target_node := Some node, j_target_host := Some host\<rparr>) z;
                  z = db_call e (db_getNodeControlModule (Some node)) z;
                  z = (if c_error z \<noteq> None then emit OCrash z else z)
              in cont (CTX_VALUE_JOB f z))
         | _ \<Rightarrow> cont (job_free job z))
      else if c_count z = 2 then
        (let (name, z) = CTX_PARAM_GET f z in
         if c_error z \<noteq> None then cont (job_free job z)
         else
           (let z = with_job job (\<lambda>j. j\<lparr>j_module_name := as_str name\<rparr>) z;
                z = (case job_at job z of Some j \<Rightarrow> db_call e (db_addJob j) z | None \<Rightarrow> z);
                z = job_free job z
            in vmjob_last job (CTX_INT_JOB f z)))
      else vmjob_last job z)"

subsection \<open>Attaching storage to nodes\<close>

definition storage_cb_setup_storage :: "env \<Rightarrow> string \<Rightarrow> cstr \<Rightarrow> int \<Rightarrow> int \<Rightarrow> smod \<Rightarrow> smod" where
  "storage_cb_setup_storage e action uuid storid caller_uid m =
     (let f = Storf Storage_cb_setup_storage in
      if c_count m = 0 then
        (if c_error m \<noteq> None then m else CTX_CB_ADD (Core Cb_bool_rewind) (snd (z_isNODE e uuid m)))
      else if c_count m = 1 then CTX_VALUE_RETURN f (snd (z_getStorage e storid m))
      else if c_count m = 2 then
        (let (stor, m) = CTX_PARAM_GET f m; m = m\<lparr>c_retval := stor\<rparr> in
         if c_error m \<noteq> None then m
         else CTX_CB_ADD (Core Cb_bool_rewind)
           (if streq e (Some action) ''attachStorage'' then db_call e (db_attachStorageToNode uuid storid) m
            else if streq e (Some action) ''detachStorage'' then db_call e (db_detachStorageFromNode uuid storid) m
            else m))
      else if c_count m = 3 then
        (if c_error m \<noteq> None then set_error JOB_CREATION_FAILED m
         else if streq e (Some action) ''attachStorage'' \<or> streq e (Some action) ''detachStorage'' then
           (case c_retval m of
              VStorage stor \<Rightarrow> storage_job_init_node e f uuid caller_uid action (storage_place stor) (m\<lparr>c_retval := VNull\<rparr>)
            | _ \<Rightarrow> emit OCrash m)
         else m\<lparr>c_retval := VNull\<rparr>)
      else if c_count m = 4 then
        (if \<not> is_null (c_retval m) \<and> \<not> no_text uuid then (hand_over e (c_retval m) caller_uid m)\<lparr>c_retval := VNull\<rparr>
         else
           (let (job, m) = CTX_PARAM_GET f m
            in CTX_VALUE_RETURN f (db_call e (db_getControlModuleNameByStorage storid) (m\<lparr>c_retval := job\<rparr>))))
      else if c_count m = 5 then
        (let (name, m) = CTX_PARAM_GET f m; job = c_retval m in
         if is_null name \<or> c_error m \<noteq> None
         then set_error JOB_CREATION_FAILED ((job_free job m)\<lparr>c_retval := VNull\<rparr>)
         else emit (OSpawn (Storf Storage_cb_nodejob)) (with_job job (\<lambda>j. j\<lparr>j_module_name := as_str name\<rparr>) m))
      else m)"

definition z_attachStorageToNode :: "env \<Rightarrow> cstr \<Rightarrow> int \<Rightarrow> int \<Rightarrow> smod \<Rightarrow> bool \<times> smod" where
  "z_attachStorageToNode e uuid storid caller_uid m =
     CTX_RETURN (storage_cb_setup_storage e ''attachStorage'' uuid storid caller_uid m)"

definition z_detachStorageFromNode :: "env \<Rightarrow> cstr \<Rightarrow> int \<Rightarrow> int \<Rightarrow> smod \<Rightarrow> bool \<times> smod" where
  "z_detachStorageFromNode e uuid storid caller_uid m =
     CTX_RETURN (storage_cb_setup_storage e ''detachStorage'' uuid storid caller_uid m)"

subsection \<open>Changing storage\<close>

definition storage_cb_jid_collect :: "env \<Rightarrow> int \<Rightarrow> smod \<Rightarrow> smod" where
  "storage_cb_jid_collect e ret m =
     (let m = MARK_CB m;
          jids = (if c_count m = 10 then [e_stack e] else ids_of (c_retval m)) @ [e_stack e]
      in if c_count m = of_nat (length jids) + 10
         then RESUME (REWIND (m\<lparr>c_count := 6, c_retval := VInts jids\<rparr>))
         else m)"

text \<open>
  The contexts are made as one zeroed array of structures, which is then used as an array of
  pointers: the first one is null. \<open>eq\<close> is the generated comparison of two storages.
\<close>

definition z_modifyStorage :: "env \<Rightarrow> (storage \<Rightarrow> storage \<Rightarrow> bool) \<Rightarrow> int \<Rightarrow> storage \<Rightarrow> int \<Rightarrow> smod \<Rightarrow> bool \<times> smod" where
  "z_modifyStorage e eq ident stor caller_uid m =
     (let f = Storf F_modifyStorage in
      CTX_RETURN
       (if c_count m = 0 then CTX_VALUE_RETURN f (snd (z_getStorage e ident m))
        else if c_count m = 1 then
          (case CTX_PARAM_GET f m of
             (VStorage existing, m) \<Rightarrow>
               if c_error m \<noteq> None then m
               else if eq stor existing then set_error NO_CHANGE_PERFORMED m
               else CTX_VALUE_RETURN f (snd (z_getNodesByStorage e ident m))
           | (_, m) \<Rightarrow> m)
        else if c_count m = 2 then
          (let (nodes, m) = CTX_PARAM_GET f m;
               us = strings_of nodes;
               m = m\<lparr>c_count := 4 + of_nat (length us)\<rparr>
           in case us of
                [] \<Rightarrow> m
              | uuid # _ \<Rightarrow>
                  (case JOB_alloc ((storage_job_init caller_uid (Some ''modifyNodeStorage'') (Some (storage_change stor)) (Some []))
                          \<lparr>j_target_vm := Some [], j_target_node := Some uuid\<rparr>) m of
                     (_, m) \<Rightarrow> emit OCrash m))
        else if c_count m = 4 then
          modify_step5 e f (Storf Storage_cb_jid_collect) caller_uid
            (CTX_VALUE_RETURN f (db_call e (db_getControlModuleNameByStorage ident) m))
        else if c_count m = 5 then modify_step5 e f (Storf Storage_cb_jid_collect) caller_uid m
        else if c_count m = 6 then CTX_CB_ADD (Core Cb_int_rewind) (db_call e (db_modifyStorage ident stor) m)
        else if c_count m = 7 then parent_job e ''modifyStorage'' caller_uid (c_retval m) (m\<lparr>c_retval := VNull\<rparr>)
        else m))"

subsection \<open>Disks\<close>

definition disk_input :: "env \<Rightarrow> string \<Rightarrow> int \<Rightarrow> storage \<Rightarrow> disk \<Rightarrow> cstr" where
  "disk_input e action storid stor disk =
     (if streq e (Some action) ''attachDisk'' \<or> streq e (Some action) ''enableDisk'' \<or> streq e (Some action) ''disableDisk''
      then Some (disk_place storid stor disk @ ''::internal='' @ printf_s (d_int_dev disk))
      else if streq e (Some action) ''detachDisk'' then Some (disk_place storid stor disk)
      else None)"

definition disk_host :: "env \<Rightarrow> string \<Rightarrow> storage \<Rightarrow> cstr" where
  "disk_host e action stor =
     (if (streq e (Some action) ''attachDisk'' \<or> streq e (Some action) ''enableDisk'' \<or> streq e (Some action) ''disableDisk'')
         \<and> st_host stor \<noteq> None \<and> zs_ip e (st_host stor)
      then st_host stor else None)"

definition storage_cb_setup_disk :: "env \<Rightarrow> string \<Rightarrow> int \<Rightarrow> cstr \<Rightarrow> int \<Rightarrow> smod \<Rightarrow> smod" where
  "storage_cb_setup_disk e action storid path caller_uid m =
     (let f = Storf Storage_cb_setup_disk in
      if c_count m = 0 then
        (if path = None \<or> storid < 0 then set_error INVALID_PARAMETER m
         else CTX_VALUE_RETURN f (snd (z_getStorage e storid m)))
      else if c_count m = 1 then
        (let (stor, m) = CTX_PARAM_GET f m in
         if c_error m \<noteq> None then m
         else CTX_VALUE_RETURN f (snd (z_getDiskByStorage e storid path (m\<lparr>c_retval := stor\<rparr>))))
      else if c_count m = 2 then
        (let (disk, m) = CTX_PARAM_GET f m in
         if c_error m \<noteq> None then m
         else case (c_retval m, disk) of
             (VStorage stor, VDisk disk) \<Rightarrow>
               (let (job, m) = JOB_alloc ((storage_job_init caller_uid (Some action) (disk_input e action storid stor disk) (Some []))
                      \<lparr>j_target_host := disk_host e action stor\<rparr>) m
                in m\<lparr>c_retval := job\<rparr>)
           | _ \<Rightarrow> emit OCrash m)
      else m)"

text \<open>
  Attaching, enabling and disabling differ in the action and the statement that records it.
  The name of the control module is asked for without a job to put it into.
\<close>

definition record_disk :: "env \<Rightarrow> string \<Rightarrow> dbreq \<Rightarrow> int \<Rightarrow> cstr \<Rightarrow> int \<Rightarrow> smod \<Rightarrow> bool \<times> smod" where
  "record_disk e action req storid path caller_uid m =
     CTX_RETURN
       (if c_count m = 0 \<or> c_count m = 1 \<or> c_count m = 2 then
          (let m = storage_cb_setup_disk e action storid path caller_uid m in
           if c_count m \<noteq> 2 then m
           else CTX_CB_ADD (Core Cb_job_module_name) (db_call e (db_getControlModuleNameByStorage storid) m))
        else if c_count m = 3 then CTX_CB_ADD (Core Cb_bool_rewind) (db_call e req m)
        else if c_error m \<noteq> None then set_error JOB_CREATION_FAILED (job_free (c_retval m) m)
        else hand_over e (c_retval m) caller_uid m)"

definition z_attachDiskToStorage :: "env \<Rightarrow> int \<Rightarrow> cstr \<Rightarrow> int \<Rightarrow> smod \<Rightarrow> bool \<times> smod" where
  "z_attachDiskToStorage e storid path caller_uid m =
     record_disk e ''attachDisk'' (db_attachDisk storid path) storid path caller_uid m"

definition z_enableDiskByStorage :: "env \<Rightarrow> int \<Rightarrow> cstr \<Rightarrow> int \<Rightarrow> smod \<Rightarrow> bool \<times> smod" where
  "z_enableDiskByStorage e storid path caller_uid m =
     record_disk e ''enableDisk'' (db_enableDisk storid path) storid path caller_uid m"

definition z_disableDiskByStorage :: "env \<Rightarrow> int \<Rightarrow> cstr \<Rightarrow> int \<Rightarrow> smod \<Rightarrow> bool \<times> smod" where
  "z_disableDiskByStorage e storid path caller_uid m =
     record_disk e ''disableDisk'' (db_disableDisk storid path) storid path caller_uid m"

definition z_detachDiskFromStorage :: "env \<Rightarrow> int \<Rightarrow> cstr \<Rightarrow> int \<Rightarrow> smod \<Rightarrow> bool \<times> smod" where
  "z_detachDiskFromStorage e storid path caller_uid m =
     (let f = Storf F_detachDiskFromStorage in
      CTX_RETURN
       (if c_count m = 0 \<or> c_count m = 1 \<or> c_count m = 2 then
          (let m = storage_cb_setup_disk e ''detachDisk'' storid path caller_uid m in
           if c_count m \<noteq> 2 then m else CTX_VALUE_RETURN f (snd (z_getVmByDisk e storid path m)))
        else if c_count m = 3 then
          (let (uuid, m) = CTX_PARAM_GET f m in
           if c_error m \<noteq> None then set_error JOB_CREATION_FAILED (job_free (c_retval m) m)
           else
             (let m = with_job (c_retval m) (\<lambda>j. j\<lparr>j_target_vm := as_str uuid\<rparr>) m
              in (emit (OSpawn (Storf Storage_cb_vmjob)) m)\<lparr>c_count := 5\<rparr>))
        else if c_count m = 4 then CTX_CB_ADD (Core Cb_bool_rewind) (db_call e (db_detachDisk storid path) m)
        else (hand_over e (c_retval m) caller_uid m)\<lparr>c_retval := VNull\<rparr>))"

text \<open>The last two steps of a new, removed or changed disk.\<close>

definition ask_storage_module :: "env \<Rightarrow> fname \<Rightarrow> int \<Rightarrow> smod \<Rightarrow> smod" where
  "ask_storage_module e f storid m = CTX_VALUE_RETURN f (db_call e (db_getControlModuleNameByStorage storid) m)"

definition hand_over_named :: "env \<Rightarrow> fname \<Rightarrow> int \<Rightarrow> smod \<Rightarrow> smod" where
  "hand_over_named e f caller_uid m =
     (let (name, m) = CTX_PARAM_GET f m; job = c_retval m in
      if is_null name \<or> c_error m \<noteq> None
      then set_error JOB_CREATION_FAILED ((job_free job m)\<lparr>c_retval := VNull\<rparr>)
      else hand_over e job caller_uid (with_job job (\<lambda>j. j\<lparr>j_module_name := as_str name\<rparr>) m))"

definition addDisk_step2 :: "env \<Rightarrow> int \<Rightarrow> disk \<Rightarrow> int \<Rightarrow> smod \<Rightarrow> smod" where
  "addDisk_step2 e storid disk caller_uid m =
     (let (name, m) = CTX_PARAM_GET (Storf F_addDiskToStorage) m;
          (job, m) = JOB_alloc ((storage_job_init caller_uid (Some ''addDisk'') (Some (disk_settings storid disk)) (Some []))
            \<lparr>j_target_host := (if zs_ip e (as_str name) then as_str name else None)\<rparr>) m;
          m = m\<lparr>c_retval := job\<rparr>
      in CTX_CB_ADD (Core Cb_bool_rewind) (db_call e (db_createDisk (Some ''unassigned'') (d_ext_dev disk) storid) m))"

definition z_addDiskToStorage :: "env \<Rightarrow> int \<Rightarrow> disk option \<Rightarrow> int \<Rightarrow> smod \<Rightarrow> bool \<times> smod" where
  "z_addDiskToStorage e storid disk caller_uid m =
     (let f = Storf F_addDiskToStorage in
      CTX_RETURN
       (case disk of
          None \<Rightarrow> if c_count m = 0 then set_error INVALID_PARAMETER m else emit OCrash m
        | Some disk \<Rightarrow>
            if c_count m = 0 then CTX_CB_ADD (Core Cb_bool_rewind) (snd (z_isDiskByStorage e storid (d_ext_dev disk) m))
            else if c_count m = 1 then
              (if c_error m = None then set_error ENTITY_ALREADY_EXISTS m
               else addDisk_step2 e storid disk caller_uid
                      (CTX_VALUE_RETURN f (db_call e (db_getStorageHost storid) (m\<lparr>c_error := None\<rparr>))))
            else if c_count m = 2 then addDisk_step2 e storid disk caller_uid m
            else if c_count m = 3 then CTX_CB_ADD (Core Cb_bool_rewind) (db_call e (db_addDisk storid disk) (m\<lparr>c_error := None\<rparr>))
            else if c_count m = 4 then ask_storage_module e f storid m
            else if c_count m = 5 then hand_over_named e f caller_uid m
            else m))"

text \<open>The lookup that precedes a removal does not hand its result on, so nothing is found to be free.\<close>

definition z_removeDiskFromStorage :: "env \<Rightarrow> int \<Rightarrow> cstr \<Rightarrow> int \<Rightarrow> smod \<Rightarrow> bool \<times> smod" where
  "z_removeDiskFromStorage e storid path caller_uid m =
     (let f = Storf F_removeDiskFromStorage in
      CTX_RETURN
       (if c_count m = 0 then
          (if path = None \<or> storid < 0 then set_error INVALID_PARAMETER m
           else CTX_CB_ADD (Core Cb_bool_rewind) (db_slot ''isDiskInUse'' (db_call e (db_isDiskInUse storid path)) m))
        else if c_count m = 1 then
          (if c_error m \<noteq> None then m
           else
             (let (use, m) = CTX_PARAM_GET f m in
              if use \<noteq> VInt (-1) then set_error RESOURCE_IN_USE m
              else CTX_VALUE_RETURN f (snd (z_getStorage e storid m))))
        else if c_count m = 2 then
          (let (stor, m) = CTX_PARAM_GET f m; m = m\<lparr>c_retval := stor\<rparr> in
           if c_error m \<noteq> None then m else CTX_VALUE_RETURN f (snd (z_getDiskByStorage e storid path m)))
        else if c_count m = 3 then
          (let (disk, m) = CTX_PARAM_GET f m in
           if c_error m \<noteq> None then m
           else case (c_retval m, disk) of
               (VStorage stor, VDisk disk) \<Rightarrow>
                 (let (job, m) = JOB_alloc ((storage_job_init caller_uid (Some ''removeDisk'')
                          (Some (disk_place storid stor disk)) (Some []))
                        \<lparr>j_target_host := (if st_host stor \<noteq> None \<and> zs_ip e (st_host stor) then st_host stor else None)\<rparr>) m;
                      m = m\<lparr>c_retval := job\<rparr>
                  in CTX_CB_ADD (Core Cb_bool_rewind) (db_call e (db_removeDisk storid path) m))
             | _ \<Rightarrow> emit OCrash m)
        else if c_count m = 4 then ask_storage_module e f storid m
        else if c_count m = 5 then hand_over_named e f caller_uid m
        else m))"

definition z_modifyDiskByStorage :: "env \<Rightarrow> int \<Rightarrow> cstr \<Rightarrow> disk \<Rightarrow> int \<Rightarrow> smod \<Rightarrow> bool \<times> smod" where
  "z_modifyDiskByStorage e storid path disk caller_uid m =
     (let f = Storf F_modifyDiskByStorage in
      CTX_RETURN
       (if c_count m = 0 then
          (if path = None \<or> storid < 0 then set_error INVALID_PARAMETER m
           else CTX_VALUE_RETURN f (snd (z_getDiskByStorage e storid path m)))
        else if c_count m = 1 then
          (let (stored, m) = CTX_PARAM_GET f m;
               stored = (case stored of VDisk d \<Rightarrow> Some d | _ \<Rightarrow> None)
           in if c_error m \<noteq> None then m
              else if \<not> stor_DISK_config_cmp (Some disk) stored then set_error NO_CHANGE_PERFORMED m
              else
                (let (job, m) = JOB_alloc (storage_job_init caller_uid (Some ''modifyDisk'') (Some (disk_changes path disk)) (Some [])) m;
                     m = m\<lparr>c_retval := job\<rparr>
                 in CTX_CB_ADD (Core Cb_bool_rewind) (db_call e (db_modifyDisk storid path disk) m)))
        else if c_count m = 2 then ask_storage_module e f storid m
        else if c_count m = 3 then hand_over_named e f caller_uid m
        else m))"

definition z_defineDisk :: "env \<Rightarrow> int \<Rightarrow> disk option \<Rightarrow> smod \<Rightarrow> bool \<times> smod" where
  "z_defineDisk e storid disk m =
     CTX_RETURN
       (case disk of
          None \<Rightarrow> if c_count m = 0 then set_error INVALID_PARAMETER m
                  else if (c_count m = 1 \<or> c_count m = 2) then emit OCrash m else m
        | Some disk \<Rightarrow>
            if c_count m = 0 then
              (if storid < 0 then set_error INVALID_PARAMETER m
               else CTX_CB_ADD (Core Cb_bool_rewind) (snd (z_isDiskByStorage e storid (d_ext_dev disk) m)))
            else if c_count m = 1 then
              (if c_error m \<noteq> None then m
               else CTX_CB_ADD (Core Cb_bool_rewind) (db_call e (db_createDisk (Some ''unassigned'') (d_ext_dev disk) storid) m))
            else if c_count m = 2 then db_call e (db_addDisk storid disk) m
            else m)"

subsection \<open>Detaching everything from a storage\<close>

text \<open>
  One context per node or disk adds a job to the dependencies of the job of the whole
  operation (\<open>job\<close>). The storage id comes through the address of a parameter of the function
  that started the context. A step returns whether the context has been freed.
\<close>

definition detach_out :: "unit \<Rightarrow> smod \<Rightarrow> smod" where
  "detach_out _ p =
     (let p = p\<lparr>c_count := c_count p - 1\<rparr> in if c_count p = 2 then emit (OResume True) (REWIND p) else p)"

interpretation detach_jobs: join detach_out 2 "[ORewind, OResume True]"
  by unfold_locales (simp_all add: detach_out_def REWIND_def emit_def Let_def)

definition add_dependency :: "val \<Rightarrow> val \<Rightarrow> smod \<Rightarrow> smod" where
  "add_dependency job jid z = with_job job (\<lambda>j. j\<lparr>j_dependencies := j_dependencies j @ [as_int jid]\<rparr>) z"

definition store_child_job :: "env \<Rightarrow> fname \<Rightarrow> smod \<Rightarrow> smod" where
  "store_child_job e f z =
     (let job = c_retval z;
          z = (case job_at job z of Some j \<Rightarrow> db_call e (db_addJob j) z | None \<Rightarrow> emit OCrash z);
          z = CTX_INT_JOB f z
      in (job_free job z)\<lparr>c_retval := VNull\<rparr>)"

definition storage_cb_detachdisks :: "env \<Rightarrow> cstr \<Rightarrow> val \<Rightarrow> smod \<Rightarrow> bool \<times> smod" where
  "storage_cb_detachdisks e uuid job z =
     (let f = Storf Storage_cb_detachdisks; cont = (\<lambda>z. (c_error z \<noteq> None, z));
          step6 = (\<lambda>z. case CTX_PARAM_GET f z of (ident, z) \<Rightarrow> (True, add_dependency job ident z)) in
      if c_count z = 0 then cont (CTX_BOOL_JOB f (db_call e (db_isNode uuid) z))
      else if c_count z = 1 then
        (let (ident, z) = CTX_PARAM_GET f z in
         if is_null ident then cont (CTX_VALUE_JOB f (db_call e (db_getStorage 0) z)) else cont (emit OCrash z))
      else if c_count z = 2 then
        (let (stor, z) = CTX_PARAM_GET f z; z = z\<lparr>c_retval := stor\<rparr> in
         if c_error z \<noteq> None then cont z
         else case stor of
             VStorage s \<Rightarrow> cont (CTX_BOOL_JOB f (db_call e (db_detachStorageFromNode uuid (st_id s)) z))
           | _ \<Rightarrow> cont (emit OCrash z))
      else if c_count z = 3 then
        (if c_error z \<noteq> None then cont (set_error JOB_CREATION_FAILED z)
         else case (c_retval z, job_at job z) of
             (VStorage s, Some parent) \<Rightarrow>
               (let (ret, z) = JOB_alloc ((storage_job_init (j_uid parent) (Some ''detachDisk'') (Some (storage_place s)) (Some []))
                      \<lparr>j_target_vm := Some [], j_target_node := uuid\<rparr>) z;
                    z = z\<lparr>c_retval := ret\<rparr>
                in cont ((CTX_VALUE_JOB f (db_call e (db_getNodeAddress uuid) z))\<lparr>c_data := VStorage s\<rparr>))
           | _ \<Rightarrow> cont (emit OCrash z))
      else if c_count z = 4 then
        (case job_at (c_retval z) z of
           None \<Rightarrow> cont (emit OCrash z)
         | Some ret \<Rightarrow>
             if j_module_name ret \<noteq> None then cont ((store_child_job e f z)\<lparr>c_count := 5\<rparr>)
             else
               (let (name, z) = CTX_PARAM_GET f z;
                    z = with_job (c_retval z) (\<lambda>j. j\<lparr>j_target_host := as_str name\<rparr>) z
                in case c_data z of
                     VStorage s \<Rightarrow>
                       cont ((CTX_VALUE_JOB f (db_call e (db_getControlModuleNameByStorage (st_id s)) z))\<lparr>c_data := VNull\<rparr>)
                   | _ \<Rightarrow> cont (emit OCrash z)))
      else if c_count z = 5 then
        (let (name, z) = CTX_PARAM_GET f z in
         if is_null name \<or> c_error z \<noteq> None
         then cont (set_error JOB_CREATION_FAILED ((job_free (c_retval z) z)\<lparr>c_retval := VNull\<rparr>))
         else step6 (emit (OSpawn (Storf Storage_cb_nodejob))
                (with_job (c_retval z) (\<lambda>j. j\<lparr>j_module_name := as_str name\<rparr>) z)))
      else if c_count z = 6 then step6 z
      else cont z)"

definition bulk_job :: "string \<Rightarrow> int \<Rightarrow> nat \<Rightarrow> smod \<Rightarrow> smod" where
  "bulk_job function caller_uid n m =
     (let (job, m) = JOB_alloc (JOB_new\<lparr>j_module_name := Some ''parentJob'', j_module_function := Some function,
            j_uid := caller_uid\<rparr>) m
      in m\<lparr>c_retval := job, c_count := 2 + of_nat n\<rparr>)"

text \<open>The array of contexts is again used as an array of pointers: the first write goes through null.\<close>

definition z_detachAllNodesByStorage :: "env \<Rightarrow> int \<Rightarrow> int \<Rightarrow> smod \<Rightarrow> bool \<times> smod" where
  "z_detachAllNodesByStorage e storid caller_uid m =
     (let f = Storf F_detachAllNodesByStorage in
      CTX_RETURN
       (if c_count m = 0 then
          (if storid < 0 then set_error INVALID_PARAMETER m else CTX_VALUE_RETURN f (snd (z_getNodesByStorage e storid m)))
        else if c_count m = 1 then
          (let (nodes, m) = CTX_PARAM_GET f m in
           if is_null nodes then set_error NO_CHANGE_PERFORMED m
           else emit OCrash (bulk_job ''detachAllNodesByStorage'' caller_uid (length (strings_of nodes)) m))
        else if c_count m = 2 then (hand_over e (c_retval m) caller_uid m)\<lparr>c_retval := VNull\<rparr>
        else m))"

definition storage_cb_detachdisksvm :: "env \<Rightarrow> int \<Rightarrow> disk \<Rightarrow> val \<Rightarrow> smod \<Rightarrow> bool \<times> smod" where
  "storage_cb_detachdisksvm e storid disk job z =
     (let f = Storf Storage_cb_detachdisksvm; cont = (\<lambda>z. (c_error z \<noteq> None, z));
          step6 = (\<lambda>z. case CTX_PARAM_GET f z of (ident, z) \<Rightarrow> (True, add_dependency job ident z)) in
      if c_count z = 0 then cont (CTX_VALUE_JOB f (db_call e (db_getVmByDisk storid (d_ext_dev disk)) z))
      else if c_count z = 1 then
        (let (uuid, z) = CTX_PARAM_GET f z
         in cont (CTX_VALUE_JOB f (db_call e (db_getStorage storid) (z\<lparr>c_retval := uuid\<rparr>))))
      else if c_count z = 2 then
        (let (stor, z) = CTX_PARAM_GET f z in
         case (stor, job_at job z) of
           (VStorage s, Some parent) \<Rightarrow>
             (let vm = as_str (c_retval z);
                  (ret, z) = JOB_alloc ((storage_job_init (j_uid parent) (Some ''detachDisk'')
                      (Some (''diskpath='' @ printf_s (d_ext_dev disk) @ ''::storagepath='' @ printf_s (st_path s)
                        @ ''::mode='' @ printf_s (d_mode disk) @ ''::host='' @ printf_s (st_host s)
                        @ ''::type='' @ printf_s (d_type disk))) (Some []))\<lparr>j_target_vm := vm\<rparr>) z;
                  z = CTX_VALUE_JOB f (db_call e (db_getVMparentNodeAndAddress vm) z)
              in cont (z\<lparr>c_retval := ret\<rparr>))
         | _ \<Rightarrow> cont (emit OCrash z))
      else if c_count z = 3 then
        (let (n, z) = CTX_PARAM_GET f z in
         case n of
           VStrs [node, host] \<Rightarrow>
             (let z = with_job (c_retval z) (\<lambda>j. j\<lparr>j_target_node := Some node, j_target_host := Some host\<rparr>) z
              in cont (CTX_VALUE_JOB f (db_call e (db_getControlModuleNameByStorage storid) z)))
         | _ \<Rightarrow> (True, job_free (c_retval z) z))
      else if c_count z = 4 then
        (case job_at (c_retval z) z of
           None \<Rightarrow> cont (emit OCrash z)
         | Some ret \<Rightarrow>
             if j_module_name ret \<noteq> None then cont (store_child_job e f z)
             else
               (let (name, z) = CTX_PARAM_GET f z in
                if is_null name \<or> c_error z \<noteq> None
                then cont (set_error JOB_CREATION_FAILED ((job_free (c_retval z) z)\<lparr>c_retval := VNull\<rparr>))
                else step6 (emit (OSpawn (Storf Storage_cb_vmjob))
                       (with_job (c_retval z) (\<lambda>j. j\<lparr>j_module_name := as_str name\<rparr>) z))))
      else if c_count z = 6 then step6 z
      else cont z)"

definition z_detachAllDisksByStorage :: "env \<Rightarrow> int \<Rightarrow> int \<Rightarrow> smod \<Rightarrow> bool \<times> smod" where
  "z_detachAllDisksByStorage e storid caller_uid m =
     (let f = Storf F_detachAllDisksByStorage in
      CTX_RETURN
       (if c_count m = 0 then
          (if storid < 0 then set_error INVALID_PARAMETER m else CTX_VALUE_RETURN f (db_call e (db_getDisksByStorage storid) m))
        else if c_count m = 1 then
          (let (disks, m) = CTX_PARAM_GET f m in
           if is_null disks then set_error NO_CHANGE_PERFORMED m
           else emit OCrash ((bulk_job ''detachAllDisksByStorage'' caller_uid
                  (case disks of VDisks ds \<Rightarrow> length ds | _ \<Rightarrow> 0) m)\<lparr>c_data := VInt storid\<rparr>))
        else if c_count m = 2 then CTX_CB_ADD (Core Cb_bool_rewind) (db_call e (db_detachAllDisksByStorage storid) m)
        else if c_count m = 3 then (hand_over e (c_retval m) caller_uid m)\<lparr>c_retval := VNull\<rparr>
        else m))"

subsection \<open>Properties\<close>

lemma storage_change_never_completes:
  assumes "c_error m = None" "\<not> c_ret_set m"
    and attached: "c_count m = 2" "CTX_PARAM_PEEK (Storf F_modifyStorage) m = VStrs (uuid # us)"
    and "c_error n = None" "\<not> c_ret_set n" and unattached: "c_count n = 2" "CTX_PARAM_PEEK (Storf F_modifyStorage) n = VNull"
    and "c_error k = None" "\<not> c_ret_set k" and bulk: "c_count k = 1"
      "CTX_PARAM_PEEK (Storf F_detachAllNodesByStorage) k = VStrs (uuid # us)"
      "CTX_PARAM_PEEK (Storf F_detachAllDisksByStorage) k = VDisks (d # ds)"
  shows "m_out (snd (z_modifyStorage e eq ident stor uid m)) = m_out m @ [OCrash]
    \<and> m_out (snd (z_modifyStorage e eq ident stor uid n)) = m_out n
      \<and> c_cbs (snd (z_modifyStorage e eq ident stor uid n)) = c_cbs n
    \<and> m_out (snd (z_detachAllNodesByStorage e ident uid k)) = m_out k @ [OCrash]
    \<and> m_out (snd (z_detachAllDisksByStorage e ident uid k)) = m_out k @ [OCrash]"
  using assms
  by (simp add: z_modifyStorage_def z_detachAllNodesByStorage_def z_detachAllDisksByStorage_def bulk_job_def JOB_alloc_def
      CTX_PARAM_GET_def CTX_RETURN_out Let_def)

definition sample_storage :: storage where
  "sample_storage = \<lparr> st_id = 5, st_mid = 1, st_host = Some ''10.0.0.9'', st_name = Some ''store'', st_type = None,
     st_path = Some ''/store'', st_mode = None, st_capacity = 1024, st_freespace = 512 \<rparr>"

definition sample_disk :: disk where
  "sample_disk = \<lparr> d_label = None, d_int_dev = None, d_ext_dev = Some ''/dev/a'', d_mode = None, d_type = None,
     d_partition_type = None, d_mapped_dev = None, d_ooreq = 0, d_rdreq = 0, d_wrreq = 0, d_num_sectors = 0,
     d_start_sector = 0, d_free = 0, d_capacity = 10, d_size_sector = 0, d_block_size = 0 \<rparr>"

definition sample_at :: "32 word \<Rightarrow> (fname \<Rightarrow> val) \<Rightarrow> smod" where
  "sample_at n ps = sample_mod\<lparr>c_count := n, c_params := ps\<rparr>"

lemma sample_at_simps:
  "c_error (sample_at n ps) = None" "\<not> c_ret_set (sample_at n ps)" "c_count (sample_at n ps) = n"
  "CTX_PARAM_PEEK f (sample_at n ps) = ps f" "m_out (sample_at n ps) = []" "c_cbs (sample_at n ps) = []"
  "m_qid (sample_at n ps) = 0" "\<not> c_dead (sample_at n ps)" "m_fault (sample_at n ps) = None"
  by (simp_all add: sample_at_def sample_mod_def CTX_PARAM_PEEK_def)

lemma disk_actions_crash:
  assumes "c_count m = 2" "c_error m = None" "\<not> c_ret_set m" "\<not> c_dead m" "c_cbs m = []" "esql_accepts e (m_qid m)"
    and "c_retval m = VStorage stor" "CTX_PARAM_PEEK (Storf Storage_cb_setup_disk) m = VDisk disk"
    and no_job: "CTX_PARAM_PEEK (Core Cb_job_module_name) m = VNull"
    and run: "m1 = snd (record_disk e action req storid path uid m)"
  shows "c_cbs m1 = [Core Cb_job_module_name]
    \<and> m_out m1 = m_out m @ [OQuery (m_qid m) (query_of (db_getControlModuleNameByStorage storid))]
    \<and> (\<exists>xs. m_out (core_cb Cb_job_module_name (VStr name) m1) = m_out m1 @ OCrash # xs)"
proof -
  obtain q where q: "db_getControlModuleNameByStorage storid = DbQuery q" by (simp add: db_getControlModuleNameByStorage_def)
  have m1: "c_cbs m1 = [Core Cb_job_module_name]" "m_out m1 = m_out m @ [OQuery (m_qid m) q]" "c_error m1 = None"
    "CTX_PARAM_PEEK (Core Cb_job_module_name) m1 = VNull"
    using assms by (simp_all add: record_disk_def storage_cb_setup_disk_def CTX_PARAM_GET_def JOB_alloc_def q CTX_CB_ADD_cbs
        CTX_RETURN_out Let_def CTX_PARAM_PEEK_def CTX_PARAM_DEL_def)
  have "\<exists>xs. m_out (core_cb Cb_job_module_name (VStr name) m1) = m_out m1 @ OCrash # xs"
    using m1(3,4) by (simp add: cb_job_module_name_def CTX_PARAM_GET_def with_job_def RESUME_out REWIND_def Let_def)
  then show ?thesis using m1 by (simp add: q)
qed

lemma storage_removal_reports_failure:
  assumes "c_count m = 1" "c_error m = Some UNKNOWN_RESOURCE" "esql_accepts e (m_qid m)"
    and "c_count k = 1" "c_error k = None"
  shows "m_out (snd (z_removeStorage e ident m)) = m_out m @ [OQuery (m_qid m) (query_of (db_removeStorage ident)), OResume False]
    \<and> m_fault (snd (z_removeStorage e ident m)) = Some UNKNOWN_RESOURCE
    \<and> m_out (snd (z_removeStorage e ident k)) = m_out k @ [OResume False]
    \<and> m_fault (snd (z_removeStorage e ident k)) = Some RESOURCE_IN_USE"
proof -
  obtain q where "db_removeStorage ident = DbQuery q" by (simp add: db_removeStorage_def)
  then show ?thesis using assms by (simp add: z_removeStorage_def)
qed

end
