(* ===== verification/Fetch.thy ===== *)
theory Fetch
  imports Sql_Vm Sql_Device Frame
begin

text \<open>
  The chained queries of src/db_sources/mysql/zrpcdb_vm.c: a virtual machine is read in
  three queries. The first gives its configuration; its disks and its interfaces are then
  asked for at the same time, and whichever answer comes second hands the machine on.
\<close>

subsection \<open>The machine being put together\<close>

text \<open>
  The two list fields of the machine tell whether their answer has come: NULL before it, and
  the number one in place of an empty list.
\<close>

datatype 'a plist = P_null | P_true | P_list "'a list"

definition given :: "'a list \<Rightarrow> 'a plist" where
  "given xs = (if xs = [] then P_true else P_list xs)"

record fetch =
  f_vm :: vm
  f_disks :: "disk plist"
  f_vifs :: "netif plist"

text \<open>
  What the next function of the chain gets: a machine, or one with a field that is not a
  pointer to a list.
\<close>

definition plist_of :: "'a plist \<Rightarrow> 'a list" where
  "plist_of p = (case p of P_list xs \<Rightarrow> xs | _ \<Rightarrow> [])"

definition vm_val :: "fetch \<Rightarrow> val" where
  "vm_val f =
     (if f_disks f = P_true \<or> f_vifs f = P_true then VDangling
      else VVm ((f_vm f)\<lparr>v_disks := plist_of (f_disks f), v_vifs := plist_of (f_vifs f)\<rparr>))"

subsection \<open>The three callbacks\<close>

definition vm_deliver :: "fetch \<Rightarrow> smod \<Rightarrow> smod" where
  "vm_deliver f m =
     (case c_cbs m of
        [] \<Rightarrow> finish_with (vm_val f) m
      | cb # cbs \<Rightarrow> if cb = F_NULL then m\<lparr>c_cbs := cbs\<rparr> else emit (OCall cb (vm_val f)) m)"

definition zrpcdb_vm_vifs :: "netif list \<Rightarrow> fetch \<times> smod \<Rightarrow> fetch \<times> smod" where
  "zrpcdb_vm_vifs vifs fm =
     (let (f, m) = fm;
          f = f\<lparr>f_vifs := given vifs\<rparr>;
          m = m\<lparr>c_free_func := Some (Row_free T_VM)\<rparr>
      in if f_disks f = P_null then (f, m)
         else (let f = (if f_disks f = P_true then f\<lparr>f_disks := P_null\<rparr> else f) in (f, vm_deliver f m)))"

definition zrpcdb_vm_disks :: "disk list \<Rightarrow> fetch \<times> smod \<Rightarrow> fetch \<times> smod" where
  "zrpcdb_vm_disks disks fm =
     (let (f, m) = fm;
          f = f\<lparr>f_disks := given disks\<rparr>;
          m = m\<lparr>c_free_func := Some (Row_free T_VM)\<rparr>
      in if f_vifs f = P_null then (f, m)
         else (let f = (if f_vifs f = P_true then f\<lparr>f_vifs := P_null\<rparr> else f) in (f, vm_deliver f m)))"

text \<open>
  The answer to the first query, with the machine its row was converted to and the revision
  that travels with the query (-1 for the latest). A machine read from a row has no lists.
\<close>

definition zrpcdb_vm_stats :: "env \<Rightarrow> esql_res \<Rightarrow> vm \<Rightarrow> int \<Rightarrow> smod \<Rightarrow> fetch option \<times> smod" where
  "zrpcdb_vm_stats e res v revn m =
     (let m = (if r_rows res = 0 then set_error UNKNOWN_RESOURCE m else m) in
      if c_error m \<noteq> None then
        (None,
         case c_cbs m of
           [] \<Rightarrow> emit OEvResult m
         | cb # cbs \<Rightarrow> if cb = F_NULL then m\<lparr>c_cbs := cbs\<rparr> else emit (OCall cb VNull) m)
      else
        (Some \<lparr>f_vm = v\<lparr>v_disks := [], v_vifs := []\<rparr>, f_disks = P_null, f_vifs = P_null\<rparr>,
         db_call e (db_getvmvifs (v_uuid v) revn) (db_call e (db_getvmdisks (v_uuid v) revn) m)))"

text \<open>A list of machines: names only, with or without a range.\<close>

definition db_getvms :: "int \<Rightarrow> int \<Rightarrow> dbreq" where
  "db_getvms offset recordcount = DbQuery
     (if offset < 0 \<or> recordcount < 0 then
        QUERY False Array_string_esql ''SELECT uuid FROM `vms` WHERE template=0'' [] (Some (Some Array_string_free)) None
      else
        QUERY False Array_string_esql ''SELECT uuid FROM `vms` WHERE template=0 LIMIT %d, %d'' [AI offset, AI recordcount]
          (Some (Some Array_string_free)) None)"

text \<open>What the guest tools report is thrown away.\<close>

definition ztoolsUpdate :: "cstr \<Rightarrow> val \<Rightarrow> smod \<Rightarrow> bool \<times> smod" where
  "ztoolsUpdate uuid info m = (True, m)"

definition zrpcdb_vm_keyvalue_row :: "(string \<times> string) list \<Rightarrow> keyvalue" where
  "zrpcdb_vm_keyvalue_row cells =
     fold (\<lambda>(col, v) kv. (if col = ''uuid'' then kv\<lparr>kv_key := Some v\<rparr>
         else if col = ''avg'' then kv\<lparr>kv_value := Some v\<rparr> else kv)\<lparr>kv_type := Some ''double''\<rparr>)
       cells \<lparr>kv_key = None, kv_value = None, kv_type = None\<rparr>"

definition zrpcdb_vm_keyvalue :: "(string \<times> string) list list \<Rightarrow> keyvalue list" where
  "zrpcdb_vm_keyvalue rows = map zrpcdb_vm_keyvalue_row rows"

subsection \<open>Putting a machine together\<close>

lemma given_simps [simp]:
  "given xs \<noteq> P_null" "given xs = P_true \<longleftrightarrow> xs = []" "plist_of (given xs) = xs"
  by (auto simp: given_def plist_of_def)

lemma given_cons: "xs \<noteq> [] \<Longrightarrow> given xs = P_list xs"
  by (simp add: given_def)

text \<open>
  C11: A machine is handed on exactly once, by whichever of its two answers comes second. It
  then carries both lists when the second answer is not empty, in either order and even
  when the first was empty; when the second answer is empty, a number is left in place of
  the list, which the next function takes for a pointer.
\<close>

theorem machine_assembled:
  assumes row: "zrpcdb_vm_stats e res v revn m0 = (Some f, m)" and chain: "c_cbs m = cb # cbs" "cb \<noteq> F_NULL"
    and last: "v1 = (if vifs = [] then VDangling else VVm (v\<lparr>v_disks := disks, v_vifs := vifs\<rparr>))"
      "v2 = (if disks = [] then VDangling else VVm (v\<lparr>v_disks := disks, v_vifs := vifs\<rparr>))"
  shows "m_out (snd (zrpcdb_vm_disks disks (f, m))) = m_out m \<and> m_out (snd (zrpcdb_vm_vifs vifs (f, m))) = m_out m
    \<and> m_out (snd (zrpcdb_vm_vifs vifs (zrpcdb_vm_disks disks (f, m)))) = m_out m @ [OCall cb v1]
    \<and> m_out (snd (zrpcdb_vm_disks disks (zrpcdb_vm_vifs vifs (f, m)))) = m_out m @ [OCall cb v2]"
proof -
  have f: "f_disks f = P_null" "f_vifs f = P_null" "f_vm f = v\<lparr>v_disks := [], v_vifs := []\<rparr>"
    using row by (auto simp: zrpcdb_vm_stats_def Let_def split: if_splits)
  have none: "plist_of P_null = []" by (simp add: plist_of_def)
  show ?thesis
    using f chain last
    by (simp add: zrpcdb_vm_vifs_def zrpcdb_vm_disks_def vm_deliver_def vm_val_def none Let_def)
qed

definition sample_row :: vm where
  "sample_row = \<lparr> v_name = ''vm'', v_uuid = Some ''uuid'', v_puuid = None, v_type = None, v_os = None, v_id = 1,
     v_kernel = None, v_ramdisk = None, v_cmdline = None, v_on_reboot = None, v_on_poweroff = None, v_on_crash = None,
     v_mem = 512, v_maxmem = 512, v_vcpus = 1, v_cpupct = 0, v_cputime = 0, v_uptime = 0, v_state = None,
     v_vncport = 5900, v_vncpasswd = None, v_disks = [], v_vifs = [] \<rparr>"

definition sample_found :: esql_res where
  "sample_found = \<lparr>r_qid = 0, r_error = False, r_rows = 1, r_affected = 0, r_id = 0, r_conv = (\<lambda>_. VNull)\<rparr>"

theorem machine_assembled_witness:
  "\<exists>f m. zrpcdb_vm_stats sample_env sample_found sample_row (- 1) (sample_mod\<lparr>c_cbs := [Core Cb_pointer_return]\<rparr>) = (Some f, m)
     \<and> m_out (snd (zrpcdb_vm_vifs [] (zrpcdb_vm_disks [] (f, m)))) = m_out m @ [OCall (Core Cb_pointer_return) VDangling]"
proof -
  obtain f m where start: "zrpcdb_vm_stats sample_env sample_found sample_row (- 1)
      (sample_mod\<lparr>c_cbs := [Core Cb_pointer_return]\<rparr>) = (Some f, m)"
    by (simp add: zrpcdb_vm_stats_def sample_found_def sample_mod_def Let_def)
  then have "c_cbs m = [Core Cb_pointer_return]"
    by (auto simp: zrpcdb_vm_stats_def sample_found_def sample_mod_def Let_def)
  then show ?thesis using machine_assembled [OF start _ _ refl refl, of _ _ "[]" "[]"] start by auto
qed

end
