(* ===== verification/Console.thy ===== *)
theory Console
  imports Resource Sha1
begin

text \<open>
  src/servlets/functions/functions-console.c: remote consoles of virtual machines. The search
  for a free port, the console locks, and the two connection state machines over
  \<open>ctx->count\<close>. The worker threads and the processes they start are effects. The
  handlers that tear a console down run on contexts of their own; Teardown has them.
\<close>

subsection \<open>Free ports\<close>

text \<open>
  The search between two ports on a 16-bit counter. \<open>is_free\<close> says whether a port can be
  bound. The loop ends only when the counter passes \<open>ending\<close>, which it never does for the
  largest port: the counter wraps. \<open>None\<close> is a run that does not return.
\<close>

partial_function (option) port_loop :: "(16 word \<Rightarrow> bool) \<Rightarrow> 16 word \<Rightarrow> 16 word \<Rightarrow> 16 word option" where
  "port_loop is_free ending port =
     (if is_free port then Some port
      else
        (let port = port + 1 in
         if ending < port then Some (- 1) else port_loop is_free ending port))"

definition get_free_tcp_port_between :: "bool \<Rightarrow> (16 word \<Rightarrow> bool) \<Rightarrow> 16 word \<Rightarrow> 16 word \<Rightarrow> 16 word option" where
  "get_free_tcp_port_between sock_ok is_free start ending =
     (if \<not> sock_ok then Some 0 else port_loop is_free ending start)"

subsection \<open>Queries and locks\<close>

definition z_saveGraphicalConsolePort :: "env \<Rightarrow> cstr \<Rightarrow> int \<Rightarrow> int \<Rightarrow> smod \<Rightarrow> bool \<times> smod" where
  "z_saveGraphicalConsolePort e uuid tunnelport externalport m =
     CTX_RETURN (db_call e (db_saveGraphicalConsolePort uuid tunnelport externalport) m)"

definition z_getGraphicalConsoleTunnelPort :: "env \<Rightarrow> cstr \<Rightarrow> smod \<Rightarrow> bool \<times> smod" where
  "z_getGraphicalConsoleTunnelPort e uuid m =
     CTX_RETURN (db_call e (db_getGraphicalConsoleTunnelPort uuid) m)"

definition z_getGraphicalConsolePort :: "env \<Rightarrow> cstr \<Rightarrow> smod \<Rightarrow> bool \<times> smod" where
  "z_getGraphicalConsolePort e uuid m =
     CTX_RETURN (db_call e (db_getGraphicalConsolePort uuid) m)"

definition z_saveTextConsolePort :: "env \<Rightarrow> cstr \<Rightarrow> int \<Rightarrow> smod \<Rightarrow> bool \<times> smod" where
  "z_saveTextConsolePort e uuid externalport m =
     CTX_RETURN (db_call e (db_saveTextConsolePort uuid externalport) m)"

definition z_getTextConsolePort :: "env \<Rightarrow> cstr \<Rightarrow> smod \<Rightarrow> bool \<times> smod" where
  "z_getTextConsolePort e uuid m =
     CTX_RETURN (db_call e (db_getTextConsolePort uuid) m)"

definition z_getConsoleLockSession :: "env \<Rightarrow> cstr \<Rightarrow> cstr \<Rightarrow> smod \<Rightarrow> bool \<times> smod" where
  "z_getConsoleLockSession e uuid ty m =
     CTX_RETURN (db_call e (db_getConsoleLockSession uuid ty) m)"

definition z_getConsoleClientHost :: "env \<Rightarrow> cstr \<Rightarrow> cstr \<Rightarrow> smod \<Rightarrow> bool \<times> smod" where
  "z_getConsoleClientHost e uuid ty m =
     CTX_RETURN (db_call e (db_getConsoleClientHost uuid ty) m)"

definition z_getConsoleNodeHost :: "env \<Rightarrow> cstr \<Rightarrow> cstr \<Rightarrow> smod \<Rightarrow> bool \<times> smod" where
  "z_getConsoleNodeHost e uuid ty m =
     CTX_RETURN (db_call e (db_getConsoleNodeHost uuid ty) m)"

definition z_hasConsoleLock :: "env \<Rightarrow> cstr \<Rightarrow> cstr \<Rightarrow> smod \<Rightarrow> bool \<times> smod" where
  "z_hasConsoleLock e uuid ty m =
     CTX_RETURN (db_call e (db_hasConsoleLock uuid ty) m)"

definition z_releaseConsoleLock :: "env \<Rightarrow> cstr \<Rightarrow> cstr \<Rightarrow> cstr \<Rightarrow> smod \<Rightarrow> bool \<times> smod" where
  "z_releaseConsoleLock e uuid sessionid ty m =
     CTX_RETURN (db_call e (db_releaseConsoleLock uuid sessionid ty) m)"

definition z_getConsoleLockVmsBySession :: "env \<Rightarrow> cstr \<Rightarrow> smod \<Rightarrow> bool \<times> smod" where
  "z_getConsoleLockVmsBySession e sid m =
     CTX_RETURN (db_call e (db_getConsoleLockVmsBySession sid) m)"

definition z_getConsoleType :: "env \<Rightarrow> cstr \<Rightarrow> cstr \<Rightarrow> smod \<Rightarrow> bool \<times> smod" where
  "z_getConsoleType e uuid sid m =
     CTX_RETURN (db_call e (db_getConsoleType uuid sid) m)"

definition z_getConsoleLockUser :: "env \<Rightarrow> cstr \<Rightarrow> cstr \<Rightarrow> smod \<Rightarrow> bool \<times> smod" where
  "z_getConsoleLockUser e uuid ty m =
     CTX_RETURN
       (if c_count m = 0 then
          CTX_VALUE_RETURN (Cons F_getConsoleLockUser) (db_call e (db_getConsoleLockSession uuid ty) m)
        else if c_count m = 1 then
          (let (sid, m) = CTX_PARAM_GET (Cons F_getConsoleLockUser) m
           in if c_error m \<noteq> None then m else db_call e (db_getUserNameBySession (as_str sid)) m)
        else m)"

text \<open>The lock is taken on the count of the context it shares with its caller.\<close>

definition z_acquireConsoleLock :: "env \<Rightarrow> cstr \<Rightarrow> session \<Rightarrow> cstr \<Rightarrow> smod \<Rightarrow> bool \<times> smod" where
  "z_acquireConsoleLock e uuid session ty m =
     CTX_RETURN
       (if c_count m = 0 then
          CTX_VALUE_RETURN (Cons F_acquireConsoleLock) (snd (z_getVMparentAddress e uuid m))
        else if c_count m = 1 then
          (let (node, m) = CTX_PARAM_GET (Cons F_acquireConsoleLock) m
           in if c_error m \<noteq> None then m
              else db_call e (db_acquireConsoleLock uuid session ty (as_str node)) m)
        else m)"

text \<open>The port is an integer cast to a pointer, and is read through that pointer.\<close>

definition z_getSupportedConsoles :: "env \<Rightarrow> cstr \<Rightarrow> smod \<Rightarrow> bool \<times> smod" where
  "z_getSupportedConsoles e uuid m =
     (if c_count m = 0 then
        CTX_RETURN (CTX_INT_RETURN (Cons F_getSupportedConsoles) (snd (z_getVMattribute e uuid (Some ''vncport'') m)))
      else if c_count m = 1 then
        (if c_error m \<noteq> None then CTX_RETURN m
         else
           (let (port, m) = CTX_PARAM_GET (Cons F_getSupportedConsoles) m
            in if \<not> is_null port then (False, emit OCrash m)
               else CTX_RETURN (AZY_RETVAL (VStrs [''text'']) m)))
      else CTX_RETURN m)"

subsection \<open>Worker threads\<close>

definition console_port_find_end :: "smod \<Rightarrow> smod" where
  "console_port_find_end m = RESUME (REWIND (count_inc m))"

text \<open>\<open>port\<close> is what \<open>get_random_free_tcp_port\<close> returned, a 16-bit number.\<close>

definition console_port_find :: "16 word \<Rightarrow> smod \<Rightarrow> smod" where
  "console_port_find port m = m\<lparr>c_data2 := VInt (uint port)\<rparr>"

subsection \<open>Text consoles\<close>

definition shellinabox_cmd :: "zentific_config \<Rightarrow> session \<Rightarrow> cstr \<Rightarrow> cstr \<Rightarrow> int \<Rightarrow> int \<Rightarrow> string" where
  "shellinabox_cmd config session uuid node ident port =
     (let sid = printf_s (session_id session); uuid = printf_s uuid in
      ''/opt/zentific/bin/shellinaboxd -b -q -u zentific -c /opt/zentific/ssl ''
      @ ''--user-css Normal:+/opt/zentific/share/doc/shellinabox/white-on-black.css,''
      @ ''Reverse:-/opt/zentific/share/doc/shellinabox/black-on-white.css ''
      @ ''-s /'' @ sid @ ''-'' @ uuid @ '':SSH:'' @ printf_s node @ ''-22_'' @ int_dec ident
      @ '' --pidfile '' @ printf_s (VAR_PATH config) @ ''/run/zentific/zentific-console_''
      @ sid @ ''_'' @ uuid @ ''_'' @ int_dec port @ ''.pid'' @ '' -p '' @ int_dec port)"

text \<open>A running process is some non-null pointer, \<open>VUndef\<close>.\<close>

definition z_connectTextConsole :: "env \<Rightarrow> zentific_config \<Rightarrow> session \<Rightarrow> cstr \<Rightarrow> smod \<Rightarrow> bool \<times> smod" where
  "z_connectTextConsole e config session uuid m =
     (let n = c_count m; text = Some ''text''; key = Cons F_connectTextConsole in
      if n = 0 then
        CTX_RETURN (CTX_CB_ADD (Core Cb_bool_rewind) (snd (z_hasConsoleLock e uuid text m)))
      else if n = 1 then
        (if c_error m = None then CTX_RETURN (set_error CONSOLE_LOCKED m)
         else CTX_RETURN (CTX_CB_ADD (Core Cb_bool_rewind) (snd (z_acquireConsoleLock e uuid session text m))))
      else if n = 2 then
        (if c_error m \<noteq> None then CTX_RETURN (set_error CONSOLE_CONNECT_FAILED m)
         else CTX_RETURN (CTX_VALUE_RETURN key (snd (z_getVMparentAddress e uuid m))))
      else if n = 3 then
        (let (node, m) = CTX_PARAM_GET key m;
             m = m\<lparr>c_data := node\<rparr>
         in if c_error m \<noteq> None then CTX_RETURN m
            else CTX_RETURN (CTX_INT_RETURN key (snd (z_getVMstat e uuid (Some ''domid'') m))))
      else if n = 4 then
        (if c_error m \<noteq> None then CTX_RETURN m
         else CTX_RETURN (emit (OThread ''console_port_find'') m))
      else if n = 5 then
        (let port = as_int (c_data2 m) in
         if port < 0 then CTX_RETURN (set_error CONSOLE_CONNECT_FAILED m)
         else
           (let (ident, m) = CTX_PARAM_GET key m;
                cmd = shellinabox_cmd config session uuid (as_str (c_data m)) (as_int ident) port;
                m = (if e_exe e cmd then (emit (OExe cmd) m)\<lparr>c_retval := VUndef\<rparr> else m\<lparr>c_retval := VNull\<rparr>);
                m = m\<lparr>c_data := VInt port\<rparr>;
                m = (if is_null (c_retval m)
                     then CTX_CB_ADD (Core Cb_bool_rewind) (snd (z_releaseConsoleLock e uuid (session_id session) text m))
                     else m)
            in CTX_RETURN (count_inc m)))
      else if n = 6 then
        (if is_null (c_retval m) then CTX_RETURN (set_error CONSOLE_CONNECT_FAILED m)
         else
           (let m = m\<lparr>c_retval := VNull\<rparr> in
            if c_error m \<noteq> None then CTX_RETURN m
            else
              (let port = as_int (c_data m);
                   m = CTX_CB_ADD (Core Cb_bool_rewind) (snd (z_saveTextConsolePort e uuid port m));
                   m = m\<lparr>c_error := None\<rparr>
               in CTX_RETURN (RESUME (AZY_RETVAL (VInt port) m)))))
      else if n = 7 then
        (let m = m\<lparr>c_error := None\<rparr>
         in CTX_RETURN (RESUME (AZY_RETVAL (VInt (as_int (c_data m))) m)))
      else CTX_RETURN m)"

end
