(* ===== verification/Teardown.thy ===== *)
theory Teardown
  imports Console User Runs
begin

text \<open>
  The graphical console of src/servlets/functions/functions-console.c and the handlers that
  take a console down, with src/bin/loop.c's handler of a console process that has exited
  and \<open>_logout\<close>. A teardown runs on a context of its own, allocated by the call that
  starts it, with that call's context as its parent.
\<close>

subsection \<open>Ports\<close>

text \<open>Every failure returns -1 as a 16-bit number; \<open>port\<close> is the one the system gives.\<close>

definition get_random_free_tcp_port :: "bool \<Rightarrow> bool \<Rightarrow> bool \<Rightarrow> 16 word \<Rightarrow> 16 word" where
  "get_random_free_tcp_port resolved sock_ok bound port =
     (if \<not> resolved then - 1 else if \<not> sock_ok then - 1 else if \<not> bound then - 1 else port)"

text \<open>
  The two conversions \<open>%hi\<close> of \<open>sscanf\<close>: white space, a sign, and a number in base 16, 8 or
  10 by its prefix. The value and the rest of the text; a prefix 0x needs a digit.
\<close>

definition hex_val :: "char \<Rightarrow> int option" where
  "hex_val c =
     (let n = (of_char c :: nat) in
      if 48 \<le> n \<and> n \<le> 57 then Some (int n - 48)
      else if 97 \<le> n \<and> n \<le> 102 then Some (int n - 87)
      else if 65 \<le> n \<and> n \<le> 70 then Some (int n - 55) else None)"

fun scan_base :: "int \<Rightarrow> int \<Rightarrow> string \<Rightarrow> int \<times> string" where
  "scan_base b acc [] = (acc, [])"
| "scan_base b acc (c # cs) =
     (case hex_val c of
        Some d \<Rightarrow> if d < b then scan_base b (b * acc + d) cs else (acc, c # cs)
      | None \<Rightarrow> (acc, c # cs))"

fun scan_number :: "string \<Rightarrow> (int \<times> string) option" where
  "scan_number [] = None"
| "scan_number (c # cs) =
     (if c = CHR ''0'' then
        (case cs of
           x # ds \<Rightarrow>
             if x = CHR ''x'' \<or> x = CHR ''X'' then
               (case ds of
                  [] \<Rightarrow> None
                | y # _ \<Rightarrow> if hex_val y = None then None else Some (scan_base 16 0 ds))
             else Some (scan_base 8 0 cs)
         | [] \<Rightarrow> Some (0, []))
      else if digit_val c = None then None
      else Some (scan_base 10 0 (c # cs)))"

definition scan_hi :: "string \<Rightarrow> (16 word \<times> string) option" where
  "scan_hi s =
     (let (neg, ds) = scan_sign (dropWhile is_space s)
      in map_option (\<lambda>(v, rest). (word_of_int (if neg then - v else v), rest)) (scan_number ds))"

definition scan_range :: "string \<Rightarrow> (16 word \<times> 16 word) option" where
  "scan_range s =
     (case scan_hi s of
        Some (a, c # rest) \<Rightarrow>
          if c = CHR ''-'' then (case scan_hi rest of Some (b, _) \<Rightarrow> Some (a, b) | None \<Rightarrow> None) else None
      | _ \<Rightarrow> None)"

text \<open>In a thread: the range of the configuration, or any port. \<open>None\<close> is a search that never ends.\<close>

definition console_graphical_port_find :: "bool \<Rightarrow> (16 word \<Rightarrow> bool) \<Rightarrow> 16 word \<Rightarrow> smod \<Rightarrow> smod option" where
  "console_graphical_port_find sock_ok is_free any_port m =
     map_option (\<lambda>p. m\<lparr>c_data := VInt (uint p)\<rparr>)
       (case c_data m of
          VStr s \<Rightarrow>
            (case scan_range s of
               Some (start, ending) \<Rightarrow> get_free_tcp_port_between sock_ok is_free start ending
             | None \<Rightarrow> Some any_port)
        | _ \<Rightarrow> Some any_port)"

subsection \<open>Graphical consoles\<close>

text \<open>
  A console process has been running for half a second: the context of the process is
  marked, and its parent's call goes on.
\<close>

definition console_cb_timer :: "smod \<Rightarrow> smod \<Rightarrow> smod \<times> smod" where
  "console_cb_timer z p = (z\<lparr>c_dead := True\<rparr>, emit (OResume True) (REWIND p))"

definition ssh_cmd :: "zentific_config \<Rightarrow> cstr \<Rightarrow> int \<Rightarrow> int \<Rightarrow> cstr \<Rightarrow> string" where
  "ssh_cmd config uuid tunnelport vncport node =
     printf_s (SSH_PATH config) @ '' -Nnf''
     @ '' -M -S '' @ printf_s (VAR_PATH config) @ ''/run/zentific/ssh_'' @ printf_s uuid @ ''_'' @ int_dec tunnelport
     @ ''_%h-%p-%r.pid''
     @ '' -i '' @ printf_s (KEY_PATH config) @ ''/zentific_tunnel-key''
     @ '' -o UserKnownHostsFile='' @ printf_s (KEY_PATH config) @ ''/zentific_tunnel-known_hosts''
     @ '' -o StrictHostKeyChecking=no''
     @ '' -L '' @ int_dec tunnelport @ '':127.0.0.1:'' @ int_dec vncport
     @ '' zentific_tunnel@'' @ printf_s node @ '' ''"

definition zproxy_cmd :: "zentific_config \<Rightarrow> session \<Rightarrow> cstr \<Rightarrow> int \<Rightarrow> int \<Rightarrow> string" where
  "zproxy_cmd config session uuid tunnelport externalport =
     ''/opt/zentific/utils/zproxy'' @ '' -s -l 0.0.0.0 -b 127.0.0.1 -p '' @ int_dec tunnelport
     @ '' -f '' @ int_dec externalport @ '' -P '' @ printf_s (VAR_PATH config)
     @ ''/run/zentific/zentific-zproxy_'' @ printf_s (session_id session) @ ''_'' @ printf_s uuid
     @ ''_'' @ int_dec tunnelport @ ''.pid''"

text \<open>When a process cannot be started the port in \<open>ctx->data\<close> is released as if it were a string.\<close>

definition stringshare_del_data :: "smod \<Rightarrow> smod" where
  "stringshare_del_data m = (case c_data m of VInt i \<Rightarrow> if i = 0 then m else emit OCrash m | _ \<Rightarrow> m)"

text \<open>
  The lock is taken by a function that looks at the same \<open>ctx->count\<close>. Once the second
  process runs, its tag is set on \<open>ctx->retval\<close>, which is a port number by then.
\<close>

definition z_connectGraphicalConsole :: "env \<Rightarrow> zentific_config \<Rightarrow> session \<Rightarrow> cstr \<Rightarrow> smod \<Rightarrow> bool \<times> smod" where
  "z_connectGraphicalConsole e config session uuid m =
     (let n = c_count m; vnc = Some ''vnc''; key = Cons F_connectGraphicalConsole in
      CTX_RETURN
       (if n = 0 then CTX_CB_ADD (Core Cb_bool_rewind) (snd (z_hasConsoleLock e uuid vnc m))
        else if n = 1 then
          (if c_error m = None then set_error CONSOLE_LOCKED m
           else CTX_VALUE_RETURN key (snd (z_getConfig e (Some ''console_port_range'') m)))
        else if n = 2 then
          (let (range, m) = CTX_PARAM_GET key (m\<lparr>c_error := None\<rparr>);
               m = m\<lparr>c_data := range\<rparr>
           in CTX_INT_RETURN key (snd (z_getVMattribute e uuid (Some ''vncport'') m)))
        else if n = 3 then
          (let (vncport, m) = CTX_PARAM_GET key m;
               m = m\<lparr>c_retval := vncport\<rparr>
           in if c_error m \<noteq> None then set_error CONSOLE_CONNECT_FAILED m
              else CTX_CB_ADD (Core Cb_bool_rewind) (snd (z_acquireConsoleLock e uuid session vnc m)))
        else if n = 4 then
          (if c_error m \<noteq> None then set_error DB_FAIL m
           else emit (OThread ''console_graphical_port_find'') m)
        else if n = 5 then
          (if as_int (c_data m) < 0 then set_error CONSOLE_CONNECT_FAILED m
           else emit (OThread ''console_port_find'') m)
        else if n = 6 then
          (let externalport = as_int (c_data m); tunnelport = as_int (c_data2 m) in
           if tunnelport < 0 \<or> tunnelport = externalport then set_error CONSOLE_CONNECT_FAILED m
           else CTX_VALUE_RETURN key (snd (z_getVMparentAddress e uuid m)))
        else if n = 7 then
          (if c_error m \<noteq> None then m
           else
             (let tunnelport = as_int (c_data2 m);
                  (node, m) = CTX_PARAM_GET key m;
                  cmd = ssh_cmd config uuid tunnelport (as_int (c_retval m)) (as_str node);
                  m = (if e_exe e cmd then emit (OExe cmd) m
                       else stringshare_del_data
                          (CTX_CB_ADD (Core Cb_bool_rewind) (snd (z_releaseConsoleLock e uuid (session_id session) vnc m))))
              in count_inc (m\<lparr>c_retval := VInt tunnelport\<rparr>)))
        else if n = 8 then
          (if is_null (c_retval m) then set_error CONSOLE_CONNECT_FAILED m
           else if c_error m \<noteq> None then m
           else CTX_CB_ADD (Core Cb_bool_rewind)
                  (snd (z_saveGraphicalConsolePort e uuid (as_int (c_retval m)) (as_int (c_data m)) m)))
        else if n = 9 then
          (let m = m\<lparr>c_error := None\<rparr>;
               cmd = zproxy_cmd config session uuid (as_int (c_retval m)) (as_int (c_data m))
           in if e_exe e cmd then
                (let m = emit (OExe cmd) m
                 in count_inc (if is_null (c_retval m) then m else emit OCrash m))
              else
                count_inc (stringshare_del_data (CTX_CB_ADD (Core Cb_bool_rewind)
                  ((snd (z_releaseConsoleLock e uuid (session_id session) vnc m))\<lparr>c_retval := VNull\<rparr>))))
        else if n = 10 then
          (if is_null (c_retval m) then set_error CONSOLE_CONNECT_FAILED m
           else if c_error m \<noteq> None then m
           else RESUME (AZY_RET (as_int (c_data m)) m))
        else m))"

subsection \<open>Taking a console down\<close>

text \<open>
  What the machine answers: whether a path exists, the number read from a file (\<open>None\<close> when
  it cannot be opened, \<open>Some None\<close> when it holds none) or from the output of a command, and
  what sending a signal to a process does.
\<close>

datatype kill_result = Kill_done | Kill_denied | Kill_missing

record proc_host =
  h_stat :: "string \<Rightarrow> bool"
  h_pid :: "string \<Rightarrow> int option option"
  h_popen :: "string \<Rightarrow> int option option"
  h_kill :: "int \<Rightarrow> kill_result"

text \<open>
  The context of a teardown is a zeroed one: it has no table of parameters, so nothing is
  kept there. Its \<open>parent\<close> is a context and not a module: resuming through it is an access
  to memory of the wrong type.
\<close>

definition no_table :: "smod \<Rightarrow> smod" where
  "no_table z = z\<lparr>c_params := (\<lambda>_. VNull)\<rparr>"

definition child_return :: "smod \<Rightarrow> smod" where
  "child_return z = (if c_error z \<noteq> None \<or> c_ret_set z then emit OCrash z else z)"

definition new_child :: "val \<Rightarrow> val \<Rightarrow> smod \<Rightarrow> smod" where
  "new_child uuid session m =
     no_table m
      \<lparr>c_cbs := [], c_retval := session, c_data := uuid, c_data2 := VNull, c_free_func := None, c_job := None,
       c_error := None, c_count := 0, c_user_type := 0, c_state := False, c_ret := False, c_ret_set := False,
       c_dead := False, c_checked := False, c_auth := False, c_sso := False, m_type_cbs := (\<lambda>_. None),
       m_db_cbs := (\<lambda>_. None), m_out := []\<rparr>"

text \<open>
  The end of both handlers: the parent learns the error and that one teardown less is
  running; at two its call goes on. The first component says that the context is freed.
\<close>

definition child_done :: "smod \<Rightarrow> smod \<Rightarrow> bool \<times> smod \<times> smod" where
  "child_done z p =
     (let p = p\<lparr>c_error := c_error z, c_count := c_count p - 1\<rparr>
      in (True, z, if c_count p = 2 then emit (OResume True) (REWIND p) else p))"

definition child_waits :: "smod \<Rightarrow> smod \<Rightarrow> bool \<times> smod \<times> smod" where
  "child_waits z p = (if c_error z = None then (False, z, p) else child_done z p)"

definition console_pid_file :: "zentific_config \<Rightarrow> cstr \<Rightarrow> cstr \<Rightarrow> int \<Rightarrow> string" where
  "console_pid_file config session uuid port =
     printf_s (VAR_PATH config) @ ''/run/zentific/zentific-console_'' @ printf_s session @ ''_'' @ printf_s uuid
     @ ''_'' @ int_dec port @ ''.pid''"

definition console_text_kill :: "env \<Rightarrow> zentific_config \<Rightarrow> proc_host \<Rightarrow> cstr \<Rightarrow> cstr \<Rightarrow> smod \<Rightarrow> smod \<Rightarrow> bool \<times> smod \<times> smod" where
  "console_text_kill e config h uuid session z p =
     (let (port, z) = CTX_PARAM_GET (Cons Console_disconnect_text) z;
          z = (if is_null port then z else emit OCrash z);
          file = console_pid_file config session uuid 0
      in case h_pid h file of
          Some (Some pid) \<Rightarrow>
            (let z = emit (OKill pid) (emit (OUnlink file) z)
             in case h_kill h pid of
                 Kill_denied \<Rightarrow> child_waits (set_error CONSOLE_DISCONNECT_FAILED z) p
               | Kill_missing \<Rightarrow> child_waits (set_error CONSOLE_DAEMON_NOT_FOUND z) p
               | Kill_done \<Rightarrow>
                   child_waits (CTX_BOOL_JOB (Cons Console_disconnect_text)
                     (db_call e (db_releaseConsoleLock uuid session (Some ''text'')) z)) p)
        | _ \<Rightarrow> child_done z p)"

definition console_disconnect_text :: "env \<Rightarrow> zentific_config \<Rightarrow> proc_host \<Rightarrow> smod \<Rightarrow> smod \<Rightarrow> bool \<times> smod \<times> smod" where
  "console_disconnect_text e config h z p =
     (let n = c_count z; uuid = as_str (c_data z); session = as_str (c_retval z);
          text = Some ''text''; key = Cons Console_disconnect_text;
          ask_port = (\<lambda>z. child_waits
            (no_table (CTX_INT_JOB key (child_return (db_call e (db_getTextConsolePort uuid) z)))) p)
      in
      if n = 0 then child_waits (CTX_BOOL_JOB key (child_return (db_call e (db_hasConsoleLock uuid text) z))) p
      else if n = 1 then
        (if c_error z \<noteq> None then child_done (z\<lparr>c_error := None\<rparr>) p
         else if is_null (c_retval z) then
           child_waits (no_table (CTX_VALUE_JOB key (db_call e (db_getConsoleLockSession uuid text) z))) p
         else ask_port z)
      else if n = 2 then
        (if is_null (c_retval z) then
           (let (found, z) = CTX_PARAM_GET key z; z = z\<lparr>c_retval := found\<rparr>
            in if c_error z \<noteq> None then child_waits z p else ask_port z)
         else ask_port z)
      else if n = 3 then
        (if c_error z \<noteq> None then child_waits z p else console_text_kill e config h uuid session z p)
      else if n = 4 then child_done (z\<lparr>c_error := None\<rparr>) p
      else child_waits z p)"

text \<open>
  The worker of a VNC teardown. When the proxy's pid file is missing, the path of the tunnel
  is appended to its name.
\<close>

definition tunnel_socket :: "zentific_config \<Rightarrow> cstr \<Rightarrow> int \<Rightarrow> cstr \<Rightarrow> string" where
  "tunnel_socket config uuid port node =
     printf_s (VAR_PATH config) @ ''/run/zentific/ssh_'' @ printf_s uuid @ ''_'' @ int_dec port @ ''_'' @ printf_s node
     @ ''-22-zentific_tunnel.pid''"

definition console_disconnect_vnc_thread :: "zentific_config \<Rightarrow> proc_host \<Rightarrow> smod \<Rightarrow> smod" where
  "console_disconnect_vnc_thread config h z =
     (let uuid = as_str (c_data z); session = as_str (c_retval z); node = as_str (c_data2 z);
          (port, z) = CTX_PARAM_GET (Cons Console_disconnect_vnc_thread) z;
          z = (if is_null port then z else emit OCrash z);
          file = printf_s (VAR_PATH config) @ ''/run/zentific/zentific-zproxy_'' @ printf_s session @ ''_''
            @ printf_s uuid @ ''_'' @ int_dec 0 @ ''.pid'';
          (prefix, z) =
            (if \<not> h_stat h file then (file, z)
             else
               ([], emit (OUnlink file)
                  (case h_pid h file of Some (Some pid) \<Rightarrow> emit (OKill pid) z | _ \<Rightarrow> z)));
          cmd = printf_s (SSH_PATH config) @ '' -S '' @ prefix @ tunnel_socket config uuid 0 node
            @ '' -O check zentific_tunnel@'' @ printf_s node @ '' 2>&1'';
          z = emit (OExe cmd) z
      in case h_popen h cmd of
          Some (Some pid) \<Rightarrow>
            (let z = emit (OKill pid) z
             in case h_kill h pid of
                 Kill_done \<Rightarrow> z
               | Kill_denied \<Rightarrow> set_error CONSOLE_DISCONNECT_FAILED z
               | Kill_missing \<Rightarrow> set_error CONSOLE_DAEMON_NOT_FOUND z)
        | _ \<Rightarrow> z)"

definition console_disconnect_vnc_thread_end :: "env \<Rightarrow> smod \<Rightarrow> smod" where
  "console_disconnect_vnc_thread_end e z =
     CTX_BOOL_JOB (Cons Console_disconnect_vnc)
       (db_call e (db_releaseConsoleLock (as_str (c_data z)) (as_str (c_retval z)) (Some ''vnc'')) z)"

text \<open>The first step leaves the handler of text consoles as the job to run next.\<close>

definition console_disconnect_vnc :: "env \<Rightarrow> smod \<Rightarrow> smod \<Rightarrow> bool \<times> smod \<times> smod" where
  "console_disconnect_vnc e z p =
     (let n = c_count z; uuid = as_str (c_data z); vnc = Some ''vnc'';
          text_key = Cons Console_disconnect_text; key = Cons Console_disconnect_vnc;
          ask_host = (\<lambda>z. child_waits
            (no_table (CTX_VALUE_JOB key (child_return (db_call e (db_getConsoleNodeHost uuid vnc) z)))) p)
      in
      if n = 0 then child_waits (CTX_BOOL_JOB text_key (child_return (db_call e (db_hasConsoleLock uuid vnc) z))) p
      else if n = 1 then
        (if c_error z \<noteq> None then child_done (z\<lparr>c_error := None\<rparr>) p
         else if is_null (c_retval z) then
           child_waits (no_table (CTX_VALUE_JOB text_key (db_call e (db_getConsoleLockSession uuid (Some ''text'')) z))) p
         else ask_host z)
      else if n = 2 then
        (if is_null (c_retval z) then
           (let (found, z) = CTX_PARAM_GET key z; z = z\<lparr>c_retval := found\<rparr>
            in if c_error z \<noteq> None then child_waits z p else ask_host z)
         else ask_host z)
      else if n = 3 then
        (let (node, z) = CTX_PARAM_GET key z; z = z\<lparr>c_data2 := node\<rparr>
         in if c_error z \<noteq> None then child_waits z p
            else child_waits (no_table (CTX_JOB_SEND (Cons Console_disconnect_vnc_thread)
                   (child_return (db_call e (db_getGraphicalConsoleTunnelPort uuid) z)))) p)
      else if n = 4 then
        (if c_error z \<noteq> None then child_waits z p
         else child_waits (emit (OThread ''console_disconnect_vnc_thread'') z) p)
      else if n = 5 then child_done z p
      else child_waits z p)"

text \<open>
  The calls that start teardowns: the result of the call, and the teardowns started, each
  with what became of it when it ran its first step. The parent is threaded through.
\<close>

type_synonym teardown = "bool \<times> smod"

definition z_disconnectConsole :: "env \<Rightarrow> zentific_config \<Rightarrow> proc_host \<Rightarrow> cstr \<Rightarrow> cstr \<Rightarrow> smod \<Rightarrow> (bool \<times> smod) \<times> teardown list" where
  "z_disconnectConsole e config h uuid ty m =
     (if c_count m = 0 then
        (if \<not> streq e ty ''text'' \<and> \<not> streq e ty ''vnc'' then (CTX_RETURN (set_error INVALID_PARAMETER m), [])
         else
           (let z = new_child (case uuid of None \<Rightarrow> VNull | Some u \<Rightarrow> VStr u) VNull m in
            case ty of
              None \<Rightarrow> (CTX_RETURN (emit OCrash m), [])
            | Some t \<Rightarrow>
                (let (freed, z, m) = (if first_is CHR ''t'' t then console_disconnect_text e config h z m
                                      else console_disconnect_vnc e z m)
                 in (CTX_RETURN (m\<lparr>c_count := 3\<rparr>), [(freed, z)]))))
      else if c_count m = 2 then
        (if c_error m \<noteq> None then (CTX_RETURN m, []) else (CTX_RETURN (AZY_RETVAL (VBool True) m), []))
      else (CTX_RETURN m, []))"

fun disconnect_all :: "env \<Rightarrow> zentific_config \<Rightarrow> proc_host \<Rightarrow> val \<Rightarrow> string list \<Rightarrow> smod \<Rightarrow> smod \<times> teardown list" where
  "disconnect_all e config h session [] m = (m, [])"
| "disconnect_all e config h session (uuid # uuids) m =
     (let (f1, z1, m) = console_disconnect_text e config h (new_child (VStr uuid) session m) m;
          (f2, z2, m) = console_disconnect_vnc e (new_child (VStr uuid) session m) m;
          (m, zs) = disconnect_all e config h session uuids m
      in (m, (f1, z1) # (f2, z2) # zs))"

definition z_disconnectConsolesBySession :: "env \<Rightarrow> zentific_config \<Rightarrow> proc_host \<Rightarrow> cstr \<Rightarrow> smod \<Rightarrow> (bool \<times> smod) \<times> teardown list" where
  "z_disconnectConsolesBySession e config h sid m =
     (let key = Cons F_disconnectConsolesBySession;
          answer = (\<lambda>m. if c_error m \<noteq> None then m else RESUME (AZY_RETVAL (VBool True) m)) in
      if c_count m = 0 then (CTX_RETURN (CTX_VALUE_RETURN key (snd (z_getConsoleLockVmsBySession e sid m))), [])
      else if c_count m = 1 then
        (let (uuids, m) = CTX_PARAM_GET key m;
             us = (case uuids of VStrs us \<Rightarrow> us | _ \<Rightarrow> []);
             m = m\<lparr>c_count := 2 + 2 * of_nat (length us)\<rparr>;
             (m, zs) = disconnect_all e config h (case sid of None \<Rightarrow> VNull | Some s \<Rightarrow> VStr s) us m
         in (CTX_RETURN (answer m), zs))
      else if c_count m = 2 then (CTX_RETURN (answer m), [])
      else (CTX_RETURN m, []))"

subsection \<open>Logging out\<close>

text \<open>Both functions look at the same \<open>ctx->count\<close>; the call below is only made at zero.\<close>

definition z_logout :: "env \<Rightarrow> zentific_config \<Rightarrow> proc_host \<Rightarrow> cstr \<Rightarrow> smod \<Rightarrow> (bool \<times> smod) \<times> teardown list" where
  "z_logout e config h sid m =
     (if c_count m = 0 then
        (let ((r, m), zs) = z_disconnectConsolesBySession e config h sid m
         in (CTX_RETURN (CTX_CB_ADD (Core Cb_bool_rewind) m), zs))
      else (CTX_RETURN (snd (z_deauthSession e sid m)), []))"

subsection \<open>A console process exits: src/bin/loop.c\<close>

text \<open>The callbacks that end the release of a lock; the first frees the context.\<close>

definition loop_cb_dead :: "val \<Rightarrow> smod \<Rightarrow> smod option" where
  "loop_cb_dead ret z = None"

definition loop_cb_bool_rewind :: "val \<Rightarrow> smod \<Rightarrow> smod" where
  "loop_cb_bool_rewind ret m = emit (OResume True) (REWIND (count_inc (MARK_CB m)))"

text \<open>
  The tag of the process is its type, machine and session between colons; a text without
  its two colons, the second behind the 35th character, makes the code read through a null
  pointer. The pieces go to the query in the order type, machine, session, which is not the
  order of its parameters.
\<close>

fun strchr :: "char \<Rightarrow> string \<Rightarrow> nat option" where
  "strchr c [] = None"
| "strchr c (x # xs) = (if x = c then Some 0 else map_option Suc (strchr c xs))"

definition split_tag :: "string \<Rightarrow> (string \<times> string \<times> string) option" where
  "split_tag tag =
     (case strchr CHR '':'' tag of
        None \<Rightarrow> None
      | Some i \<Rightarrow>
          if length tag < i + 35 then None
          else case strchr CHR '':'' (drop (i + 35) tag) of
              None \<Rightarrow> None
            | Some j \<Rightarrow> Some (take i tag, take 36 (drop (i + 1) tag), drop (i + 35 + j + 1) tag))"

text \<open>The context of the process and its parent; \<open>None\<close> is a freed context.\<close>

definition console_handler :: "env \<Rightarrow> cstr \<Rightarrow> smod \<Rightarrow> smod \<Rightarrow> smod option \<times> smod" where
  "console_handler e tag z p =
     (case tag of
        None \<Rightarrow> (None, p)
      | Some t \<Rightarrow>
          (case split_tag t of
             None \<Rightarrow> (Some (emit OCrash z), p)
           | Some (ty, uuid, session) \<Rightarrow>
               (let req = db_releaseConsoleLock (Some ty) (Some uuid) (Some session) in
                if \<not> c_dead z then
                  (let p = db_call e req (p\<lparr>c_count := c_count p - 1\<rparr>);
                       p = p\<lparr>c_cbs := c_cbs p @ [Cons Loop_cb_bool_rewind]\<rparr>
                   in (None, set_error CONSOLE_DAEMON_NOT_FOUND p))
                else
                  (let z = db_call e req z
                   in (Some (z\<lparr>c_cbs := c_cbs z @ [Cons Loop_cb_dead]\<rparr>), p)))))"

subsection \<open>What a teardown does\<close>

text \<open>
  The runs of one teardown: its first step, and the job that follows each answer of the
  database, whatever value and error it brings.
\<close>

inductive teardown_run :: "env \<Rightarrow> zentific_config \<Rightarrow> proc_host \<Rightarrow> smod \<Rightarrow> smod \<Rightarrow> bool \<times> smod \<times> smod \<Rightarrow> bool"
  for e config h z0 p0 where
  by_text: "teardown_run e config h z0 p0 (console_disconnect_text e config h z0 p0)"
| by_vnc: "teardown_run e config h z0 p0 (console_disconnect_vnc e z0 p0)"
| job: "teardown_run e config h z0 p0 (False, z, p) \<Longrightarrow> c_cbs z = Core f # fs
    \<Longrightarrow> z1 = no_table (core_cb f v (z\<lparr>c_error := x\<rparr>)) \<Longrightarrow> c_job z1 = Some (Cons Console_disconnect_text)
    \<Longrightarrow> teardown_run e config h z0 p0 (console_disconnect_text e config h z1 p)"
| job_vnc: "teardown_run e config h z0 p0 (False, z, p) \<Longrightarrow> c_cbs z = Core f # fs
    \<Longrightarrow> z1 = no_table (core_cb f v (z\<lparr>c_error := x\<rparr>)) \<Longrightarrow> c_job z1 = Some (Cons Console_disconnect_vnc)
    \<Longrightarrow> teardown_run e config h z0 p0 (console_disconnect_vnc e z1 p)"

text \<open>No signal, no worker thread and no command.\<close>

fun harmless :: "eff \<Rightarrow> bool" where
  "harmless (OKill _) = False"
| "harmless (OThread _) = False"
| "harmless (OExe _) = False"
| "harmless _ = True"

definition job_fn :: "fname \<Rightarrow> bool" where
  "job_fn f \<longleftrightarrow> f \<in> {Core Cb_bool_job, Core Cb_int_job, Core Cb_pointer_job}"

definition child_state :: "val \<Rightarrow> string \<Rightarrow> smod \<Rightarrow> bool" where
  "child_state s u z \<longleftrightarrow> list_all harmless (m_out z) \<and> c_params z = (\<lambda>_. VNull) \<and> c_data z = VStr u
     \<and> c_retval z = s \<and> c_job z \<in> {None, Some (Cons Console_disconnect_text)} \<and> list_all job_fn (c_cbs z)"

definition child_ok :: "val \<Rightarrow> string \<Rightarrow> smod \<Rightarrow> bool \<times> smod \<times> smod \<Rightarrow> bool" where
  "child_ok s u p0 r \<longleftrightarrow>
     (case r of (freed, z, p) \<Rightarrow> child_state s u z \<and> (if freed then r = child_done z p0 else p = p0))"

lemma child_ok_ends [simp]:
  "child_ok s u p (child_done z p) = child_state s u z" "child_ok s u p (child_waits z p) = child_state s u z"
  by (simp_all add: child_ok_def child_done_def child_waits_def Let_def)

lemma db_call_harmless [simp]: "list_all harmless (m_out (db_call e r z)) = list_all harmless (m_out z)"
  by (cases r) (auto simp: db_call_def run_query_def set_free_def set_error_def emit_def Let_def split: option.splits)

lemma child_state_steps [simp]:
  "child_state s u (db_call e r z) = child_state s u z"
  "child_state s u (child_return z) = child_state s u z"
  "child_state s u (z\<lparr>c_error := x\<rparr>) = child_state s u z"
  "child_state s u (set_error y z) = child_state s u z"
  "child_state s u z \<Longrightarrow> child_state s u (CTX_BOOL_JOB (Cons Console_disconnect_text) z)"
  "child_state s u z \<Longrightarrow> child_state s u (no_table (CTX_INT_JOB (Cons Console_disconnect_text) z))"
  "child_state s u z \<Longrightarrow> child_state s u (no_table (CTX_VALUE_JOB (Cons Console_disconnect_text) z))"
  by (auto simp: child_state_def child_return_def no_table_def CTX_BOOL_JOB_def CTX_INT_JOB_def CTX_VALUE_JOB_def
      CTX_CB_ADD_def CTX_PARAM_ADD_def emit_def set_error_def job_fn_def db_call_def run_query_def set_free_def Let_def
      split: dbreq.splits option.splits)

lemma null_params_get: "c_params z = (\<lambda>_. VNull) \<Longrightarrow> CTX_PARAM_GET k z = (VNull, z)"
  by (simp add: CTX_PARAM_GET_def CTX_PARAM_PEEK_def CTX_PARAM_DEL_def fun_upd_idem)

lemma child_state_peek: "child_state s u z \<Longrightarrow> CTX_PARAM_GET k z = (VNull, z)"
  by (simp add: child_state_def null_params_get)

text \<open>Without a table of parameters the three callbacks do the same.\<close>

lemma job_cb_without_table:
  assumes "job_fn (Core f)" "c_params z = (\<lambda>_. VNull)"
  shows "core_cb f v z = (if c_dead z then (if f = Cb_pointer_job then z else MARK_CB z)
    else ecore_job_add (count_inc (MARK_CB z)))"
  using assms
  by (cases f) (simp_all add: job_fn_def cb_bool_job_def cb_int_job_def cb_pointer_job_def null_params_get
      CTX_PARAM_ADD_FROM_VARIABLE_def Let_def)

lemma child_state_cb:
  assumes "child_state s u z" "c_cbs z = Core f # fs"
  shows "child_state s u (no_table (core_cb f v (z\<lparr>c_error := x\<rparr>)))"
proof -
  have f: "job_fn (Core f)" "c_params (z\<lparr>c_error := x\<rparr>) = (\<lambda>_. VNull)" using assms by (simp_all add: child_state_def)
  have "list_all harmless (m_out (ecore_job_add m)) = list_all harmless (m_out m)" for m
    by (simp add: ecore_job_add_def split: option.splits)
  then show ?thesis using assms
    by (auto simp: job_cb_without_table [OF f] child_state_def no_table_def MARK_CB_def ecore_job_add_def emit_def
        count_inc_def split: option.splits)
qed

lemma text_step_ok:
  assumes st: "child_state s u z" and s: "s = VNull \<or> (\<exists>t. s = VStr t)"
    and absent: "h_pid h (console_pid_file config (as_str s) (Some u) 0) = None"
  shows "child_ok s u p (console_disconnect_text e config h z p)"
proof -
  have data: "as_str (c_data z) = Some u" "as_str (c_retval z) = as_str s" "c_retval z = s"
    using st by (simp_all add: child_state_def)
  have kept: "child_state s u (z\<lparr>c_retval := VNull\<rparr>)" if "is_null s"
    using st s that by (auto simp: child_state_def)
  have same: "c_params (z\<lparr>c_retval := VNull\<rparr>) = c_params z" by simp
  show ?thesis
    using st kept absent
    by (auto simp: console_disconnect_text_def console_text_kill_def data child_state_peek Let_def)
qed

lemma vnc_step_ok:
  assumes "child_state s u z" "c_count z = 0"
  shows "child_ok s u p (console_disconnect_vnc e z p)"
  using assms by (simp add: console_disconnect_vnc_def)

lemma new_child_state: "child_state s u (new_child (VStr u) s m)"
  by (simp add: child_state_def new_child_def no_table_def)

lemma new_child_count: "c_count (new_child u s m) = 0"
  by (simp add: new_child_def)

text \<open>
  C27: The teardown of a console, text or graphical, goes by the pid file of a text console
  with port 0: whatever the database answers, as long as no file of that name can be
  opened no process is signalled, no command is run and no thread is started; the context
  of the call that started it is left alone until the teardown ends, and then counted down
  once.
\<close>

theorem teardown_harmless:
  assumes "teardown_run e config h (new_child (VStr uuid) session m0) p0 (freed, z, p)"
    and "session = VNull \<or> (\<exists>s. session = VStr s)"
    and "h_pid h (console_pid_file config (as_str session) (Some uuid) 0) = None"
  shows "(\<forall>x\<in>set (m_out z). harmless x)
    \<and> (if freed then (True, z, p) = child_done z p0 \<and> c_count p = c_count p0 - 1 else p = p0)"
proof -
  have "child_ok session uuid p0 (freed, z, p)"
    using assms(1)
  proof (induction "(freed, z, p)" arbitrary: freed z p)
    case by_text
    then show ?case using text_step_ok [OF new_child_state assms(2,3)] by metis
  next
    case by_vnc
    then show ?case using vnc_step_ok [OF new_child_state] by (metis new_child_count)
  next
    case (job z1 p1 f fs z2 v x)
    then have "child_state session uuid z1" "p1 = p0" by (auto simp: child_ok_def)
    then have "child_state session uuid z2" using child_state_cb job.hyps by metis
    then show ?case using text_step_ok [OF _ assms(2,3)] job.hyps \<open>p1 = p0\<close> by metis
  next
    case (job_vnc z1 p1 f fs z2 v x)
    then have "child_state session uuid z1" by (auto simp: child_ok_def)
    then have "child_state session uuid z2" using child_state_cb job_vnc.hyps by metis
    then show ?case using job_vnc.hyps by (auto simp: child_state_def)
  qed
  then show ?thesis
    by (auto simp: child_ok_def child_state_def child_done_def list_all_iff Let_def split: if_splits)
qed

text \<open>A machine without pid files.\<close>

definition quiet_host :: proc_host where
  "quiet_host = \<lparr>h_stat = (\<lambda>_. False), h_pid = (\<lambda>_. None), h_popen = (\<lambda>_. None), h_kill = (\<lambda>_. Kill_missing)\<rparr>"

theorem teardown_harmless_witness:
  "list_all harmless (m_out (fst (snd (console_disconnect_text sample_env config_new quiet_host
     (new_child (VStr ''uuid'') VNull sample_mod) sample_mod))))"
proof -
  obtain freed z p where run: "console_disconnect_text sample_env config_new quiet_host
     (new_child (VStr ''uuid'') VNull sample_mod) sample_mod = (freed, z, p)"
    by (metis prod_cases3)
  have "h_pid quiet_host f = None" for f by (simp add: quiet_host_def)
  then show ?thesis
    using teardown_harmless [OF by_text [of sample_env config_new quiet_host "new_child (VStr ''uuid'') VNull sample_mod" sample_mod,
        unfolded run]] by (simp add: run list_all_iff)
qed

text \<open>A teardown between two answers, and one whose answer has just come.\<close>

definition child_idle :: "32 word \<Rightarrow> string \<Rightarrow> smod \<Rightarrow> bool" where
  "child_idle k u z \<longleftrightarrow> c_count z = k \<and> c_error z = None \<and> \<not> c_dead z \<and> \<not> c_ret_set z \<and> c_params z = (\<lambda>_. VNull)
     \<and> c_retval z = VNull \<and> c_data z = VStr u"

definition child_waiting :: "core_fn \<Rightarrow> 32 word \<Rightarrow> string \<Rightarrow> smod \<Rightarrow> bool" where
  "child_waiting f k u z \<longleftrightarrow> child_idle k u z \<and> c_cbs z = [Core f] \<and> c_job z = Some (Cons Console_disconnect_text)"

definition child_resumed :: "32 word \<Rightarrow> string \<Rightarrow> smod \<Rightarrow> bool" where
  "child_resumed k u z \<longleftrightarrow> child_idle k u z \<and> c_cbs z = []"

lemma child_answer:
  assumes "child_waiting f k u z" "job_fn (Core f)"
  shows "child_resumed (k + 1) u (no_table (core_cb f v z))"
proof -
  have "c_params z = (\<lambda>_. VNull)" using assms by (simp add: child_waiting_def child_idle_def)
  then show ?thesis using assms
    by (auto simp: job_cb_without_table child_waiting_def child_resumed_def child_idle_def no_table_def MARK_CB_def
        ecore_job_add_def emit_def count_inc_def)
qed

lemma db_job_waits:
  assumes "child_resumed k u z" "esql_accepts e (m_qid z)"
  shows "child_waiting Cb_bool_job k u (CTX_BOOL_JOB (Cons Console_disconnect_text) (db_call e (DbQuery q) z))"
    "child_waiting Cb_pointer_job k u (no_table (CTX_VALUE_JOB (Cons Console_disconnect_text) (db_call e (DbQuery q) z)))"
    "child_waiting Cb_int_job k u (no_table (CTX_INT_JOB (Cons Console_disconnect_text) (db_call e (DbQuery q) z)))"
  using assms
  by (auto simp: child_resumed_def child_waiting_def child_idle_def CTX_BOOL_JOB_def CTX_VALUE_JOB_def CTX_INT_JOB_def
      CTX_CB_ADD_def CTX_PARAM_ADD_def no_table_def db_call_def run_query_def set_free_def emit_def Let_def
      split: option.splits)

lemma child_steps:
  assumes st: "child_resumed k u z" and ok: "\<forall>n. esql_accepts e n"
    and absent: "h_pid h (console_pid_file config None (Some u) 0) = None"
  shows "k = 0 \<Longrightarrow> \<exists>z'. console_disconnect_text e config h z p = (False, z', p) \<and> child_waiting Cb_bool_job 0 u z'"
    "k = 0 \<Longrightarrow> \<exists>z'. console_disconnect_vnc e z p = (False, z', p) \<and> child_waiting Cb_bool_job 0 u z'"
    "k = 1 \<Longrightarrow> \<exists>z'. console_disconnect_text e config h z p = (False, z', p) \<and> child_waiting Cb_pointer_job 1 u z'"
    "k = 2 \<Longrightarrow> \<exists>z'. console_disconnect_text e config h z p = (False, z', p) \<and> child_waiting Cb_int_job 2 u z'"
    "k = 3 \<Longrightarrow> console_disconnect_text e config h z p = child_done z p"
proof -
  have z: "c_count z = k" "c_error z = None" "c_retval z = VNull" "c_data z = VStr u" "\<not> c_ret_set z"
    "c_params z = (\<lambda>_. VNull)"
    using st by (simp_all add: child_resumed_def child_idle_def)
  have acc: "esql_accepts e (m_qid z)" using ok by simp
  have waits: "child_waits z' p = (False, z', p)" if "child_waiting f k u z'" for f z'
    using that by (simp add: child_waits_def child_waiting_def child_idle_def)
  note w = db_job_waits [OF st acc]
  have ret: "child_return (db_call e (DbQuery q) z) = db_call e (DbQuery q) z" for q
    using z acc by (simp add: child_return_def)
  have same: "z\<lparr>c_retval := VNull\<rparr> = z" using z by simp
  obtain q1 q2 q3 q4 where q: "db_hasConsoleLock (Some u) (Some ''text'') = DbQuery q1"
      "db_hasConsoleLock (Some u) (Some ''vnc'') = DbQuery q2" "db_getConsoleLockSession (Some u) (Some ''text'') = DbQuery q3"
      "db_getTextConsolePort (Some u) = DbQuery q4"
    by (simp add: db_hasConsoleLock_def db_getConsoleLockSession_def db_getTextConsolePort_def)
  show "\<exists>z'. console_disconnect_text e config h z p = (False, z', p) \<and> child_waiting Cb_bool_job 0 u z'" if "k = 0"
    using waits [OF w(1)] w(1) that by (simp add: console_disconnect_text_def z q ret)
  show "\<exists>z'. console_disconnect_vnc e z p = (False, z', p) \<and> child_waiting Cb_bool_job 0 u z'" if "k = 0"
    using waits [OF w(1)] w(1) that by (simp add: console_disconnect_vnc_def z q ret)
  show "\<exists>z'. console_disconnect_text e config h z p = (False, z', p) \<and> child_waiting Cb_pointer_job 1 u z'" if "k = 1"
    using waits [OF w(2)] w(2) that by (simp add: console_disconnect_text_def z q)
  show "\<exists>z'. console_disconnect_text e config h z p = (False, z', p) \<and> child_waiting Cb_int_job 2 u z'" if "k = 2"
    using waits [OF w(3)] w(3) that
    by (simp add: console_disconnect_text_def z q ret null_params_get same)
  show "console_disconnect_text e config h z p = child_done z p" if "k = 3"
    using that absent by (simp add: console_disconnect_text_def console_text_kill_def z null_params_get)
qed

text \<open>One answer of the database: the callback of the chain, and the job it starts.\<close>

definition answered :: "env \<Rightarrow> zentific_config \<Rightarrow> proc_host \<Rightarrow> val \<Rightarrow> smod \<times> smod \<Rightarrow> bool \<times> smod \<times> smod" where
  "answered e config h v zp =
     (case zp of (z, p) \<Rightarrow>
        (case c_cbs z of
           Core f # _ \<Rightarrow> console_disconnect_text e config h (no_table (core_cb f v z)) p
         | _ \<Rightarrow> (False, z, p)))"

lemma answered_step:
  assumes "child_waiting f k u z" "job_fn (Core f)"
  shows "\<exists>z'. child_resumed (k + 1) u z' \<and> answered e config h v (z, p) = console_disconnect_text e config h z' p"
  using child_answer [OF assms] assms by (auto simp: answered_def child_waiting_def)

lemma disconnect_reports_success:
  assumes spec: "strcmp_spec e" "\<forall>n. esql_accepts e n" "ty \<in> {''text'', ''vnc''}"
    and call: "c_count m = 0" "c_error m = None" "\<not> c_ret_set m" "m_fault m = None" "m_method m"
    and absent: "h_pid h (console_pid_file config None (Some uuid) 0) = None"
    and first: "z_disconnectConsole e config h (Some uuid) (Some ty) m = ((b, m1), [(f0, z0)])"
    and answers: "answered e config h v1 (z0, m1) = (f1, z1, p1)" "answered e config h v2 (z1, p1) = (f2, z2, p2)"
      "answered e config h v3 (z2, p2) = (f3, z3, p3)"
  shows "\<not> f0 \<and> \<not> f1 \<and> \<not> f2 \<and> f3 \<and> m_out p3 = m_out m @ [ORewind, OResume True]
    \<and> m_retval (snd (fst (z_disconnectConsole e config h (Some uuid) (Some ty) p3))) = Some (VBool True)"
proof -
  let ?z = "new_child (VStr uuid) VNull m"
  have "child_resumed 0 uuid ?z"
    by (simp add: child_resumed_def child_idle_def new_child_def no_table_def)
  note start = child_steps(1,2) [OF this spec(2) absent refl, of m]
  obtain zs where zs: "(if first_is CHR ''t'' ty then console_disconnect_text e config h ?z m
      else console_disconnect_vnc e ?z m) = (False, zs, m)" "child_waiting Cb_bool_job 0 uuid zs"
    using start spec(3) by (auto simp: first_is_def)
  have "streq e (Some ty) ''text'' \<or> streq e (Some ty) ''vnc''" using spec by (auto simp: streq_iff)
  then have run0: "z_disconnectConsole e config h (Some uuid) (Some ty) m = ((True, m\<lparr>c_count := 3\<rparr>), [(False, zs)])"
    using zs(1) call by (auto simp: z_disconnectConsole_def CTX_RETURN_def)
  then have "f0 = False" "z0 = zs" "m1 = m\<lparr>c_count := 3\<rparr>" using first by auto
  moreover obtain za where a: "child_resumed 1 uuid za"
    "answered e config h v1 (zs, m\<lparr>c_count := 3\<rparr>) = console_disconnect_text e config h za (m\<lparr>c_count := 3\<rparr>)"
    using answered_step [OF zs(2), of e config h v1 "m\<lparr>c_count := 3\<rparr>"] by (auto simp: job_fn_def)
  ultimately have 1: "\<not> f1" "p1 = m\<lparr>c_count := 3\<rparr>" "child_waiting Cb_pointer_job 1 uuid z1"
    using child_steps(3) [OF a(1) spec(2) absent refl, of "m\<lparr>c_count := 3\<rparr>"] answers(1) by auto
  obtain zb where b: "child_resumed 2 uuid zb"
    "answered e config h v2 (z1, p1) = console_disconnect_text e config h zb p1"
    using answered_step [OF 1(3), of e config h v2 p1] by (auto simp: job_fn_def)
  have 2: "\<not> f2" "p2 = p1" "child_waiting Cb_int_job 2 uuid z2"
    using child_steps(4) [OF b(1) spec(2) absent refl, of p1] b(2) answers(2) by auto
  obtain zc where c: "child_resumed 3 uuid zc"
    "answered e config h v3 (z2, p2) = console_disconnect_text e config h zc p2"
    using answered_step [OF 2(3), of e config h v3 p2] by (auto simp: job_fn_def)
  have "(f3, z3, p3) = child_done zc p2"
    using child_steps(5) [OF c(1) spec(2) absent refl, of p2] c(2) answers(3) by simp
  moreover have "c_error zc = None" using c(1) by (simp add: child_resumed_def child_idle_def)
  ultimately have 3: "f3" "p3 = emit (OResume True) (REWIND (m\<lparr>c_error := None, c_count := 2\<rparr>))"
    using 1 2 by (simp_all add: child_done_def Let_def)
  then have "m_retval (snd (fst (z_disconnectConsole e config h (Some uuid) (Some ty) p3))) = Some (VBool True)"
    using call by (simp add: z_disconnectConsole_def CTX_RETURN_def AZY_RETVAL_def REWIND_def emit_def)
  then show ?thesis using 1 2 3 \<open>f0 = False\<close> by (simp add: REWIND_def emit_def)
qed

lemma disconnect_starts:
  assumes "c_count m = 0" "streq e (Some ty) ''text'' \<or> streq e (Some ty) ''vnc''"
  shows "\<exists>b m1 f z. z_disconnectConsole e config h uuid (Some ty) m = ((b, m1), [(f, z)])"
proof -
  obtain f z m1 where "(if first_is CHR ''t'' ty
      then console_disconnect_text e config h (new_child (case uuid of None \<Rightarrow> VNull | Some u \<Rightarrow> VStr u) VNull m) m
      else console_disconnect_vnc e (new_child (case uuid of None \<Rightarrow> VNull | Some u \<Rightarrow> VStr u) VNull m) m) = (f, z, m1)"
    by (metis prod_cases3)
  moreover obtain b m2 where "CTX_RETURN (m1\<lparr>c_count := 3\<rparr>) = (b, m2)" by (cases "CTX_RETURN (m1\<lparr>c_count := 3\<rparr>)")
  ultimately show ?thesis using assms by (auto simp: z_disconnectConsole_def Let_def)
qed

subsection \<open>Logging out\<close>

lemma logout_reports_failure:
  assumes "c_count m = 1" "c_error m = None" "\<not> c_ret_set m" "m_has_content m" "m_method m" "\<not> c_dead m"
    "zs_uuid e sid" "\<forall>n. esql_accepts e n" "c_cbs m = [Core Cb_bool_rewind]"
    and run: "m1 = snd (fst (z_logout e config h sid m))" "m2 = core_cb Cb_bool_rewind v m1"
      "m3 = snd (fst (z_logout e config h sid m2))"
    and unchanged: "r_qid res = Suc (m_qid m)" "\<not> r_error res" "r_affected res = 0"
      and ended: "m4 = result_handler (event_cb res m3)"
    and alone: "c_count k = 1" "c_error k = Some x"
  shows "m_out m1 = m_out m @ [OQuery (m_qid m) (query_of (db_deauthSession sid))]
    \<and> m_out m3 = m_out m1 @ [ORewind, OResume True, OQuery (Suc (m_qid m)) (query_of (db_deauthSession sid))]
    \<and> m_fault m4 = Some UNKNOWN_RESOURCE \<and> m_retval m4 = m_retval m
    \<and> m_out (snd (fst (z_logout e config h sid k))) = m_out k @ [OQuery (m_qid k) (query_of (db_deauthSession sid)), OResume False, OResume False]
    \<and> snd (z_logout e config h sid m) = [] \<and> snd (z_logout e config h sid m2) = [] \<and> snd (z_logout e config h sid k) = []"
proof -
  obtain q where q: "db_deauthSession sid = DbQuery q" "q_conv q = None" "q_end q = Some Zrpcdb_cb_exec"
    by (simp add: db_deauthSession_def QE_def mk_query_def)
  have m1: "m1 = db_call e (DbQuery q) m"
    using assms(1-9) by (simp add: run z_logout_def z_deauthSession_def q CTX_RETURN_def)
  have m2: "c_count m2 = 2" "c_error m2 = None" "\<not> c_ret_set m2" "c_cbs m2 = []" "\<not> c_dead m2" "m_has_content m2"
    "m_method m2" "m_retval m2 = m_retval m" "m_qid m2 = Suc (m_qid m)" "m_out m2 = m_out m1 @ [ORewind, OResume True]"
    using assms(1-9) by (simp_all add: run(2) m1 cb_bool_rewind_def count_inc_def MARK_CB_def REWIND_def Let_def)
  have m3: "m3 = db_call e (DbQuery q) m2"
    using assms(1-9) m2 by (simp add: run(3) z_logout_def z_deauthSession_def q CTX_RETURN_def)
  have "m_type_cbs m3 (r_qid res) = None" "m_db_cbs m3 (r_qid res) = Some Zrpcdb_cb_exec"
    using m2(9) q(2,3) assms(8) unchanged(1)
    by (simp_all add: m3 db_call_def run_query_def set_free_def emit_def Let_def split: option.splits)
  moreover have "c_error m3 = None" "c_cbs m3 = []" "\<not> c_dead m3" "m_has_content m3" "\<not> c_ret_set m3" "m_method m3"
    "m_retval m3 = m_retval m"
    using m2 assms(8) by (simp_all add: m3)
  ultimately have "m_fault m4 = Some UNKNOWN_RESOURCE \<and> m_retval m4 = m_retval m"
    using unchanged(2,3)
    by (simp add: ended event_cb_def end_call_def zrpcdb_cb_exec_def finish_with_def result_handler_def set_error_def
        emit_def fault_set_def Let_def)
  then show ?thesis
    using assms(1-9) m2 alone
    by (simp add: m3 m1 q z_logout_def z_deauthSession_def CTX_RETURN_def)
qed

text \<open>A call to log out whose list of consoles has just come, and a statement that changes nothing.\<close>

definition sample_logout :: smod where
  "sample_logout = sample_mod\<lparr>c_count := 1, c_cbs := [Core Cb_bool_rewind]\<rparr>"

definition sample_unchanged :: esql_res where
  "sample_unchanged = \<lparr>r_qid = 1, r_error = False, r_rows = 0, r_affected = 0, r_id = 0, r_conv = (\<lambda>_. VNull)\<rparr>"

subsection \<open>Connecting\<close>

text \<open>
  A function whose first step asks for the lock and whose second step chains nothing. What
  such a function relies on is what \<open>ctx->count\<close> and the chain promise; it never gets
  further.
\<close>

fun answers_only :: "eff \<Rightarrow> bool" where
  "answers_only (OQuery _ _) = True"
| "answers_only (OResume _) = True"
| "answers_only _ = False"

definition quiet_run :: "smod \<Rightarrow> smod \<Rightarrow> bool" where
  "quiet_run m m1 \<longleftrightarrow> m_retval m1 = m_retval m \<and> c_ret_set m1 = c_ret_set m
     \<and> (\<exists>xs. m_out m1 = m_out m @ xs \<and> list_all answers_only xs)"

locale lock_opener =
  fixes h :: "smod \<Rightarrow> bool \<times> smod"
  assumes opens: "c_count m = 0 \<Longrightarrow> c_cbs m = [] \<Longrightarrow> c_error m = None \<Longrightarrow> \<not> c_ret_set m \<Longrightarrow> \<not> c_dead m \<Longrightarrow>
      quiet_run m (snd (h m)) \<and> c_cbs (snd (h m)) \<in> {[], [Core Cb_bool_rewind]} \<and> c_count (snd (h m)) = 0"
    and stops: "c_count m = 1 \<Longrightarrow> c_cbs m = [] \<Longrightarrow> \<not> c_ret_set m \<Longrightarrow>
      quiet_run m (snd (h m)) \<and> c_cbs (snd (h m)) = []"
begin

lemma stuck:
  assumes "call_reach h m0 m"
  shows "quiet_run m0 m \<and> m_retval m = None \<and> \<not> c_ret_set m
    \<and> (c_cbs m = [] \<or> c_cbs m = [Core Cb_bool_rewind] \<and> c_count m = 0)"
  using assms
proof induction
  case (first m)
  then show ?case using opens [of m]
    by (auto simp: fresh_call_def quiet_run_def)
next
  case (woken m0 m f fs m1 v x)
  then have f: "f = Cb_bool_rewind" "fs = []" "c_count m = 0" by auto
  then have "c_count m1 = 1" "c_cbs m1 = []" "\<not> c_ret_set m1" "m_retval m1 = None"
    using woken by (simp_all add: cb_bool_rewind_def count_inc_def MARK_CB_def REWIND_def emit_def Let_def)
  then show ?case using stops [of m1] by (auto simp: quiet_run_def)
next
  case (again m0 m)
  then obtain xs where "m_out m = m_out m0 @ xs" "list_all answers_only xs" by (auto simp: quiet_run_def)
  with again have False by (auto simp: list_all_iff)
  then show ?case ..
qed

end

lemma quiet_db_return:
  assumes "\<not> c_ret_set m"
  shows "quiet_run m (snd (CTX_RETURN (db_call e r m)))" "c_error m = Some x \<Longrightarrow> c_error (db_call e r m) \<noteq> None"
proof -
  have "\<exists>xs. m_out (db_call e r m) = m_out m @ xs \<and> list_all answers_only xs"
    by (cases r) (auto simp: db_call_def run_query_def set_free_def set_error_def emit_def Let_def split: option.splits)
  then show "quiet_run m (snd (CTX_RETURN (db_call e r m)))"
    using assms by (auto simp: quiet_run_def CTX_RETURN_def split: option.splits)
  show "c_error m = Some x \<Longrightarrow> c_error (db_call e r m) \<noteq> None"
    by (cases r) (auto simp: db_call_def run_query_def set_free_def set_error_def emit_def Let_def split: option.splits)
qed

lemma quiet_run_steps:
  "quiet_run m m1 \<Longrightarrow> \<not> c_ret_set m \<Longrightarrow> quiet_run m (snd (CTX_RETURN m1))"
  "quiet_run m m1 \<Longrightarrow> quiet_run m (CTX_CB_ADD f m1)" "quiet_run m m1 \<Longrightarrow> quiet_run m (CTX_VALUE_RETURN f m1)"
  "quiet_run m (set_error x m)" "quiet_run m (CTX_PARAM_DEL f m)"
  "quiet_run m (emit (OResume b) (fault_set x (set_error x m)))" "quiet_run m m1 \<Longrightarrow> quiet_run m (CTX_PARAM_ADD f v m1)"
  by (auto simp: quiet_run_def CTX_RETURN_def CTX_VALUE_RETURN_def split: option.splits)

interpretation text_opener: lock_opener "z_connectTextConsole e config session uuid"
proof unfold_locales
  fix m :: smod
  let ?r = "snd (z_connectTextConsole e config session uuid m)"
  assume "c_count m = 0" "c_cbs m = []" "c_error m = None" "\<not> c_ret_set m" "\<not> c_dead m"
  then show "quiet_run m ?r \<and> c_cbs ?r \<in> {[], [Core Cb_bool_rewind]} \<and> c_count ?r = 0"
    by (simp add: z_connectTextConsole_def z_hasConsoleLock_def quiet_db_return quiet_run_steps CTX_CB_ADD_cbs)
next
  fix m :: smod
  let ?r = "snd (z_connectTextConsole e config session uuid m)"
  assume "c_count m = 1" "c_cbs m = []" "\<not> c_ret_set m"
  then show "quiet_run m ?r \<and> c_cbs ?r = []"
    by (auto simp: z_connectTextConsole_def z_acquireConsoleLock_def CTX_PARAM_GET_def quiet_run_steps CTX_CB_ADD_cbs Let_def)
qed

interpretation graphical_opener: lock_opener "z_connectGraphicalConsole e config session uuid"
proof unfold_locales
  fix m :: smod
  let ?r = "snd (z_connectGraphicalConsole e config session uuid m)"
  assume "c_count m = 0" "c_cbs m = []" "c_error m = None" "\<not> c_ret_set m" "\<not> c_dead m"
  then show "quiet_run m ?r \<and> c_cbs ?r \<in> {[], [Core Cb_bool_rewind]} \<and> c_count ?r = 0"
    by (simp add: z_connectGraphicalConsole_def z_hasConsoleLock_def quiet_db_return quiet_run_steps CTX_CB_ADD_cbs)
next
  fix m :: smod
  let ?r = "snd (z_connectGraphicalConsole e config session uuid m)"
  assume "c_count m = 1" "c_cbs m = []" "\<not> c_ret_set m"
  then show "quiet_run m ?r \<and> c_cbs ?r = []"
    using quiet_db_return(1) [of m e]
    by (cases "c_error m") (auto simp: quiet_db_return(2) z_connectGraphicalConsole_def z_getConfig_def quiet_run_steps CTX_CB_ADD_cbs CTX_VALUE_RETURN_def Let_def)
qed

text \<open>
  C31: No console can be connected: in every run of the text or the graphical connection,
  whatever the database answers, the functions never get past their second step, so no
  worker looks for a port, no process is started and the client never gets a port.
\<close>

theorem consoles_never_connect:
  assumes "call_reach (z_connectTextConsole e config session uuid) m0 m
    \<or> call_reach (z_connectGraphicalConsole e config session uuid) m0 m"
  shows "(\<exists>xs. m_out m = m_out m0 @ xs \<and> list_all answers_only xs) \<and> m_retval m = None \<and> \<not> c_ret_set m"
  using assms text_opener.stuck graphical_opener.stuck by (metis quiet_run_def)

theorem consoles_never_connect_witness:
  "m_retval (snd (z_connectGraphicalConsole sample_env config_new SESSION_new (Some ''uuid'') sample_mod)) = None"
proof -
  have "fresh_call sample_mod" by (simp add: fresh_call_def sample_mod_def)
  then show ?thesis
    using consoles_never_connect [OF disjI2, OF call_reach.first [where h = "z_connectGraphicalConsole sample_env config_new SESSION_new (Some ''uuid'')"]]
    by blast
qed

subsection \<open>A console process that exits\<close>

text \<open>
  A console's tag names a machine by its 36 characters. The lock that is to be released is
  looked for under the machine called after the console's type.
\<close>

lemma strchr_append: "c \<notin> set s \<Longrightarrow> strchr c (s @ c # t) = Some (length s)"
  by (induction s) auto

lemma split_tag_of:
  assumes "CHR '':'' \<notin> set ty" "length uuid = 36" "CHR '':'' \<notin> set uuid"
  shows "split_tag (ty @ '':'' @ uuid @ '':'' @ session) = Some (ty, uuid, session)"
proof -
  have "drop (length ty + 35) (ty @ '':'' @ uuid @ '':'' @ session) = drop 34 uuid @ CHR '':'' # session"
    using assms(2) by simp
  moreover have "CHR '':'' \<notin> set (drop 34 uuid)" using assms(3) by (meson in_set_dropD)
  ultimately show ?thesis
    using assms strchr_append [of "CHR '':''" ty "uuid @ '':'' @ session"] strchr_append [of "CHR '':''" "drop 34 uuid" session]
    by (simp add: split_tag_def)
qed

lemma console_handler_release:
  assumes "CHR '':'' \<notin> set ty" "length uuid = 36" "CHR '':'' \<notin> set uuid" "c_dead z"
  shows "snd (console_handler e (Some (ty @ '':'' @ uuid @ '':'' @ session)) z p) = p"
    "m_out (the (fst (console_handler e (Some (ty @ '':'' @ uuid @ '':'' @ session)) z p))) = m_out z @
       (if esql_accepts e (m_qid z) then [OQuery (m_qid z) (query_of (db_releaseConsoleLock (Some ty) (Some uuid) (Some session)))] else [])"
proof -
  obtain q where "db_releaseConsoleLock (Some ty) (Some uuid) (Some session) = DbQuery q" by (simp add: db_releaseConsoleLock_def)
  then show "snd (console_handler e (Some (ty @ '':'' @ uuid @ '':'' @ session)) z p) = p"
    "m_out (the (fst (console_handler e (Some (ty @ '':'' @ uuid @ '':'' @ session)) z p))) = m_out z @
       (if esql_accepts e (m_qid z) then [OQuery (m_qid z) (query_of (db_releaseConsoleLock (Some ty) (Some uuid) (Some session)))] else [])"
    using assms split_tag_of [OF assms(1-3)] by (simp_all add: console_handler_def)
qed

end
