(* ===== verification/Server.thy ===== *)
theory Server
  imports Dbsource "HOL-Library.Multiset"
begin

text \<open>
  src/bin/server.c and src/servlets/init.c: how the server starts, what it does with
  signals, and how it reloads its modules while calls wait. Option parsing, daemonizing, pid
  files, the event loop and the dynamic loader are parameters.
\<close>

subsection \<open>Servlet modules\<close>

text \<open>
  A module is described by its path. The file name starts behind the last slash; without a
  slash the code reads through a null pointer, and for a path of fewer than three characters
  it reads before its start: no answer. The second component is the list of definitions the
  accepted module adds to.
\<close>

record loader =
  l_load :: "string \<Rightarrow> bool"
  l_symbol :: "string \<Rightarrow> string \<Rightarrow> string option"
  l_base :: bool
  l_base_symbol :: bool

definition path_suffix3 :: "string \<Rightarrow> string" where
  "path_suffix3 path = drop (length path - 3) path"

definition ismodule :: "loader \<Rightarrow> string \<Rightarrow> string list \<Rightarrow> (bool \<times> string list) option" where
  "ismodule l path servlets =
     (case strrchr (CHR ''/'') path of
        None \<Rightarrow> None
      | Some i \<Rightarrow>
          if length path < 3 then None
          else
            (let filename = drop (Suc i) path in
             Some
              (if path_suffix3 path \<noteq> ''.so'' \<or> filename \<noteq> ''zrpc_base.so'' \<or> filename \<noteq> ''libztype.so'' then (False, servlets)
               else if \<not> l_load l path then (False, servlets)
               else
                 (case l_symbol l path (take (length filename - 3) filename @ ''_module_def'') of
                    Some def \<Rightarrow> (True, servlets @ [def])
                  | None \<Rightarrow> (False, servlets)))))"

text \<open>The conditions contradict each other: no file is accepted, and none is even loaded.\<close>

lemma ismodule_never: "ismodule l path servlets = Some (r, servlets') \<Longrightarrow> \<not> r \<and> servlets' = servlets"
  by (auto simp: ismodule_def Let_def split: option.splits if_splits)

definition zrpc_base_def :: "string list" where
  "zrpc_base_def = [''Network'', ''Node'', ''Platform'', ''Scheduler'', ''Session'', ''Storage'', ''User'', ''VM'', ''Zentific'']"

fun scan_modules :: "loader \<Rightarrow> string list \<Rightarrow> string list \<Rightarrow> (string list \<times> string list) option" where
  "scan_modules l [] servlets = Some ([], servlets)"
| "scan_modules l (p # ps) servlets =
     (case ismodule l p servlets of
        None \<Rightarrow> None
      | Some (r, servlets) \<Rightarrow>
          map_option (\<lambda>(ms, servlets). (if r then p # ms else ms, servlets)) (scan_modules l ps servlets))"

datatype modules = Load_exit int | Load_crash | Loaded "string list" "string list"

text \<open>The module files that stay loaded, and the definitions they give. \<open>base\<close> is the path of the base module.\<close>

definition modules_load :: "loader \<Rightarrow> string \<Rightarrow> string list option \<Rightarrow> modules" where
  "modules_load l base paths =
     (if \<not> l_base l then Load_exit 1
      else if \<not> l_base_symbol l then Load_exit 1
      else
        (case paths of
           None \<Rightarrow> Loaded [base] zrpc_base_def
         | Some ps \<Rightarrow>
             (case scan_modules l ps zrpc_base_def of
                None \<Rightarrow> Load_crash
              | Some (ms, servlets) \<Rightarrow> Loaded (ms @ [base]) servlets)))"

lemma scan_modules_none: "scan_modules l ps servlets = Some (ms, servlets') \<Longrightarrow> ms = [] \<and> servlets' = servlets"
proof (induction ps arbitrary: ms)
  case Nil
  then show ?case by simp
next
  case (Cons p ps)
  then obtain r s1 where 1: "ismodule l p servlets = Some (r, s1)" by (auto split: option.splits)
  then show ?case using Cons ismodule_never [OF 1] by auto
qed

lemma modules_load_base: "modules_load l base paths = Loaded ms servlets \<Longrightarrow> ms = [base] \<and> servlets = zrpc_base_def"
  using scan_modules_none by (fastforce simp: modules_load_def split: option.splits if_splits)

subsection \<open>Starting\<close>

text \<open>
  The options of the command line, \<open>None\<close> where one is not given. A log level is one of the
  enumeration.
\<close>

record cmdline =
  o_selfhost :: bool
  o_ssl :: bool
  o_xmldebug :: bool
  o_nodaemon :: bool
  o_pidfile :: cstr
  o_webroot :: cstr
  o_cfgfile :: cstr
  o_logfile :: cstr
  o_uuid :: cstr
  o_port :: "int option"
  o_loglevel :: "log_verbosity option"
  o_exit :: bool

definition replace_opt :: "cstr \<Rightarrow> cstr \<Rightarrow> cstr" where
  "replace_opt given old = (if given = None then old else given)"

definition server_options :: "cmdline \<Rightarrow> zentific_config \<Rightarrow> zentific_config" where
  "server_options o1 z = z
     \<lparr> SELF_HOST := (SELF_HOST z \<or> o_selfhost o1), USE_SSL := (USE_SSL z \<or> o_ssl o1),
       XML_DEBUG := (XML_DEBUG z \<or> o_xmldebug o1), DAEMONIZE := (DAEMONIZE z \<and> \<not> o_nodaemon o1),
       PORT := (case o_port o1 of None \<Rightarrow> PORT z | Some p \<Rightarrow> p),
       LOG_LEVEL := (case o_loglevel o1 of None \<Rightarrow> LOG_LEVEL z | Some v \<Rightarrow> v) \<rparr>"

text \<open>
  What the rest of the system answers: the log domain, the options (\<open>None\<close> when they are
  wrong), the pid file, the database, and the steps of going into the background.
\<close>

record system =
  y_logdom :: bool
  y_options :: "cmdline option"
  y_pid_taken :: "cstr \<Rightarrow> bool"
  y_db :: "zentific_config \<Rightarrow> db_start"
  y_connected :: bool
  y_detach :: bool
  y_pid_create :: int
  y_closefds :: bool

text \<open>How an exit leaves: with a clean-up, which removes the pid file unless the code is -1.\<close>

datatype start = Exit_now int | Cleanup_exit int | Start_crash | Started zentific_config

definition apply_options :: "cmdline \<Rightarrow> zentific_config \<Rightarrow> zentific_config" where
  "apply_options o1 z =
     (let z = server_options o1 z;
          z = z\<lparr>PID_FILE := replace_opt (o_pidfile o1) (PID_FILE z), WEB_ROOT := replace_opt (o_webroot o1) (WEB_ROOT z),
                LOG_FILE := replace_opt (o_logfile o1) (LOG_FILE z), MY_UUID := replace_opt (o_uuid o1) (MY_UUID z)\<rparr>
      in if XML_DEBUG z then z\<lparr>DAEMONIZE := False\<rparr> else z)"

text \<open>From the check of the pid file to the end of the initialization.\<close>

definition launch :: "system \<Rightarrow> zentific_config \<Rightarrow> start" where
  "launch y z =
     (if y_pid_taken y (PID_FILE z) then Exit_now 1
      else
        (case y_db y z of
           Db_refused \<Rightarrow> Cleanup_exit 1
         | Db_crash \<Rightarrow> Start_crash
         | Db_table table \<Rightarrow>
             if \<not> y_connected y then Cleanup_exit 1
             else if DAEMONIZE z \<and> \<not> y_detach y then Cleanup_exit 1
             else if y_pid_create y = - 1 then Cleanup_exit 1
             else if y_pid_create y = 0 then Exit_now 1
             else if DAEMONIZE z \<and> \<not> y_closefds y then Cleanup_exit (- 1)
             else Started z))"

text \<open>The file name given with \<open>-c\<close> is parsed after the configuration file has been read.\<close>

definition initialize :: "env \<Rightarrow> cfg_file \<Rightarrow> string \<Rightarrow> system \<Rightarrow> start" where
  "initialize e opts prefix y =
     (let z = config_defaults_fill prefix config_new in
      if \<not> y_logdom y then Exit_now 1
      else
        (case opts (CONF_FILE z) of
           None \<Rightarrow> Exit_now 1
         | Some lines \<Rightarrow>
             (case config_parse_all e lines z of
                None \<Rightarrow> Exit_now 1
              | Some z \<Rightarrow>
                  (case y_options y of
                     None \<Rightarrow> Exit_now 1
                   | Some o1 \<Rightarrow> if o_exit o1 then Exit_now 1 else launch y (apply_options o1 z)))))"

text \<open>The definitions are added to the server in order, and the server runs until it is stopped.\<close>

definition server_start :: "bool \<Rightarrow> bool \<Rightarrow> string list \<Rightarrow> (bool \<times> string list) option" where
  "server_start created runs servlets = (if \<not> created then None else Some (runs, servlets))"

subsection \<open>Signals and reloading\<close>

datatype srv_eff =
    S_exit int            \<comment> \<open>exit, with its code\<close>
  | S_pid_delete          \<comment> \<open>zshare_pid_delete\<close>
  | S_stop                \<comment> \<open>azy_server_stop\<close>
  | S_segv bool           \<comment> \<open>sigaction of SIGSEGV: whether gdb is run\<close>
  | S_signals             \<comment> \<open>the other handlers and the signal mask\<close>
  | S_uninit nat          \<comment> \<open>db_uninit of a database object\<close>
  | S_suspend nat         \<comment> \<open>a call put on the list of waiting calls\<close>
  | S_rewind nat
  | S_resume nat

text \<open>
  The static variables of the file: the flags of a reload, the waiting calls, the time of the
  last signal, and what is loaded. \<open>v_pending\<close> counts the database connections that have
  been started for a reload and have not reported.
\<close>

record server =
  v_config :: zentific_config
  v_reload :: bool
  v_reloading :: bool
  v_waiting :: "nat list"
  v_last :: int
  v_clients :: nat
  v_db :: nat
  v_pending :: nat
  v_modules :: "string list"
  v_defs :: "string list"
  v_gone :: bool
  v_out :: "srv_eff list"

definition say :: "srv_eff list \<Rightarrow> server \<Rightarrow> server" where
  "say xs v = v\<lparr>v_out := v_out v @ xs\<rparr>"

definition cleanup_exit :: "int \<Rightarrow> server \<Rightarrow> server" where
  "cleanup_exit signum v =
     say ([S_stop, S_uninit (v_db v)] @ (if signum \<noteq> - 1 then [S_pid_delete] else []) @ [S_exit signum]) (v\<lparr>v_gone := True\<rparr>)"

definition setup_sigsegv :: "server \<Rightarrow> server" where
  "setup_sigsegv v = say [S_segv (GDB_BT (v_config v))] v"

definition signals_setup :: "server \<Rightarrow> server" where
  "signals_setup v = setup_sigsegv (say [S_signals] v)"

text \<open>The signals that stay deliverable: the others, \<open>SIGQUIT\<close> among them, are blocked.\<close>

datatype signal = SIGQUIT | SIGTERM | SIGINT | SIGHUP | SIGSEGV | SIG_other int

definition signal_unblocked :: "signal \<Rightarrow> bool" where
  "signal_unblocked s \<longleftrightarrow> s \<in> {SIGSEGV, SIGTERM, SIGINT, SIGHUP}"

fun signum :: "signal \<Rightarrow> int" where
  "signum SIGHUP = 1"
| "signum SIGINT = 2"
| "signum SIGQUIT = 3"
| "signum SIGSEGV = 11"
| "signum SIGTERM = 15"
| "signum (SIG_other n) = n"

text \<open>What a reload finds: the loader, the files, and whether the database module starts.\<close>

record surroundings =
  w_env :: env
  w_opts :: cfg_file
  w_prefix :: string
  w_loader :: loader
  w_base :: string
  w_paths :: "string list option"
  w_db :: db_start

definition modules_reload_begin :: "surroundings \<Rightarrow> server \<Rightarrow> server" where
  "modules_reload_begin w v =
     (let v = v\<lparr>v_reload := True\<rparr> in
      if 0 < v_clients v then v
      else
        (case modules_load (w_loader w) (w_base w) (w_paths w) of
           Load_exit n \<Rightarrow> cleanup_exit n v
         | Load_crash \<Rightarrow> v\<lparr>v_gone := True\<rparr>
         | Loaded ms servlets \<Rightarrow>
             (let v = signals_setup (v\<lparr>v_modules := ms, v_defs := servlets\<rparr>) in
              case w_db w of
                Db_refused \<Rightarrow> v\<lparr>v_reload := False\<rparr>
              | Db_crash \<Rightarrow> v\<lparr>v_gone := True\<rparr>
              | Db_table _ \<Rightarrow> v\<lparr>v_reloading := True, v_pending := Suc (v_pending v)\<rparr>)))"

definition modules_reload_handler :: "nat \<Rightarrow> bool \<Rightarrow> server \<Rightarrow> server" where
  "modules_reload_handler data success v =
     (let v = (if success then (say [S_uninit (v_db v)] v)\<lparr>v_db := data\<rparr> else v);
          v = say (concat (map (\<lambda>i. [S_rewind i, S_resume i]) (v_waiting v))) v
      in v\<lparr>v_waiting := [], v_reload := False, v_reloading := False\<rparr>)"

definition signals_handler :: "surroundings \<Rightarrow> signal \<Rightarrow> int \<Rightarrow> server \<Rightarrow> server" where
  "signals_handler w sig current v =
     (if sig \<in> {SIGQUIT, SIGTERM, SIGINT} then cleanup_exit (signum sig) v
      else if sig = SIGHUP then
        (if v_reload v then v\<lparr>v_last := current\<rparr>
         else
           (let v = (if current - v_last v < 5 then modules_reload_begin w v
                     else
                       (case config_reparse (w_env w) (w_opts w) (w_prefix w) (v_config v) of
                          None \<Rightarrow> say [S_exit 1] (v\<lparr>v_gone := True\<rparr>)
                        | Some z \<Rightarrow> v\<lparr>v_config := z\<rparr>))
            in if v_gone v then v else (setup_sigsegv v)\<lparr>v_last := current\<rparr>))
      else v\<lparr>v_last := current\<rparr>)"

definition server_client_disc :: "surroundings \<Rightarrow> server \<Rightarrow> server" where
  "server_client_disc w v = (if v_reload v then modules_reload_begin w v else v)"

text \<open>
  A call that arrives at the gate while the database is being replaced is put on the list;
  the gate of src/include/servlets.h does it.
\<close>

definition call_arrives :: "nat \<Rightarrow> server \<Rightarrow> server" where
  "call_arrives i v = (if v_reloading v then say [S_suspend i] (v\<lparr>v_waiting := v_waiting v @ [i]\<rparr>) else v)"

text \<open>
  The life of a server: clients come and go, calls arrive, signals are delivered and
  database connections report. After its end nothing happens.
\<close>

datatype server_event =
    Client_in
  | Client_out surroundings
  | Call_in nat
  | Signal_in surroundings signal int
  | Db_reports nat bool

definition server_step :: "server_event \<Rightarrow> server \<Rightarrow> server" where
  "server_step ev v =
     (if v_gone v then v
      else case ev of
          Client_in \<Rightarrow> v\<lparr>v_clients := Suc (v_clients v)\<rparr>
        | Client_out w \<Rightarrow> if v_clients v = 0 then v else server_client_disc w (v\<lparr>v_clients := v_clients v - 1\<rparr>)
        | Call_in i \<Rightarrow> call_arrives i v
        | Signal_in w sig t \<Rightarrow> if signal_unblocked sig then signals_handler w sig t v else v
        | Db_reports d ok \<Rightarrow>
            if v_pending v = 0 then v else modules_reload_handler d ok (v\<lparr>v_pending := v_pending v - 1\<rparr>))"

definition server_run :: "server_event list \<Rightarrow> server \<Rightarrow> server" where
  "server_run evs v = fold server_step evs v"

definition server_new :: "zentific_config \<Rightarrow> string list \<Rightarrow> string list \<Rightarrow> server" where
  "server_new z ms servlets =
     \<lparr>v_config = z, v_reload = False, v_reloading = False, v_waiting = [], v_last = 0, v_clients = 0, v_db = 0,
      v_pending = 0, v_modules = ms, v_defs = servlets, v_gone = False, v_out = []\<rparr>"

subsection \<open>What the server keeps\<close>

definition suspended :: "srv_eff list \<Rightarrow> nat list" where
  "suspended xs = concat (map (\<lambda>x. case x of S_suspend i \<Rightarrow> [i] | _ \<Rightarrow> []) xs)"

definition rewound :: "srv_eff list \<Rightarrow> nat list" where
  "rewound xs = concat (map (\<lambda>x. case x of S_rewind i \<Rightarrow> [i] | _ \<Rightarrow> []) xs)"

definition resumed :: "srv_eff list \<Rightarrow> nat list" where
  "resumed xs = concat (map (\<lambda>x. case x of S_resume i \<Rightarrow> [i] | _ \<Rightarrow> []) xs)"

lemma trace_simps [simp]:
  "suspended [] = []" "rewound [] = []" "resumed [] = []"
  "suspended (xs @ ys) = suspended xs @ suspended ys" "rewound (xs @ ys) = rewound xs @ rewound ys"
  "resumed (xs @ ys) = resumed xs @ resumed ys"
  "suspended (x # xs) = (case x of S_suspend i \<Rightarrow> [i] | _ \<Rightarrow> []) @ suspended xs"
  "rewound (x # xs) = (case x of S_rewind i \<Rightarrow> [i] | _ \<Rightarrow> []) @ rewound xs"
  "resumed (x # xs) = (case x of S_resume i \<Rightarrow> [i] | _ \<Rightarrow> []) @ resumed xs"
  by (simp_all add: suspended_def rewound_def resumed_def)

lemma trace_wakes [simp]:
  "suspended (concat (map (\<lambda>i. [S_rewind i, S_resume i]) is)) = []"
  "rewound (concat (map (\<lambda>i. [S_rewind i, S_resume i]) is)) = is"
  "resumed (concat (map (\<lambda>i. [S_rewind i, S_resume i]) is)) = is"
  by (induction "is") simp_all

lemma say_simps [simp]:
  "v_out (say xs v) = v_out v @ xs" "v_waiting (say xs v) = v_waiting v" "v_reloading (say xs v) = v_reloading v"
  "v_pending (say xs v) = v_pending v" "v_gone (say xs v) = v_gone v" "v_config (say xs v) = v_config v"
  "v_modules (say xs v) = v_modules v" "v_defs (say xs v) = v_defs v" "v_reload (say xs v) = v_reload v"
  "v_last (say xs v) = v_last v" "v_clients (say xs v) = v_clients v"
  by (simp_all add: say_def)

text \<open>
  The invariant: every suspended call is waiting or has been run again once, and calls wait
  only while a connection of the database is still to report.
\<close>

definition calls_kept :: "server \<Rightarrow> bool" where
  "calls_kept v \<longleftrightarrow> mset (suspended (v_out v)) = mset (resumed (v_out v)) + mset (v_waiting v)
     \<and> rewound (v_out v) = resumed (v_out v)
     \<and> (\<not> v_gone v \<longrightarrow> v_waiting v \<noteq> [] \<longrightarrow> v_reloading v) \<and> (\<not> v_gone v \<longrightarrow> v_reloading v \<longrightarrow> 0 < v_pending v)"

lemma calls_kept_begin: "calls_kept v \<Longrightarrow> calls_kept (modules_reload_begin w v)"
  by (auto simp: calls_kept_def modules_reload_begin_def cleanup_exit_def signals_setup_def setup_sigsegv_def Let_def
      split: modules.splits db_start.splits)

lemma calls_kept_step:
  assumes "calls_kept v"
  shows "calls_kept (server_step ev v)"
proof (cases "v_gone v")
  case True
  then show ?thesis using assms by (simp add: server_step_def)
next
  case False
  show ?thesis
  proof (cases ev)
    case Client_in
    then show ?thesis using assms False by (simp add: server_step_def calls_kept_def)
  next
    case (Client_out w)
    have "calls_kept (v\<lparr>v_clients := v_clients v - 1\<rparr>)" using assms by (simp add: calls_kept_def)
    then show ?thesis using Client_out assms False
      by (simp add: server_step_def server_client_disc_def calls_kept_begin)
  next
    case (Call_in i)
    then show ?thesis using assms False by (auto simp: server_step_def call_arrives_def calls_kept_def)
  next
    case (Signal_in w sig t)
    have exit: "calls_kept (cleanup_exit n v)" for n using assms by (simp add: calls_kept_def cleanup_exit_def)
    have quiet: "calls_kept (v\<lparr>v_last := t\<rparr>)" using assms by (simp add: calls_kept_def)
    have again: "calls_kept ((setup_sigsegv v')\<lparr>v_last := t\<rparr>)" if "calls_kept v'" for v'
      using that by (simp add: calls_kept_def setup_sigsegv_def)
    have "calls_kept (say [S_exit 1] (v\<lparr>v_gone := True\<rparr>))" "calls_kept (v\<lparr>v_config := z\<rparr>)" for z
      using assms by (simp_all add: calls_kept_def)
    then have "calls_kept (signals_handler w sig t v)"
      using exit quiet again assms calls_kept_begin [OF assms]
      by (simp add: signals_handler_def Let_def split: option.split)
    then show ?thesis using Signal_in assms False by (simp add: server_step_def)
  next
    case (Db_reports d ok)
    then show ?thesis using assms False
      by (auto simp: server_step_def modules_reload_handler_def calls_kept_def Let_def)
  qed
qed

lemma calls_kept_run: "calls_kept v \<Longrightarrow> calls_kept (server_run evs v)"
  by (induction evs arbitrary: v) (simp_all add: server_run_def calls_kept_step)

text \<open>
  C6: Reloading modules loses no call: in every life of a server, whatever clients, calls,
  signals and database connections come in which order, each call that was suspended at
  the gate is either still waiting or was rewound and resumed exactly once, and while the
  server lives calls only wait when a connection of the database is still to report, which
  wakes them all.
\<close>

theorem reload_loses_no_call:
  "mset (suspended (v_out (server_run evs (server_new z ms servlets))))
     = mset (resumed (v_out (server_run evs (server_new z ms servlets))))
       + mset (v_waiting (server_run evs (server_new z ms servlets)))
   \<and> rewound (v_out (server_run evs (server_new z ms servlets))) = resumed (v_out (server_run evs (server_new z ms servlets)))
   \<and> (v_gone (server_run evs (server_new z ms servlets)) \<or> v_waiting (server_run evs (server_new z ms servlets)) = []
      \<or> 0 < v_pending (server_run evs (server_new z ms servlets)))
   \<and> v_waiting (modules_reload_handler d ok v) = []"
proof -
  have "calls_kept (server_new z ms servlets)" by (simp add: calls_kept_def server_new_def)
  then have "calls_kept (server_run evs (server_new z ms servlets))" by (rule calls_kept_run)
  then show ?thesis by (auto simp: calls_kept_def modules_reload_handler_def Let_def)
qed

subsection \<open>The configuration a server runs with\<close>

lemma config_parse_all_conf_file: "config_parse_all e lines z = Some z' \<Longrightarrow> CONF_FILE z' = CONF_FILE z"
  using config_parse_all_fixed by (auto simp: fixed_fields_def)

lemma apply_options_simps [simp]:
  "PORT (apply_options o1 z) = (case o_port o1 of Some p \<Rightarrow> p | None \<Rightarrow> PORT z)"
  "PID_FILE (apply_options o1 z) = (if o_pidfile o1 = None then PID_FILE z else o_pidfile o1)"
  "LOG_FILE (apply_options o1 z) = (if o_logfile o1 = None then LOG_FILE z else o_logfile o1)"
  "USE_SSL (apply_options o1 z) = (USE_SSL z \<or> o_ssl o1)"
  "DAEMONIZE (apply_options o1 z) = (DAEMONIZE z \<and> \<not> o_nodaemon o1 \<and> \<not> XML_DEBUG z \<and> \<not> o_xmldebug o1)"
  "CONF_FILE (apply_options o1 z) = CONF_FILE z"
  by (auto simp: apply_options_def server_options_def replace_opt_def Let_def split: option.splits)

lemma apply_options_cfgfile [simp]: "apply_options (o1\<lparr>o_cfgfile := cfg\<rparr>) z = apply_options o1 z"
  by (simp add: apply_options_def server_options_def)

lemma launch_options [simp]: "launch (y\<lparr>y_options := x\<rparr>) z = launch y z"
  by (auto simp: launch_def split: db_start.split)

lemma launch_Started: "launch y z = Started z' \<Longrightarrow> z' = z"
  by (simp add: launch_def split: db_start.splits if_splits)


text \<open>A server started with an empty configuration file and a port on the command line.\<close>

definition sample_cmdline :: cmdline where
  "sample_cmdline = \<lparr>o_selfhost = False, o_ssl = False, o_xmldebug = False, o_nodaemon = True, o_pidfile = None, o_webroot = None,
     o_cfgfile = None, o_logfile = None, o_uuid = None, o_port = Some 9000, o_loglevel = None, o_exit = False\<rparr>"

definition sample_system :: system where
  "sample_system = \<lparr>y_logdom = True, y_options = Some sample_cmdline, y_pid_taken = (\<lambda>_. False), y_db = (\<lambda>_. Db_table []),
     y_connected = True, y_detach = True, y_pid_create = 7, y_closefds = True\<rparr>"

definition sample_config :: zentific_config where
  "sample_config = apply_options sample_cmdline (config_defaults_fill ''/z'' config_new)"

definition sample_surroundings :: surroundings where
  "sample_surroundings = \<lparr>w_env = sample_env, w_opts = (\<lambda>_. Some []), w_prefix = ''/z'',
     w_loader = \<lparr>l_load = (\<lambda>_. True), l_symbol = (\<lambda>_ _. None), l_base = True, l_base_symbol = True\<rparr>, w_base = ''/zrpc_base.so'',
     w_paths = None, w_db = Db_refused\<rparr>"


end
