(* ===== verification/Proxy.thy ===== *)
theory Proxy
  imports Prelude
begin

text \<open>
  src/utils/zproxy.c: the proxy between the client of a graphical console and the tunnel to
  its machine, with TLS on either side. Sockets and the TLS library are parameters: what
  each call returns is given, and the proxy is a step function over what it is told.
\<close>

type_synonym bytes = "8 word list"

subsection \<open>Options\<close>

record proxy_opts =
  q_cert :: cstr
  q_key :: cstr
  q_pidpath :: cstr
  q_listen :: cstr
  q_fport :: cstr
  q_bhost :: cstr
  q_bport :: cstr
  q_verbose :: bool
  q_debug :: bool
  q_bssl :: bool
  q_fssl :: bool

definition default_opts :: proxy_opts where
  "default_opts =
    \<lparr>q_cert = Some ''/opt/zentific/ssl/proxy.crt'', q_key = Some ''/opt/zentific/ssl/proxy.key'', q_pidpath = None,
     q_listen = Some ''0.0.0.0'', q_fport = None, q_bhost = None, q_bport = None, q_verbose = False, q_debug = False,
     q_bssl = False, q_fssl = False\<rparr>"

text \<open>One option as \<open>getopt_long\<close> reports it; \<open>Inl\<close> is the exit code of a call that ends here.\<close>

definition proxy_option :: "char \<Rightarrow> string \<Rightarrow> proxy_opts \<Rightarrow> int + proxy_opts" where
  "proxy_option i optarg q =
     (if i = CHR ''c'' then Inr (q\<lparr>q_cert := Some optarg\<rparr>)
      else if i = CHR ''k'' then Inr (q\<lparr>q_key := Some optarg\<rparr>)
      else if i = CHR ''P'' then Inr (q\<lparr>q_pidpath := Some optarg\<rparr>)
      else if i = CHR ''l'' then Inr (q\<lparr>q_listen := Some optarg\<rparr>)
      else if i = CHR ''f'' then Inr (q\<lparr>q_fport := Some optarg\<rparr>)
      else if i = CHR ''v'' then Inr (q\<lparr>q_verbose := True, q_debug := True\<rparr>)
      else if i = CHR ''e'' then Inr (q\<lparr>q_bssl := True\<rparr>)
      else if i = CHR ''b'' then Inr (q\<lparr>q_bhost := Some optarg\<rparr>)
      else if i = CHR ''s'' then Inr (q\<lparr>q_fssl := True\<rparr>)
      else if i = CHR ''p'' then Inr (q\<lparr>q_bport := Some optarg\<rparr>)
      else if i = CHR ''d'' then Inr (q\<lparr>q_debug := True\<rparr>)
      else if i = CHR ''h'' then Inl 0
      else if i = CHR '':'' then Inl 1
      else if i = CHR ''?'' then Inl 1
      else Inr q)"

fun proxy_options :: "(char \<times> string) list \<Rightarrow> proxy_opts \<Rightarrow> int + proxy_opts" where
  "proxy_options [] q = Inr q"
| "proxy_options ((i, a) # os) q = (case proxy_option i a q of Inl n \<Rightarrow> Inl n | Inr q \<Rightarrow> proxy_options os q)"

text \<open>
  What the machine says about a key or certificate: whether it exists, and the value of
  \<open>errno\<close> after it was opened, which an open that succeeds leaves as it was.
\<close>

record host_files =
  g_exists :: "cstr \<Rightarrow> bool"
  g_eacces :: "cstr \<Rightarrow> bool"
  g_pid_taken :: "cstr \<Rightarrow> bool"
  g_detach :: bool
  g_pid_create :: int
  g_closefds :: bool

definition proxy_setup :: "host_files \<Rightarrow> proxy_opts \<Rightarrow> int + proxy_opts" where
  "proxy_setup g q =
     (if q_fport q = None then Inl 1 else if q_bhost q = None then Inl 1
      else if q_bport q = None then Inl 1 else if q_pidpath q = None then Inl 1
      else if q_fssl q \<and> \<not> g_exists g (q_key q) then Inl 1
      else if q_fssl q \<and> g_eacces g (q_key q) then Inl 1
      else if q_fssl q \<and> \<not> g_exists g (q_cert q) then Inl 1
      else if q_fssl q \<and> g_eacces g (q_cert q) then Inl 1
      else if g_pid_taken g (q_pidpath q) then Inl 1
      else if \<not> q_debug q \<and> \<not> g_detach g then Inl 1
      else if g_pid_create g = - 1 then Inl 1
      else if g_pid_create g = 0 then Inl 1
      else if \<not> q_debug q \<and> \<not> g_closefds g then Inl 1
      else Inr q)"

definition sighandler :: "int \<Rightarrow> int" where
  "sighandler sig = (if sig = - 1 then 1 else if sig = 15 \<or> sig = 2 then 0 else 1)"

subsection \<open>Connections\<close>

text \<open>
  \<open>zconnect\<close> as compiled without \<open>HAVE_ADDRINFO\<close>, which no part of the build defines: whether
  a socket results. A service that is neither known nor a number leaves the port zero.
\<close>

record netdb =
  b_host :: "string \<Rightarrow> int option"
  b_service :: "string \<Rightarrow> int option"
  b_socket :: bool
  b_bind :: "int \<Rightarrow> int \<Rightarrow> bool"
  b_listen :: bool
  b_connect :: "int \<Rightarrow> int \<Rightarrow> bool"

definition zconnect_port :: "netdb \<Rightarrow> string \<Rightarrow> int" where
  "zconnect_port b service =
     (case b_service b service of
        Some p \<Rightarrow> p
      | None \<Rightarrow>
          (case service of
             c # _ \<Rightarrow> if digit_val c \<noteq> None then scan_long service mod 2 ^ 16 else 0
           | [] \<Rightarrow> 0))"

definition zconnect :: "netdb \<Rightarrow> cstr \<Rightarrow> string \<Rightarrow> bool \<Rightarrow> bool" where
  "zconnect b hostname service servermode =
     (case hostname of
        None \<Rightarrow> False
      | Some h \<Rightarrow>
          (case b_host b h of
             None \<Rightarrow> False
           | Some addr \<Rightarrow>
               b_socket b \<and>
               (if servermode then b_bind b addr (zconnect_port b service) \<and> b_listen b
                else b_connect b addr (zconnect_port b service))))"

text \<open>The answers of the TLS library for one connection.\<close>

record tls =
  s_ctx :: bool
  s_cert :: "string \<Rightarrow> bool"
  s_key :: "string \<Rightarrow> bool"
  s_check :: bool
  s_new :: bool
  s_set_fd :: bool
  s_handshake :: bool

definition ssl_ctx_new :: "tls \<Rightarrow> cstr \<Rightarrow> cstr \<Rightarrow> bool" where
  "ssl_ctx_new t cert key =
     (s_ctx t \<and>
      (case cert of
         None \<Rightarrow> True
       | Some c \<Rightarrow>
           s_cert t c \<and> s_key t (case key of None \<Rightarrow> c | Some k \<Rightarrow> k) \<and> s_check t))"

definition ssl_new_conn :: "tls \<Rightarrow> bool \<Rightarrow> bool" where
  "ssl_new_conn t ctx = (ctx \<and> s_new t \<and> s_set_fd t)"

subsection \<open>Sending\<close>

text \<open>
  One round of the loop in \<open>data_send\<close>: the poll fails, the call to \<open>send\<close> fails, or it takes
  a number of bytes. The call is always given the start of the data. The bytes the peer gets
  are collected; \<open>None\<close> is a sender still waiting when the answers run out.
\<close>

datatype send_answer = Poll_failed | Send_failed | Sent nat

fun data_send :: "send_answer list \<Rightarrow> bytes \<Rightarrow> nat \<Rightarrow> int \<Rightarrow> (int \<times> bytes) option" where
  "data_send ws data 0 ret = Some (ret, [])"
| "data_send [] data (Suc n) ret = None"
| "data_send (Poll_failed # ws) data (Suc n) ret = Some (- 1, [])"
| "data_send (Send_failed # ws) data (Suc n) ret = Some (- 1, [])"
| "data_send (Sent k # ws) data (Suc n) ret =
     (let k = min k (Suc n)
      in map_option (\<lambda>(r, out). (r, take k data @ out)) (data_send ws data (Suc n - k) (ret + int k)))"

subsection \<open>The state of the proxy\<close>

text \<open>
  A TLS connection object is absent, usable, or freed while its variable still points to it.
  The streams are what each peer has been sent so far.
\<close>

datatype conn = C_null | C_live | C_freed

datatype phase = Connecting | Relaying | Waiting_forever | Ended int | Crashed

record proxy =
  x_fssl :: bool
  x_bssl :: bool
  x_cert :: cstr
  x_key :: cstr
  x_finit :: bool
  x_fconn :: conn
  x_bconn :: conn
  x_to_backend :: bytes
  x_to_client :: bytes
  x_pid_file :: bool
  x_phase :: phase

definition crash :: "proxy \<Rightarrow> proxy" where
  "crash x = x\<lparr>x_phase := Crashed\<rparr>"

fun over :: "phase \<Rightarrow> bool" where
  "over (Ended _) = True"
| "over Crashed = True"
| "over _ = False"

text \<open>Code after a call that may have ended the process runs only when it has not.\<close>

definition andthen :: "proxy \<Rightarrow> (proxy \<Rightarrow> proxy) \<Rightarrow> proxy" where
  "andthen x f = (if over (x_phase x) then x else f x)"

definition proxy_exit :: "int \<Rightarrow> proxy \<Rightarrow> proxy" where
  "proxy_exit n x = x\<lparr>x_phase := Ended n\<rparr>"

text \<open>
  \<open>cleanup_ssl\<close> shuts down and frees what its variables point to and leaves them pointing
  there; doing that to a freed object is a crash.
\<close>

definition cleanup_ssl :: "proxy \<Rightarrow> proxy" where
  "cleanup_ssl x =
     (let front = x_fssl x \<and> x_fconn x \<noteq> C_null; back = x_bssl x \<and> x_bconn x \<noteq> C_null in
      if front \<and> x_fconn x = C_freed \<or> back \<and> x_bconn x = C_freed then crash x
      else x\<lparr>x_fconn := (if front then C_freed else x_fconn x), x_bconn := (if back then C_freed else x_bconn x)\<rparr>)"

definition proxy_cleanup_exit :: "int \<Rightarrow> proxy \<Rightarrow> proxy" where
  "proxy_cleanup_exit n x = andthen (cleanup_ssl x) (\<lambda>x. proxy_exit n (x\<lparr>x_pid_file := False\<rparr>))"

text \<open>Reads the session of the object, and frees it.\<close>

definition ssl_teardown_b :: "proxy \<Rightarrow> proxy" where
  "ssl_teardown_b x = (if x_bconn x = C_live then x\<lparr>x_bconn := C_freed\<rparr> else crash x)"

definition ssl_teardown_f :: "proxy \<Rightarrow> proxy" where
  "ssl_teardown_f x = (if x_fconn x = C_live then x\<lparr>x_fconn := C_freed\<rparr> else crash x)"

subsection \<open>Connecting to the machine and waiting for the client\<close>

record meeting =
  a_backend :: bool
  a_btls :: tls
  a_ftls :: tls

text \<open>A handshake on an object that could not be made is a crash.\<close>

definition connect_backend_tls :: "tls \<Rightarrow> proxy \<Rightarrow> proxy" where
  "connect_backend_tls t x =
     (if \<not> x_bssl x then x
      else if \<not> ssl_ctx_new t (x_cert x) (x_key x) then andthen (cleanup_ssl x) (proxy_cleanup_exit 1)
      else
        (let x = x\<lparr>x_bconn := (if ssl_new_conn t True then C_live else C_null)\<rparr> in
         if x_bconn x = C_null then crash x
         else if s_handshake t then x
         else andthen (andthen (ssl_teardown_b x) cleanup_ssl) (proxy_exit 1)))"

definition accept_client_tls :: "tls \<Rightarrow> proxy \<Rightarrow> proxy" where
  "accept_client_tls t x =
     (if \<not> x_fssl x then x
      else
        andthen
          (if x_finit x then x
           else if \<not> ssl_ctx_new t (x_cert x) (x_key x) then andthen (cleanup_ssl x) (proxy_cleanup_exit 1)
           else x\<lparr>x_finit := True\<rparr>)
          (\<lambda>x. if x_fconn x = C_freed then crash x
               else
                 (let x = x\<lparr>x_fconn := (if ssl_new_conn t True then C_live else C_null)\<rparr> in
                  if x_fconn x = C_null then crash x
                  else if s_handshake t then x
                  else andthen (cleanup_ssl x) (proxy_exit 1))))"

definition proxy_meet :: "meeting \<Rightarrow> proxy \<Rightarrow> proxy" where
  "proxy_meet a x =
     (if \<not> a_backend a then proxy_cleanup_exit 1 x
      else
        andthen (connect_backend_tls (a_btls a) x)
          (\<lambda>x. andthen (accept_client_tls (a_ftls a) x) (\<lambda>x. x\<lparr>x_phase := Relaying\<rparr>)))"

subsection \<open>Relaying\<close>

text \<open>
  One turn of the loop: whether the poll failed, which sides hung up, what was read from the
  client and the machine when there was something (an empty read is the end of the stream),
  and how the writes went.
\<close>

datatype read_answer = Read_failed | Read_bytes bytes

record poll_answer =
  p_failed :: bool
  p_bhup :: bool
  p_phup :: bool
  p_chup :: bool
  p_client :: "read_answer option"
  p_machine :: "read_answer option"
  p_wmachine :: "send_answer list"
  p_wclient :: "send_answer list"
  p_ssl_machine :: bool
  p_ssl_client :: bool

text \<open>The label at the end of the function.\<close>

definition proxy_cleanup :: "proxy \<Rightarrow> proxy" where
  "proxy_cleanup x = andthen (if x_bssl x \<or> x_fssl x then cleanup_ssl x else x) (proxy_cleanup_exit 0)"

definition restart :: "proxy \<Rightarrow> proxy" where
  "restart x = x\<lparr>x_phase := Connecting\<rparr>"

definition relay_client :: "poll_answer \<Rightarrow> proxy \<Rightarrow> proxy" where
  "relay_client a x =
     (case p_client a of
        None \<Rightarrow> x
      | Some Read_failed \<Rightarrow> andthen (if x_fssl x then cleanup_ssl x else x) (proxy_cleanup_exit 1)
      | Some (Read_bytes bs) \<Rightarrow>
          if bs = [] then restart x
          else if x_bssl x then
            (if p_ssl_machine a then x\<lparr>x_to_backend := x_to_backend x @ bs\<rparr> else x)
          else
            (case data_send (p_wmachine a) bs (length bs) 0 of
               None \<Rightarrow> x\<lparr>x_phase := Waiting_forever\<rparr>
             | Some (wrote, out) \<Rightarrow> x\<lparr>x_to_backend := x_to_backend x @ out\<rparr>))"

definition relay_machine :: "poll_answer \<Rightarrow> proxy \<Rightarrow> proxy" where
  "relay_machine a x =
     (case p_machine a of
        None \<Rightarrow> x
      | Some r \<Rightarrow>
          if x_bssl x \<and> x_bconn x = C_null then proxy_cleanup_exit 1 x
          else
            (case r of
               Read_failed \<Rightarrow> andthen (if x_bssl x then cleanup_ssl x else x) (proxy_cleanup_exit 1)
             | Read_bytes bs \<Rightarrow>
                 if bs = [] then
                   andthen (if x_bssl x then ssl_teardown_b x else x)
                     (\<lambda>x. andthen (if x_fssl x then ssl_teardown_f x else x) restart)
                 else if x_fssl x then
                   (if p_ssl_client a then x\<lparr>x_to_client := x_to_client x @ bs\<rparr>
                    else andthen (cleanup_ssl x) (proxy_cleanup_exit 1))
                 else
                   (case data_send (p_wclient a) bs (length bs) 0 of
                      None \<Rightarrow> x\<lparr>x_phase := Waiting_forever\<rparr>
                    | Some (wrote, out) \<Rightarrow>
                        (let x = x\<lparr>x_to_client := x_to_client x @ out\<rparr>
                         in if wrote < 0 then proxy_cleanup_exit 1 x else x))))"

definition proxy_poll :: "poll_answer \<Rightarrow> proxy \<Rightarrow> proxy" where
  "proxy_poll a x =
     (if p_failed a then proxy_cleanup_exit 1 x
      else if p_bhup a \<or> p_phup a then andthen (if x_bssl x then ssl_teardown_b x else x) proxy_cleanup
      else if p_chup a then restart x
      else
        (let x = relay_client a x
         in if x_phase x = Relaying then relay_machine a x else x))"

text \<open>The whole process, from the start of \<open>proxy\<close>; after its end nothing happens.\<close>

datatype proxy_event = Meet meeting | Poll poll_answer | Signalled int

definition proxy_step :: "proxy_event \<Rightarrow> proxy \<Rightarrow> proxy" where
  "proxy_step ev x =
     (case (x_phase x, ev) of
        (ph, Signalled sig) \<Rightarrow> if over ph then x else proxy_cleanup_exit (sighandler sig) x
      | (Connecting, Meet a) \<Rightarrow> proxy_meet a x
      | (Relaying, Poll a) \<Rightarrow> proxy_poll a x
      | _ \<Rightarrow> x)"

definition proxy_start :: "bool \<Rightarrow> proxy_opts \<Rightarrow> proxy" where
  "proxy_start listening q =
     (let x = \<lparr>x_fssl = q_fssl q, x_bssl = q_bssl q, x_cert = q_cert q, x_key = q_key q, x_finit = False,
         x_fconn = C_null, x_bconn = C_null, x_to_backend = [], x_to_client = [], x_pid_file = True,
         x_phase = Connecting\<rparr>
      in if listening then x else proxy_cleanup_exit 1 x)"

definition proxy_run :: "proxy_event list \<Rightarrow> proxy \<Rightarrow> proxy" where
  "proxy_run evs x = fold proxy_step evs x"

subsection \<open>Facts about the steps\<close>

lemma andthen_over [simp]: "over (x_phase x) \<Longrightarrow> andthen x f = x" "\<not> over (x_phase x) \<Longrightarrow> andthen x f = f x"
  by (simp_all add: andthen_def)

lemmas proxy_ends = crash_def proxy_exit_def cleanup_ssl_def proxy_cleanup_exit_def proxy_cleanup_def ssl_teardown_b_def
  ssl_teardown_f_def restart_def andthen_def

lemma proxy_step_over: "over (x_phase x) \<Longrightarrow> proxy_step ev x = x"
  by (cases "x_phase x"; cases ev) (simp_all add: proxy_step_def)

lemma proxy_run_simps [simp]: "proxy_run [] x = x" "proxy_run (ev # evs) x = proxy_run evs (proxy_step ev x)"
  by (simp_all add: proxy_run_def)

lemma proxy_run_over: "over (x_phase x) \<Longrightarrow> proxy_run evs x = x"
  by (induction evs) (simp_all add: proxy_step_over)

text \<open>The options never change.\<close>

lemma options_ends [simp]:
  "x_fssl (crash x) = x_fssl x" "x_bssl (crash x) = x_bssl x"
  "x_fssl (proxy_exit n x) = x_fssl x" "x_bssl (proxy_exit n x) = x_bssl x"
  "x_fssl (cleanup_ssl x) = x_fssl x" "x_bssl (cleanup_ssl x) = x_bssl x"
  "x_fssl (restart x) = x_fssl x" "x_bssl (restart x) = x_bssl x"
  "x_fssl (proxy_cleanup_exit n x) = x_fssl x" "x_bssl (proxy_cleanup_exit n x) = x_bssl x"
  "x_fssl (proxy_cleanup x) = x_fssl x" "x_bssl (proxy_cleanup x) = x_bssl x"
  "x_fssl (ssl_teardown_b x) = x_fssl x" "x_bssl (ssl_teardown_b x) = x_bssl x"
  "x_fssl (ssl_teardown_f x) = x_fssl x" "x_bssl (ssl_teardown_f x) = x_bssl x"
  by (simp_all add: proxy_ends Let_def)

lemma options_andthen:
  "(\<And>z. x_fssl (f z) = x_fssl z) \<Longrightarrow> x_fssl (andthen x f) = x_fssl x"
  "(\<And>z. x_bssl (f z) = x_bssl z) \<Longrightarrow> x_bssl (andthen x f) = x_bssl x"
  by (simp_all add: andthen_def)

lemma options_steps [simp]:
  "x_fssl (proxy_meet m x) = x_fssl x" "x_bssl (proxy_meet m x) = x_bssl x"
  "x_fssl (relay_client a x) = x_fssl x" "x_bssl (relay_client a x) = x_bssl x"
  "x_fssl (relay_machine a x) = x_fssl x" "x_bssl (relay_machine a x) = x_bssl x"
  by (simp_all add: proxy_meet_def connect_backend_tls_def accept_client_tls_def relay_client_def relay_machine_def
      options_andthen Let_def split: option.split read_answer.split prod.split)

lemma options_step [simp]: "x_fssl (proxy_step ev x) = x_fssl x" "x_bssl (proxy_step ev x) = x_bssl x"
proof -
  show "x_fssl (proxy_step ev x) = x_fssl x"
    by (cases "x_phase x"; cases ev) (simp_all add: proxy_step_def proxy_poll_def options_andthen Let_def)
  show "x_bssl (proxy_step ev x) = x_bssl x"
    by (cases "x_phase x"; cases ev) (simp_all add: proxy_step_def proxy_poll_def options_andthen Let_def)
qed

lemma options_run [simp]: "x_fssl (proxy_run evs x) = x_fssl x" "x_bssl (proxy_run evs x) = x_bssl x"
  by (induction evs arbitrary: x) simp_all

text \<open>Ending the process sends nothing.\<close>

lemma streams_ends [simp]:
  "x_to_backend (crash x) = x_to_backend x" "x_to_client (crash x) = x_to_client x"
  "x_to_backend (proxy_exit n x) = x_to_backend x" "x_to_client (proxy_exit n x) = x_to_client x"
  "x_to_backend (cleanup_ssl x) = x_to_backend x" "x_to_client (cleanup_ssl x) = x_to_client x"
  "x_to_backend (proxy_cleanup_exit n x) = x_to_backend x" "x_to_client (proxy_cleanup_exit n x) = x_to_client x"
  "x_to_backend (proxy_cleanup x) = x_to_backend x" "x_to_client (proxy_cleanup x) = x_to_client x"
  "x_to_backend (ssl_teardown_b x) = x_to_backend x" "x_to_client (ssl_teardown_b x) = x_to_client x"
  "x_to_backend (ssl_teardown_f x) = x_to_backend x" "x_to_client (ssl_teardown_f x) = x_to_client x"
  "x_to_backend (restart x) = x_to_backend x" "x_to_client (restart x) = x_to_client x"
  by (simp_all add: proxy_ends Let_def)

lemma streams_andthen:
  "(\<And>z. x_to_backend (f z) = x_to_backend z) \<Longrightarrow> x_to_backend (andthen x f) = x_to_backend x"
  "(\<And>z. x_to_client (f z) = x_to_client z) \<Longrightarrow> x_to_client (andthen x f) = x_to_client x"
  by (simp_all add: andthen_def)

lemma streams_meet [simp]: "x_to_backend (proxy_meet a x) = x_to_backend x" "x_to_client (proxy_meet a x) = x_to_client x"
  by (simp_all add: proxy_meet_def connect_backend_tls_def accept_client_tls_def streams_andthen Let_def)

subsection \<open>The connection objects\<close>

text \<open>While the proxy relays, each side that uses TLS has a usable object; a side that does not has none.\<close>

definition conn_ok :: "proxy \<Rightarrow> bool" where
  "conn_ok x \<longleftrightarrow> (x_phase x = Relaying \<longrightarrow> (x_fssl x \<longrightarrow> x_fconn x = C_live) \<and> (x_bssl x \<longrightarrow> x_bconn x = C_live))
     \<and> (\<not> x_fssl x \<longrightarrow> x_fconn x = C_null) \<and> (\<not> x_bssl x \<longrightarrow> x_bconn x = C_null)"

definition conn_free :: "proxy \<Rightarrow> bool" where
  "conn_free x \<longleftrightarrow> (\<not> x_fssl x \<longrightarrow> x_fconn x = C_null) \<and> (\<not> x_bssl x \<longrightarrow> x_bconn x = C_null)"

lemma conn_ok_free: "conn_ok x \<Longrightarrow> conn_free x"
  by (simp add: conn_ok_def conn_free_def)

lemma conn_ok_ends [simp]:
  "conn_ok (crash x) = conn_free x" "conn_ok (proxy_exit n x) = conn_free x" "conn_ok (restart x) = conn_free x"
  "conn_free (crash x) = conn_free x" "conn_free (proxy_exit n x) = conn_free x" "conn_free (restart x) = conn_free x"
  by (auto simp: conn_ok_def conn_free_def proxy_ends)

lemma conn_free_cleanup [simp]: "conn_free x \<Longrightarrow> conn_free (cleanup_ssl x)"
  by (auto simp: conn_free_def cleanup_ssl_def crash_def Let_def)

lemma conn_ok_exit [simp]: "conn_free x \<Longrightarrow> conn_ok (proxy_cleanup_exit n x)"
proof -
  assume "conn_free x"
  then have "conn_free (cleanup_ssl x)" by simp
  moreover have "over (x_phase (cleanup_ssl x)) \<Longrightarrow> x_phase (cleanup_ssl x) \<noteq> Relaying" by auto
  ultimately show ?thesis
    by (auto simp: proxy_cleanup_exit_def andthen_def conn_ok_def conn_free_def proxy_exit_def)
qed

lemma conn_ok_over: "conn_free x \<Longrightarrow> over (x_phase x) \<Longrightarrow> conn_ok x"
  by (auto simp: conn_ok_def conn_free_def)

lemma conn_ok_andthen: "conn_free x \<Longrightarrow> (conn_free x \<Longrightarrow> conn_ok (f x)) \<Longrightarrow> conn_ok (andthen x f)"
  by (simp add: andthen_def conn_ok_over)

lemma conn_ok_teardown:
  "conn_free x \<Longrightarrow> x_bssl x \<Longrightarrow> conn_free (ssl_teardown_b x)" "conn_free x \<Longrightarrow> x_fssl x \<Longrightarrow> conn_free (ssl_teardown_f x)"
  "x_fssl (ssl_teardown_b x) = x_fssl x" "x_bssl (ssl_teardown_b x) = x_bssl x"
  by (auto simp: conn_free_def ssl_teardown_b_def ssl_teardown_f_def crash_def)

lemma conn_ok_proxy_cleanup: "conn_free x \<Longrightarrow> conn_ok (proxy_cleanup x)"
  by (auto simp: proxy_cleanup_def intro!: conn_ok_andthen)

lemma conn_ok_meet:
  assumes "conn_free x" "x_phase x = Connecting"
  shows "conn_ok (proxy_meet a x)"
proof (cases "a_backend a")
  case False
  then show ?thesis using assms by (simp add: proxy_meet_def)
next
  case True
  let ?b = "connect_backend_tls (a_btls a) x"
  have b: "conn_free ?b \<and> (over (x_phase ?b) \<or> x_phase ?b = Connecting \<and> (x_bssl ?b \<longrightarrow> x_bconn ?b = C_live))"
    using assms unfolding connect_backend_tls_def
    by (auto simp: conn_free_def proxy_ends Let_def)
  have "conn_ok (andthen (accept_client_tls (a_ftls a) y) (\<lambda>x. x\<lparr>x_phase := Relaying\<rparr>))"
    if y: "conn_free y" "x_phase y = Connecting" "x_bssl y \<longrightarrow> x_bconn y = C_live" for y
    using y unfolding accept_client_tls_def
    by (auto simp: conn_free_def conn_ok_def proxy_ends Let_def)
  then have "\<not> over (x_phase ?b) \<Longrightarrow> conn_ok (andthen (accept_client_tls (a_ftls a) ?b) (\<lambda>x. x\<lparr>x_phase := Relaying\<rparr>))"
    using b by auto
  then show ?thesis
    using True b conn_ok_over by (cases "over (x_phase ?b)") (auto simp: proxy_meet_def)
qed

lemma conn_ok_phase: "conn_free x \<Longrightarrow> ph \<noteq> Relaying \<Longrightarrow> conn_ok (x\<lparr>x_phase := ph\<rparr>)"
  by (simp add: conn_ok_def conn_free_def)

lemma conn_ok_streams [simp]:
  "conn_ok (x\<lparr>x_to_backend := bs\<rparr>) = conn_ok x" "conn_ok (x\<lparr>x_to_client := bs\<rparr>) = conn_ok x"
  by (simp_all add: conn_ok_def)

lemma conn_ok_exits:
  assumes "conn_free x"
  shows "conn_ok (andthen (if p then cleanup_ssl x else x) (proxy_cleanup_exit n))"
    "conn_ok (andthen (cleanup_ssl x) (proxy_cleanup_exit n))" "conn_ok (andthen x (proxy_cleanup_exit n))"
    "conn_ok (andthen (if x_bssl x then ssl_teardown_b x else x) (\<lambda>x. andthen (if x_fssl x then ssl_teardown_f x else x) restart))"
    "conn_ok (andthen (if x_bssl x then ssl_teardown_b x else x) proxy_cleanup)"
proof -
  show "conn_ok (andthen (if p then cleanup_ssl x else x) (proxy_cleanup_exit n))"
    "conn_ok (andthen (cleanup_ssl x) (proxy_cleanup_exit n))" "conn_ok (andthen x (proxy_cleanup_exit n))"
    using assms by (simp_all add: conn_ok_andthen)
  have b: "conn_free (if x_bssl x then ssl_teardown_b x else x)" using assms conn_ok_teardown by simp
  have f: "conn_free (if x_fssl y then ssl_teardown_f y else y)" if "conn_free y" for y
    using that conn_ok_teardown by simp
  have "conn_ok (andthen (if x_fssl y then ssl_teardown_f y else y) restart)" if "conn_free y" for y
    by (rule conn_ok_andthen [OF f [OF that]]) simp
  then show "conn_ok (andthen (if x_bssl x then ssl_teardown_b x else x) (\<lambda>x. andthen (if x_fssl x then ssl_teardown_f x else x) restart))"
    using b by (blast intro: conn_ok_andthen)
  show "conn_ok (andthen (if x_bssl x then ssl_teardown_b x else x) proxy_cleanup)"
    using b by (blast intro: conn_ok_andthen conn_ok_proxy_cleanup)
qed

lemma conn_ok_relay:
  assumes "conn_ok x"
  shows "conn_ok (relay_client a x)" "conn_ok (relay_machine a x)"
proof -
  note free = conn_ok_free [OF assms]
  note ends = conn_ok_exits [OF free] conn_ok_phase [OF free]
  show "conn_ok (relay_client a x)"
    using assms free ends by (simp add: relay_client_def split: option.split read_answer.split)
  show "conn_ok (relay_machine a x)"
    using assms free ends
    by (cases "p_machine a"; cases "x_bssl x"; cases "x_fssl x")
      (simp_all add: relay_machine_def conn_ok_free Let_def split: option.split read_answer.split)
qed

lemma conn_ok_step: "conn_ok x \<Longrightarrow> conn_ok (proxy_step ev x)"
proof -
  assume ok: "conn_ok x"
  note free = conn_ok_free [OF ok]
  have "conn_ok (proxy_poll a x)" for a
    using ok free conn_ok_relay(1) [OF ok] conn_ok_relay(2) [OF conn_ok_relay(1) [OF ok]] conn_ok_exits(5) [OF free]
    by (simp add: proxy_poll_def Let_def)
  then show ?thesis
    using ok free conn_ok_meet [OF free]
    by (cases "x_phase x"; cases ev) (simp_all add: proxy_step_def)
qed

lemma conn_ok_run: "conn_ok x \<Longrightarrow> conn_ok (proxy_run evs x)"
  by (induction evs arbitrary: x) (simp_all add: conn_ok_step)

lemma conn_ok_start: "conn_ok (proxy_start listening q)"
proof -
  define x where "x = \<lparr>x_fssl = q_fssl q, x_bssl = q_bssl q, x_cert = q_cert q, x_key = q_key q, x_finit = False,
      x_fconn = C_null, x_bconn = C_null, x_to_backend = [], x_to_client = [], x_pid_file = True, x_phase = Connecting\<rparr>"
  have "conn_ok x" by (simp add: x_def conn_ok_def)
  then have "conn_ok (if listening then x else proxy_cleanup_exit 1 x)" using conn_ok_free by auto
  then show ?thesis by (simp only: proxy_start_def x_def Let_def)
qed

subsection \<open>What each peer is sent\<close>

text \<open>Writes that the network takes whole, as it takes most of them.\<close>

fun takes_all :: "send_answer list \<Rightarrow> bytes \<Rightarrow> bool" where
  "takes_all [Sent k] bs = (length bs \<le> k)"
| "takes_all _ _ = False"

fun bytes_read :: "read_answer option \<Rightarrow> bytes" where
  "bytes_read (Some (Read_bytes bs)) = bs"
| "bytes_read _ = []"

fun whole_writes :: "proxy_event \<Rightarrow> bool" where
  "whole_writes (Poll a) =
     (p_ssl_machine a \<and> p_ssl_client a \<and> takes_all (p_wmachine a) (bytes_read (p_client a))
      \<and> takes_all (p_wclient a) (bytes_read (p_machine a)))"
| "whole_writes _ = True"

text \<open>What the proxy reads from each side in one turn, and over a run.\<close>

definition turn_runs :: "poll_answer \<Rightarrow> proxy \<Rightarrow> bool" where
  "turn_runs a x = (x_phase x = Relaying \<and> \<not> p_failed a \<and> \<not> p_bhup a \<and> \<not> p_phup a \<and> \<not> p_chup a)"

fun client_turn :: "proxy_event \<Rightarrow> proxy \<Rightarrow> bytes" where
  "client_turn (Poll a) x = (if turn_runs a x then bytes_read (p_client a) else [])"
| "client_turn _ x = []"

fun machine_turn :: "proxy_event \<Rightarrow> proxy \<Rightarrow> bytes" where
  "machine_turn (Poll a) x =
     (if turn_runs a x \<and> (p_client a = None \<or> bytes_read (p_client a) \<noteq> []) then bytes_read (p_machine a) else [])"
| "machine_turn _ x = []"

fun client_said :: "proxy_event list \<Rightarrow> proxy \<Rightarrow> bytes" where
  "client_said [] x = []"
| "client_said (ev # evs) x = client_turn ev x @ client_said evs (proxy_step ev x)"

fun machine_said :: "proxy_event list \<Rightarrow> proxy \<Rightarrow> bytes" where
  "machine_said [] x = []"
| "machine_said (ev # evs) x = machine_turn ev x @ machine_said evs (proxy_step ev x)"

lemma takes_all_sent:
  assumes "takes_all ws bs" "bs \<noteq> []"
  shows "data_send ws bs (length bs) 0 = Some (int (length bs), bs)"
proof -
  obtain k where ws: "ws = [Sent k]" "length bs \<le> k" using assms(1) by (cases "(ws, bs)" rule: takes_all.cases) auto
  obtain n where n: "length bs = Suc n" using assms(2) by (cases bs) auto
  have "data_send ws bs (Suc n) 0 = Some (int (Suc n), bs)" using ws n by (simp add: Let_def)
  then show ?thesis using n by simp
qed

lemma client_step:
  assumes "whole_writes (Poll a)" "x_phase x = Relaying"
  shows "x_to_backend (relay_client a x) = x_to_backend x @ bytes_read (p_client a)"
    "x_to_client (relay_client a x) = x_to_client x"
    "(x_phase (relay_client a x) = Relaying) = (p_client a = None \<or> bytes_read (p_client a) \<noteq> [])"
proof -
  consider "p_client a = None" | "p_client a = Some Read_failed" | "p_client a = Some (Read_bytes [])"
    | b bs where "p_client a = Some (Read_bytes (b # bs))"
    by (metis bytes_read.cases neq_Nil_conv option.exhaust read_answer.exhaust)
  note cases = this
  have sent: "data_send (p_wmachine a) bs (length bs) 0 = Some (int (length bs), bs)"
    if "p_client a = Some (Read_bytes bs)" "bs \<noteq> []" for bs
    using that assms(1) by (simp add: takes_all_sent)
  show "x_to_backend (relay_client a x) = x_to_backend x @ bytes_read (p_client a)"
    using assms sent
    by (cases rule: cases) (simp_all add: relay_client_def streams_andthen del: data_send.simps length_Cons)
  show "x_to_client (relay_client a x) = x_to_client x"
    using assms sent
    by (cases rule: cases) (simp_all add: relay_client_def streams_andthen del: data_send.simps length_Cons)
  show "(x_phase (relay_client a x) = Relaying) = (p_client a = None \<or> bytes_read (p_client a) \<noteq> [])"
    using assms sent
    by (cases rule: cases) (auto simp: relay_client_def proxy_ends Let_def simp del: data_send.simps length_Cons)
qed

lemma machine_step:
  assumes "whole_writes (Poll a)" "conn_ok x" "x_phase x = Relaying"
  shows "x_to_client (relay_machine a x) = x_to_client x @ bytes_read (p_machine a)"
    "x_to_backend (relay_machine a x) = x_to_backend x"
proof -
  consider "p_machine a = None" | "p_machine a = Some Read_failed" | "p_machine a = Some (Read_bytes [])"
    | b bs where "p_machine a = Some (Read_bytes (b # bs))"
    by (metis bytes_read.cases neq_Nil_conv option.exhaust read_answer.exhaust)
  note cases = this
  have sent: "data_send (p_wclient a) bs (length bs) 0 = Some (int (length bs), bs)"
    if "p_machine a = Some (Read_bytes bs)" "bs \<noteq> []" for bs
    using that assms(1) by (simp add: takes_all_sent)
  have live: "\<not> (x_bssl x \<and> x_bconn x = C_null)" using assms(2,3) by (simp add: conn_ok_def)
  show "x_to_client (relay_machine a x) = x_to_client x @ bytes_read (p_machine a)"
    using assms sent live
    by (cases rule: cases) (simp_all add: relay_machine_def streams_andthen Let_def del: data_send.simps length_Cons)
  show "x_to_backend (relay_machine a x) = x_to_backend x"
    using assms sent live
    by (cases rule: cases) (simp_all add: relay_machine_def streams_andthen Let_def del: data_send.simps length_Cons)
qed

lemma streams_step:
  assumes "whole_writes ev" "conn_ok x"
  shows "x_to_backend (proxy_step ev x) = x_to_backend x @ client_turn ev x
    \<and> x_to_client (proxy_step ev x) = x_to_client x @ machine_turn ev x"
proof (cases "\<exists>a. ev = Poll a \<and> turn_runs a x")
  case True
  then obtain a where a: "ev = Poll a" "turn_runs a x" by auto
  then have step: "proxy_step ev x =
      (if x_phase (relay_client a x) = Relaying then relay_machine a (relay_client a x) else relay_client a x)"
    by (simp add: proxy_step_def proxy_poll_def turn_runs_def Let_def)
  have w: "whole_writes (Poll a)" and r: "x_phase x = Relaying" using a assms(1) by (simp_all add: turn_runs_def)
  note c = client_step [OF w r]
  note m = machine_step [OF w conn_ok_relay(1) [OF assms(2)]]
  show ?thesis
    using c m [of a] a(2) by (simp add: step [unfolded a(1)] a(1))
next
  case False
  then have none: "client_turn ev x = []" "machine_turn ev x = []" by (cases ev; simp)+
  have "x_to_backend (proxy_poll a x) = x_to_backend x \<and> x_to_client (proxy_poll a x) = x_to_client x"
    if "ev = Poll a" "x_phase x = Relaying" for a
    using that False by (auto simp: proxy_poll_def turn_runs_def streams_andthen)
  then show ?thesis
    using none by (cases "x_phase x"; cases ev) (simp_all add: proxy_step_def)
qed

lemma streams_run:
  assumes "list_all whole_writes evs" "conn_ok x"
  shows "x_to_backend (proxy_run evs x) = x_to_backend x @ client_said evs x
    \<and> x_to_client (proxy_run evs x) = x_to_client x @ machine_said evs x"
  using assms
proof (induction evs arbitrary: x)
  case (Cons ev evs)
  then show ?case using streams_step [of ev x] conn_ok_step [of x ev] by simp
qed simp

text \<open>
  C8: Whatever options the proxy is started with and whatever connects, hangs up or signals
  it, as long as the network takes each write whole: all that the machine has been sent is
  what the proxy read from the client, byte for byte and in order, across any number of
  reconnections, and the client likewise got exactly what was read from the machine; in a
  turn whose read from the client fails or is empty the machine is not read.
\<close>

theorem proxy_relays_exactly:
  assumes "list_all whole_writes evs"
  shows "x_to_backend (proxy_run evs (proxy_start listening q)) = client_said evs (proxy_start listening q)
    \<and> x_to_client (proxy_run evs (proxy_start listening q)) = machine_said evs (proxy_start listening q)"
proof -
  have "x_to_backend (proxy_start listening q) = []" "x_to_client (proxy_start listening q) = []"
    by (simp_all add: proxy_start_def Let_def)
  then show ?thesis using streams_run [OF assms conn_ok_start [of listening q]] by simp
qed

definition quiet_poll :: poll_answer where
  "quiet_poll = \<lparr>p_failed = False, p_bhup = False, p_phup = False, p_chup = False, p_client = None, p_machine = None,
     p_wmachine = [Sent 9], p_wclient = [Sent 9], p_ssl_machine = True, p_ssl_client = True\<rparr>"

definition good_tls :: tls where
  "good_tls = \<lparr>s_ctx = True, s_cert = (\<lambda>_. True), s_key = (\<lambda>_. True), s_check = True, s_new = True, s_set_fd = True,
     s_handshake = True\<rparr>"

definition good_meet :: proxy_event where
  "good_meet = Meet \<lparr>a_backend = True, a_btls = good_tls, a_ftls = good_tls\<rparr>"

definition client_writes :: "bytes \<Rightarrow> proxy_event" where
  "client_writes bs = Poll (quiet_poll\<lparr>p_client := Some (Read_bytes bs)\<rparr>)"

definition machine_writes :: "bytes \<Rightarrow> proxy_event" where
  "machine_writes bs = Poll (quiet_poll\<lparr>p_machine := Some (Read_bytes bs)\<rparr>)"

lemmas sample_events = quiet_poll_def good_tls_def good_meet_def client_writes_def machine_writes_def

lemma sample_relay:
  "client_said [good_meet, client_writes [104, 105], machine_writes [33], client_writes [], good_meet, client_writes [46]]
     (proxy_start True default_opts) = [104, 105, 46]"
  "machine_said [good_meet, client_writes [104, 105], machine_writes [33], client_writes [], good_meet, client_writes [46]]
     (proxy_start True default_opts) = [33]"
  by (simp_all add: sample_events proxy_start_def default_opts_def proxy_step_def proxy_meet_def connect_backend_tls_def
      accept_client_tls_def proxy_poll_def relay_client_def relay_machine_def restart_def andthen_def turn_runs_def Let_def)

theorem proxy_relays_exactly_witness:
  "x_to_backend (proxy_run
       [good_meet, client_writes [104, 105], machine_writes [33], client_writes [], good_meet, client_writes [46]]
       (proxy_start True default_opts)) = [104, 105, 46]
   \<and> x_to_client (proxy_run
       [good_meet, client_writes [104, 105], machine_writes [33], client_writes [], good_meet, client_writes [46]]
       (proxy_start True default_opts)) = [33]"
  using proxy_relays_exactly [of "[good_meet, client_writes [104, 105], machine_writes [33], client_writes [], good_meet, client_writes [46]]"
      True default_opts] sample_relay
  by (simp add: sample_events)

text \<open>A short write is followed by the start of the data again, not by the rest of it.\<close>

lemma data_send_repeats:
  assumes "sum_list ks = length bs" "list_all (\<lambda>k. 0 < k) ks"
  shows "data_send (map Sent ks) bs (length bs) 0 = Some (int (length bs), concat (map (\<lambda>k. take k bs) ks))"
proof -
  have "data_send (map Sent ks) bs n r = Some (r + int n, concat (map (\<lambda>k. take k bs) ks))"
    if "sum_list ks = n" "list_all (\<lambda>k. 0 < k) ks" for n r ks
    using that
  proof (induction ks arbitrary: n r)
    case (Cons k ks)
    then obtain m where n: "n = Suc m" "k \<le> Suc m" by (cases n) auto
    have "data_send (map Sent ks) bs (Suc m - k) (r + int k) = Some (r + int k + int (Suc m - k), concat (map (\<lambda>k. take k bs) ks))"
      using Cons n by (intro Cons.IH) auto
    then show ?case using n by (simp add: min_absorb1 Let_def)
  qed simp
  from this [OF assms] show ?thesis by simp
qed

subsection \<open>Without TLS the proxy always cleans up\<close>

lemma plain_ends:
  assumes "\<not> x_fssl x" "\<not> x_bssl x"
  shows "cleanup_ssl x = x" "\<not> over (x_phase x) \<Longrightarrow> proxy_cleanup_exit n x = proxy_exit n (x\<lparr>x_pid_file := False\<rparr>)"
  using assms by (simp_all add: cleanup_ssl_def proxy_cleanup_exit_def)

definition tidy :: "proxy \<Rightarrow> bool" where
  "tidy x = (\<not> x_fssl x \<and> \<not> x_bssl x \<and> x_phase x \<noteq> Crashed \<and> x_pid_file x = (\<not> over (x_phase x)))"

lemma tidy_exit: "tidy x \<Longrightarrow> \<not> over (x_phase x) \<Longrightarrow> tidy (proxy_cleanup_exit n x)"
  by (simp add: tidy_def plain_ends proxy_exit_def)

lemma tidy_streams [simp]:
  "tidy (x\<lparr>x_to_backend := bs\<rparr>) = tidy x" "tidy (x\<lparr>x_to_client := bs\<rparr>) = tidy x"
  by (simp_all add: tidy_def)

lemma tidy_phase: "tidy x \<Longrightarrow> \<not> over (x_phase x) \<Longrightarrow> ph \<noteq> Crashed \<Longrightarrow> \<not> over ph \<Longrightarrow> tidy (x\<lparr>x_phase := ph\<rparr>)"
  by (simp add: tidy_def)

lemma tidy_relay:
  assumes "tidy x" "x_phase x = Relaying"
  shows "tidy (relay_client a x)" "tidy (relay_machine a x)"
proof -
  have "tidy (proxy_cleanup_exit n (x\<lparr>x_to_client := bs\<rparr>))" for n bs
    using assms by (intro tidy_exit) simp_all
  then show "tidy (relay_client a x)" "tidy (relay_machine a x)"
    using assms tidy_exit [OF assms(1)] tidy_phase [OF assms(1)]
    by (auto simp: tidy_def [of x] relay_client_def relay_machine_def restart_def Let_def
        split: option.split read_answer.split)
qed

lemma tidy_step:
  assumes "tidy x"
  shows "tidy (proxy_step ev x)"
proof (cases "over (x_phase x)")
  case True
  then show ?thesis using assms proxy_step_over by simp
next
  case False
  have poll: "tidy (proxy_poll a x)" if r: "x_phase x = Relaying" for a
    using assms r tidy_exit [OF assms False] tidy_phase [OF assms False] tidy_relay [OF assms r]
      tidy_relay(2) [OF tidy_relay(1) [OF assms r]]
    by (auto simp: tidy_def [of x] proxy_poll_def proxy_cleanup_def restart_def Let_def)
  have "tidy (proxy_meet a x)" for a
    using assms tidy_exit [OF assms False] tidy_phase [OF assms False] False
    by (auto simp: tidy_def [of x] proxy_meet_def connect_backend_tls_def accept_client_tls_def)
  then show ?thesis
    using poll assms tidy_exit [OF assms] by (cases "x_phase x"; cases ev) (auto simp: proxy_step_def)
qed



subsection \<open>With TLS towards the client it cannot end\<close>

text \<open>The connection object has been freed and every way on frees it again.\<close>

definition doomed :: "proxy \<Rightarrow> bool" where
  "doomed x = (x_fssl x \<and> \<not> x_bssl x \<and> x_fconn x = C_freed \<and> x_pid_file x \<and> (x_phase x = Connecting \<or> x_phase x = Crashed))"

lemma doomed_step:
  assumes "doomed x"
  shows "doomed (proxy_step ev x)"
proof (cases "x_phase x = Crashed")
  case True
  then show ?thesis using assms proxy_step_over by simp
next
  case False
  with assms have x: "x_fssl x" "\<not> x_bssl x" "x_fconn x = C_freed" "x_pid_file x" "x_phase x = Connecting"
    by (simp_all add: doomed_def)
  then have exits: "cleanup_ssl x = crash x" "proxy_cleanup_exit n x = crash x" for n
    by (simp_all add: proxy_cleanup_exit_def cleanup_ssl_def crash_def)
  have c: "over (x_phase (crash x))" "doomed (crash x)" using x by (simp_all add: crash_def doomed_def)
  have "doomed (proxy_meet a x)" for a
    using x exits c unfolding proxy_meet_def connect_backend_tls_def accept_client_tls_def
    by (auto simp: Let_def) (auto simp: crash_def doomed_def andthen_def)
  then show ?thesis using assms exits c x by (cases ev) (simp_all add: proxy_step_def)
qed

definition tls_opts :: proxy_opts where
  "tls_opts = default_opts\<lparr>q_fssl := True\<rparr>"

text \<open>A process that goes on keeps its pid file.\<close>

definition keeps_pid :: "proxy \<Rightarrow> proxy \<Rightarrow> bool" where
  "keeps_pid x y = (over (x_phase y) \<or> x_pid_file y = x_pid_file x)"

lemma over_andthen: "(\<And>z. over (x_phase (f z))) \<Longrightarrow> over (x_phase (andthen x f))"
  by (simp add: andthen_def)

lemma over_ends [simp]:
  "over (x_phase (proxy_cleanup_exit n x))" "over (x_phase (crash x))" "over (x_phase (proxy_exit n x))"
  "over (x_phase (proxy_cleanup x))" "over (x_phase (andthen x (proxy_cleanup_exit n)))"
  "over (x_phase (andthen x proxy_cleanup))" "over (x_phase (andthen x (proxy_exit n)))"
  by (simp_all add: proxy_ends Let_def)

lemma pid_ends [simp]:
  "x_pid_file (cleanup_ssl x) = x_pid_file x" "x_pid_file (restart x) = x_pid_file x"
  "x_pid_file (ssl_teardown_b x) = x_pid_file x" "x_pid_file (ssl_teardown_f x) = x_pid_file x"
  by (simp_all add: proxy_ends Let_def)

lemma pid_andthen: "(\<And>z. x_pid_file (f z) = x_pid_file z) \<Longrightarrow> x_pid_file (andthen x f) = x_pid_file x"
  by (simp add: andthen_def)

lemma keeps_andthen: "keeps_pid x y \<Longrightarrow> (\<And>z. keeps_pid z (f z)) \<Longrightarrow> keeps_pid x (andthen y f)"
  by (auto simp: keeps_pid_def andthen_def)

lemma keeps_meet: "keeps_pid x (proxy_meet a x)"
proof -
  have "keeps_pid x (connect_backend_tls t x)" for t x
    by (simp add: connect_backend_tls_def keeps_pid_def Let_def)
  moreover have "keeps_pid x (accept_client_tls t x)" for t x
    unfolding accept_client_tls_def by (auto intro!: keeps_andthen simp: Let_def) (auto simp: keeps_pid_def)
  ultimately show ?thesis
    unfolding proxy_meet_def by (auto intro!: keeps_andthen) (auto simp: keeps_pid_def)
qed

lemma keeps_relay: "keeps_pid x (relay_client a x)" "keeps_pid x (relay_machine a x)"
  by (auto simp: keeps_pid_def relay_client_def relay_machine_def pid_andthen Let_def
      split: option.split read_answer.split)

lemma pid_file_step: "keeps_pid x (proxy_step ev x)"
proof -
  have "keeps_pid x (proxy_poll a x)" for a
    using keeps_relay [of x a] keeps_relay(2) [of "relay_client a x" a] by (auto simp: keeps_pid_def proxy_poll_def Let_def)
  then show ?thesis
    using keeps_meet [of x] by (cases "x_phase x"; cases ev) (auto simp: keeps_pid_def proxy_step_def)
qed

lemma pid_file_run: "\<not> over (x_phase (proxy_run evs x)) \<Longrightarrow> x_pid_file (proxy_run evs x) = x_pid_file x"
proof (induction evs arbitrary: x)
  case (Cons ev evs)
  then have "x_pid_file (proxy_run evs (proxy_step ev x)) = x_pid_file (proxy_step ev x)" by simp
  moreover have "\<not> over (x_phase (proxy_step ev x))"
    using Cons.prems proxy_run_over [of "proxy_step ev x" evs] by auto
  ultimately show ?case using pid_file_step [of x ev] by (simp add: keeps_pid_def)
qed simp

lemma doomed_run: "doomed x \<Longrightarrow> doomed (proxy_run evs x)"
  by (induction evs arbitrary: x) (simp_all add: doomed_step)

text \<open>
  C30: When the proxy speaks TLS to the client and plain text to the tunnel and is relaying,
  the end of the tunnel is the end of it: if the tunnel hangs up the process crashes, its
  pid file left behind; if the tunnel closes its stream the proxy goes back to connect
  again, but the client's TLS object has been freed and its variable not cleared, so that
  from then on, whatever happens, it either still waits for its first connection or has
  crashed, and the pid file is never removed.
\<close>

theorem tunnel_end_crashes:
  assumes "q_fssl q" "\<not> q_bssl q" "x_phase (proxy_run evs (proxy_start True q)) = Relaying"
    and "\<not> p_failed hup" "p_bhup hup"
    and "turn_runs eof (proxy_run evs (proxy_start True q))" "p_client eof = None" "p_machine eof = Some (Read_bytes [])"
  shows "x_phase (proxy_step (Poll hup) (proxy_run evs (proxy_start True q))) = Crashed
    \<and> x_pid_file (proxy_step (Poll hup) (proxy_run evs (proxy_start True q)))
    \<and> x_phase (proxy_step (Poll eof) (proxy_run evs (proxy_start True q))) = Connecting
    \<and> x_phase (proxy_run later (proxy_step (Poll eof) (proxy_run evs (proxy_start True q)))) \<in> {Connecting, Crashed}
    \<and> x_pid_file (proxy_run later (proxy_step (Poll eof) (proxy_run evs (proxy_start True q))))"
proof -
  define x where "x = proxy_run evs (proxy_start True q)"
  have "conn_ok x" unfolding x_def using conn_ok_run conn_ok_start by blast
  moreover have ph: "x_phase x = Relaying" using assms(3) by (simp add: x_def)
  moreover have opt: "x_fssl x" "\<not> x_bssl x" using assms(1,2) by (simp_all add: x_def proxy_start_def)
  ultimately have con: "x_fconn x = C_live" "x_bconn x = C_null" by (simp_all add: conn_ok_def)
  have pid: "x_pid_file x" using ph pid_file_run [of evs "proxy_start True q"] by (simp add: x_def proxy_start_def)
  note state = ph opt con pid
  have "x_phase (proxy_step (Poll hup) x) = Crashed \<and> x_pid_file (proxy_step (Poll hup) x)"
    using state assms(4,5) by (simp add: proxy_step_def proxy_poll_def proxy_ends Let_def)
  moreover have eof: "doomed (proxy_step (Poll eof) x) \<and> x_phase (proxy_step (Poll eof) x) = Connecting"
    using state assms(6-8)
    by (simp add: x_def [symmetric] turn_runs_def proxy_step_def proxy_poll_def relay_client_def relay_machine_def proxy_ends
        doomed_def Let_def)
  moreover have "doomed (proxy_run later (proxy_step (Poll eof) x))" using eof doomed_run by blast
  ultimately show ?thesis by (auto simp: x_def doomed_def)
qed

lemma tls_relaying:
  "x_phase (proxy_run [good_meet] (proxy_start True tls_opts)) = Relaying"
  by (simp add: sample_events proxy_start_def tls_opts_def default_opts_def proxy_step_def proxy_meet_def ssl_ctx_new_def
      connect_backend_tls_def accept_client_tls_def ssl_new_conn_def andthen_def Let_def)

theorem tunnel_end_crashes_witness:
  "x_phase (proxy_step (Poll (quiet_poll\<lparr>p_bhup := True\<rparr>)) (proxy_run [good_meet] (proxy_start True tls_opts))) = Crashed
   \<and> x_phase (proxy_step (machine_writes []) (proxy_run [good_meet] (proxy_start True tls_opts))) = Connecting
   \<and> x_pid_file (proxy_run [good_meet] (proxy_step (machine_writes []) (proxy_run [good_meet] (proxy_start True tls_opts))))"
  using tunnel_end_crashes [of tls_opts "[good_meet]" "quiet_poll\<lparr>p_bhup := True\<rparr>"
      "quiet_poll\<lparr>p_machine := Some (Read_bytes [])\<rparr>" "[good_meet]"] tls_relaying
  by (simp add: turn_runs_def tls_opts_def default_opts_def machine_writes_def quiet_poll_def)

end
