(* ===== verification/Setup.thy ===== *)
theory Setup
  imports User Dbsource
begin

text \<open>
  The life of the database module and the first password. db_sources/mysql/zrpcdb.c opens and
  closes the connection pool and keeps three tables that all its users share; src/utils/dbinit.c
  asks for the password of the first account. Logging, the database client and the terminal
  are parameters. src/bin/utility.c encrypts through OpenSSL.
\<close>

subsection \<open>Opening and closing: db_sources/mysql/zrpcdb.c\<close>

text \<open>
  The variables of the module's file: they exist once, however many copies of the table of
  functions are in use. \<open>k_tables\<close> says whether the tables of the conversions, callbacks and
  parameters of pending queries exist, \<open>k_events\<close> whether its two handlers are registered.
\<close>

record source_vars =
  k_count :: int
  k_events :: bool
  k_tables :: bool

definition source_vars_new :: source_vars where
  "source_vars_new = \<lparr>k_count = 0, k_events = False, k_tables = False\<rparr>"

record db_client =
  l_log :: bool
  l_pool :: bool
  l_connect :: bool

definition source_config :: "env \<Rightarrow> string \<Rightarrow> cfg_file \<Rightarrow> zentific_config \<Rightarrow> DB_config option" where
  "source_config e dport opts conf =
     (case db_config_parse e dport opts (DB_MODULES_PATH conf) of
        None \<Rightarrow> None
      | Some c \<Rightarrow>
          if backend c = None \<or> username c = None \<or> password c = None \<or> database c = None then None
          else Some (if conns c < 5 then c\<lparr>conns := 5\<rparr> else c))"

text \<open>The configuration the pool was opened with, or \<open>None\<close> when it could not be.\<close>

definition source_init ::
  "env \<Rightarrow> string \<Rightarrow> cfg_file \<Rightarrow> db_client \<Rightarrow> zentific_config \<Rightarrow> source_vars \<Rightarrow> DB_config option \<times> source_vars" where
  "source_init e dport opts l conf k =
     (if \<not> l_log l then (None, k)
      else
        (case source_config e dport opts conf of
           None \<Rightarrow> (None, k)
         | Some c \<Rightarrow>
             if \<not> l_pool l then (None, k)
             else if \<not> l_connect l then (None, k)
             else
               (let n = k_count k; k = k\<lparr>k_count := n + 1\<rparr>
                in (Some c, if n = 0 then k\<lparr>k_events := True, k_tables := True\<rparr> else k))))"

definition source_uninit :: "source_vars \<Rightarrow> source_vars" where
  "source_uninit k =
     (let k = k\<lparr>k_count := k_count k - 1\<rparr>;
          k = (if k_count k = 0 then k\<lparr>k_events := False\<rparr> else k)
      in k\<lparr>k_tables := False\<rparr>)"

definition init_cb :: "cstr \<Rightarrow> 'd \<Rightarrow> 'd \<times> bool" where
  "init_cb err d = (d, err = None)"

definition db_source_init_cb :: "'d \<times> bool \<Rightarrow> 'd \<Rightarrow> 'd" where
  "db_source_init_cb answer db = (let (data, success) = answer in if success then data else db)"

definition db_uninit :: "bool option \<Rightarrow> source_vars \<Rightarrow> int \<times> source_vars" where
  "db_uninit db k =
     (case db of
        None \<Rightarrow> (1, k)
      | Some initialized \<Rightarrow> (0, if initialized then source_uninit k else k))"

subsection \<open>Reloads\<close>

text \<open>
  A reload of the server opens the module again and, when that has succeeded, closes the copy
  that was in use before: \<open>modules_reload_begin\<close> and \<open>modules_reload_handler\<close> of server.c. The
  second component of an attempt is the error the client reports when it has connected.
\<close>

type_synonym attempt = "db_client \<times> cstr"

definition source_reload :: "env \<Rightarrow> string \<Rightarrow> cfg_file \<Rightarrow> zentific_config \<Rightarrow> source_vars \<Rightarrow> attempt \<Rightarrow> source_vars" where
  "source_reload e dport opts conf k a =
     (let (l, err) = a; (c, k') = source_init e dport opts l conf k in
      if c = None then snd (db_uninit (Some False) k')
      else if snd (init_cb err ()) then snd (db_uninit (Some True) k')
      else k')"

definition accepted :: "env \<Rightarrow> string \<Rightarrow> cfg_file \<Rightarrow> zentific_config \<Rightarrow> db_client \<Rightarrow> bool" where
  "accepted e dport opts conf l \<longleftrightarrow> l_log l \<and> l_pool l \<and> l_connect l \<and> source_config e dport opts conf \<noteq> None"

definition completes :: "env \<Rightarrow> string \<Rightarrow> cfg_file \<Rightarrow> zentific_config \<Rightarrow> attempt \<Rightarrow> bool" where
  "completes e dport opts conf a \<longleftrightarrow> accepted e dport opts conf (fst a) \<and> snd a = None"

lemma source_init_accepted:
  "source_init e dport opts l conf k =
     (if accepted e dport opts conf l
      then (source_config e dport opts conf,
            if k_count k = 0 then k\<lparr>k_count := 1, k_events := True, k_tables := True\<rparr> else k\<lparr>k_count := k_count k + 1\<rparr>)
      else (None, k))"
  by (auto simp: source_init_def accepted_def Let_def split: option.split)

lemma source_reload_keeps:
  assumes "0 < k_count k"
  shows "0 < k_count (source_reload e dport opts conf k a)"
    "k_events (source_reload e dport opts conf k a) = k_events k"
    "k_tables (source_reload e dport opts conf k a) = (k_tables k \<and> \<not> completes e dport opts conf a)"
  using assms
  by (auto simp: source_reload_def source_init_accepted db_uninit_def init_cb_def source_uninit_def completes_def
      accepted_def Let_def split: prod.split)

lemma source_reloads_keep:
  assumes "0 < k_count k"
  shows "0 < k_count (foldl (source_reload e dport opts conf) k as)
    \<and> k_events (foldl (source_reload e dport opts conf) k as) = k_events k
    \<and> k_tables (foldl (source_reload e dport opts conf) k as) = (k_tables k \<and> \<not> list_ex (completes e dport opts conf) as)"
  using assms
proof (induction as arbitrary: k)
  case (Cons a as)
  then show ?case using Cons.IH [of "source_reload e dport opts conf k a"] source_reload_keeps [of k] by auto
qed simp

text \<open>
  C29: Once the database module has been opened it stays in use through any sequence of
  reloads, its event handlers registered; but the first reload that completes closes the
  old copy and with it the tables of pending queries, which all copies share, and none of
  the following reloads makes new ones: the tables exist exactly as long as no reload has
  completed.
\<close>

theorem reload_loses_tables:
  assumes "fst (source_init e dport opts l conf source_vars_new) = Some c"
  shows "5 \<le> conns c
    \<and> 0 < k_count (foldl (source_reload e dport opts conf) (snd (source_init e dport opts l conf source_vars_new)) as)
    \<and> k_events (foldl (source_reload e dport opts conf) (snd (source_init e dport opts l conf source_vars_new)) as)
    \<and> (k_tables (foldl (source_reload e dport opts conf) (snd (source_init e dport opts l conf source_vars_new)) as)
        \<longleftrightarrow> \<not> list_ex (completes e dport opts conf) as)"
proof -
  have acc: "accepted e dport opts conf l" and c: "source_config e dport opts conf = Some c"
    using assms by (auto simp: source_init_accepted split: if_splits)
  have "5 \<le> conns c" using c by (auto simp: source_config_def split: option.splits if_splits)
  then show ?thesis
    using acc source_reloads_keep [of "snd (source_init e dport opts l conf source_vars_new)" e dport opts conf as]
    by (simp add: source_init_accepted source_vars_new_def)
qed

subsection \<open>The first password: src/utils/dbinit.c\<close>

text \<open>
  What the user types, a null pointer where the terminal cannot be read, which the length is
  then taken of. \<open>Left_off\<close> is a dialogue that waits for more.
\<close>

datatype 'a dialogue = Left_off | Null_read | Got 'a "cstr list"

fun ask_password :: "cstr list \<Rightarrow> string dialogue" where
  "ask_password [] = Left_off"
| "ask_password (None # ps) = Null_read"
| "ask_password (Some p # ps) = (if length p < MIN_PASSWD_LEN then ask_password ps else Got p ps)"

lemma ask_password_shorter: "ask_password ps = Got p qs \<Longrightarrow> length qs < length ps"
  by (induction ps rule: ask_password.induct) (auto split: if_splits)

text \<open>The two entries are compared, and on a difference both are asked for again.\<close>

function choose_password :: "cstr list \<Rightarrow> string dialogue" where
  "choose_password ps =
     (case ask_password ps of
        Got passone qs \<Rightarrow>
          (case ask_password qs of
             Got passwd rs \<Rightarrow> if passone = passwd then Got passwd rs else choose_password rs
           | Left_off \<Rightarrow> Left_off
           | Null_read \<Rightarrow> Null_read)
      | Left_off \<Rightarrow> Left_off
      | Null_read \<Rightarrow> Null_read)"
  by pat_completeness auto
termination
  by (relation "measure length") (auto dest!: ask_password_shorter)

declare choose_password.simps [simp del]

text \<open>
  \<open>stored\<close> says whether the callback has stored the database by the time the main loop
  ends. The context of the one call is zeroed.
\<close>

datatype setup_end = Setup_exit int | Setup_waiting | Setup_crash

definition dbinit ::
  "env \<Rightarrow> string \<Rightarrow> cfg_file \<Rightarrow> db_files \<Rightarrow> bool \<Rightarrow> bool \<Rightarrow> bool \<Rightarrow> cstr list \<Rightarrow> smod \<Rightarrow> setup_end \<times> smod" where
  "dbinit e prefix opts files logdom privileged stored typed m =
     (if \<not> logdom then (Setup_exit 1, m)
      else if \<not> privileged then (Setup_exit 1, m)
      else
        (let conf = config_defaults_fill prefix config_new in
         case opts (CONF_FILE conf) of
           None \<Rightarrow> (Setup_exit 1, m)
         | Some lines \<Rightarrow>
             (case config_parse_all e lines conf of
                None \<Rightarrow> (Setup_exit 1, m)
              | Some conf \<Rightarrow>
                  (case db_init files conf of
                     Db_refused \<Rightarrow> (Setup_exit 1, m)
                   | Db_crash \<Rightarrow> (Setup_crash, m)
                   | Db_table _ \<Rightarrow>
                       if \<not> stored then (Setup_exit 1, m)
                       else
                         (case choose_password typed of
                            Left_off \<Rightarrow> (Setup_waiting, m)
                          | Null_read \<Rightarrow> (Setup_crash, m)
                          | Got passwd _ \<Rightarrow>
                              (let m = snd (z_setPasswordByName e (Some ''admin'') (Some passwd) m)
                               in (Setup_exit (if c_error m \<noteq> None then 1 else 0), m)))))))"

subsection \<open>src/bin/utility.c\<close>

text \<open>What OpenSSL and the file system answer; the encryption returns the size or -1.\<close>

record rsa_host =
  r_open :: "string \<Rightarrow> bool"
  r_key :: "string \<Rightarrow> bool"
  r_memory :: bool
  r_encrypt :: "string \<Rightarrow> string \<Rightarrow> int \<times> 8 word list"

definition encryptString :: "rsa_host \<Rightarrow> cstr \<Rightarrow> cstr \<Rightarrow> (int \<times> 8 word list) option" where
  "encryptString h keypath input =
     (case keypath of
        None \<Rightarrow> None
      | Some path \<Rightarrow>
          (case input of
             None \<Rightarrow> None
           | Some inp \<Rightarrow>
               if \<not> r_open h path then None
               else if \<not> r_key h path then None
               else if \<not> r_memory h then None
               else
                 (let (enc_size, enc) = r_encrypt h path inp
                  in if enc_size < 0 then None else Some (enc_size, enc))))"

subsection \<open>Which password is set\<close>

text \<open>The entries that are long enough, two by two: the first pair that agrees.\<close>

fun pairs :: "'a list \<Rightarrow> ('a \<times> 'a) list" where
  "pairs (a # b # xs) = (a, b) # pairs xs"
| "pairs _ = []"

definition long_enough :: "string \<Rightarrow> bool" where
  "long_enough p \<longleftrightarrow> MIN_PASSWD_LEN \<le> length p"

definition typed_twice :: "string list \<Rightarrow> (string \<times> string) option" where
  "typed_twice ps = List.find (\<lambda>(a, b). a = b) (pairs (filter long_enough ps))"

lemma ask_password_filter:
  "(case ask_password (map Some ps) of
      Got p qs \<Rightarrow> \<exists>rs. qs = map Some rs \<and> filter long_enough ps = p # filter long_enough rs \<and> long_enough p
    | Left_off \<Rightarrow> filter long_enough ps = []
    | Null_read \<Rightarrow> False)"
  by (induction ps) (auto simp: long_enough_def split: dialogue.split)

lemma choose_password_typed:
  "case choose_password (map Some ps) of
     Got p qs \<Rightarrow> typed_twice ps = Some (p, p) \<and> long_enough p
   | Left_off \<Rightarrow> typed_twice ps = None
   | Null_read \<Rightarrow> False"
proof (induction ps rule: measure_induct_rule [of length])
  case (less ps)
  show ?case
  proof (cases "ask_password (map Some ps)")
    case Left_off
    then show ?thesis
      using ask_password_filter [of ps] by (subst choose_password.simps) (simp add: typed_twice_def)
  next
    case Null_read
    then show ?thesis using ask_password_filter [of ps] by simp
  next
    case (Got p qs)
    then obtain rs where qs: "qs = map Some rs" "filter long_enough ps = p # filter long_enough rs" "long_enough p"
      using ask_password_filter [of ps] by auto
    show ?thesis
    proof (cases "ask_password qs")
      case Left_off
      then show ?thesis
        using Got qs ask_password_filter [of rs]
        by (subst choose_password.simps) (simp add: typed_twice_def)
    next
      case Null_read
      then show ?thesis using qs ask_password_filter [of rs] by simp
    next
      case (Got p' qs')
      then obtain rs' where rs: "qs' = map Some rs'" "filter long_enough rs = p' # filter long_enough rs'" "long_enough p'"
        using ask_password_filter [of rs] qs(1) by auto
      have "length qs' < length (map Some ps)"
        using ask_password_shorter [OF Got] ask_password_shorter [OF \<open>ask_password (map Some ps) = Got p qs\<close>] by simp
      then have IH: "case choose_password (map Some rs') of
           Got p qs \<Rightarrow> typed_twice rs' = Some (p, p) \<and> long_enough p
         | Left_off \<Rightarrow> typed_twice rs' = None | Null_read \<Rightarrow> False"
        using less rs(1) by simp
      have step: "typed_twice ps = (if p = p' then Some (p, p') else typed_twice rs')"
        by (simp add: typed_twice_def qs(2) rs(2))
      show ?thesis
        using IH step rs \<open>ask_password (map Some ps) = Got p qs\<close> Got by (subst choose_password.simps) (auto split: dialogue.splits)
    qed
  qed
qed

lemma choose_password_Got: "typed_twice ps = Some (p, q) \<Longrightarrow> p = q \<and> 8 \<le> length p \<and> (\<exists>rest. choose_password (map Some ps) = Got p rest)"
  using choose_password_typed [of ps]
  by (cases "choose_password (map Some ps)") (auto simp: long_enough_def MIN_PASSWD_LEN_def)

lemma db_setPasswordByName_query: "db_setPasswordByName nm h s = DbQuery (query_of (db_setPasswordByName nm h s))"
  by (simp add: db_setPasswordByName_def)

lemma admin_password:
  assumes "strlen_spec e" "esql_accepts e (m_qid m)" "c_error m = None" "\<not> c_ret_set m" "8 \<le> length p"
  shows "\<exists>salt hash. m_out (snd (z_setPasswordByName e (Some ''admin'') (Some p) m))
        = m_out m @ [OQuery (m_qid m) (query_of (db_setPasswordByName (Some ''admin'') (Some hash) (Some salt)))]
      \<and> c_error (snd (z_setPasswordByName e (Some ''admin'') (Some p) m)) = None
      \<and> sha1_buffer (Some salt) (Some p) = Some hash"
proof -
  obtain salt where s: "generate_random_salt e 4 = Some salt" using generate_random_salt_Some [of 4 e] by auto
  obtain hash where h: "sha1_buffer (Some salt) (Some p) = Some hash"
    using assms(5) by (cases p) (auto simp: sha1_buffer_salted)
  have ok: "\<not> password_too_short e p" "\<not> name_too_long e ''admin''"
    using assms(1,5) strlen_longer [OF assms(1), of 255 "''admin''"]
    by (auto simp: password_too_short_def name_too_long_def MIN_PASSWD_LEN_def strlen_shorter)
  have set: "z_setPasswordByName e (Some ''admin'') (Some p) m
      = CTX_RETURN (db_call e (db_setPasswordByName (Some ''admin'') (Some hash) (Some salt)) m)"
    using ok by (simp add: z_setPasswordByName_def s DEFAULT_SALT_LENGTH_def h)
  obtain q where q: "db_setPasswordByName (Some ''admin'') (Some hash) (Some salt) = DbQuery q" "query_of (DbQuery q) = q"
    using db_setPasswordByName_query by (metis query_of.simps(1))
  have "m_out (snd (z_setPasswordByName e (Some ''admin'') (Some p) m))
      = m_out m @ [OQuery (m_qid m) (query_of (db_setPasswordByName (Some ''admin'') (Some hash) (Some salt)))]"
    "c_error (snd (z_setPasswordByName e (Some ''admin'') (Some p) m)) = None"
    using assms(2-4) by (simp_all add: set q CTX_RETURN_out)
  with h show ?thesis by blast
qed

text \<open>
  C24: The set-up program gives the first account exactly the password that was confirmed: of
  the entries of at least eight characters, taken two by two, it is that of the first pair
  that agrees; one query stores its salted digest and the program ends with success. While
  no pair agrees it keeps asking and stores nothing.
\<close>

theorem setup_password:
  assumes "strlen_spec e" "esql_accepts e (m_qid m)" "c_error m = None" "\<not> c_ret_set m"
    and "opts (CONF_FILE (config_defaults_fill prefix config_new)) = Some lines"
    and "config_parse_all e lines (config_defaults_fill prefix config_new) = Some conf" "db_init files conf = Db_table table"
    and "typed_twice ps = Some (p, q)" "typed_twice ps' = None"
  shows "(\<exists>salt hash m'. dbinit e prefix opts files True True True (map Some ps) m = (Setup_exit 0, m')
      \<and> m_out m' = m_out m @ [OQuery (m_qid m) (query_of (db_setPasswordByName (Some ''admin'') (Some hash) (Some salt)))]
      \<and> sha1_buffer (Some salt) (Some p) = Some hash)
    \<and> p = q \<and> 8 \<le> length p
    \<and> dbinit e prefix opts files True True True (map Some ps') m = (Setup_waiting, m)"
proof -
  obtain rest where g: "p = q" "8 \<le> length p" "choose_password (map Some ps) = Got p rest"
    using choose_password_Got [OF assms(8)] by auto
  have w: "choose_password (map Some ps') = Left_off"
    using choose_password_typed [of ps'] assms(9) by (cases "choose_password (map Some ps')") auto
  have "dbinit e prefix opts files True True True (map Some ps) m =
      (let m = snd (z_setPasswordByName e (Some ''admin'') (Some p) m) in (Setup_exit (if c_error m \<noteq> None then 1 else 0), m))"
    using assms(5-7) g by (simp add: dbinit_def)
  moreover have "dbinit e prefix opts files True True True (map Some ps') m = (Setup_waiting, m)"
    using assms(5-7) w by (simp add: dbinit_def)
  ultimately show ?thesis
    using admin_password [OF assms(1-4) g(2)] g(1,2) by (auto simp: Let_def)
qed

definition setup_files :: db_files where
  "setup_files = \<lparr>f_list = Some [''/zrpcdb.so''], f_load = (\<lambda>_. True), f_memory = True,
     f_symbol = (\<lambda>_ _. True), f_init = (\<lambda>_. True)\<rparr>"

lemma setup_files_start: "db_init setup_files (config_defaults_fill ''/opt'' config_new) = Db_table (rev db_loads)"
  by (simp add: db_init_def setup_files_def db_sources_cb_def db_initialize_def LOAD_Some config_defaults_fill_def config_new_def fill_def)

lemma setup_typed:
  "typed_twice [''short'', ''password1'', ''password2'', ''longenough'', ''no'', ''longenough''] = Some (''longenough'', ''longenough'')"
  "typed_twice [''short'', ''password1'', ''password2''] = None"
  by (simp_all add: typed_twice_def long_enough_def MIN_PASSWD_LEN_def)

theorem setup_password_witness:
  "\<exists>m'. dbinit sample_env ''/opt'' (\<lambda>_. Some []) setup_files True True True
       (map Some [''short'', ''password1'', ''password2'', ''longenough'', ''no'', ''longenough'']) sample_mod = (Setup_exit 0, m')
     \<and> length (m_out m') = length (m_out sample_mod) + 1"
proof -
  have p: "config_parse_all sample_env [] (config_defaults_fill ''/opt'' config_new) = Some (config_defaults_fill ''/opt'' config_new)"
    by simp
  have m: "esql_accepts sample_env (m_qid sample_mod)" "c_error sample_mod = None" "\<not> c_ret_set sample_mod"
    by (simp_all add: sample_env_simps sample_mod_def)
  show ?thesis
    using setup_password [OF sample_env_specs(2) m refl p setup_files_start setup_typed] by auto
qed

definition db_lines :: "(int \<times> string \<times> string) list" where
  "db_lines = [(1, ''HOSTNAME'', ''db''), (2, ''USERNAME'', ''zrpc''), (3, ''PASSWORD'', ''secret''), (4, ''DATABASE'', ''zentific'')]"

definition good_client :: db_client where
  "good_client = \<lparr>l_log = True, l_pool = True, l_connect = True\<rparr>"

lemma db_lines_accepted: "source_config sample_env ''3306'' (\<lambda>_. Some db_lines) config_new = Some
    \<lparr>username = Some ''zrpc'', password = Some ''secret'', database = Some ''zentific'', backend = Some ''db:3306'',
     loglevel = LOG_NONE, conns = 5\<rparr>"
  by (simp add: source_config_def db_config_parse_def db_lines_def db_config_parse_cb_def db_config_calloc_def
      DEFAULT_CONNS_def streq_iff [OF sample_env_specs(1)] Let_def)

theorem reload_loses_tables_witness:
  "\<not> k_tables (foldl (source_reload sample_env ''3306'' (\<lambda>_. Some db_lines) config_new)
      (snd (source_init sample_env ''3306'' (\<lambda>_. Some db_lines) good_client config_new source_vars_new))
      [(good_client, Some ''refused''), (good_client, None), (good_client, Some ''refused'')])
   \<and> k_tables (snd (source_init sample_env ''3306'' (\<lambda>_. Some db_lines) good_client config_new source_vars_new))"
proof -
  have acc: "accepted sample_env ''3306'' (\<lambda>_. Some db_lines) config_new good_client"
    by (simp add: accepted_def good_client_def db_lines_accepted)
  then obtain c where c: "fst (source_init sample_env ''3306'' (\<lambda>_. Some db_lines) good_client config_new source_vars_new) = Some c"
    by (auto simp: source_init_accepted db_lines_accepted)
  show ?thesis
    using reload_loses_tables [OF c, of "[(good_client, Some ''refused''), (good_client, None), (good_client, Some ''refused'')]"]
      reload_loses_tables [OF c, of "[]"] acc
    by (simp add: completes_def)
qed

end
