(* ===== verification/Spec2Isabelle.thy ===== *)
theory Spec2Isabelle
  imports Gate Login Group Requests Privs Vm Node Storage Fetch Teardown Server Proxy Setup
begin

text \<open>
  ezrpc: the RPC server of Zentific (src/src/bin, src/src/servlets), the MySQL module it
  stores everything in (src/db_sources/mysql), and the TLS proxy for consoles (src/src/utils).

  \<^bold>\<open>The program.\<close> A client's call arrives at the gate (\<open>session_pre_call\<close>,
  functions-session.c), which finds the client's address and session and decides whether the
  method may run. A method checks the caller's privileges (include/servlets.h) and calls a
  servlet function (src/src/servlets/functions). Nothing blocks: a servlet function makes a
  query or another asynchronous request, chains a callback and returns; the callback
  (functions_cb.c) leaves the answer in the table of parameters, rewinds and resumes the
  call, and the function runs again from its start with a higher \<open>ctx->count\<close>, which selects
  the next step. A query's answer comes through \<open>event_cb\<close> (zrpcdb.c); a call ends in one of
  the two handlers of loop.c. Work for each of many objects is done by contexts of their own,
  which count down the counter of the call that started them.

  \<^bold>\<open>How it is modelled.\<close> A call is one record, \<open>smod\<close>: the context (\<open>c_\<close>), its module and its
  session (\<open>m_\<close>, \<open>s_\<close>). Every function of the code is a function from this record to the
  result and the new record. What leaves the program (queries, resuming, jobs, processes,
  crashes) is appended to \<open>m_out\<close> in order. Code outside the repository (Azy, Esskyuehl,
  Eina, Ecore, Zshare, PAM, OpenSSL, the clock, files, sockets) is a field of \<open>env\<close> or of a
  smaller record, or an answer given to a step; what is relied on is a named hypothesis
  (\<open>strcmp_spec\<close>, \<open>strlen_spec\<close>, \<open>esql_accepts\<close>), which \<open>sample_env\<close> satisfies. A C string is
  \<open>cstr\<close>, an option; \<open>None\<close> is the null pointer. Integers that can overflow are reduced with
  \<open>s32\<close> or kept as words. The use of a null pointer is the effect \<open>OCrash\<close>.

  \<^bold>\<open>The theories.\<close>
  \<^item> Prelude, Env: C strings, integer widths; the code that is only called. Zconf: zconf.c and
    the configuration of the database module.
  \<^item> Ctx, Callbacks: the record of a call, the macros of include/functions.h and every
    callback of functions_cb.c. Locales \<open>live_callback\<close> and \<open>rewinding\<close>: a callback of a call
    that is over does nothing; one that rewinds resumes exactly once.
  \<^item> Db: the query macros, \<open>event_cb\<close> with the database's callbacks, the end of a call
    (loop.c). Locale \<open>finishers\<close>: a call is answered once. Frame: what each primitive keeps.
  \<^item> SqlFmt, the ten theories \<open>Sql_\<close>, Requests: every function of db_sources/mysql that makes a
    query, as that query; \<open>req_ok\<close> (conversions and arguments agree in number and kind) and
    \<open>req_quoted\<close> (text only inside quoted literals) decided over all of them. Fetch: the
    three queries a virtual machine is put together from.
  \<^item> Dbsource: db_sources.c, the table of database functions.
  \<^item> Session, Precall, Gate: functions-session.c. Gate is an inductive relation over every
    schedule of entering the gate and of answers, with the invariant that a call is let
    through only with a checked, unexpired, authenticated session.
  \<^item> Privs: the privilege checks of servlets.h, run against any answers of the database;
    locale \<open>owned_resource\<close>, interpreted on virtual machines and nodes.
  \<^item> Sha1, Auth, Login, User, Group: sha1.c and sha1wrap.c, refined to FIPS 180-1 (locale
    \<open>streaming_hash\<close>); functions-auth.c, servlet-functions.c, functions-user.c and
    functions-group.c.
  \<^item> Zentific, Resource: functions-zentific.c, functions-log.c, functions-debug.c, and the
    one-query functions of the other files.
  \<^item> Runs, Join: a run of a servlet function across its suspensions (locale \<open>silent\<close>: one that
    never produces a value), and a call that waits for contexts of its own (locale \<open>join\<close>).
  \<^item> Vm, Device, Jobs, Platform, Node, Network, Storage: the files functions-vm.c,
    functions-vif.c with functions-disk.c, functions-jobs.c and so on.
  \<^item> Console, Teardown: functions-console.c with loop.c's handler of an exited console; the
    locale \<open>lock_opener\<close> covers both kinds of connection.
  \<^item> Server: server.c and init.c, a step function over signals, calls and answers. Proxy:
    zproxy.c, a step function over what connects, hangs up, is read and is written. Setup:
    opening and closing of the database module (zrpcdb.c) across reloads, the set-up program
    dbinit.c and utility.c.

  \<^bold>\<open>What is shown.\<close> Access: who passes the gate and the privilege checks, what is refused and
  how, which password is accepted. Calls: each is answered once, values arrive, suspended
  calls survive a reload, reports and listings are complete. Database: which requests are
  well formed and quoted, which are not. Hash: the digest is SHA-1. Proxy: it passes on
  exactly what it reads, and without TLS it always cleans up. Where the code does not do what
  it means to, the theorem states what it does: consoles that never connect, calls that are
  never answered, a proxy that frees an object twice, a reload that loses the tables of the
  database module.

  \<^bold>\<open>Bounds.\<close> No definition uses fuel. \<open>port_loop\<close> (Console) is a partial function, as the
  search of a range that ends at the last port wraps and may not end; \<open>choose_password\<close> ends
  by the entries that are left, \<open>sha_pad\<close> by the
  distance of the fill level to 56 modulo 64. Bounds in hypotheses, such as fewer than \<open>2 ^ 32\<close>
  machines in a report, keep the counters of the code from wrapping.

  \<^bold>\<open>Not modelled.\<close> Memory: freeing is modelled where a use after it is reachable, in the
  handlers of contexts and in the proxy, otherwise not. Logging, usage texts and printing.
  xen-detect.c (the cpuid instruction, compiled only on request), sigsegv.c (backtraces) and
  readpassphrase.c (terminal input, from OpenBSD). Code under \<open>#if 0\<close>.
\<close>

section \<open>The table of database functions and its callers\<close>


text \<open>A module with every symbol, found under its configured name.\<close>

definition sample_files :: db_files where
  "sample_files = \<lparr>f_list = Some [''/mysql.so''], f_load = (\<lambda>_. True), f_memory = True,
     f_symbol = (\<lambda>_ _. True), f_init = (\<lambda>_. True)\<rparr>"

lemma sample_files_start:
  "db_init sample_files (config_new\<lparr>DB_MODULE := Some ''mysql''\<rparr>) = Db_table (rev db_loads)"
  by (simp add: db_init_def sample_files_def db_sources_cb_def db_initialize_def LOAD_Some)


end
